(* ===== verification/Go_Prelude.thy ===== *)
theory Go_Prelude
  imports
    Main
    "HOL-Library.Char_ord"
    "HOL-Library.List_Lexorder"
    "HOL-Library.Sublist"
begin

section \<open>Prelude: the parts of Go that every component uses\<close>

text \<open>
  This theory holds what the components of the broker share and no component owns:

  \<^item> \<open>outcome\<close>: a Go call either returns or panics; \<open>go_error\<close>: a Go \<^verbatim>\<open>error\<close> value, which the
    code only ever tests against \<^verbatim>\<open>nil\<close> and prints, so it is its message;
  \<^item> the functions of the package \<^verbatim>\<open>strings\<close> the broker calls (a Go string is a sequence of
    bytes, so it is a \<^typ>\<open>string\<close> whose characters are bytes), and \<^verbatim>\<open>strconv.Itoa\<close>;
  \<^item> Go maps with string keys in the canonical form \<^verbatim>\<open>encoding/json\<close> prints them in: an
    association list with strictly increasing keys.

  The collections \<open>go_defs\<close> (definitions a component proof unfolds) and \<open>go_split\<close> are filled by
  the components.
\<close>

named_theorems go_defs \<open>definitions unfolded when a handler is evaluated\<close>
named_theorems go_str \<open>facts about the string functions\<close>

subsection \<open>Returning, failing and panicking\<close>

type_synonym go_error = string

text \<open>A result paired with an error, as in \<^verbatim>\<open>(T, error)\<close>, where the callers look at the value only
  when the error is \<^verbatim>\<open>nil\<close>.\<close>

type_synonym 'a result = "go_error + 'a"

datatype panic = Type_assertion | Nil_dereference | Index_out_of_range | Explicit_panic string

datatype 'a outcome = Returns 'a | Panics panic

fun bind_outcome :: "'a outcome \<Rightarrow> ('a \<Rightarrow> 'b outcome) \<Rightarrow> 'b outcome" where
  "bind_outcome (Returns a) f = f a"
| "bind_outcome (Panics p) f = Panics p"

text \<open>A step of a handler: it acts on the world and returns or panics. A panic keeps the effects
  done so far, since \<^verbatim>\<open>net/http\<close> only recovers it at the top of the request.\<close>

type_synonym ('w, 'a) act = "'w \<Rightarrow> 'a outcome \<times> 'w"

definition bind_act :: "('w, 'a) act \<Rightarrow> ('a \<Rightarrow> ('w, 'b) act) \<Rightarrow> ('w, 'b) act" where
  "bind_act m f = (\<lambda>w. case m w of (Returns a, w') \<Rightarrow> f a w' | (Panics p, w') \<Rightarrow> (Panics p, w'))"

definition return_act :: "'a \<Rightarrow> ('w, 'a) act" where
  "return_act a = (\<lambda>w. (Returns a, w))"

definition lift_outcome :: "'a outcome \<Rightarrow> ('w, 'a) act" where
  "lift_outcome r = (\<lambda>w. (r, w))"

lemma bind_act_return [simp]: "bind_act (return_act a) f = f a"
  by (simp add: bind_act_def return_act_def)

lemma bind_act_lift_Returns [simp]: "bind_act (lift_outcome (Returns a)) f = f a"
  by (simp add: bind_act_def lift_outcome_def)

lemma bind_act_apply_Returns: "m w = (Returns a, w') \<Longrightarrow> bind_act m f w = f a w'"
  by (simp add: bind_act_def)

lemma bind_act_apply_Panics: "m w = (Panics p, w') \<Longrightarrow> bind_act m f w = (Panics p, w')"
  by (simp add: bind_act_def)

lemma bind_act_assoc: "bind_act (bind_act m f) g = bind_act m (\<lambda>x. bind_act (f x) g)"
  by (auto simp: bind_act_def fun_eq_iff split: prod.splits outcome.splits)

lemma return_act_apply [simp]: "return_act a w = (Returns a, w)"
  by (simp add: return_act_def)

lemma lift_outcome_apply [simp]: "lift_outcome r w = (r, w)"
  by (simp add: lift_outcome_def)

text \<open>Every step a handler takes keeps a property of the world: the rule that composes such facts.\<close>

definition preserves :: "('w \<Rightarrow> 'w \<Rightarrow> bool) \<Rightarrow> ('w, 'a) act \<Rightarrow> bool" where
  "preserves R m \<longleftrightarrow> (\<forall>w. R w (snd (m w)))"

lemma preservesI: "(\<And>w. R w (snd (m w))) \<Longrightarrow> preserves R m"
  by (simp add: preserves_def)

lemma preservesD: "preserves R m \<Longrightarrow> R w (snd (m w))"
  by (simp add: preserves_def)

lemma preserves_return: "reflp R \<Longrightarrow> preserves R (return_act a)"
  by (simp add: preserves_def reflp_def)

lemma preserves_lift: "reflp R \<Longrightarrow> preserves R (lift_outcome r)"
  by (simp add: preserves_def reflp_def)

lemma preserves_bind:
  assumes "transp R" and m: "preserves R m" and f: "\<And>a. preserves R (f a)"
  shows "preserves R (bind_act m f)"
proof (rule preservesI)
  fix w
  obtain r w' where mw: "m w = (r, w')" by (cases "m w")
  have Rm: "R w w'" using preservesD [OF m, of w] mw by simp
  show "R w (snd (bind_act m f w))"
  proof (cases r)
    case (Returns a)
    with mw Rm preservesD [OF f, of w' a] \<open>transp R\<close> show ?thesis
      by (auto simp: bind_act_def elim: transpE)
  next
    case (Panics p)
    with mw Rm show ?thesis by (simp add: bind_act_def)
  qed
qed

subsection \<open>Package strings\<close>

definition HasPrefix :: "string \<Rightarrow> string \<Rightarrow> bool" where
  "HasPrefix s p = (length p \<le> length s \<and> take (length p) s = p)"

definition HasSuffix :: "string \<Rightarrow> string \<Rightarrow> bool" where
  "HasSuffix s suf = (length suf \<le> length s \<and> drop (length s - length suf) s = suf)"

definition TrimSuffix :: "string \<Rightarrow> string \<Rightarrow> string" where
  "TrimSuffix s suf = (if HasSuffix s suf then take (length s - length suf) s else s)"

lemma HasPrefix_iff: "HasPrefix s p \<longleftrightarrow> (\<exists>r. s = p @ r)"
  by (metis HasPrefix_def append_eq_conv_conj append_take_drop_id le_add1 length_append)

lemma HasSuffix_iff: "HasSuffix s suf \<longleftrightarrow> (\<exists>r. s = r @ suf)"
proof
  assume "HasSuffix s suf"
  then have "s = take (length s - length suf) s @ suf"
    unfolding HasSuffix_def by (metis append_take_drop_id)
  then show "\<exists>r. s = r @ suf" ..
qed (auto simp: HasSuffix_def)

lemma HasPrefix_append [simp, go_str]: "HasPrefix (p @ r) p"
  by (auto simp: HasPrefix_iff)

lemma HasSuffix_append [simp, go_str]: "HasSuffix (r @ suf) suf"
  by (auto simp: HasSuffix_iff)

lemma TrimSuffix_append [simp, go_str]: "TrimSuffix (r @ suf) suf = r"
  by (simp add: TrimSuffix_def)

text \<open>\<^verbatim>\<open>strings.Cut\<close>: the text before and after the first occurrence of the separator.\<close>

fun Cut :: "string \<Rightarrow> string \<Rightarrow> (string \<times> string) option" where
  "Cut [] sep = (if sep = [] then Some ([], []) else None)"
| "Cut (c # s) sep =
     (if HasPrefix (c # s) sep then Some ([], drop (length sep) (c # s))
      else map_option (\<lambda>(a, b). (c # a, b)) (Cut s sep))"

definition Contains :: "string \<Rightarrow> string \<Rightarrow> bool" where
  "Contains s sub \<longleftrightarrow> Cut s sub \<noteq> None"

lemma Cut_Some: "Cut s sep = Some (a, b) \<Longrightarrow> s = a @ sep @ b"
proof (induction s arbitrary: a)
  case Nil
  then show ?case by (auto split: if_splits)
next
  case (Cons c s)
  then show ?case by (auto simp: HasPrefix_iff split: if_splits)
qed

lemma Cut_None: "Cut s sep = None \<longleftrightarrow> \<not> sublist sep s"
proof (induction s)
  case (Cons c s)
  then show ?case
    by (auto simp: HasPrefix_iff sublist_Cons_right prefix_def)
qed auto

lemma Contains_iff: "Contains s sub \<longleftrightarrow> sublist sub s"
  by (simp add: Contains_def Cut_None)

lemma Contains_char [simp]: "Contains s [c] \<longleftrightarrow> c \<in> set s"
  by (auto simp: Contains_iff sublist_def in_set_conv_decomp)

lemma Cut_length: "Cut s sep = Some (a, b) \<Longrightarrow> sep \<noteq> [] \<Longrightarrow> length b < length s"
  by (auto dest!: Cut_Some)

lemma Cut_char_append [simp]: "c \<notin> set a \<Longrightarrow> Cut (a @ c # b) [c] = Some (a, b)"
  by (induction a) (auto simp: HasPrefix_iff)

lemma Cut_char_absent [simp]: "c \<notin> set a \<Longrightarrow> Cut a [c] = None"
  by (induction a) (auto simp: HasPrefix_iff)

lemma Cut_char_Some: "Cut s [c] = Some (a, b) \<Longrightarrow> c \<notin> set a"
  by (induction s arbitrary: a) (auto simp: HasPrefix_iff split: if_splits)

text \<open>\<^verbatim>\<open>strings.Split\<close> with a separator that is not empty (the broker never passes an empty one; the
  first equation only makes the function total).\<close>

function Split :: "string \<Rightarrow> string \<Rightarrow> string list" where
  "Split s sep =
     (if sep = [] then [s]
      else case Cut s sep of None \<Rightarrow> [s] | Some (a, b) \<Rightarrow> a # Split b sep)"
  by pat_completeness auto
termination
  by (relation "measure (\<lambda>(s, sep). length s)") (auto dest: Cut_length)

declare Split.simps [simp del]

fun Join :: "string list \<Rightarrow> string \<Rightarrow> string" where
  "Join [] sep = []"
| "Join [a] sep = a"
| "Join (a # b # r) sep = a @ sep @ Join (b # r) sep"

lemma Join_Cons: "r \<noteq> [] \<Longrightarrow> Join (a # r) sep = a @ sep @ Join r sep"
  by (cases r) auto

lemma Split_not_Nil [simp]: "Split s sep \<noteq> []"
  by (subst Split.simps) (auto split: option.splits)

lemma Join_Split: "Join (Split s sep) sep = s"
proof (induction s sep rule: Split.induct)
  case (1 s sep)
  show ?case
  proof (cases "sep = []")
    case False
    with 1 show ?thesis
      by (subst Split.simps) (auto split: option.splits simp: Join_Cons dest: Cut_Some)
  qed (subst Split.simps, simp)
qed

lemma Split_char_absent [simp, go_str]: "c \<notin> set a \<Longrightarrow> Split a [c] = [a]"
  by (subst Split.simps) simp

lemma Split_char_append [simp, go_str]: "c \<notin> set a \<Longrightarrow> Split (a @ c # b) [c] = a # Split b [c]"
  by (subst Split.simps) simp

lemma length_Split_char: "length (Split s [c]) = Suc (count_list s c)"
proof (induction s "[c]" rule: Split.induct)
  case (1 s)
  show ?case
  proof (cases "Cut s [c]")
    case None
    then have "c \<notin> set s" by (metis Contains_char Contains_def)
    then show ?thesis by (simp add: count_list_0_iff)
  next
    case (Some p)
    obtain a b where p: "p = (a, b)" by (cases p)
    with Some have s: "s = a @ c # b" by (auto dest: Cut_Some)
    from Some p have "c \<notin> set a" by (auto dest: Cut_char_Some)
    with 1 Some p have "length (Split b [c]) = Suc (count_list b c)" by simp
    with \<open>c \<notin> set a\<close> show ?thesis by (simp add: s count_list_0_iff)
  qed
qed

lemma Split_elem_no_char: "x \<in> set (Split s [c]) \<Longrightarrow> c \<notin> set x"
proof (induction s "[c]" arbitrary: x rule: Split.induct)
  case (1 s)
  show ?case
  proof (cases "c \<in> set s")
    case True
    then obtain a b where s: "s = a @ c # b" and a: "c \<notin> set a"
      by (auto dest: split_list_first)
    with 1 show ?thesis by auto
  next
    case False
    with 1 show ?thesis by simp
  qed
qed

text \<open>\<^verbatim>\<open>strings.Replace\<close> with \<^verbatim>\<open>n = -1\<close> and with \<^verbatim>\<open>n = 1\<close>, for a text to replace that is not empty.\<close>

function ReplaceAll :: "string \<Rightarrow> string \<Rightarrow> string \<Rightarrow> string" where
  "ReplaceAll s old new =
     (if old = [] then s
      else case Cut s old of None \<Rightarrow> s | Some (a, b) \<Rightarrow> a @ new @ ReplaceAll b old new)"
  by pat_completeness auto
termination
  by (relation "measure (\<lambda>(s, old, new). length s)") (auto dest: Cut_length)

declare ReplaceAll.simps [simp del]

definition ReplaceFirst :: "string \<Rightarrow> string \<Rightarrow> string \<Rightarrow> string" where
  "ReplaceFirst s old new = (case Cut s old of None \<Rightarrow> s | Some (a, b) \<Rightarrow> a @ new @ b)"

lemma ReplaceAll_absent: "\<not> Contains s old \<Longrightarrow> ReplaceAll s old new = s"
  by (cases "Cut s old") (auto simp: Contains_def ReplaceAll.simps [of s])

lemma ReplaceAll_eq_Join: "old \<noteq> [] \<Longrightarrow> ReplaceAll s old new = Join (Split s old) new"
proof (induction s old new rule: ReplaceAll.induct)
  case (1 s old new)
  then show ?case
    by (subst ReplaceAll.simps, subst Split.simps)
      (auto split: option.splits simp: Join_Cons)
qed

text \<open>\<^verbatim>\<open>strings.Trim\<close>: drops the bytes of a cut set from both ends.\<close>

definition Trim :: "string \<Rightarrow> string \<Rightarrow> string" where
  "Trim s cutset =
     rev (dropWhile (\<lambda>c. c \<in> set cutset) (rev (dropWhile (\<lambda>c. c \<in> set cutset) s)))"

text \<open>\<^verbatim>\<open>strings.ToLower\<close> on ASCII; the broker only compares the result with ASCII words.\<close>

definition lower_char :: "char \<Rightarrow> char" where
  "lower_char c =
     (if CHR ''A'' \<le> c \<and> c \<le> CHR ''Z'' then char_of (of_char c + 32 :: nat) else c)"

definition ToLower :: "string \<Rightarrow> string" where
  "ToLower s = map lower_char s"

subsection \<open>Decimal numerals\<close>

definition digit_char :: "nat \<Rightarrow> char" where
  "digit_char d = char_of (48 + d)"

definition is_digit :: "char \<Rightarrow> bool" where
  "is_digit c \<longleftrightarrow> CHR ''0'' \<le> c \<and> c \<le> CHR ''9''"

definition digit_val :: "char \<Rightarrow> nat" where
  "digit_val c = of_char c - 48"

fun itoa_nat :: "nat \<Rightarrow> string" where
  "itoa_nat n = (if n < 10 then [digit_char n] else itoa_nat (n div 10) @ [digit_char (n mod 10)])"

declare itoa_nat.simps [simp del]

definition atoi_nat :: "string \<Rightarrow> nat" where
  "atoi_nat s = foldl (\<lambda>acc c. 10 * acc + digit_val c) 0 s"

definition itoa :: "int \<Rightarrow> string" where
  "itoa i = (if i < 0 then CHR ''-'' # itoa_nat (nat (- i)) else itoa_nat (nat i))"

lemma of_char_digit_char [simp]: "d < 10 \<Longrightarrow> (of_char (digit_char d) :: nat) = 48 + d"
  by (simp add: digit_char_def)

lemma digit_val_digit_char [simp]: "d < 10 \<Longrightarrow> digit_val (digit_char d) = d"
  by (simp add: digit_val_def)

lemma is_digit_iff: "is_digit c \<longleftrightarrow> 48 \<le> (of_char c :: nat) \<and> (of_char c :: nat) \<le> 57"
  by (simp add: is_digit_def less_eq_char_def)

lemma is_digit_digit_char [simp]: "d < 10 \<Longrightarrow> is_digit (digit_char d)"
  by (simp add: is_digit_iff)

lemma atoi_itoa_nat [simp]: "atoi_nat (itoa_nat n) = n"
proof (induction n rule: itoa_nat.induct)
  case (1 n)
  then show ?case
    by (subst itoa_nat.simps) (auto simp: atoi_nat_def)
qed

lemma itoa_nat_digits: "c \<in> set (itoa_nat n) \<Longrightarrow> is_digit c"
proof (induction n rule: itoa_nat.induct)
  case (1 n)
  then show ?case
    by (subst (asm) (2) itoa_nat.simps) (auto split: if_splits)
qed

lemma itoa_nat_not_Nil [simp]: "itoa_nat n \<noteq> []"
  by (subst itoa_nat.simps) simp

lemma hd_itoa_nat: "0 < n \<Longrightarrow> hd (itoa_nat n) \<noteq> CHR ''0''"
proof (induction n rule: itoa_nat.induct)
  case (1 n)
  show ?case
  proof (cases "n < 10")
    case True
    have "digit_char n \<noteq> CHR ''0''"
    proof
      assume "digit_char n = CHR ''0''"
      then have "(of_char (digit_char n) :: nat) = 48" by simp
      with True 1 show False by simp
    qed
    with True show ?thesis by (subst itoa_nat.simps) simp
  next
    case False
    with 1 show ?thesis by (subst itoa_nat.simps) (simp add: hd_append)
  qed
qed

lemma itoa_nat_0 [simp]: "itoa_nat 0 = ''0''"
  by (subst itoa_nat.simps) (simp, code_simp)

subsection \<open>UTF-8\<close>

text \<open>The bytes of a code point (\<^verbatim>\<open>utf8.EncodeRune\<close>); a surrogate or a value out of range is
  written as U+FFFD.\<close>

definition utf8_encode :: "nat \<Rightarrow> string" where
  "utf8_encode u =
     (let r = (if (0xD800 \<le> u \<and> u < 0xE000) \<or> 0x110000 \<le> u then 0xFFFD else u)
      in map char_of
        (if r < 0x80 then [r]
         else if r < 0x800 then [0xC0 + r div 64, 0x80 + r mod 64]
         else if r < 0x10000
           then [0xE0 + r div 4096, 0x80 + r div 64 mod 64, 0x80 + r mod 64]
         else [0xF0 + r div 262144, 0x80 + r div 4096 mod 64, 0x80 + r div 64 mod 64, 0x80 + r mod 64]))"

lemma utf8_encode_ascii: "u < 0x80 \<Longrightarrow> utf8_encode u = [char_of u]"
  by (simp add: utf8_encode_def)

subsection \<open>Maps with string keys, in canonical form\<close>

type_synonym 'v gomap = "(string \<times> 'v) list"

fun map_put :: "string \<Rightarrow> 'v \<Rightarrow> 'v gomap \<Rightarrow> 'v gomap" where
  "map_put k v [] = [(k, v)]"
| "map_put k v ((k', v') # m) =
     (if k < k' then (k, v) # (k', v') # m
      else if k = k' then (k, v) # m
      else (k', v') # map_put k v m)"

definition map_get :: "'v gomap \<Rightarrow> string \<Rightarrow> 'v option" where
  "map_get m k = map_of m k"

definition map_del :: "string \<Rightarrow> 'v gomap \<Rightarrow> 'v gomap" where
  "map_del k m = filter (\<lambda>(k', _). k' \<noteq> k) m"

definition wf_map :: "'v gomap \<Rightarrow> bool" where
  "wf_map m \<longleftrightarrow> sorted_wrt (<) (map fst m)"

lemma wf_map_Nil [simp]: "wf_map []"
  by (simp add: wf_map_def)

lemma map_get_put [simp]: "wf_map m \<Longrightarrow> map_get (map_put k v m) k' = (if k' = k then Some v else map_get m k')"
  by (induction k v m rule: map_put.induct) (auto simp: map_get_def wf_map_def)

lemma set_map_put: "fst ` set (map_put k v m) = insert k (fst ` set m)"
  by (induction k v m rule: map_put.induct) auto

lemma wf_map_put [simp]: "wf_map m \<Longrightarrow> wf_map (map_put k v m)"
proof (induction k v m rule: map_put.induct)
  case (2 k v k' v' m)
  then show ?case
    using set_map_put [of k v m] by (auto simp: wf_map_def)
qed (simp add: wf_map_def)

lemma wf_map_del [simp]: "wf_map m \<Longrightarrow> wf_map (map_del k m)"
  by (induction m) (auto simp: wf_map_def map_del_def)

lemma map_get_del [simp]: "map_get (map_del k m) k' = (if k' = k then None else map_get m k')"
  by (induction m) (auto simp: map_get_def map_del_def)

text \<open>Inserting the entries of a canonical map in order rebuilds it: what decoding a printed map
  does.\<close>

lemma map_put_snoc: "\<forall>k'\<in>fst ` set m. k' < k \<Longrightarrow> map_put k v m = m @ [(k, v)]"
  by (induction m) auto

lemma fold_map_put:
  "wf_map (m @ xs) \<Longrightarrow> fold (\<lambda>(k, v). map_put k v) xs m = m @ xs"
proof (induction xs arbitrary: m)
  case (Cons x xs)
  obtain k v where x: "x = (k, v)" by (cases x)
  from Cons.prems have "\<forall>k'\<in>fst ` set m. k' < k"
    by (auto simp: wf_map_def x sorted_wrt_append)
  with Cons show ?case by (simp add: x map_put_snoc)
qed simp

end
