(* ===== verification/Go_Json.thy ===== *)
theory Go_Json
  imports Go_Prelude
begin

section \<open>Package encoding/json\<close>

text \<open>
  What the broker uses of \<^verbatim>\<open>encoding/json\<close>, at the level of the text: every store of the broker
  keeps JSON text and every request body is JSON text, so whether a value can be read back depends
  on the text. \<open>print_json\<close> is the encoder on JSON values (compact, with the HTML-safe escapes),
  \<open>json_decode\<close> the parser, and \<open>json_roundtrip\<close> says that the second inverts the first.

  Three things of the package are outside the model. Bytes of a string that are not ASCII are
  copied in both directions, as the package does for valid UTF-8 (it replaces invalid UTF-8 by
  U+FFFD and escapes U+2028 and U+2029). An integer literal is kept exactly, where \<^verbatim>\<open>float64\<close> is
  exact up to \<open>2 ^ 53\<close>; a literal with a fraction or an exponent is kept as its text. The limit of
  10000 nested values is not there.
\<close>

subsection \<open>Values\<close>

datatype json =
    JNull
  | JBool bool
  | JInt int
  | JFrac string
  | JStr string
  | JArr "json list"
  | JObj "(string \<times> json) list"

subsection \<open>The encoder\<close>

definition hex_char :: "nat \<Rightarrow> char" where
  "hex_char d = (if d < 10 then char_of (48 + d) else char_of (87 + d))"

definition escape_char :: "char \<Rightarrow> string" where
  "escape_char c =
     (if c = CHR 0x22 then [CHR 0x5C, CHR 0x22]
      else if c = CHR 0x5C then [CHR 0x5C, CHR 0x5C]
      else if c = CHR 0x08 then [CHR 0x5C, CHR ''b'']
      else if c = CHR 0x0C then [CHR 0x5C, CHR ''f'']
      else if c = CHR 0x0A then [CHR 0x5C, CHR ''n'']
      else if c = CHR 0x0D then [CHR 0x5C, CHR ''r'']
      else if c = CHR 0x09 then [CHR 0x5C, CHR ''t'']
      else if c < CHR 0x20 \<or> c = CHR ''<'' \<or> c = CHR ''>'' \<or> c = CHR ''&''
        then [CHR 0x5C, CHR ''u'', CHR ''0'', CHR ''0'',
              hex_char (of_char c div 16), hex_char (of_char c mod 16)]
      else [c])"

definition quote :: "string \<Rightarrow> string" where
  "quote s = CHR 0x22 # concat (map escape_char s) @ [CHR 0x22]"

fun print_json :: "json \<Rightarrow> string"
and print_elems :: "json list \<Rightarrow> string"
and print_members :: "(string \<times> json) list \<Rightarrow> string" where
  "print_json JNull = ''null''"
| "print_json (JBool b) = (if b then ''true'' else ''false'')"
| "print_json (JInt i) = itoa i"
| "print_json (JFrac t) = t"
| "print_json (JStr s) = quote s"
| "print_json (JArr xs) = CHR ''['' # (if xs = [] then '']'' else print_elems xs)"
| "print_json (JObj m) = CHR ''{'' # (if m = [] then ''}'' else print_members m)"
| "print_elems [] = '']''"
| "print_elems (x # xs) =
     print_json x @ (if xs = [] then '']'' else CHR '','' # print_elems xs)"
| "print_members [] = ''}''"
| "print_members ((k, x) # m) =
     quote k @ CHR '':'' # print_json x @ (if m = [] then ''}'' else CHR '','' # print_members m)"

subsection \<open>The parser\<close>

definition is_ws :: "char \<Rightarrow> bool" where
  "is_ws c \<longleftrightarrow> c = CHR 0x20 \<or> c = CHR 0x09 \<or> c = CHR 0x0A \<or> c = CHR 0x0D"

definition skip_ws :: "string \<Rightarrow> string" where
  "skip_ws s = dropWhile is_ws s"

definition hex_val :: "char \<Rightarrow> nat option" where
  "hex_val c =
     (let n = of_char c in
      if 48 \<le> n \<and> n \<le> 57 then Some (n - 48)
      else if 97 \<le> n \<and> n \<le> 102 then Some (n - 87)
      else if 65 \<le> n \<and> n \<le> 70 then Some (n - 55)
      else None)"

fun hex4 :: "string \<Rightarrow> (nat \<times> string) option" where
  "hex4 (a # b # c # d # r) =
     (case (hex_val a, hex_val b, hex_val c, hex_val d) of
        (Some a', Some b', Some c', Some d') \<Rightarrow> Some (4096 * a' + 256 * b' + 16 * c' + d', r)
      | _ \<Rightarrow> None)"
| "hex4 _ = None"

definition unescape :: "char \<Rightarrow> char option" where
  "unescape e =
     (if e = CHR 0x22 \<or> e = CHR 0x5C \<or> e = CHR ''/'' then Some e
      else if e = CHR ''b'' then Some (CHR 0x08)
      else if e = CHR ''f'' then Some (CHR 0x0C)
      else if e = CHR ''n'' then Some (CHR 0x0A)
      else if e = CHR ''r'' then Some (CHR 0x0D)
      else if e = CHR ''t'' then Some (CHR 0x09)
      else None)"

text \<open>The escape after a high surrogate: the low surrogate it must be paired with.\<close>

fun low_surrogate :: "string \<Rightarrow> (nat \<times> string) option" where
  "low_surrogate (b # u # r) =
     (if b = CHR 0x5C \<and> u = CHR ''u'' then
        (case hex4 r of
           Some (v, r') \<Rightarrow> if 0xDC00 \<le> v \<and> v < 0xE000 then Some (v, r') else None
         | None \<Rightarrow> None)
      else None)"
| "low_surrogate _ = None"

lemma hex4_length [simp]: "hex4 r = Some (u, r') \<Longrightarrow> length r' < length r"
  by (induction r rule: hex4.induct) (auto split: option.splits prod.splits)

lemma low_surrogate_length: "low_surrogate r = Some (u, r') \<Longrightarrow> length r' < length r"
  by (induction r rule: low_surrogate.induct)
    (auto split: option.splits prod.splits if_splits dest: hex4_length)

text \<open>The rest of a string after its opening quote: the characters and what follows the closing
  quote.\<close>

function parse_string :: "string \<Rightarrow> (string \<times> string) option" where
  "parse_string [] = None"
| "parse_string (c # r) =
     (if c = CHR 0x22 then Some ([], r)
      else if c = CHR 0x5C then
        (case r of
           [] \<Rightarrow> None
         | e # r' \<Rightarrow>
             if e = CHR ''u'' then
               (case hex4 r' of
                  None \<Rightarrow> None
                | Some (u, r'') \<Rightarrow>
                    (if 0xD800 \<le> u \<and> u < 0xDC00 then
                       (case low_surrogate r'' of
                          Some (v, r''') \<Rightarrow>
                            map_option (\<lambda>(t, q). (utf8_encode (0x10000 + (u - 0xD800) * 1024 + (v - 0xDC00)) @ t, q))
                              (parse_string r''')
                        | None \<Rightarrow> map_option (\<lambda>(t, q). (utf8_encode 0xFFFD @ t, q)) (parse_string r''))
                     else map_option (\<lambda>(t, q). (utf8_encode u @ t, q)) (parse_string r'')))
             else
               (case unescape e of
                  None \<Rightarrow> None
                | Some x \<Rightarrow> map_option (\<lambda>(t, q). (x # t, q)) (parse_string r')))
      else if c < CHR 0x20 then None
      else map_option (\<lambda>(t, q). (c # t, q)) (parse_string r))"
  by pat_completeness auto
termination
  by (relation "measure length") (auto dest!: hex4_length low_surrogate_length)

declare parse_string.simps(2) [simp del]

definition is_num_char :: "char \<Rightarrow> bool" where
  "is_num_char c \<longleftrightarrow> is_digit c \<or> c \<in> set ''+-.eE''"

definition strip_minus :: "string \<Rightarrow> string" where
  "strip_minus t = (case t of c # r \<Rightarrow> if c = CHR ''-'' then r else t | [] \<Rightarrow> [])"

definition int_part_ok :: "string \<Rightarrow> bool" where
  "int_part_ok ds \<longleftrightarrow> ds \<noteq> [] \<and> list_all is_digit ds \<and> (ds = ''0'' \<or> hd ds \<noteq> CHR ''0'')"

definition is_int_literal :: "string \<Rightarrow> bool" where
  "is_int_literal t \<longleftrightarrow> int_part_ok (strip_minus t) \<and> t \<noteq> ''-0''"

definition exp_ok :: "string \<Rightarrow> bool" where
  "exp_ok t =
     (case t of
        [] \<Rightarrow> True
      | e # r \<Rightarrow>
          (e = CHR ''e'' \<or> e = CHR ''E'') \<and>
          (let ds = (case r of c # r' \<Rightarrow> if c = CHR ''+'' \<or> c = CHR ''-'' then r' else r | [] \<Rightarrow> [])
           in ds \<noteq> [] \<and> list_all is_digit ds))"

definition frac_exp_ok :: "string \<Rightarrow> bool" where
  "frac_exp_ok t =
     (case t of
        [] \<Rightarrow> True
      | p # r \<Rightarrow>
          if p = CHR ''.'' then takeWhile is_digit r \<noteq> [] \<and> exp_ok (dropWhile is_digit r)
          else exp_ok t)"

definition is_number :: "string \<Rightarrow> bool" where
  "is_number t \<longleftrightarrow>
     (let u = strip_minus t
      in int_part_ok (takeWhile is_digit u) \<and> frac_exp_ok (dropWhile is_digit u))"

definition atoi :: "string \<Rightarrow> int" where
  "atoi t = (if t \<noteq> strip_minus t then - int (atoi_nat (strip_minus t)) else int (atoi_nat t))"

definition parse_number :: "string \<Rightarrow> (json \<times> string) option" where
  "parse_number s =
     (let t = takeWhile is_num_char s; r = dropWhile is_num_char s
      in if is_int_literal t then Some (JInt (atoi t), r)
         else if is_number t then Some (JFrac t, r)
         else None)"

definition parse_literal :: "string \<Rightarrow> json \<Rightarrow> string \<Rightarrow> (json \<times> string) option" where
  "parse_literal w j s = (if HasPrefix s w then Some (j, drop (length w) s) else None)"

text \<open>The grammar, with fuel: one unit for every value, element and member.\<close>

fun parse_value :: "nat \<Rightarrow> string \<Rightarrow> (json \<times> string) option"
and parse_elems :: "nat \<Rightarrow> string \<Rightarrow> (json list \<times> string) option"
and parse_members :: "nat \<Rightarrow> string \<Rightarrow> ((string \<times> json) list \<times> string) option" where
  "parse_value 0 s = None"
| "parse_value (Suc n) s =
     (case skip_ws s of
        [] \<Rightarrow> None
      | c # r \<Rightarrow>
          if c = CHR ''['' then
            (if HasPrefix (skip_ws r) '']'' then Some (JArr [], tl (skip_ws r))
             else map_option (\<lambda>(xs, q). (JArr xs, q)) (parse_elems n r))
          else if c = CHR ''{'' then
            (if HasPrefix (skip_ws r) ''}'' then Some (JObj [], tl (skip_ws r))
             else map_option (\<lambda>(m, q). (JObj m, q)) (parse_members n r))
          else if c = CHR 0x22 then map_option (\<lambda>(t, q). (JStr t, q)) (parse_string r)
          else if c = CHR ''t'' then parse_literal ''true'' (JBool True) (c # r)
          else if c = CHR ''f'' then parse_literal ''false'' (JBool False) (c # r)
          else if c = CHR ''n'' then parse_literal ''null'' JNull (c # r)
          else parse_number (c # r))"
| "parse_elems 0 s = None"
| "parse_elems (Suc n) s =
     (case parse_value n s of
        None \<Rightarrow> None
      | Some (x, r) \<Rightarrow>
          (case skip_ws r of
             [] \<Rightarrow> None
           | c # q \<Rightarrow>
               if c = CHR '']'' then Some ([x], q)
               else if c = CHR '','' then map_option (\<lambda>(xs, q'). (x # xs, q')) (parse_elems n q)
               else None))"
| "parse_members 0 s = None"
| "parse_members (Suc n) s =
     (case skip_ws s of
        [] \<Rightarrow> None
      | c # r \<Rightarrow>
          if c \<noteq> CHR 0x22 then None
          else (case parse_string r of
             None \<Rightarrow> None
           | Some (k, r1) \<Rightarrow>
               (case skip_ws r1 of
                  [] \<Rightarrow> None
                | d # r2 \<Rightarrow>
                    if d \<noteq> CHR '':'' then None
                    else (case parse_value n r2 of
                       None \<Rightarrow> None
                     | Some (x, r3) \<Rightarrow>
                         (case skip_ws r3 of
                            [] \<Rightarrow> None
                          | e # q \<Rightarrow>
                              if e = CHR ''}'' then Some ([(k, x)], q)
                              else if e = CHR '','' then
                                map_option (\<lambda>(m, q'). ((k, x) # m, q')) (parse_members n q)
                              else None)))))"

definition json_decode :: "string \<Rightarrow> json option" where
  "json_decode s =
     (case parse_value (2 * length s + 2) s of
        Some (j, r) \<Rightarrow> if skip_ws r = [] then Some j else None
      | None \<Rightarrow> None)"

subsection \<open>The parser inverts the encoder\<close>


lemma hex_val_hex_char [simp]: "d < 16 \<Longrightarrow> hex_val (hex_char d) = Some d"
  by (auto simp: hex_val_def hex_char_def Let_def)

lemma hex_val_0 [simp]: "hex_val (CHR ''0'') = Some 0"
  by (simp add: hex_val_def)

lemma parse_string_u00:
  assumes "n < 128"
  shows "parse_string (CHR 0x5C # CHR ''u'' # CHR ''0'' # CHR ''0'' # hex_char (n div 16) # hex_char (n mod 16) # r)
    = map_option (\<lambda>(t, q). (char_of n # t, q)) (parse_string r)"
proof -
  have h: "hex4 (CHR ''0'' # CHR ''0'' # hex_char (n div 16) # hex_char (n mod 16) # r) = Some (n, r)"
    using assms by simp
  show ?thesis
    using assms by (simp add: parse_string.simps(2) h utf8_encode_ascii)
qed

lemma parse_string_plain:
  "\<not> c < CHR 0x20 \<Longrightarrow> c \<noteq> CHR 0x22 \<Longrightarrow> c \<noteq> CHR 0x5C \<Longrightarrow>
    parse_string (c # r) = map_option (\<lambda>(t, q). (c # t, q)) (parse_string r)"
  by (simp add: parse_string.simps(2))

lemma parse_string_short:
  assumes "unescape e = Some x" and "e \<noteq> CHR ''u''"
  shows "parse_string (CHR 0x5C # e # r) = map_option (\<lambda>(t, q). (x # t, q)) (parse_string r)"
  using assms by (subst parse_string.simps(2)) simp

lemma unescape_simps:
  "unescape (CHR 0x22) = Some (CHR 0x22)" "unescape (CHR 0x5C) = Some (CHR 0x5C)"
  "unescape (CHR ''b'') = Some (CHR 0x08)" "unescape (CHR ''f'') = Some (CHR 0x0C)"
  "unescape (CHR ''n'') = Some (CHR 0x0A)" "unescape (CHR ''r'') = Some (CHR 0x0D)"
  "unescape (CHR ''t'') = Some (CHR 0x09)"
  by (simp_all add: unescape_def)

lemma parse_string_escape_char:
  "parse_string (escape_char c @ r) = map_option (\<lambda>(t, q). (c # t, q)) (parse_string r)"
proof (cases "c \<in> {CHR 0x22, CHR 0x5C, CHR 0x08, CHR 0x0C, CHR 0x0A, CHR 0x0D, CHR 0x09}")
  case True
  then show ?thesis
    by (elim insertE emptyE) (simp_all add: escape_char_def unescape_simps parse_string_short)
next
  case short: False
  show ?thesis
  proof (cases "c < CHR 0x20 \<or> c = CHR ''<'' \<or> c = CHR ''>'' \<or> c = CHR ''&''")
    case True
    then have n: "(of_char c :: nat) < 128" by (auto simp: less_char_def)
    have "escape_char c = [CHR 0x5C, CHR ''u'', CHR ''0'', CHR ''0'',
        hex_char (of_char c div 16), hex_char (of_char c mod 16)]"
      using short True by (simp add: escape_char_def)
    then show ?thesis
      using parse_string_u00 [OF n, of r] by simp
  next
    case False
    with short have "escape_char c = [c]" by (simp add: escape_char_def)
    with short False show ?thesis by (simp add: parse_string_plain)
  qed
qed

lemma parse_string_quote:
  "parse_string (concat (map escape_char s) @ CHR 0x22 # r) = Some (s, r)"
proof (induction s)
  case Nil
  show ?case by (simp add: parse_string.simps(2))
next
  case (Cons c s)
  then show ?case by (simp add: parse_string_escape_char)
qed

lemma takeWhile_num: 
  assumes "list_all is_num_char t" and "r = [] \<or> \<not> is_num_char (hd r)"
  shows "takeWhile is_num_char (t @ r) = t" and "dropWhile is_num_char (t @ r) = r"
proof -
  have t: "\<And>c. c \<in> set t \<Longrightarrow> is_num_char c" using assms(1) by (simp add: list_all_iff)
  show "takeWhile is_num_char (t @ r) = t"
    using t assms(2) by (cases r) (auto simp: takeWhile_append)
  show "dropWhile is_num_char (t @ r) = r"
    using t assms(2) by (cases r) (auto simp: dropWhile_append)
qed

lemma strip_minus_digits: "is_digit (hd t) \<Longrightarrow> strip_minus t = t"
  by (auto simp: strip_minus_def is_digit_iff split: list.splits)

lemma list_all_itoa_nat [simp]: "list_all is_digit (itoa_nat n)"
  using itoa_nat_digits by (auto simp: list_all_iff)

lemma hd_itoa_nat_digit [simp]: "is_digit (hd (itoa_nat n))"
  using itoa_nat_digits [of "hd (itoa_nat n)" n] by simp

lemma int_part_ok_itoa_nat [simp]: "int_part_ok (itoa_nat n)"
  using hd_itoa_nat [of n] by (cases "n = 0") (auto simp: int_part_ok_def is_digit_iff)

lemma itoa_minus0: "0 < n \<Longrightarrow> CHR ''-'' # itoa_nat n \<noteq> ''-0''"
  using hd_itoa_nat [of n] by auto

lemma itoa_literal [simp]: "is_int_literal (itoa i)"
proof (cases "i < 0")
  case True
  then show ?thesis
    using itoa_minus0 [of "nat (- i)"] by (simp add: is_int_literal_def itoa_def strip_minus_def)
next
  case False
  have "itoa_nat n \<noteq> ''-0''" for n
    using hd_itoa_nat_digit [of n] by (auto simp: is_digit_iff)
  with False show ?thesis
    by (simp add: is_int_literal_def itoa_def strip_minus_digits)
qed

lemma atoi_itoa [simp]: "atoi (itoa i) = i"
proof (cases "i < 0")
  case True
  then have "strip_minus (itoa i) = itoa_nat (nat (- i))" by (simp add: itoa_def strip_minus_def)
  moreover from True have "itoa i \<noteq> itoa_nat (nat (- i))" by (simp add: itoa_def)
  ultimately show ?thesis using True by (simp add: atoi_def)
next
  case False
  then show ?thesis by (simp add: itoa_def atoi_def strip_minus_digits)
qed

lemma itoa_num_chars: "list_all is_num_char (itoa i)"
  by (auto simp: itoa_def is_num_char_def list_all_iff dest: itoa_nat_digits)

text \<open>What may follow a number.\<close>

definition ends_number :: "string \<Rightarrow> bool" where
  "ends_number r \<longleftrightarrow> r = [] \<or> \<not> is_num_char (hd r)"

lemma parse_number_itoa: "ends_number r \<Longrightarrow> parse_number (itoa i @ r) = Some (JInt i, r)"
  by (simp add: parse_number_def takeWhile_num [OF itoa_num_chars] ends_number_def)

definition wf_frac :: "string \<Rightarrow> bool" where
  "wf_frac t \<longleftrightarrow> list_all is_num_char t \<and> is_number t \<and> \<not> is_int_literal t"

lemma parse_number_frac: "wf_frac t \<Longrightarrow> ends_number r \<Longrightarrow> parse_number (t @ r) = Some (JFrac t, r)"
  by (simp add: parse_number_def takeWhile_num wf_frac_def ends_number_def)



fun wf_json :: "json \<Rightarrow> bool" where
  "wf_json (JFrac t) = wf_frac t"
| "wf_json (JArr xs) = (\<forall>x\<in>set xs. wf_json x)"
| "wf_json (JObj m) = (\<forall>(k, x)\<in>set m. wf_json x)"
| "wf_json _ = True"

lemma ws_simps [simp]:
  "skip_ws (CHR '','' # r) = CHR '','' # r" "skip_ws (CHR '']'' # r) = CHR '']'' # r"
  "skip_ws (CHR ''}'' # r) = CHR ''}'' # r" "skip_ws (CHR '':'' # r) = CHR '':'' # r"
  "skip_ws (CHR 0x22 # r) = CHR 0x22 # r" "skip_ws [] = []"
  by (simp_all add: skip_ws_def is_ws_def)

definition ends_value :: "string \<Rightarrow> bool" where
  "ends_value r \<longleftrightarrow> r = [] \<or> hd r \<in> set '',]}''"

lemma ends_value_simps [simp]:
  "ends_value []" "ends_value (CHR '','' # r)" "ends_value (CHR '']'' # r)" "ends_value (CHR ''}'' # r)"
  by (simp_all add: ends_value_def)

lemma ends_value_number: "ends_value r \<Longrightarrow> ends_number r"
  by (auto simp: ends_value_def ends_number_def is_num_char_def is_digit_iff)

definition num_start :: "char \<Rightarrow> bool" where
  "num_start c \<longleftrightarrow> is_digit c \<or> c = CHR ''-''"

lemma num_start_dispatch:
  assumes "num_start c"
  shows "\<not> is_ws c" "c \<noteq> CHR ''[''" "c \<noteq> CHR ''{''" "c \<noteq> CHR 0x22" "c \<noteq> CHR ''t''" "c \<noteq> CHR ''f''"
    "c \<noteq> CHR ''n''" "c \<noteq> CHR '']''" "c \<noteq> CHR ''}''"
  using assms by (auto simp: num_start_def is_digit_iff is_ws_def)

lemma parse_value_num:
  "num_start c \<Longrightarrow> parse_value (Suc n) (c # r) = parse_number (c # r)"
  by (simp add: skip_ws_def num_start_dispatch)

lemma itoa_start: "\<exists>c t. itoa i = c # t \<and> num_start c"
proof (cases "itoa_nat (nat i)")
  case Nil
  then show ?thesis by simp
next
  case (Cons c t)
  then have "is_digit c" using hd_itoa_nat_digit [of "nat i"] by simp
  with Cons show ?thesis by (auto simp: itoa_def num_start_def)
qed

lemma frac_start: "wf_frac t \<Longrightarrow> \<exists>c r. t = c # r \<and> num_start c"
proof (cases t)
  case (Cons c r)
  assume "wf_frac t"
  then have "int_part_ok (takeWhile is_digit (strip_minus t))"
    by (simp add: wf_frac_def is_number_def Let_def)
  then have "num_start c"
    by (auto simp: Cons num_start_def strip_minus_def int_part_ok_def split: if_splits)
  with Cons show ?thesis by blast
qed (auto simp: wf_frac_def is_number_def strip_minus_def int_part_ok_def)

lemma print_start:
  "wf_json j \<Longrightarrow> \<exists>c t. print_json j = c # t \<and> \<not> is_ws c \<and> c \<noteq> CHR '']'' \<and> c \<noteq> CHR ''}''"
proof (cases j)
  case (JInt i)
  then show ?thesis using itoa_start [of i] num_start_dispatch by fastforce
next
  case (JFrac t)
  assume "wf_json j"
  with JFrac show ?thesis using frac_start [of t] num_start_dispatch by fastforce
qed (auto simp: is_ws_def quote_def)

lemma skip_ws_print: "wf_json j \<Longrightarrow> skip_ws (print_json j @ r) = print_json j @ r"
  using print_start [of j] by (auto simp: skip_ws_def)

lemma print_members_start: "m \<noteq> [] \<Longrightarrow> \<exists>t. print_members m = CHR 0x22 # t"
  by (cases m) (auto simp: quote_def)

lemma print_elems_start:
  "xs \<noteq> [] \<Longrightarrow> \<forall>x\<in>set xs. wf_json x \<Longrightarrow>
    skip_ws (print_elems xs @ r) = print_elems xs @ r \<and> \<not> HasPrefix (print_elems xs @ r) '']''"
proof (cases xs)
  case (Cons x ys)
  assume "\<forall>x\<in>set xs. wf_json x"
  then have "wf_json x" using Cons by simp
  then obtain c t where "print_json x = c # t" "\<not> is_ws c" "c \<noteq> CHR '']''"
    using print_start by blast
  then show ?thesis by (auto simp: Cons skip_ws_def HasPrefix_def)
qed simp


declare parse_value.simps(2) [simp del] parse_elems.simps(2) [simp del] parse_members.simps(2) [simp del]

lemma parse_value_arr:
  "parse_value (Suc n) (CHR ''['' # r) =
     (if HasPrefix (skip_ws r) '']'' then Some (JArr [], tl (skip_ws r))
      else map_option (\<lambda>(xs, q). (JArr xs, q)) (parse_elems n r))"
  by (simp add: parse_value.simps(2) skip_ws_def is_ws_def)

lemma parse_value_obj:
  "parse_value (Suc n) (CHR ''{'' # r) =
     (if HasPrefix (skip_ws r) ''}'' then Some (JObj [], tl (skip_ws r))
      else map_option (\<lambda>(m, q). (JObj m, q)) (parse_members n r))"
  by (simp add: parse_value.simps(2) skip_ws_def is_ws_def)

lemma parse_value_str:
  "parse_value (Suc n) (CHR 0x22 # r) = map_option (\<lambda>(t, q). (JStr t, q)) (parse_string r)"
  by (simp add: parse_value.simps(2))

lemma parse_value_lit:
  "parse_value (Suc n) (''true'' @ r) = Some (JBool True, r)"
  "parse_value (Suc n) (''false'' @ r) = Some (JBool False, r)"
  "parse_value (Suc n) (''null'' @ r) = Some (JNull, r)"
  by (simp_all add: parse_value.simps(2) skip_ws_def is_ws_def parse_literal_def HasPrefix_def)

lemma print_nonempty:
  "wf_json j \<Longrightarrow> 0 < length (print_json j)"
  using print_start [of j] by auto

lemma roundtrip_fuel:
  "wf_json j \<Longrightarrow> ends_value r \<Longrightarrow> 2 * length (print_json j) \<le> n \<Longrightarrow>
     parse_value n (print_json j @ r) = Some (j, r)"
  "xs \<noteq> [] \<Longrightarrow> \<forall>x\<in>set xs. wf_json x \<Longrightarrow> 2 * length (print_elems xs) \<le> n \<Longrightarrow>
     parse_elems n (print_elems xs @ r) = Some (xs, r)"
  "m \<noteq> [] \<Longrightarrow> \<forall>(k, x)\<in>set m. wf_json x \<Longrightarrow> 2 * length (print_members m) \<le> n \<Longrightarrow>
     parse_members n (print_members m @ r) = Some (m, r)"
proof (induction j and xs and m arbitrary: n r and n r and n r
    rule: print_json_print_elems_print_members.induct)
  case 1
  then show ?case by (cases n) (use parse_value_lit(3) in simp_all)
next
  case (2 b)
  then show ?case by (cases n; cases b) (use parse_value_lit in simp_all)
next
  case (3 i)
  obtain c t where ct: "itoa i = c # t" "num_start c" using itoa_start by blast
  with 3 show ?case
    using parse_number_itoa [OF ends_value_number, of r i]
    by (cases n) (simp_all add: parse_value_num)
next
  case (4 t)
  then obtain c u where ct: "t = c # u" "num_start c" using frac_start [of t] by auto
  with 4 show ?case
    using parse_number_frac [OF _ ends_value_number, of t r]
    by (cases n) (simp_all add: parse_value_num)
next
  case (5 s)
  then show ?case
    by (cases n) (simp_all add: quote_def parse_value_str parse_string_quote)
next
  case (6 xs)
  then obtain n' where n: "n = Suc n'" by (cases n) auto
  show ?case
  proof (cases "xs = []")
    case True
    then show ?thesis by (simp add: n parse_value_arr HasPrefix_def)
  next
    case False
    with 6 n have "parse_elems n' (print_elems xs @ r) = Some (xs, r)" by simp
    with False 6 show ?thesis
      using print_elems_start [OF False, of r] by (simp add: n parse_value_arr)
  qed
next
  case (7 m)
  then obtain n' where n: "n = Suc n'" by (cases n) auto
  show ?case
  proof (cases "m = []")
    case True
    then show ?thesis by (simp add: n parse_value_obj HasPrefix_def)
  next
    case False
    with 7 n have "parse_members n' (print_members m @ r) = Some (m, r)" by simp
    moreover obtain t where "print_members m = CHR 0x22 # t" using print_members_start [OF False] ..
    ultimately show ?thesis
      using False by (simp add: n parse_value_obj HasPrefix_def)
  qed
next
  case 8
  then show ?case by simp
next
  case (9 x xs)
  then obtain n' where n: "n = Suc n'" using print_nonempty [of x] by (cases n) auto
  have x: "parse_value n' (print_json x @ q) = Some (x, q)" if "ends_value q" for q
    using 9 that by (auto simp: n split: if_splits)
  show ?case
  proof (cases "xs = []")
    case True
    then show ?thesis by (simp add: n parse_elems.simps(2) x)
  next
    case False
    moreover from 9 False have "parse_elems n' (print_elems xs @ r) = Some (xs, r)" by (simp add: n)
    ultimately show ?thesis by (simp add: n parse_elems.simps(2) x)
  qed
next
  case 10
  then show ?case by simp
next
  case (11 k x m)
  then obtain n' where n: "n = Suc n'" by (cases n) auto
  have x: "parse_value n' (print_json x @ q) = Some (x, q)" if "ends_value q" for q
    using 11 that by (auto simp: n split: if_splits)
  have k: "parse_string (concat (map escape_char k) @ CHR 0x22 # q) = Some (k, q)" for q
    by (rule parse_string_quote)
  show ?case
  proof (cases "m = []")
    case True
    then show ?thesis by (simp add: n parse_members.simps(2) quote_def x k)
  next
    case False
    moreover from 11 False have "parse_members n' (print_members m @ r) = Some (m, r)" by (simp add: n)
    ultimately show ?thesis by (simp add: n parse_members.simps(2) quote_def x k)
  qed
qed

lemma json_decode_print: "wf_json j \<Longrightarrow> json_decode (print_json j) = Some j"
  using roundtrip_fuel(1) [of j "[]" "2 * length (print_json j) + 2"]
  by (simp add: json_decode_def)

text \<open>An array ends where its bracket closes: whatever comes after is too much.\<close>

lemma json_decode_trailing:
  assumes "wf_json (JArr xs)" and "skip_ws r \<noteq> []"
  shows "json_decode (print_json (JArr xs) @ r) = None"
proof -
  let ?t = "print_json (JArr xs) @ r"
  have "parse_value (Suc n) ?t = Some (JArr xs, r)" if "2 * length (print_json (JArr xs)) \<le> Suc n" for n
  proof (cases "xs = []")
    case True
    then show ?thesis by (simp add: parse_value_arr HasPrefix_def)
  next
    case False
    then have "parse_elems n (print_elems xs @ r) = Some (xs, r)"
      using that assms(1) by (intro roundtrip_fuel(2)) simp_all
    with False assms(1) show ?thesis
      using print_elems_start [OF False, of r] by (simp add: parse_value_arr)
  qed
  from this [of "2 * length ?t + 1"] have "parse_value (2 * length ?t + 2) ?t = Some (JArr xs, r)" by simp
  with assms(2) show ?thesis unfolding json_decode_def by simp
qed

text \<open>The fuel is enough: more of it never changes a result, so \<^const>\<open>None\<close> means a syntax error.\<close>

lemma length_skip_ws [simp]: "length (skip_ws s) \<le> length s"
  by (simp add: skip_ws_def length_dropWhile_le)

lemma parse_string_length: "parse_string s = Some (t, r) \<Longrightarrow> length r < length s"
proof (induction s arbitrary: t r rule: measure_induct_rule [where f = length])
  case (less s)
  have IH: "length y < length s \<longrightarrow> length q < length y" if "parse_string y = Some (u, q)" for y u q
    using less.IH that by blast
  show ?case
  proof (cases s)
    case Nil
    with less.prems show ?thesis by simp
  next
    case (Cons c s')
    show ?thesis
      using less.prems unfolding Cons parse_string.simps(2)
      by (auto simp: Cons split: if_splits list.splits option.splits
          dest!: hex4_length low_surrogate_length IH)
  qed
qed

lemma parse_number_length:
  assumes "parse_number s = Some (j, r)"
  shows "length r < length s"
proof -
  let ?t = "takeWhile is_num_char s"
  have "?t \<noteq> []"
  proof
    assume "?t = []"
    with assms show False
      by (simp add: parse_number_def is_int_literal_def is_number_def strip_minus_def int_part_ok_def)
  qed
  moreover have "length ?t + length (dropWhile is_num_char s) = length s"
    by (metis length_append takeWhile_dropWhile_id)
  moreover have "r = dropWhile is_num_char s"
    using assms by (auto simp: parse_number_def Let_def split: if_splits)
  ultimately show ?thesis by (metis length_greater_0_conv less_add_same_cancel2)
qed

lemma parse_literal_length: "parse_literal w j s = Some (j', r) \<Longrightarrow> w \<noteq> [] \<Longrightarrow> length r < length s"
  by (cases w; cases s) (auto simp: parse_literal_def HasPrefix_def split: if_splits)

lemma skip_ws_Cons_length: "skip_ws s = c # r \<Longrightarrow> length r < length s"
  using length_skip_ws [of s] by simp

lemma parse_length:
  "parse_value n s = Some (j, r) \<Longrightarrow> length r < length s"
  "parse_elems n s = Some (xs, r) \<Longrightarrow> length r < length s"
  "parse_members n s = Some (m, r) \<Longrightarrow> length r < length s"
proof (induction n s and n s and n s arbitrary: j r and xs r and m r
    rule: parse_value_parse_elems_parse_members.induct)
  case (2 n s)
  then obtain c q where c: "skip_ws s = c # q" by (auto simp: parse_value.simps(2) split: list.splits)
  have "length (tl (skip_ws q)) \<le> length q"
    using length_skip_ws [of q] by (simp del: length_skip_ws)
  then have "length r < length (c # q)"
    using 2
    by (auto simp: parse_value.simps(2) c less_Suc_eq_le split: if_splits intro: less_imp_le
       dest: parse_string_length parse_number_length parse_literal_length)
  with c length_skip_ws [of s] show ?case by simp
next
  case (4 n s)
  then show ?case
    by (fastforce simp: parse_elems.simps(2) split: option.splits list.splits if_splits dest!: skip_ws_Cons_length)
next
  case (6 n s)
  then show ?case
    by (fastforce simp: parse_members.simps(2) split: option.splits list.splits if_splits dest!: skip_ws_Cons_length parse_string_length)
qed (simp_all)

lemma parse_fuel_aux:
  "length s = l \<Longrightarrow>
     (\<forall>n k. 2 * l < n \<longrightarrow> 2 * l < k \<longrightarrow> parse_value n s = parse_value k s) \<and>
     (\<forall>n k. 2 * l + 1 < n \<longrightarrow> 2 * l + 1 < k \<longrightarrow>
        parse_elems n s = parse_elems k s \<and> parse_members n s = parse_members k s)"
proof (induction l arbitrary: s rule: less_induct)
  case (less l)
  have IHv: "parse_value n q = parse_value k q"
    if "length q < l" "2 * l < n + 2" "2 * l < k + 2" for q n k
    using less.IH [OF that(1), of q] that by auto
  have IHe: "parse_elems n q = parse_elems k q" and IHm: "parse_members n q = parse_members k q"
    if "length q < l" "2 * l < n + 1" "2 * l < k + 1" for q n k
    using less.IH [OF that(1), of q] that by auto
  have V: "parse_value n s = parse_value k s" if n: "2 * l < n" and k: "2 * l < k" for n k
  proof -
    obtain n' k' where nk: "n = Suc n'" "k = Suc k'" using n k by (cases n; cases k) auto
    show ?thesis
    proof (cases "skip_ws s")
      case Nil
      then show ?thesis by (simp add: nk parse_value.simps(2))
    next
      case (Cons c q)
      then have "length q < l" using skip_ws_Cons_length less.prems by blast
      then have "parse_elems n' q = parse_elems k' q" "parse_members n' q = parse_members k' q"
        using IHe [of q n' k'] IHm [of q n' k'] n k nk by simp_all
      then show ?thesis unfolding nk parse_value.simps(2) Cons by simp
    qed
  qed
  have E: "parse_elems n s = parse_elems k s \<and> parse_members n s = parse_members k s"
    if n: "2 * l + 1 < n" and k: "2 * l + 1 < k" for n k
  proof -
    obtain n' k' where nk: "n = Suc n'" "k = Suc k'" using n k by (cases n; cases k) auto
    have v: "parse_value n' s = parse_value k' s" using V [of n' k'] n k nk by simp
    have "parse_elems n' q = parse_elems k' q"
      if "parse_value k' s = Some (x, r)" "skip_ws r = c # q" for x r c q
      using IHe [of q n' k'] parse_length(1) [OF that(1)] skip_ws_Cons_length [OF that(2)] n k nk less.prems
      by simp
    then have e: "parse_elems n s = parse_elems k s"
      by (auto simp: nk v parse_elems.simps(2) split: option.split list.split)
    have m: "parse_members n s = parse_members k s"
    proof (cases "\<exists>r t r1 r2. skip_ws s = CHR 0x22 # r \<and> parse_string r = Some (t, r1) \<and> skip_ws r1 = CHR '':'' # r2")
      case False
      then show ?thesis
        unfolding nk parse_members.simps(2) by (auto split: list.split option.split)
    next
      case True
      then obtain r t r1 r2 where s: "skip_ws s = CHR 0x22 # r" "parse_string r = Some (t, r1)"
        "skip_ws r1 = CHR '':'' # r2" by blast
      have r2: "length r2 < l"
        using skip_ws_Cons_length [OF s(1)] parse_string_length [OF s(2)]
          skip_ws_Cons_length [OF s(3)] less.prems by simp
      then have v: "parse_value n' r2 = parse_value k' r2" using IHv [of r2 n' k'] n k nk by simp
      show ?thesis
      proof (cases "\<exists>x r3 e q. parse_value k' r2 = Some (x, r3) \<and> skip_ws r3 = e # q")
        case False
        then show ?thesis
          unfolding nk parse_members.simps(2) by (auto simp: s v split: list.split option.split)
      next
        case True
        then obtain x r3 e q where q: "parse_value k' r2 = Some (x, r3)" "skip_ws r3 = e # q" by blast
        have "length q < l"
          using r2 parse_length(1) [OF q(1)] skip_ws_Cons_length [OF q(2)] by simp
        then have "parse_members n' q = parse_members k' q" using IHm [of q n' k'] n k nk by simp
        then show ?thesis
          unfolding nk parse_members.simps(2) by (simp add: s v q)
      qed
    qed
    from e m show ?thesis ..
  qed
  from V E show ?case by blast
qed

lemma parse_fuel:
  "2 * length s < n \<Longrightarrow> parse_value n s = parse_value (2 * length s + 2) s"
  using parse_fuel_aux [of s, OF refl, THEN conjunct1, rule_format, of n "2 * length s + 2"] by simp

subsection \<open>Values of interface type\<close>

text \<open>
  What \<^verbatim>\<open>json.Unmarshal\<close> stores in an \<^verbatim>\<open>interface{}\<close>: an object becomes a map, where a repeated
  key keeps its last value, so the value is the canonical form of the document. \<open>wf_any\<close> holds of
  the canonical values, and \<open>go_any\<close> leaves them alone.
\<close>

fun go_any :: "json \<Rightarrow> json"
and go_any_list :: "json list \<Rightarrow> json list"
and go_any_members :: "(string \<times> json) list \<Rightarrow> (string \<times> json) list" where
  "go_any (JArr xs) = JArr (go_any_list xs)"
| "go_any (JObj m) = JObj (fold (\<lambda>(k, v). map_put k v) (go_any_members m) [])"
| "go_any JNull = JNull"
| "go_any (JBool b) = JBool b"
| "go_any (JInt i) = JInt i"
| "go_any (JFrac t) = JFrac t"
| "go_any (JStr s) = JStr s"
| "go_any_list [] = []"
| "go_any_list (x # xs) = go_any x # go_any_list xs"
| "go_any_members [] = []"
| "go_any_members ((k, x) # m) = (k, go_any x) # go_any_members m"

fun wf_any :: "json \<Rightarrow> bool" where
  "wf_any (JFrac t) = wf_frac t"
| "wf_any (JArr xs) = (\<forall>x\<in>set xs. wf_any x)"
| "wf_any (JObj m) = (wf_map m \<and> (\<forall>(k, x)\<in>set m. wf_any x))"
| "wf_any _ = True"

lemma wf_any_wf_json: "wf_any j \<Longrightarrow> wf_json j"
  by (induction j rule: wf_any.induct) auto

lemma go_any_wf:
  "wf_any j \<Longrightarrow> go_any j = j"
  "\<forall>x\<in>set xs. wf_any x \<Longrightarrow> go_any_list xs = xs"
  "\<forall>(k, x)\<in>set m. wf_any x \<Longrightarrow> go_any_members m = m"
  by (induction j and xs and m rule: go_any_go_any_list_go_any_members.induct)
    (auto simp: fold_map_put [of "[]", simplified])

subsection \<open>Unmarshalling into a struct\<close>

text \<open>
  A struct is decoded member by member. A member is looked up by its exact name, else by a name that
  differs only in case; unknown members are skipped, \<^verbatim>\<open>null\<close> leaves the field alone, and a member of
  the wrong type leaves the field alone and makes the whole call return an error after the rest has
  been decoded. So a setter says whether the type was right and what the struct is then.
\<close>

type_synonym 's setter = "json \<Rightarrow> 's \<Rightarrow> bool \<times> 's"

definition find_field :: "(string \<times> 's setter) list \<Rightarrow> string \<Rightarrow> 's setter option" where
  "find_field fs k =
     (case map_of fs k of
        Some f \<Rightarrow> Some f
      | None \<Rightarrow> map_option snd (find (\<lambda>(n, _). ToLower n = ToLower k) fs))"

fun unmarshal_members :: "(string \<times> 's setter) list \<Rightarrow> (string \<times> json) list \<Rightarrow> 's \<Rightarrow> bool \<times> 's" where
  "unmarshal_members fs [] s = (True, s)"
| "unmarshal_members fs ((k, j) # m) s =
     (case find_field fs k of
        None \<Rightarrow> unmarshal_members fs m s
      | Some f \<Rightarrow>
          (let (ok, s1) = f j s; (ok', s2) = unmarshal_members fs m s1 in (ok \<and> ok', s2)))"

definition unmarshal_struct :: "(string \<times> 's setter) list \<Rightarrow> 's setter" where
  "unmarshal_struct fs j s =
     (case j of JObj m \<Rightarrow> unmarshal_members fs m s | JNull \<Rightarrow> (True, s) | _ \<Rightarrow> (False, s))"

text \<open>\<^verbatim>\<open>json.Unmarshal(text, &target)\<close>: the error and the target afterwards.\<close>

definition Unmarshal :: "'s setter \<Rightarrow> string \<Rightarrow> 's \<Rightarrow> go_error option \<times> 's" where
  "Unmarshal f text s =
     (case json_decode text of
        None \<Rightarrow> (Some ''invalid JSON'', s)
      | Some j \<Rightarrow>
          (let (ok, s') = f j s
           in (if ok then None else Some ''json: cannot unmarshal value'', s')))"

definition set_string :: "((string \<Rightarrow> string) \<Rightarrow> 's \<Rightarrow> 's) \<Rightarrow> 's setter" where
  "set_string upd j s =
     (case j of JStr t \<Rightarrow> (True, upd (\<lambda>_. t) s) | JNull \<Rightarrow> (True, s) | _ \<Rightarrow> (False, s))"

definition set_bool :: "((bool \<Rightarrow> bool) \<Rightarrow> 's \<Rightarrow> 's) \<Rightarrow> 's setter" where
  "set_bool upd j s =
     (case j of JBool b \<Rightarrow> (True, upd (\<lambda>_. b) s) | JNull \<Rightarrow> (True, s) | _ \<Rightarrow> (False, s))"

text \<open>A 64-bit \<^verbatim>\<open>int\<close> or \<^verbatim>\<open>int64\<close> field: a literal out of range is a type error.\<close>

definition set_int :: "((int \<Rightarrow> int) \<Rightarrow> 's \<Rightarrow> 's) \<Rightarrow> 's setter" where
  "set_int upd j s =
     (case j of
        JInt i \<Rightarrow> if - (2 ^ 63) \<le> i \<and> i < 2 ^ 63 then (True, upd (\<lambda>_. i) s) else (False, s)
      | JNull \<Rightarrow> (True, s)
      | _ \<Rightarrow> (False, s))"

definition set_any :: "((json \<Rightarrow> json) \<Rightarrow> 's \<Rightarrow> 's) \<Rightarrow> 's setter" where
  "set_any upd j s = (True, upd (\<lambda>_. go_any j) s)"

text \<open>A \<^verbatim>\<open>map[string]interface{}\<close> field; \<^verbatim>\<open>nil\<close> is \<^const>\<open>None\<close>, and a second occurrence of the member
  adds to the map.\<close>

definition set_any_map :: "((json gomap option \<Rightarrow> json gomap option) \<Rightarrow> 's \<Rightarrow> 's) \<Rightarrow> 's setter" where
  "set_any_map upd j s =
     (case j of
        JObj m \<Rightarrow>
          (True, upd (\<lambda>old. Some (fold (\<lambda>(k, v). map_put k v) (go_any_members m)
                     (case old of None \<Rightarrow> [] | Some x \<Rightarrow> x))) s)
      | JNull \<Rightarrow> (True, upd (\<lambda>_. None) s)
      | _ \<Rightarrow> (False, s))"

text \<open>A \<^verbatim>\<open>map[string]string\<close> field: an entry of the wrong type is stored empty.\<close>

fun string_entries :: "(string \<times> json) list \<Rightarrow> bool \<times> (string \<times> string) list" where
  "string_entries [] = (True, [])"
| "string_entries ((k, j) # m) =
     (let (ok, r) = string_entries m
      in (case j of
            JStr t \<Rightarrow> (ok, (k, t) # r)
          | JNull \<Rightarrow> (ok, (k, []) # r)
          | _ \<Rightarrow> (False, (k, []) # r)))"

definition set_string_map :: "((string gomap option \<Rightarrow> string gomap option) \<Rightarrow> 's \<Rightarrow> 's) \<Rightarrow> 's setter" where
  "set_string_map upd j s =
     (case j of
        JObj m \<Rightarrow>
          (let (ok, es) = string_entries m
           in (ok, upd (\<lambda>old. Some (fold (\<lambda>(k, v). map_put k v) es
                     (case old of None \<Rightarrow> [] | Some x \<Rightarrow> x))) s))
      | JNull \<Rightarrow> (True, upd (\<lambda>_. None) s)
      | _ \<Rightarrow> (False, s))"

text \<open>A list of strings, where \<^verbatim>\<open>nil\<close> is not told from an empty list, and a struct inside a struct.\<close>

definition set_string_list :: "((string list \<Rightarrow> string list) \<Rightarrow> 's \<Rightarrow> 's) \<Rightarrow> 's setter" where
  "set_string_list upd j s =
     (case j of
        JArr xs \<Rightarrow>
          (list_all (\<lambda>x. case x of JStr _ \<Rightarrow> True | JNull \<Rightarrow> True | _ \<Rightarrow> False) xs,
           upd (\<lambda>_. map (\<lambda>x. case x of JStr t \<Rightarrow> t | _ \<Rightarrow> '''') xs) s)
      | JNull \<Rightarrow> (True, upd (\<lambda>_. []) s)
      | _ \<Rightarrow> (False, s))"

definition set_struct ::
    "(string \<times> 'c setter) list \<Rightarrow> ('s \<Rightarrow> 'c) \<Rightarrow> (('c \<Rightarrow> 'c) \<Rightarrow> 's \<Rightarrow> 's) \<Rightarrow> 's setter" where
  "set_struct fs get upd j s = (let (ok, c) = unmarshal_struct fs j (get s) in (ok, upd (\<lambda>_. c) s))"

text \<open>A pointer to a struct: \<^verbatim>\<open>null\<close> makes it \<^verbatim>\<open>nil\<close>, anything else decodes into what it points to, or into a
  new struct.\<close>

definition set_pointer ::
    "(string \<times> 'c setter) list \<Rightarrow> 'c \<Rightarrow> ('s \<Rightarrow> 'c option) \<Rightarrow> (('c option \<Rightarrow> 'c option) \<Rightarrow> 's \<Rightarrow> 's) \<Rightarrow> 's setter" where
  "set_pointer fs zero get upd j s =
     (if j = JNull then (True, upd (\<lambda>_. None) s)
      else (let (ok, c) = unmarshal_struct fs j (case get s of None \<Rightarrow> zero | Some c \<Rightarrow> c) in (ok, upd (\<lambda>_. Some c) s)))"

lemma set_string_list_json [simp]: "set_string_list upd (JArr (map JStr xs)) s = (True, upd (\<lambda>_. xs) s)"
  by (simp add: set_string_list_def list_all_iff o_def)

text \<open>Encoding the two kinds of map, with \<^verbatim>\<open>nil\<close> printed as \<^verbatim>\<open>null\<close>.\<close>

definition any_map_json :: "json gomap option \<Rightarrow> json" where
  "any_map_json m = (case m of None \<Rightarrow> JNull | Some m' \<Rightarrow> JObj m')"

definition string_map_json :: "string gomap option \<Rightarrow> json" where
  "string_map_json m = (case m of None \<Rightarrow> JNull | Some m' \<Rightarrow> JObj (map (\<lambda>(k, t). (k, JStr t)) m'))"

lemma string_entries_map: "string_entries (map (\<lambda>(k, t). (k, JStr t)) m) = (True, m)"
  by (induction m) auto

lemma set_any_map_json:
  assumes "\<And>m'. m = Some m' \<Longrightarrow> wf_any (JObj m')"
  shows "set_any_map upd (any_map_json m) s = (True, upd (\<lambda>old. case m of None \<Rightarrow> None | Some m' \<Rightarrow>
      Some (fold (\<lambda>(k, v). map_put k v) m' (case old of None \<Rightarrow> [] | Some x \<Rightarrow> x))) s)"
  using assms by (cases m) (auto simp: set_any_map_def any_map_json_def go_any_wf(3))

lemma set_string_map_json:
  "set_string_map upd (string_map_json m) s = (True, upd (\<lambda>old. case m of None \<Rightarrow> None | Some m' \<Rightarrow>
      Some (fold (\<lambda>(k, v). map_put k v) m' (case old of None \<Rightarrow> [] | Some x \<Rightarrow> x))) s)"
  by (cases m) (auto simp: set_string_map_def string_map_json_def string_entries_map)

lemma set_scalar_json [simp]:
  "set_string us (JStr t) s = (True, us (\<lambda>_. t) s)"
  "set_bool ub (JBool b) s = (True, ub (\<lambda>_. b) s)"
  by (simp_all add: set_string_def set_bool_def)

lemma set_any_json [simp]: "wf_any j \<Longrightarrow> set_any upd j s = (True, upd (\<lambda>_. j) s)"
  by (simp add: set_any_def go_any_wf)

end
