(* ===== verification/Go_Encoding.thy ===== *)
theory Go_Encoding
  imports Go_Json
begin

section \<open>Packages encoding/base64 and net/url\<close>

text \<open>
  \<^verbatim>\<open>b64.StdEncoding\<close> and \<^verbatim>\<open>url.QueryEscape\<close>, which the broker applies to credentials, response bodies
  and identity keys.
\<close>

subsection \<open>Standard base64 with padding\<close>

definition b64_char :: "nat \<Rightarrow> char" where
  "b64_char d =
     (if d < 26 then char_of (65 + d)
      else if d < 52 then char_of (71 + d)
      else if d < 62 then char_of (d - 4)
      else if d = 62 then CHR ''+'' else CHR ''/'')"

definition b64_val :: "char \<Rightarrow> nat option" where
  "b64_val c =
     (let n = of_char c in
      if 65 \<le> n \<and> n \<le> 90 then Some (n - 65)
      else if 97 \<le> n \<and> n \<le> 122 then Some (n - 71)
      else if 48 \<le> n \<and> n \<le> 57 then Some (n + 4)
      else if c = CHR ''+'' then Some 62
      else if c = CHR ''/'' then Some 63
      else None)"

fun b64_encode :: "string \<Rightarrow> string" where
  "b64_encode [] = []"
| "b64_encode [a] =
     (let x = of_char a
      in [b64_char (x div 4), b64_char (x mod 4 * 16), CHR ''='', CHR ''=''])"
| "b64_encode [a, b] =
     (let x = of_char a; y = of_char b
      in [b64_char (x div 4), b64_char (x mod 4 * 16 + y div 16), b64_char (y mod 16 * 4), CHR ''=''])"
| "b64_encode (a # b # c # r) =
     (let x = of_char a; y = of_char b; z = of_char c
      in b64_char (x div 4) # b64_char (x mod 4 * 16 + y div 16)
         # b64_char (y mod 16 * 4 + z div 64) # b64_char (z mod 64) # b64_encode r)"

text \<open>Decoding stops at the first quantum that is not four characters of the alphabet, the last one
  possibly padded. The bits a padded quantum does not use are ignored (the decoder is not strict).
  \<^verbatim>\<open>DecodeString\<close> also skips carriage returns and line feeds, which \<open>strip_newlines\<close> does first.\<close>

fun b64_quanta :: "string \<Rightarrow> string option" where
  "b64_quanta [] = Some []"
| "b64_quanta (a # b # c # d # r) =
     (case (b64_val a, b64_val b) of
        (Some p, Some q) \<Rightarrow>
          (case b64_val c of
             None \<Rightarrow>
               if c = CHR ''='' \<and> d = CHR ''='' \<and> r = [] then Some [char_of (p * 4 + q div 16)]
               else None
           | Some s \<Rightarrow>
               (case b64_val d of
                  None \<Rightarrow>
                    if d = CHR ''='' \<and> r = []
                    then Some [char_of (p * 4 + q div 16), char_of (q mod 16 * 16 + s div 4)]
                    else None
                | Some t \<Rightarrow>
                    map_option (\<lambda>u. char_of (p * 4 + q div 16) # char_of (q mod 16 * 16 + s div 4)
                        # char_of (s mod 4 * 64 + t) # u) (b64_quanta r)))
      | _ \<Rightarrow> None)"
| "b64_quanta _ = None"

definition strip_newlines :: "string \<Rightarrow> string" where
  "strip_newlines s = filter (\<lambda>c. c \<noteq> CHR 0x0A \<and> c \<noteq> CHR 0x0D) s"

definition b64_decode :: "string \<Rightarrow> string result" where
  "b64_decode s =
     (case b64_quanta (strip_newlines s) of
        Some t \<Rightarrow> Inr t
      | None \<Rightarrow> Inl ''illegal base64 data'')"

lemma b64_val_char [simp]: "d < 64 \<Longrightarrow> b64_val (b64_char d) = Some d"
  by (auto simp: b64_val_def b64_char_def Let_def)

lemma b64_val_pad [simp]: "b64_val (CHR ''='') = None"
  by (simp add: b64_val_def)

lemma digit_split:
  fixes v m :: nat
  assumes "v < m"
  shows "(a * m + v) div m = a" "(a * m + v) mod m = v"
  using assms by simp_all

lemma byte_parts:
  fixes x :: nat
  assumes "x < 256"
  shows "x div 4 < 64" "x div 16 < 16" "x div 64 < 4" "x mod 4 < 4" "x mod 16 < 16" "x mod 64 < 64"
  using assms by auto

lemma sextet_bounds:
  fixes x y z :: nat
  assumes "x < 256" "y < 256" "z < 256"
  shows "x div 4 < 64" "x mod 4 * 16 + y div 16 < 64" "y mod 16 * 4 + z div 64 < 64" "z mod 64 < 64"
    "x mod 4 * 16 < 64" "y mod 16 * 4 < 64"
  using byte_parts [OF assms(1)] byte_parts [OF assms(2)] byte_parts [OF assms(3)] by linarith+

lemma sextet_join:
  fixes x y z :: nat
  assumes "x < 256" "y < 256" "z < 256"
  shows "x div 4 * 4 + (x mod 4 * 16 + y div 16) div 16 = x"
    "(x mod 4 * 16 + y div 16) mod 16 * 16 + (y mod 16 * 4 + z div 64) div 4 = y"
    "(y mod 16 * 4 + z div 64) mod 4 * 64 + z mod 64 = z"
    "x div 4 * 4 + (x mod 4 * 16) div 16 = x"
    "(x mod 4 * 16 + y div 16) mod 16 * 16 + (y mod 16 * 4) div 4 = y"
  using byte_parts [OF assms(2)] byte_parts [OF assms(3)] by (simp_all only: digit_split) simp_all

lemma b64_quanta_encode: "b64_quanta (b64_encode s) = Some s"
proof (induction s rule: b64_encode.induct)
  case (2 a)
  then show ?case
    using sextet_bounds [of "of_char a" 0 0] sextet_join(4) [of "of_char a" 0 0]
    by (simp add: Let_def)
next
  case (3 a b)
  then show ?case
    using sextet_bounds [of "of_char a" "of_char b" 0] sextet_join(1,5) [of "of_char a" "of_char b" 0]
    by (simp add: Let_def)
next
  case (4 a b c r)
  then show ?case
    using sextet_bounds [of "of_char a" "of_char b" "of_char c"]
      sextet_join [of "of_char a" "of_char b" "of_char c"]
    by (simp add: Let_def)
qed simp

definition b64_alphabet :: "char \<Rightarrow> bool" where
  "b64_alphabet c \<longleftrightarrow> b64_val c \<noteq> None \<or> c = CHR ''=''"

lemma b64_alphabet_char [simp]: "d < 64 \<Longrightarrow> b64_alphabet (b64_char d)"
  by (simp add: b64_alphabet_def)

lemma b64_encode_alphabet: "list_all b64_alphabet (b64_encode s)"
proof (induction s rule: b64_encode.induct)
  case (2 a)
  then show ?case
    using sextet_bounds [of "of_char a" 0 0] by (simp add: Let_def b64_alphabet_def)
next
  case (3 a b)
  then show ?case
    using sextet_bounds [of "of_char a" "of_char b" 0] by (simp add: Let_def b64_alphabet_def)
next
  case (4 a b c r)
  then show ?case
    using sextet_bounds [of "of_char a" "of_char b" "of_char c"] by (simp add: Let_def b64_alphabet_def)
qed simp

lemma b64_encode_no_char: "\<not> b64_alphabet c \<Longrightarrow> c \<notin> set (b64_encode s)"
  using b64_encode_alphabet [of s] by (auto simp: list_all_iff)

lemma strip_newlines_encode [simp]: "strip_newlines (b64_encode s) = b64_encode s"
proof -
  have "\<not> b64_alphabet (CHR 0x0A)" "\<not> b64_alphabet (CHR 0x0D)"
    by (simp_all add: b64_alphabet_def b64_val_def)
  then show ?thesis
    unfolding strip_newlines_def by (intro filter_True) (metis b64_encode_no_char)
qed

lemma b64_decode_encode: "b64_decode (b64_encode s) = Inr s"
  by (simp add: b64_decode_def b64_quanta_encode)

lemma b64_encode_inject: "b64_encode s = b64_encode t \<longleftrightarrow> s = t"
  by (metis b64_decode_encode sum.inject(2))

lemma b64_encode_no_space [simp]: "CHR 0x20 \<notin> set (b64_encode s)"
  by (rule b64_encode_no_char) (simp add: b64_alphabet_def b64_val_def)

subsection \<open>Query escaping\<close>

definition unreserved :: "char \<Rightarrow> bool" where
  "unreserved c \<longleftrightarrow>
     (CHR ''A'' \<le> c \<and> c \<le> CHR ''Z'') \<or> (CHR ''a'' \<le> c \<and> c \<le> CHR ''z'') \<or> is_digit c \<or>
     c \<in> set ''-_.~''"

definition upper_hex :: "nat \<Rightarrow> char" where
  "upper_hex d = (if d < 10 then char_of (48 + d) else char_of (55 + d))"

definition escape_byte :: "char \<Rightarrow> string" where
  "escape_byte c =
     (if unreserved c then [c]
      else if c = CHR 0x20 then ''+''
      else [CHR ''%'', upper_hex (of_char c div 16), upper_hex (of_char c mod 16)])"

definition QueryEscape :: "string \<Rightarrow> string" where
  "QueryEscape s = concat (map escape_byte s)"

definition upper_hex_val :: "char \<Rightarrow> nat option" where
  "upper_hex_val c =
     (let n = of_char c in
      if 48 \<le> n \<and> n \<le> 57 then Some (n - 48)
      else if 65 \<le> n \<and> n \<le> 70 then Some (n - 55)
      else if 97 \<le> n \<and> n \<le> 102 then Some (n - 87)
      else None)"

text \<open>\<^verbatim>\<open>url.QueryUnescape\<close>, what the receiver of a query string applies.\<close>

fun QueryUnescape :: "string \<Rightarrow> string option" where
  "QueryUnescape [] = Some []"
| "QueryUnescape (c # r) =
     (if c = CHR ''%'' then
        (case r of
           a # b # r' \<Rightarrow>
             (case (upper_hex_val a, upper_hex_val b) of
                (Some x, Some y) \<Rightarrow> map_option (Cons (char_of (16 * x + y))) (QueryUnescape r')
              | _ \<Rightarrow> None)
         | _ \<Rightarrow> None)
      else if c = CHR ''+'' then map_option (Cons (CHR 0x20)) (QueryUnescape r)
      else map_option (Cons c) (QueryUnescape r))"

lemma upper_hex_val_hex [simp]: "d < 16 \<Longrightarrow> upper_hex_val (upper_hex d) = Some d"
  by (auto simp: upper_hex_val_def upper_hex_def Let_def)

lemma unreserved_neq [simp]:
  "unreserved c \<Longrightarrow> c \<noteq> CHR ''%''" "unreserved c \<Longrightarrow> c \<noteq> CHR ''+''"
  by (auto simp: unreserved_def is_digit_def less_eq_char_def)

lemma QueryUnescape_escape_byte:
  "QueryUnescape (escape_byte c @ r) = map_option (Cons c) (QueryUnescape r)"
proof -
  have "(of_char c :: nat) div 16 < 16" "(of_char c :: nat) mod 16 < 16"
    using nat_of_char_less_256 [of c] by presburger+
  then show ?thesis
    by (auto simp: escape_byte_def)
qed

lemma QueryUnescape_QueryEscape: "QueryUnescape (QueryEscape s) = Some s"
  by (induction s) (simp_all add: QueryEscape_def QueryUnescape_escape_byte)

lemma QueryEscape_append: "QueryEscape (s @ t) = QueryEscape s @ QueryEscape t"
  by (simp add: QueryEscape_def)

definition query_safe :: "char \<Rightarrow> bool" where
  "query_safe c \<longleftrightarrow> unreserved c \<or> c = CHR ''+'' \<or> c = CHR ''%''"

lemma unreserved_upper_hex [simp]: "d < 16 \<Longrightarrow> unreserved (upper_hex d)"
  by (auto simp: unreserved_def upper_hex_def is_digit_iff less_eq_char_def)

lemma QueryEscape_safe: "list_all query_safe (QueryEscape s)"
proof (induction s)
  case (Cons c s)
  have "(of_char c :: nat) div 16 < 16" "(of_char c :: nat) mod 16 < 16"
    using nat_of_char_less_256 [of c] by presburger+
  with Cons show ?case
    by (auto simp: QueryEscape_def escape_byte_def query_safe_def)
qed (simp add: QueryEscape_def)

lemma QueryEscape_no_delimiter:
  "c \<in> set ''/?&=#'' \<Longrightarrow> c \<notin> set (QueryEscape s)"
  using QueryEscape_safe [of s]
  by (auto simp: list_all_iff query_safe_def unreserved_def is_digit_iff less_eq_char_def)

subsection \<open>Codecs\<close>

text \<open>The contract the two encodings and the JSON codecs share: what was encoded is read back. A
  client of a codec relies on the encoding telling values apart.\<close>

locale codec =
  fixes enc :: "'a \<Rightarrow> string" and dec :: "string \<Rightarrow> 'a option" and valid :: "'a \<Rightarrow> bool"
  assumes dec_enc: "valid a \<Longrightarrow> dec (enc a) = Some a"
begin

lemma enc_inject: "valid a \<Longrightarrow> valid b \<Longrightarrow> enc a = enc b \<longleftrightarrow> a = b"
  by (metis dec_enc option.inject)

lemma dec_enc_eq: "valid a \<Longrightarrow> dec (enc a) = Some b \<longleftrightarrow> a = b"
  by (simp add: dec_enc)

end

interpretation base64: codec b64_encode b64_quanta "\<lambda>_. True"
  by unfold_locales (rule b64_quanta_encode)

interpretation json_text: codec print_json json_decode wf_json
  by unfold_locales (rule json_decode_print)

interpretation query: codec QueryEscape QueryUnescape "\<lambda>_. True"
  by unfold_locales (rule QueryUnescape_QueryEscape)

end
