(* ===== verification/Go_Http.thy ===== *)
theory Go_Http
  imports Go_Encoding
begin

section \<open>Requests and responses (package net/http), and the error handlers\<close>

text \<open>
  A request is what the handlers read of it; a response is the sequence of calls a handler makes on
  its \<^verbatim>\<open>http.ResponseWriter\<close>, in order, from which the status the client sees is computed as
  \<^verbatim>\<open>net/http\<close> does: the first \<^verbatim>\<open>WriteHeader\<close> counts, a body written before one means 200, and so does
  a handler that writes nothing at all. The generic error handler (package error) and the reply
  functions of the API live here, since every handler ends in one of them.
\<close>

subsection \<open>Requests\<close>

text \<open>Header names are in canonical form. \<open>req_body\<close> is what reading the body to its end yields; \<open>req_form\<close> the
  parsed query and form values; \<open>req_vars\<close> the variables the router (\<^verbatim>\<open>gorilla/mux\<close>) matched in the path.\<close>

record http_request =
  req_method :: string
  req_host :: string
  req_path :: string
  req_query :: string
  req_header :: "(string \<times> string) list"
  req_form :: "(string \<times> string) list"
  req_cookies :: "(string \<times> string) list"
  req_body :: "string result"
  req_vars :: "(string \<times> string) list"

text \<open>\<^verbatim>\<open>Header.Get\<close>, \<^verbatim>\<open>FormValue\<close> and a lookup in \<^verbatim>\<open>mux.Vars\<close>: the first value, or the empty string.\<close>

definition get_first :: "(string \<times> string) list \<Rightarrow> string \<Rightarrow> string" where
  "get_first m k = (case map_of m k of Some v \<Rightarrow> v | None \<Rightarrow> '''')"

definition header_get :: "http_request \<Rightarrow> string \<Rightarrow> string" where
  "header_get r k = get_first (req_header r) k"

definition FormValue :: "http_request \<Rightarrow> string \<Rightarrow> string" where
  "FormValue r k = get_first (req_form r) k"

definition mux_var :: "http_request \<Rightarrow> string \<Rightarrow> string" where
  "mux_var r k = get_first (req_vars r) k"

subsection \<open>Responses\<close>

datatype rw_event =
    SetHeader string string
  | WriteHeader int
  | Write string
  | Redirect string int
  | SetCookie string string

type_synonym response = "rw_event list"

fun resp_status :: "response \<Rightarrow> int" where
  "resp_status [] = 200"
| "resp_status (WriteHeader c # _) = c"
| "resp_status (Redirect _ c # _) = c"
| "resp_status (Write _ # _) = 200"
| "resp_status (SetHeader _ _ # r) = resp_status r"
| "resp_status (SetCookie _ _ # r) = resp_status r"

fun resp_location :: "response \<Rightarrow> string option" where
  "resp_location [] = None"
| "resp_location (Redirect u _ # _) = Some u"
| "resp_location (WriteHeader _ # _) = None"
| "resp_location (Write _ # _) = None"
| "resp_location (SetHeader _ _ # r) = resp_location r"
| "resp_location (SetCookie _ _ # r) = resp_location r"

definition resp_body :: "response \<Rightarrow> string" where
  "resp_body r = concat (map (\<lambda>e. case e of Write b \<Rightarrow> b | _ \<Rightarrow> []) r)"

text \<open>A response that nothing has been sent of: only headers are set.\<close>

definition unsent :: "response \<Rightarrow> bool" where
  "unsent r \<longleftrightarrow> (\<forall>e\<in>set r. case e of SetHeader _ _ \<Rightarrow> True | SetCookie _ _ \<Rightarrow> True | _ \<Rightarrow> False)"

lemma unsent_Nil [simp]: "unsent []"
  by (simp add: unsent_def)

lemma resp_status_unsent [simp]: "unsent r \<Longrightarrow> resp_status (r @ s) = resp_status s"
  by (induction r rule: resp_status.induct) (auto simp: unsent_def)

lemma resp_location_unsent [simp]: "unsent r \<Longrightarrow> resp_location (r @ s) = resp_location s"
  by (induction r rule: resp_location.induct) (auto simp: unsent_def)

lemma resp_status_sent: "\<not> unsent r \<Longrightarrow> resp_status (r @ s) = resp_status r"
  by (induction r rule: resp_status.induct) (auto simp: unsent_def)

subsection \<open>The error handlers\<close>

definition error_message_json :: "string \<Rightarrow> json" where
  "error_message_json errorMsg = JObj [(''Status'', JStr ''error''), (''Error'', JStr errorMsg)]"

text \<open>\<^verbatim>\<open>HandleError\<close> of the package error: the tag and the raw error are only logged. Its twin in the
  API (\<^verbatim>\<open>HandleAPIError\<close>) writes the same reply.\<close>

definition HandleError :: "string \<Rightarrow> int \<Rightarrow> response" where
  "HandleError errorMsg code =
     [SetHeader ''Content-Type'' ''application/json'', WriteHeader code,
      Write (print_json (error_message_json errorMsg))]"

definition HandleAPIError :: "string \<Rightarrow> int \<Rightarrow> response" where
  "HandleAPIError errorMsg code =
     [SetHeader ''Content-Type'' ''application/json'', WriteHeader code,
      Write (print_json (error_message_json errorMsg))]"

definition api_ok_json :: "json \<Rightarrow> string \<Rightarrow> json" where
  "api_ok_json data ident =
     JObj [(''Status'', JStr ''ok''), (''ID'', JStr ident), (''Data'', data)]"

definition HandleAPIOK :: "json \<Rightarrow> string \<Rightarrow> int \<Rightarrow> response" where
  "HandleAPIOK data ident code =
     [SetHeader ''Content-Type'' ''application/json'', WriteHeader code,
      Write (print_json (api_ok_json data ident))]"

lemma resp_status_handlers [simp]:
  "resp_status (HandleError m c) = c" "resp_status (HandleAPIError m c) = c"
  "resp_status (HandleAPIOK d i c) = c"
  by (simp_all add: HandleError_def HandleAPIError_def HandleAPIOK_def)

lemma resp_body_handlers:
  "resp_body (HandleError m c) = print_json (error_message_json m)"
  "resp_body (HandleAPIError m c) = print_json (error_message_json m)"
  "resp_body (HandleAPIOK d i c) = print_json (api_ok_json d i)"
  by (simp_all add: resp_body_def HandleError_def HandleAPIError_def HandleAPIOK_def)

text \<open>The message of an error can be read back from the reply, whatever bytes it has.\<close>

lemma HandleError_readable:
  "json_decode (resp_body (HandleError m c)) = Some (error_message_json m)"
  unfolding resp_body_handlers by (rule json_text.dec_enc) (simp add: error_message_json_def)

lemma HandleAPIOK_readable:
  "wf_json d \<Longrightarrow> json_decode (resp_body (HandleAPIOK d i c)) = Some (api_ok_json d i)"
  unfolding resp_body_handlers by (rule json_text.dec_enc) (simp add: api_ok_json_def)

end
