(* ===== verification/Provider_Utils.thy ===== *)
theory Provider_Utils
  imports Go_Http
begin

section \<open>Helpers of the providers (util_ba_extractor.go, util_slug.go, util_rand_string.go, FileLoader.go)\<close>

text \<open>
  Reading a user name and a password from a basic-authentication header, turning a name into a slug,
  drawing a random name, and the certificate loader's key. The Unicode tables and the normalisation
  of \<^verbatim>\<open>golang.org/x/text\<close> are arguments, with what the lemmas need of them (their behaviour on ASCII)
  as a hypothesis; the random numbers are an argument too.
\<close>

subsection \<open>Basic authentication\<close>

definition split_credentials :: "string \<Rightarrow> string \<times> string" where
  "split_credentials upEnc =
     (case Split upEnc '':'' of [uName, pw] \<Rightarrow> (uName, pw) | _ \<Rightarrow> ('''', ''''))"

definition ExtractBAUsernameAndPasswordFromRequest :: "http_request \<Rightarrow> string \<times> string" where
  "ExtractBAUsernameAndPasswordFromRequest r =
     (case Split (header_get r ''Authorization'') '' '' of
        [scheme, enc] \<Rightarrow>
          (case b64_decode enc of
             Inr upEnc \<Rightarrow> split_credentials upEnc
           | Inl decErr \<Rightarrow> ('''', ''''))
      | _ \<Rightarrow> ('''', ''''))"

lemma split_credentials_pair:
  "CHR '':'' \<notin> set u \<Longrightarrow> CHR '':'' \<notin> set p \<Longrightarrow> split_credentials (u @ '':'' @ p) = (u, p)"
  by (simp add: split_credentials_def)

text \<open>More or fewer colons than one, and the credentials are dropped.\<close>

lemma split_credentials_other: "count_list s CHR '':'' \<noteq> 1 \<Longrightarrow> split_credentials s = ('''', '''')"
  using length_Split_char [of s "CHR '':''"]
  by (auto simp: split_credentials_def split: list.split)

lemma ExtractBA_header:
  assumes "header_get r ''Authorization'' = scheme @ '' '' @ b64_encode s" and "CHR '' '' \<notin> set scheme"
  shows "ExtractBAUsernameAndPasswordFromRequest r = split_credentials s"
  using assms by (simp add: ExtractBAUsernameAndPasswordFromRequest_def b64_decode_encode)

text \<open>Neither part of what is extracted has a colon.\<close>

lemma split_credentials_no_colon:
  assumes "split_credentials s = (u, p)"
  shows "CHR '':'' \<notin> set u \<and> CHR '':'' \<notin> set p"
proof -
  from assms have "(u = '''' \<and> p = '''') \<or> Split s '':'' = [u, p]"
    by (simp add: split_credentials_def split: list.splits)
  then show ?thesis
  proof
    assume "Split s '':'' = [u, p]"
    then have "u \<in> set (Split s '':'')" "p \<in> set (Split s '':'')" by simp_all
    then show ?thesis using Split_elem_no_char by blast
  qed simp
qed

lemma ExtractBA_no_colon:
  assumes "ExtractBAUsernameAndPasswordFromRequest r = (u, p)"
  shows "CHR '':'' \<notin> set u \<and> CHR '':'' \<notin> set p"
proof -
  from assms have "(u = '''' \<and> p = '''') \<or> (\<exists>s. split_credentials s = (u, p))"
    by (auto simp: ExtractBAUsernameAndPasswordFromRequest_def split: list.splits sum.splits)
  then show ?thesis using split_credentials_no_colon by fastforce
qed

subsection \<open>Slugs\<close>

text \<open>
  A rune is its code point. \<open>nfkd\<close> normalises a string and yields its runes; \<open>is_lat\<close> and \<open>is_nop\<close> are
  the two sets of tables the slug functions look a rune up in.
\<close>

record unicode =
  nfkd :: "string \<Rightarrow> nat list"
  is_lat :: "nat \<Rightarrow> bool"
  is_nop :: "nat \<Rightarrow> bool"
  rune_lower :: "nat \<Rightarrow> nat"

definition slug_step :: "unicode \<Rightarrow> nat list \<times> bool \<Rightarrow> nat \<Rightarrow> nat list \<times> bool" where
  "slug_step U s r =
     (let (buf, dash) = s in
      if is_lat U r then (buf @ [rune_lower U r], True)
      else if is_nop U r then (buf, dash)
      else if dash then (buf @ [45], False)
      else (buf, dash))"

definition strip_dash :: "'a \<Rightarrow> 'a list \<Rightarrow> 'a list" where
  "strip_dash d buf = (if buf \<noteq> [] \<and> last buf = d then butlast buf else buf)"

definition slug_runes :: "unicode \<Rightarrow> string \<Rightarrow> nat list" where
  "slug_runes U s = strip_dash 45 (fst (foldl (slug_step U) ([], False) (nfkd U s)))"

definition Slug :: "unicode \<Rightarrow> string \<Rightarrow> string" where
  "Slug U s = concat (map utf8_encode (slug_runes U s))"

definition hex_encode :: "string \<Rightarrow> string" where
  "hex_encode b = concat (map (\<lambda>c.
     let n = of_char c :: nat; h = (\<lambda>d. if d < 10 then char_of (48 + d) else char_of (87 + d))
     in [h (n div 16), h (n mod 16)]) b)"

text \<open>The state of \<^verbatim>\<open>SlugAscii\<close>: the bytes so far, and the flags \<^verbatim>\<open>dash\<close> and \<^verbatim>\<open>latin\<close>.\<close>

definition slug_ascii_step :: "unicode \<Rightarrow> string \<times> bool \<times> bool \<Rightarrow> nat \<Rightarrow> string \<times> bool \<times> bool" where
  "slug_ascii_step U s r0 =
     (let (buf, dash, latin) = s in
      if is_lat U r0 then
        (let r = rune_lower U r0 in
         if r \<ge> 128 then
           ((if latin \<and> dash then buf @ ''-'' else buf) @ hex_encode (utf8_encode r), True, False)
         else
           ((if \<not> latin then buf @ ''-'' else buf) @ utf8_encode r, True, True))
      else if is_nop U r0 then (buf, dash, latin)
      else if dash then (buf @ ''-'', False, True)
      else (buf, dash, latin))"

definition SlugAscii :: "unicode \<Rightarrow> string \<Rightarrow> string" where
  "SlugAscii U s = strip_dash CHR ''-'' (fst (foldl (slug_ascii_step U) ('''', False, True) (nfkd U s)))"

definition slug_char :: "char \<Rightarrow> bool" where
  "slug_char c \<longleftrightarrow> (CHR ''a'' \<le> c \<and> c \<le> CHR ''z'') \<or> (CHR ''0'' \<le> c \<and> c \<le> CHR ''9'')"

text \<open>\<^verbatim>\<open>IsSlugAscii\<close> ranges over the runes of its argument; a byte that is not ASCII belongs to a rune that
  is refused, so the loop can go over the bytes.\<close>

fun is_slug_ascii_loop :: "bool \<Rightarrow> string \<Rightarrow> bool" where
  "is_slug_ascii_loop dash [] = (\<not> dash)"
| "is_slug_ascii_loop dash (c # s) =
     (if c = CHR ''-'' then (if dash then False else is_slug_ascii_loop True s)
      else if slug_char c then is_slug_ascii_loop False s
      else False)"

definition IsSlugAscii :: "string \<Rightarrow> bool" where
  "IsSlugAscii s = is_slug_ascii_loop True s"

text \<open>What the tables say of ASCII: text is its own normal form, the letters and digits are the Latin
  runes of it and are lowered as expected, the hyphen is in neither set, and a Latin rune is never
  lowered to something in ASCII that is not a small letter or a digit.\<close>

definition unicode_documented :: "unicode \<Rightarrow> bool" where
  "unicode_documented U \<longleftrightarrow>
     (\<forall>s. (\<forall>c\<in>set s. (of_char c :: nat) < 128) \<longrightarrow> nfkd U s = map of_char s) \<and>
     (\<forall>c. slug_char c \<longrightarrow> is_lat U (of_char c) \<and> rune_lower U (of_char c) = of_char c) \<and>
     \<not> is_lat U 45 \<and> \<not> is_nop U 45 \<and>
     (\<forall>r. is_lat U r \<and> rune_lower U r < 128 \<longrightarrow> slug_char (char_of (rune_lower U r)))"

text \<open>A sequence with no separator at its start and no two in a row.\<close>

fun dash_ok :: "'a \<Rightarrow> bool \<Rightarrow> 'a list \<Rightarrow> bool" where
  "dash_ok d dash [] = True"
| "dash_ok d dash (x # xs) = (if x = d then \<not> dash \<and> dash_ok d True xs else dash_ok d False xs)"

text \<open>Whether the next separator would be refused after \<open>xs\<close>.\<close>

definition after_dash :: "'a \<Rightarrow> 'a list \<Rightarrow> bool" where
  "after_dash d xs \<longleftrightarrow> xs = [] \<or> last xs = d"

lemma dash_ok_append:
  "dash_ok d dash (xs @ ys) \<longleftrightarrow> dash_ok d dash xs \<and> dash_ok d (if xs = [] then dash else last xs = d) ys"
  by (induction xs arbitrary: dash) auto

lemma dash_ok_strip: "dash_ok d True xs \<Longrightarrow> dash_ok d True (strip_dash d xs)"
proof (cases xs rule: rev_cases)
  case (snoc ys y)
  then show "dash_ok d True xs \<Longrightarrow> dash_ok d True (strip_dash d xs)"
    by (simp add: strip_dash_def dash_ok_append)
qed (simp add: strip_dash_def)

lemma strip_dash_last: "dash_ok d True xs \<Longrightarrow> strip_dash d xs = [] \<or> last (strip_dash d xs) \<noteq> d"
proof (cases xs rule: rev_cases)
  case (snoc ys y)
  then show "dash_ok d True xs \<Longrightarrow> strip_dash d xs = [] \<or> last (strip_dash d xs) \<noteq> d"
    by (auto simp: strip_dash_def dash_ok_append split: if_splits)
qed (simp add: strip_dash_def)

lemma is_slug_ascii_loop_iff:
  "is_slug_ascii_loop dash s \<longleftrightarrow>
     (\<forall>c\<in>set s. c = CHR ''-'' \<or> slug_char c) \<and> dash_ok CHR ''-'' dash s \<and>
     (if s = [] then \<not> dash else last s \<noteq> CHR ''-'')"
  by (induction s arbitrary: dash) (auto simp: slug_char_def)

lemma IsSlugAscii_iff:
  "IsSlugAscii s \<longleftrightarrow>
     s \<noteq> [] \<and> (\<forall>c\<in>set s. c = CHR ''-'' \<or> slug_char c) \<and> dash_ok CHR ''-'' True s \<and> last s \<noteq> CHR ''-''"
  by (auto simp: IsSlugAscii_def is_slug_ascii_loop_iff)

subsection \<open>The shape of a slug\<close>

text \<open>The loop of \<^verbatim>\<open>Slug\<close> keeps this: no separator at the start or after another, and the flag says
  whether one may come.\<close>

lemma slug_step_inv:
  assumes "\<And>r. is_lat U r \<Longrightarrow> rune_lower U r \<noteq> 45"
  shows "dash_ok 45 True (fst s) \<and> (snd s \<longleftrightarrow> \<not> after_dash 45 (fst s)) \<Longrightarrow>
    dash_ok 45 True (fst (foldl (slug_step U) s rs)) \<and>
    (snd (foldl (slug_step U) s rs) \<longleftrightarrow> \<not> after_dash 45 (fst (foldl (slug_step U) s rs)))"
proof (induction rs arbitrary: s)
  case (Cons r rs)
  have "dash_ok 45 True (fst (slug_step U s r)) \<and>
    (snd (slug_step U s r) \<longleftrightarrow> \<not> after_dash 45 (fst (slug_step U s r)))"
    using Cons.prems assms [of r]
    by (auto simp: slug_step_def case_prod_unfold Let_def dash_ok_append after_dash_def)
  then show ?case using Cons.IH by simp
qed simp

lemma slug_runes_shape:
  assumes "\<And>r. is_lat U r \<Longrightarrow> rune_lower U r \<noteq> 45"
  shows "dash_ok 45 True (slug_runes U s)" and "slug_runes U s = [] \<or> last (slug_runes U s) \<noteq> 45"
proof -
  have "dash_ok 45 True (fst (foldl (slug_step U) ([], False) (nfkd U s)))"
    using slug_step_inv [OF assms, of "([], False)" "nfkd U s"] by (simp add: after_dash_def)
  then show "dash_ok 45 True (slug_runes U s)" "slug_runes U s = [] \<or> last (slug_runes U s) \<noteq> 45"
    unfolding slug_runes_def by (rule dash_ok_strip, rule strip_dash_last)
qed

subsection \<open>ASCII slugs\<close>

lemma unicode_documentedD:
  assumes "unicode_documented U"
  shows "\<forall>c\<in>set s. (of_char c :: nat) < 128 \<Longrightarrow> nfkd U s = map of_char s"
    and "slug_char c \<Longrightarrow> is_lat U (of_char c)" and "slug_char c \<Longrightarrow> rune_lower U (of_char c) = of_char c"
    and "\<not> is_lat U 45" and "\<not> is_nop U 45"
    and "is_lat U r \<Longrightarrow> rune_lower U r < 128 \<Longrightarrow> slug_char (char_of (rune_lower U r))"
  using assms by (auto simp: unicode_documented_def)

lemma slug_char_ascii: "slug_char c \<Longrightarrow> (of_char c :: nat) < 128"
  by (auto simp: slug_char_def less_eq_char_def)

lemma of_char_dash [simp]: "of_char CHR ''-'' = (45 :: nat)"
  by simp

lemma not_slug_char_dash [simp]: "\<not> slug_char CHR ''-''"
  by (simp add: slug_char_def less_eq_char_def)

lemma slug_ascii_fold:
  assumes "unicode_documented U"
  shows "\<forall>c\<in>set s. c = CHR ''-'' \<or> slug_char c \<Longrightarrow> dash_ok CHR ''-'' (\<not> dash) s \<Longrightarrow>
    \<exists>dash'. foldl (slug_ascii_step U) (buf, dash, True) (map of_char s) = (buf @ s, dash', True)"
proof (induction s arbitrary: buf dash)
  case (Cons c s)
  note doc = unicode_documentedD [OF assms]
  show ?case
  proof (cases "c = CHR ''-''")
    case True
    with Cons.prems have "dash" "dash_ok CHR ''-'' (\<not> False) s" by auto
    with Cons.IH [of False "buf @ ''-''"] Cons.prems True doc(4,5) show ?thesis
      by (simp add: slug_ascii_step_def Let_def)
  next
    case False
    with Cons.prems have c: "slug_char c" and "dash_ok CHR ''-'' (\<not> True) s" by auto
    moreover have "utf8_encode (of_char c) = [c]"
      using slug_char_ascii [OF c] by (simp add: utf8_encode_ascii)
    ultimately show ?thesis
      using Cons.IH [of True "buf @ [c]"] Cons.prems doc(2,3) [OF c] slug_char_ascii [OF c]
      by (simp add: slug_ascii_step_def Let_def)
  qed
qed simp

lemma SlugAscii_fixed:
  assumes U: "unicode_documented U" and s: "IsSlugAscii s"
  shows "SlugAscii U s = s"
proof -
  have chars: "\<forall>c\<in>set s. c = CHR ''-'' \<or> slug_char c" and ok: "dash_ok CHR ''-'' True s"
    and last: "last s \<noteq> CHR ''-''"
    using s by (simp_all add: IsSlugAscii_iff)
  have "\<forall>c\<in>set s. (of_char c :: nat) < 128" using chars slug_char_ascii by fastforce
  then have "nfkd U s = map of_char s" by (rule unicode_documentedD(1) [OF U])
  moreover obtain dash' where
    "foldl (slug_ascii_step U) ([], False, True) (map of_char s) = ([] @ s, dash', True)"
    using slug_ascii_fold [OF U chars, of False "[]"] ok by auto
  ultimately show ?thesis using last by (simp add: SlugAscii_def strip_dash_def)
qed

lemma hex_encode_slug: "\<forall>c\<in>set (hex_encode b). slug_char c"
proof (induction b)
  case (Cons c b)
  have "(of_char c :: nat) div 16 < 16" "(of_char c :: nat) mod 16 < 16"
    using nat_of_char_less_256 [of c] by presburger+
  with Cons show ?case
    by (auto simp: hex_encode_def Let_def slug_char_def less_eq_char_def)
qed (simp add: hex_encode_def)

lemma hex_encode_Nil [simp]: "hex_encode b = [] \<longleftrightarrow> b = []"
  by (cases b) (simp_all add: hex_encode_def Let_def)

lemma utf8_encode_not_Nil [simp]: "utf8_encode u \<noteq> []"
  by (simp add: utf8_encode_def Let_def)

lemma dash_ok_no_dash: "d \<notin> set xs \<Longrightarrow> dash_ok d dash xs"
  by (induction xs arbitrary: dash) auto

definition slug_ascii_ok :: "string \<times> bool \<times> bool \<Rightarrow> bool" where
  "slug_ascii_ok s \<longleftrightarrow>
     (case s of (buf, dash, latin) \<Rightarrow>
        (\<forall>c\<in>set buf. c = CHR ''-'' \<or> slug_char c) \<and> dash_ok CHR ''-'' True buf \<and>
        (dash \<longleftrightarrow> \<not> after_dash CHR ''-'' buf) \<and> (latin \<or> dash))"

lemma slug_ascii_ok_word:
  assumes "slug_ascii_ok (buf, dash, latin)" and "w \<noteq> []" and "\<forall>c\<in>set w. slug_char c"
  shows "slug_ascii_ok (buf @ w, True, latin')"
    and "dash \<Longrightarrow> slug_ascii_ok (buf @ ''-'' @ w, True, latin')"
proof -
  have w: "CHR ''-'' \<notin> set w" "last w \<noteq> CHR ''-''"
    using assms(2,3) not_slug_char_dash by (metis, metis last_in_set)
  show "slug_ascii_ok (buf @ w, True, latin')"
    using assms w by (auto simp: slug_ascii_ok_def dash_ok_append dash_ok_no_dash after_dash_def)
  show "dash \<Longrightarrow> slug_ascii_ok (buf @ ''-'' @ w, True, latin')"
    using assms w by (auto simp: slug_ascii_ok_def dash_ok_append dash_ok_no_dash after_dash_def)
qed

lemma slug_ascii_ok_step:
  assumes U: "unicode_documented U" and s: "slug_ascii_ok s"
  shows "slug_ascii_ok (slug_ascii_step U s r)"
proof -
  obtain buf dash latin where s': "s = (buf, dash, latin)" by (cases s) auto
  show ?thesis
  proof (cases "is_lat U r")
    case True
    show ?thesis
    proof (cases "rune_lower U r \<ge> 128")
      case big: True
      with True s slug_ascii_ok_word [of buf dash latin "hex_encode (utf8_encode (rune_lower U r))" False]
      show ?thesis by (auto simp: s' slug_ascii_step_def Let_def hex_encode_slug)
    next
      case False
      then have "\<forall>c\<in>set (utf8_encode (rune_lower U r)). slug_char c"
        using unicode_documentedD(6) [OF U True] by (simp add: utf8_encode_ascii)
      with False True s slug_ascii_ok_word [of buf dash latin "utf8_encode (rune_lower U r)" True]
      show ?thesis by (auto simp: s' slug_ascii_step_def Let_def slug_ascii_ok_def)
    qed
  next
    case False
    with s show ?thesis
      by (auto simp: s' slug_ascii_step_def Let_def slug_ascii_ok_def after_dash_def dash_ok_append)
  qed
qed

lemma slug_ascii_ok_fold:
  "unicode_documented U \<Longrightarrow> slug_ascii_ok s \<Longrightarrow> slug_ascii_ok (foldl (slug_ascii_step U) s rs)"
  by (induction rs arbitrary: s) (simp_all add: slug_ascii_ok_step)

lemma SlugAscii_shape:
  assumes "unicode_documented U"
  shows "SlugAscii U s = '''' \<or> IsSlugAscii (SlugAscii U s)"
proof -
  obtain buf dash latin where b: "foldl (slug_ascii_step U) ('''', False, True) (nfkd U s) = (buf, dash, latin)"
    by (metis prod_cases3)
  have "slug_ascii_ok ('''', False, True)" by (simp add: slug_ascii_ok_def after_dash_def)
  then have ok: "slug_ascii_ok (buf, dash, latin)"
    using slug_ascii_ok_fold [OF assms, of "('''', False, True)" "nfkd U s"] b by simp
  then have "dash_ok CHR ''-'' True buf" and "\<forall>c\<in>set buf. c = CHR ''-'' \<or> slug_char c"
    by (simp_all add: slug_ascii_ok_def)
  moreover have "set (strip_dash CHR ''-'' buf) \<subseteq> set buf"
    by (auto simp: strip_dash_def dest: in_set_butlastD)
  ultimately show ?thesis
    using dash_ok_strip [of "CHR ''-''" buf] strip_dash_last [of "CHR ''-''" buf]
    by (auto simp: SlugAscii_def b IsSlugAscii_iff)
qed

subsection \<open>Random names and the certificate loader\<close>

definition letterRunes :: string where
  "letterRunes = ''abcdefghijklmnopqrstuvwxyzABCDEFGHIJKLMNOPQRSTUVWXYZ''"

text \<open>\<open>draw i\<close> is the \<open>i\<close>-th number \<^verbatim>\<open>rand.Intn(52)\<close> returns.\<close>

definition RandStringRunes :: "(nat \<Rightarrow> nat) \<Rightarrow> nat \<Rightarrow> string" where
  "RandStringRunes draw n = map (\<lambda>i. letterRunes ! draw i) [0..<n]"

text \<open>The key of a certificate is cleaned by \<^verbatim>\<open>strings.Trim\<close>, whose second argument is a set of bytes.\<close>

definition cert_file_name :: "string \<Rightarrow> string" where
  "cert_file_name key = Trim key ''raw-''"

text \<open>The file loader as a store of certificates: it reads files, and all the other methods of its interface
  panic. \<open>read_file\<close> yields the error and what could be read.\<close>

definition cert_GetKey :: "(string \<Rightarrow> go_error option \<times> string) \<Rightarrow> string \<Rightarrow> string \<times> go_error option" where
  "cert_GetKey read_file key = (case read_file (cert_file_name key) of (err, rawCert) \<Rightarrow> (rawCert, err))"

datatype cert_store_method =
    Cert_SetKey | Cert_GetKeys | Cert_DeleteKey | Cert_DeleteScanMatch
  | Cert_GetListRange | Cert_RemoveFromList | Cert_AppendToSet | Cert_Exists
  | Cert_AddToSet | Cert_AddToSortedSet | Cert_Connect | Cert_Decrement
  | Cert_DeleteAllKeys | Cert_DeleteKeys | Cert_DeleteRawKey | Cert_GetAndDeleteSet
  | Cert_GetExp | Cert_GetKeyPrefix | Cert_GetKeysAndValues | Cert_GetKeysAndValuesWithFilter
  | Cert_GetMultiKey | Cert_GetRawKey | Cert_GetRollingWindow | Cert_GetSet
  | Cert_GetSortedSetRange | Cert_IncrememntWithExpire | Cert_RemoveFromSet | Cert_RemoveSortedSetRange
  | Cert_SetExp | Cert_SetRawKey | Cert_SetRollingWindow | Cert_DeleteRawKeys

definition cert_store_call :: "cert_store_method \<Rightarrow> 'a outcome" where
  "cert_store_call c = Panics (Explicit_panic ''implement me'')"

lemma length_letterRunes [simp]: "length letterRunes = 52"
  by (simp add: letterRunes_def)

lemma RandStringRunes_letters:
  assumes "\<And>i. draw i < 52"
  shows "length (RandStringRunes draw n) = n" and "set (RandStringRunes draw n) \<subseteq> set letterRunes"
  using assms nth_mem [of _ letterRunes] by (auto simp: RandStringRunes_def)

text \<open>Trimming takes every letter of the set off both ends, not the prefix: a file's own first or last
  letters go too.\<close>

lemma cert_file_name_examples:
  "cert_file_name ''raw-certs/a.pem'' = ''certs/a.pem''"
  "cert_file_name ''raw-access.pem'' = ''ccess.pem''"
  by code_simp+

end
