(* ===== verification/Tap_Profile.thy ===== *)
theory Tap_Profile
  imports Go_Encoding
begin

section \<open>Profiles, actions and users (package tap)\<close>

text \<open>
  The data every component of the broker passes around: \<^verbatim>\<open>tap.Profile\<close> with its JSON encoding, the
  action and provider-type constants, and the user a provider has authenticated (\<^verbatim>\<open>goth.User\<close>, with
  the fields the broker reads). The theorem about this theory is that a profile survives the trip
  through its JSON text, which every store of the broker relies on.
\<close>

subsection \<open>Actions and provider types\<close>

type_synonym action = string
type_synonym provider_type = string

definition GenerateOrLoginDeveloperProfile :: action where
  "GenerateOrLoginDeveloperProfile = ''GenerateOrLoginDeveloperProfile''"

definition GenerateOrLoginUserProfile :: action where
  "GenerateOrLoginUserProfile = ''GenerateOrLoginUserProfile''"

definition GenerateOAuthTokenForClient :: action where
  "GenerateOAuthTokenForClient = ''GenerateOAuthTokenForClient''"

definition GenerateTemporaryAuthToken :: action where
  "GenerateTemporaryAuthToken = ''GenerateTemporaryAuthToken''"

definition GenerateOAuthTokenForPassword :: action where
  "GenerateOAuthTokenForPassword = ''GenerateOAuthTokenForClient''"

lemmas action_defs =
  GenerateOrLoginDeveloperProfile_def GenerateOrLoginUserProfile_def
  GenerateOAuthTokenForClient_def GenerateTemporaryAuthToken_def

definition PASSTHROUGH_PROVIDER :: provider_type where
  "PASSTHROUGH_PROVIDER = ''passthrough''"

definition REDIRECT_PROVIDER :: provider_type where
  "REDIRECT_PROVIDER = ''redirect''"

subsection \<open>The profile\<close>

record profile_constraint =
  Domain :: string
  Group :: string

record profile =
  ID :: string
  Name :: string
  OrgID :: string
  ActionType :: action
  MatchedPolicyID :: string
  Type :: provider_type
  ProviderName :: string
  CustomEmailField :: string
  CustomUserIDField :: string
  ProviderConfig :: json
  IdentityHandlerConfig :: "json gomap option"
  ProviderConstraints :: profile_constraint
  ReturnURL :: string
  DefaultUserGroupID :: string
  CustomUserGroupField :: string
  UserGroupMapping :: "string gomap option"
  UserGroupSeparator :: string
  SSOOnlyForRegisteredUsers :: bool

definition zero_constraint :: profile_constraint where
  "zero_constraint = \<lparr>Domain = '''', Group = ''''\<rparr>"

text \<open>The zero value \<^verbatim>\<open>tap.Profile{}\<close> every decoding starts from.\<close>

definition zero_profile :: profile where
  "zero_profile =
     \<lparr>ID = '''', Name = '''', OrgID = '''', ActionType = '''', MatchedPolicyID = '''', Type = '''',
      ProviderName = '''', CustomEmailField = '''', CustomUserIDField = '''', ProviderConfig = JNull,
      IdentityHandlerConfig = None, ProviderConstraints = zero_constraint, ReturnURL = '''',
      DefaultUserGroupID = '''', CustomUserGroupField = '''', UserGroupMapping = None,
      UserGroupSeparator = '''', SSOOnlyForRegisteredUsers = False\<rparr>"

definition GetPrefix :: "profile \<Rightarrow> string" where
  "GetPrefix p = OrgID p @ ''-'' @ ID p"

subsection \<open>The JSON encoding of a profile\<close>

definition constraint_json :: "profile_constraint \<Rightarrow> json" where
  "constraint_json c = JObj [(''Domain'', JStr (Domain c)), (''Group'', JStr (Group c))]"

definition profile_json :: "profile \<Rightarrow> json" where
  "profile_json p = JObj
     [(''ID'', JStr (ID p)),
      (''Name'', JStr (Name p)),
      (''OrgID'', JStr (OrgID p)),
      (''ActionType'', JStr (ActionType p)),
      (''MatchedPolicyID'', JStr (MatchedPolicyID p)),
      (''Type'', JStr (Type p)),
      (''ProviderName'', JStr (ProviderName p)),
      (''CustomEmailField'', JStr (CustomEmailField p)),
      (''CustomUserIDField'', JStr (CustomUserIDField p)),
      (''ProviderConfig'', ProviderConfig p),
      (''IdentityHandlerConfig'', any_map_json (IdentityHandlerConfig p)),
      (''ProviderConstraints'', constraint_json (ProviderConstraints p)),
      (''ReturnURL'', JStr (ReturnURL p)),
      (''DefaultUserGroupID'', JStr (DefaultUserGroupID p)),
      (''CustomUserGroupField'', JStr (CustomUserGroupField p)),
      (''UserGroupMapping'', string_map_json (UserGroupMapping p)),
      (''UserGroupSeparator'', JStr (UserGroupSeparator p)),
      (''SSOOnlyForRegisteredUsers'', JBool (SSOOnlyForRegisteredUsers p))]"

definition constraint_fields :: "(string \<times> profile_constraint setter) list" where
  "constraint_fields = [(''Domain'', set_string Domain_update), (''Group'', set_string Group_update)]"

text \<open>A nested struct is decoded in place.\<close>

definition set_constraints :: "profile setter" where
  "set_constraints j p =
     (let (ok, c) = unmarshal_struct constraint_fields j (ProviderConstraints p)
      in (ok, p\<lparr>ProviderConstraints := c\<rparr>))"

definition profile_fields :: "(string \<times> profile setter) list" where
  "profile_fields =
     [(''ID'', set_string ID_update),
      (''Name'', set_string Name_update),
      (''OrgID'', set_string OrgID_update),
      (''ActionType'', set_string ActionType_update),
      (''MatchedPolicyID'', set_string MatchedPolicyID_update),
      (''Type'', set_string Type_update),
      (''ProviderName'', set_string ProviderName_update),
      (''CustomEmailField'', set_string CustomEmailField_update),
      (''CustomUserIDField'', set_string CustomUserIDField_update),
      (''ProviderConfig'', set_any ProviderConfig_update),
      (''IdentityHandlerConfig'', set_any_map IdentityHandlerConfig_update),
      (''ProviderConstraints'', set_constraints),
      (''ReturnURL'', set_string ReturnURL_update),
      (''DefaultUserGroupID'', set_string DefaultUserGroupID_update),
      (''CustomUserGroupField'', set_string CustomUserGroupField_update),
      (''UserGroupMapping'', set_string_map UserGroupMapping_update),
      (''UserGroupSeparator'', set_string UserGroupSeparator_update),
      (''SSOOnlyForRegisteredUsers'', set_bool SSOOnlyForRegisteredUsers_update)]"

definition marshal_profile :: "profile \<Rightarrow> string" where
  "marshal_profile p = print_json (profile_json p)"

definition unmarshal_profile :: "string \<Rightarrow> go_error option \<times> profile" where
  "unmarshal_profile text = Unmarshal (unmarshal_struct profile_fields) text zero_profile"

text \<open>What a database wants of a profile: its table, its object identifier (which is always empty and cannot be
  set), and the binary encoding. \<^verbatim>\<open>UnmarshalBinary\<close> has no pointer as its receiver, so the decoder refuses it
  whatever the data is.\<close>

definition ProfilesCollectionName :: string where
  "ProfilesCollectionName = ''profilesCollection''"

definition TableName :: "profile \<Rightarrow> string" where
  "TableName p = ProfilesCollectionName"

definition SetObjectID :: "string \<Rightarrow> profile \<Rightarrow> profile" where
  "SetObjectID i p = p"

definition GetObjectID :: "profile \<Rightarrow> string" where
  "GetObjectID p = ''''"

definition profile_UnmarshalBinary :: "string \<Rightarrow> profile \<Rightarrow> go_error option \<times> profile" where
  "profile_UnmarshalBinary bytes p =
     (if json_decode bytes = None then (Some ''invalid JSON'', p)
      else (Some ''json: Unmarshal(non-pointer tap.Profile)'', p))"

lemma profile_UnmarshalBinary_fails: "fst (profile_UnmarshalBinary (marshal_profile p) q) \<noteq> None"
  by (simp add: profile_UnmarshalBinary_def)

text \<open>The profiles a decoding can yield, and so all the broker ever holds: the values of interface
  type are canonical.\<close>

definition wf_profile :: "profile \<Rightarrow> bool" where
  "wf_profile p \<longleftrightarrow>
     wf_any (ProviderConfig p) \<and>
     (case IdentityHandlerConfig p of None \<Rightarrow> True | Some m \<Rightarrow> wf_any (JObj m)) \<and>
     (case UserGroupMapping p of None \<Rightarrow> True | Some m \<Rightarrow> wf_map m)"

lemma find_field_exact: "map_of fs k = Some f \<Longrightarrow> find_field fs k = Some f"
  by (simp add: find_field_def)

lemma unmarshal_constraint:
  "unmarshal_struct constraint_fields (constraint_json c) d = (True, c)"
  by (simp add: unmarshal_struct_def constraint_json_def constraint_fields_def find_field_exact)

lemma set_constraints_json: "set_constraints (constraint_json c) p = (True, p\<lparr>ProviderConstraints := c\<rparr>)"
  by (simp add: set_constraints_def unmarshal_constraint)

lemma unmarshal_profile_json:
  assumes "wf_profile p"
  shows "unmarshal_struct profile_fields (profile_json p) zero_profile = (True, p)"
proof -
  have ihc: "set_any_map upd (any_map_json (IdentityHandlerConfig p)) s =
      (True, upd (\<lambda>old. case IdentityHandlerConfig p of None \<Rightarrow> None | Some m' \<Rightarrow>
         Some (fold (\<lambda>(k, v). map_put k v) m' (case old of None \<Rightarrow> [] | Some x \<Rightarrow> x))) s)" for upd s
    using assms by (intro set_any_map_json) (auto simp: wf_profile_def)
  have ihc_fold: "(case IdentityHandlerConfig p of None \<Rightarrow> None | Some m' \<Rightarrow>
      Some (fold (\<lambda>(k, v). map_put k v) m' (case None of None \<Rightarrow> [] | Some x \<Rightarrow> x))) = IdentityHandlerConfig p"
    using assms by (auto simp: wf_profile_def fold_map_put [of "[]", simplified] split: option.splits)
  have ugm_fold: "(case UserGroupMapping p of None \<Rightarrow> None | Some m' \<Rightarrow>
      Some (fold (\<lambda>(k, v). map_put k v) m' (case None of None \<Rightarrow> [] | Some x \<Rightarrow> x))) = UserGroupMapping p"
    using assms by (auto simp: wf_profile_def fold_map_put [of "[]", simplified] split: option.splits)
  have pc: "wf_any (ProviderConfig p)" using assms by (simp add: wf_profile_def)
  show ?thesis
    by (simp add: unmarshal_struct_def profile_json_def find_field_exact profile_fields_def
        set_string_map_json ihc ihc_fold ugm_fold pc zero_profile_def set_constraints_json)
qed

lemma wf_profile_json: "wf_profile p \<Longrightarrow> wf_json (profile_json p)"
  by (auto simp: wf_profile_def profile_json_def constraint_json_def any_map_json_def
      string_map_json_def wf_any_wf_json split: option.splits)

lemma unmarshal_marshal_profile: "wf_profile p \<Longrightarrow> unmarshal_profile (marshal_profile p) = (None, p)"
  by (simp add: unmarshal_profile_def marshal_profile_def Unmarshal_def json_decode_print
      wf_profile_json unmarshal_profile_json)

definition profile_of_text :: "string \<Rightarrow> profile option" where
  "profile_of_text t = (case unmarshal_profile t of (None, p) \<Rightarrow> Some p | (Some e, _) \<Rightarrow> None)"

interpretation profile_text: codec marshal_profile profile_of_text wf_profile
  by unfold_locales (simp add: profile_of_text_def unmarshal_marshal_profile)

subsection \<open>The user a provider authenticated\<close>

text \<open>A value of \<^verbatim>\<open>goth.User.RawData\<close>: what JSON decoding yields, or the \<^verbatim>\<open>[]string\<close> the LDAP provider
  stores.\<close>

datatype raw_value = Raw json | RawStrings "string list"

record goth_user =
  UserID :: string
  Provider :: string
  Email :: string
  FirstName :: string
  LastName :: string
  AccessToken :: string
  AccessTokenSecret :: string
  RawData :: "string \<rightharpoonup> raw_value"

definition zero_user :: goth_user where
  "zero_user =
     \<lparr>UserID = '''', Provider = '''', Email = '''', FirstName = '''', LastName = '''',
      AccessToken = '''', AccessTokenSecret = '''', RawData = Map.empty\<rparr>"

text \<open>The identity a user has on the target system.\<close>

definition GenerateSSOKey :: "goth_user \<Rightarrow> string" where
  "GenerateSSOKey user = UserID user @ ''@'' @ Provider user @ ''.com''"

end
