(* ===== verification/Tyk_Api.thy ===== *)
theory Tyk_Api
  imports Go_Http Tap_Profile "HOL-Library.Word"
begin

section \<open>The client of the Tyk APIs (package tyk)\<close>

text \<open>
  \<^verbatim>\<open>TykAPI\<close>: how the broker calls the dashboard, the dashboard's admin API and the gateway, and the
  calls it makes. The state of this component is the history of the calls sent so far; what the other
  side answers is a function of that history and the request (any behaviour of a service in a run of
  the broker is such a function), an argument of the definitions. So a lemma about these definitions
  holds whatever the services answer, and can say which requests are sent and in what order.

  Also arguments: \<^verbatim>\<open>http.NewRequest\<close>'s verdict on a URL, the clock, the generator of UUIDs, and
  how an object identifier, a type of another module, and a time stamp are written and read as JSON.
\<close>

subsection \<open>Endpoints and calls\<close>

type_synonym endpoint = string

definition PORTAL_DEVS :: endpoint where "PORTAL_DEVS = ''/api/portal/developers/email''"
definition PORTAL_DEVS_SSO :: endpoint where "PORTAL_DEVS_SSO = ''/api/portal/developers/ssokey''"
definition PORTAL_DEV :: endpoint where "PORTAL_DEV = ''/api/portal/developers''"
definition SSO_ADMIN :: endpoint where "SSO_ADMIN = ''/admin/sso''"
definition SSO_REGULAR :: endpoint where "SSO_REGULAR = ''/api/sso''"
definition OAUTH_AUTHORIZE :: endpoint where "OAUTH_AUTHORIZE = ''tyk/oauth/authorize-client/''"
definition TOKENS :: endpoint where "TOKENS = ''/api/apis/{APIID}/keys''"
definition STANDARD_TOKENS :: endpoint where "STANDARD_TOKENS = ''/api/keys''"

definition GATEWAY :: string where "GATEWAY = ''gateway''"
definition DASH :: string where "DASH = ''dash''"
definition DASH_SUPER :: string where "DASH_SUPER = ''dash_super''"

lemmas api_name_defs = GATEWAY_def DASH_def DASH_SUPER_def

record endpoint_config =
  Endpoint :: string
  Port :: string
  AdminSecret :: string

text \<open>A request on the wire, and the calls in a history: such a request, or a call of one of the two
  dispatchers an embedding program can supply.\<close>

record outgoing =
  out_method :: string
  out_url :: string
  out_headers :: "(string \<times> string) list"
  out_body :: "string option"

datatype call =
    Http outgoing
  | Custom_dashboard endpoint string string "string option"
  | Custom_super endpoint string "string option"

text \<open>What \<^verbatim>\<open>httpClient.Do\<close> yields: a transport error, or a status and the body as reading it ends.\<close>

datatype reply = Transport_error go_error | Reply int "string result"

type_synonym dispatched = "string \<times> int \<times> go_error option"

record tyk_api =
  GatewayConfig :: endpoint_config
  DashboardConfig :: endpoint_config
  CustomDispatcher :: "(call list \<Rightarrow> endpoint \<Rightarrow> string \<Rightarrow> string \<Rightarrow> string option \<Rightarrow> dispatched) option"
  CustomSuperDispatcher :: "(call list \<Rightarrow> endpoint \<Rightarrow> string \<Rightarrow> string option \<Rightarrow> dispatched) option"

subsection \<open>The environment\<close>

text \<open>Times are nanoseconds since the epoch, with the zone they are shown in as seconds east of UTC.\<close>

type_synonym go_time = "int \<times> int"

record registration =
  ClientURI :: string
  DCR_AccessToken :: string
  DCR_Provider :: string

record oauth_client =
  ClientID :: string
  ClientName :: string
  ClientSecret :: string
  ClientRedirectURI :: string
  AppDescription :: string
  Client_UseCase :: string
  Client_DateCreated :: go_time
  DCRRegistration :: registration

record portal_developer =
  Dev_Id :: string
  Dev_Email :: string
  Dev_Password :: string
  Dev_DateCreated :: go_time
  Dev_InActive :: bool
  Dev_OrgId :: string
  Dev_Keys :: "string list option gomap option"
  Dev_Subscriptions :: "string gomap option"
  Dev_Fields :: "string gomap option"
  Dev_Nonce :: string
  Dev_SSOKey :: string
  Dev_OauthClients :: "oauth_client list option gomap"
  Dev_PasswordMaxDays :: int
  Dev_PasswordUpdated :: go_time
  Dev_PWHistory :: "string list option"
  Dev_LastLoginDate :: go_time

text \<open>
  \<open>zero_time\<close> is the zero \<^verbatim>\<open>time.Time\<close>. \<open>oid_unmarshal\<close> and \<open>time_unmarshal\<close> are the
  \<^verbatim>\<open>UnmarshalJSON\<close> methods of object identifiers and times: whether the value was accepted, and the
  field afterwards.
\<close>

record environ =
  net_reply :: "call list \<Rightarrow> outgoing \<Rightarrow> reply"
  newRequest :: "string \<Rightarrow> string \<Rightarrow> go_error option"
  clock :: "call list \<Rightarrow> int"
  new_uuid :: "call list \<Rightarrow> string option"
  oid_json :: "string \<Rightarrow> json"
  oid_unmarshal :: "json \<Rightarrow> string \<Rightarrow> bool \<times> string"
  time_json :: "go_time \<Rightarrow> json"
  time_unmarshal :: "json \<Rightarrow> go_time \<Rightarrow> bool \<times> go_time"
  local_zone :: int
  zero_time :: go_time

text \<open>A map or a slice that is \<^verbatim>\<open>nil\<close> is \<^const>\<open>None\<close>; it is printed as \<^verbatim>\<open>null\<close>. The map of OAuth clients
  is left out when it is empty, so for it the two cases are one.\<close>

definition zero_developer :: "environ \<Rightarrow> portal_developer" where
  "zero_developer E =
     \<lparr>Dev_Id = '''', Dev_Email = '''', Dev_Password = '''', Dev_DateCreated = zero_time E,
      Dev_InActive = False, Dev_OrgId = '''', Dev_Keys = None, Dev_Subscriptions = None,
      Dev_Fields = None, Dev_Nonce = '''', Dev_SSOKey = '''', Dev_OauthClients = [],
      Dev_PasswordMaxDays = 0, Dev_PasswordUpdated = zero_time E, Dev_PWHistory = None,
      Dev_LastLoginDate = zero_time E\<rparr>"

definition zero_registration :: registration where
  "zero_registration = \<lparr>ClientURI = '''', DCR_AccessToken = '''', DCR_Provider = ''''\<rparr>"

definition zero_oauth_client :: "environ \<Rightarrow> oauth_client" where
  "zero_oauth_client E =
     \<lparr>ClientID = '''', ClientName = '''', ClientSecret = '''', ClientRedirectURI = '''', AppDescription = '''',
      Client_UseCase = '''', Client_DateCreated = zero_time E, DCRRegistration = zero_registration\<rparr>"

definition registration_json :: "registration \<Rightarrow> json" where
  "registration_json r = JObj
     [(''client_uri'', JStr (ClientURI r)), (''access_token'', JStr (DCR_AccessToken r)),
      (''provider'', JStr (DCR_Provider r))]"

definition oauth_client_json :: "environ \<Rightarrow> oauth_client \<Rightarrow> json" where
  "oauth_client_json E c = JObj
     [(''client_id'', JStr (ClientID c)), (''client_name'', JStr (ClientName c)),
      (''secret'', JStr (ClientSecret c)), (''redirect_uri'', JStr (ClientRedirectURI c)),
      (''app_description'', JStr (AppDescription c)), (''use_case'', JStr (Client_UseCase c)),
      (''date_created'', time_json E (Client_DateCreated c)),
      (''dcr_registration'', registration_json (DCRRegistration c))]"

definition slice_json :: "('a \<Rightarrow> json) \<Rightarrow> 'a list option \<Rightarrow> json" where
  "slice_json f xs = (case xs of None \<Rightarrow> JNull | Some ys \<Rightarrow> JArr (map f ys))"

definition entries_json :: "('a \<Rightarrow> json) \<Rightarrow> 'a gomap \<Rightarrow> json" where
  "entries_json f m = JObj (map (\<lambda>(k, v). (k, f v)) m)"

text \<open>The encoding of a developer. The password has no member in it (its tag is \<^verbatim>\<open>json:"-"\<close>).\<close>

definition developer_json :: "environ \<Rightarrow> portal_developer \<Rightarrow> json" where
  "developer_json E dev = JObj
     ([(''id'', oid_json E (Dev_Id dev)),
       (''email'', JStr (Dev_Email dev)),
       (''date_created'', time_json E (Dev_DateCreated dev)),
       (''inactive'', JBool (Dev_InActive dev)),
       (''org_id'', JStr (Dev_OrgId dev)),
       (''keys'', (case Dev_Keys dev of None \<Rightarrow> JNull | Some m \<Rightarrow> entries_json (slice_json JStr) m)),
       (''subscriptions'', string_map_json (Dev_Subscriptions dev)),
       (''fields'', string_map_json (Dev_Fields dev)),
       (''nonce'', JStr (Dev_Nonce dev)),
       (''sso_key'', JStr (Dev_SSOKey dev))] @
      (if Dev_OauthClients dev = [] then []
       else [(''oauth_clients'', entries_json (slice_json (oauth_client_json E)) (Dev_OauthClients dev))]) @
      [(''password_max_days'', JInt (Dev_PasswordMaxDays dev)),
       (''password_updated'', time_json E (Dev_PasswordUpdated dev)),
       (''PWHistory'', slice_json JStr (Dev_PWHistory dev)),
       (''last_login_date'', time_json E (Dev_LastLoginDate dev))])"

subsection \<open>Decoding a developer\<close>

text \<open>
  An \<^verbatim>\<open>UnmarshalJSON\<close> method that fails ends the decoding of the whole document, where a member of the
  wrong type is only skipped. The error itself is dropped by the caller, so a setter here says whether
  the decoding goes on, and what the struct is then.
\<close>

fun unmarshal_until :: "(string \<times> 's setter) list \<Rightarrow> (string \<times> json) list \<Rightarrow> 's \<Rightarrow> bool \<times> 's" where
  "unmarshal_until fs [] s = (True, s)"
| "unmarshal_until fs ((k, j) # m) s =
     (case find_field fs k of
        None \<Rightarrow> unmarshal_until fs m s
      | Some f \<Rightarrow> (case f j s of (True, s1) \<Rightarrow> unmarshal_until fs m s1 | (False, s1) \<Rightarrow> (False, s1)))"

definition struct_until :: "(string \<times> 's setter) list \<Rightarrow> 's setter" where
  "struct_until fs j s = (case j of JObj m \<Rightarrow> unmarshal_until fs m s | _ \<Rightarrow> (True, s))"

definition go_on :: "'s setter \<Rightarrow> 's setter" where
  "go_on f j s = (True, snd (f j s))"

definition set_by :: "(json \<Rightarrow> 'v \<Rightarrow> bool \<times> 'v) \<Rightarrow> ('s \<Rightarrow> 'v) \<Rightarrow> (('v \<Rightarrow> 'v) \<Rightarrow> 's \<Rightarrow> 's) \<Rightarrow> 's setter" where
  "set_by f get upd j s = (let (ok, v) = f j (get s) in (ok, upd (\<lambda>_. v) s))"

text \<open>A slice is decoded over the elements it has; an element of the wrong type, and \<^verbatim>\<open>null\<close>, leave the
  element alone. The elements of a map are decoded over the zero value.\<close>

fun string_items :: "json list \<Rightarrow> string list \<Rightarrow> string list" where
  "string_items [] old = []"
| "string_items (j # js) old =
     (case j of JStr t \<Rightarrow> t | _ \<Rightarrow> (case old of [] \<Rightarrow> '''' | t # _ \<Rightarrow> t)) # string_items js (tl old)"

definition string_slice :: "json \<Rightarrow> string list option \<Rightarrow> string list option" where
  "string_slice j old =
     (case j of
        JArr js \<Rightarrow> Some (string_items js (case old of None \<Rightarrow> [] | Some xs \<Rightarrow> xs))
      | JNull \<Rightarrow> None
      | _ \<Rightarrow> old)"

fun slice_entries :: "(string \<times> json) list \<Rightarrow> string list option gomap \<Rightarrow> string list option gomap" where
  "slice_entries [] m = m"
| "slice_entries ((k, j) # es) m = slice_entries es (map_put k (string_slice j None) m)"

definition slice_map :: "json \<Rightarrow> string list option gomap option \<Rightarrow> string list option gomap option" where
  "slice_map j old =
     (case j of
        JObj es \<Rightarrow> Some (slice_entries es (case old of None \<Rightarrow> [] | Some m \<Rightarrow> m))
      | JNull \<Rightarrow> None
      | _ \<Rightarrow> old)"

definition registration_fields :: "(string \<times> registration setter) list" where
  "registration_fields =
     [(''client_uri'', set_string ClientURI_update), (''access_token'', set_string DCR_AccessToken_update),
      (''provider'', set_string DCR_Provider_update)]"

definition oauth_client_fields :: "environ \<Rightarrow> (string \<times> oauth_client setter) list" where
  "oauth_client_fields E =
     [(''client_id'', go_on (set_string ClientID_update)),
      (''client_name'', go_on (set_string ClientName_update)),
      (''secret'', go_on (set_string ClientSecret_update)),
      (''redirect_uri'', go_on (set_string ClientRedirectURI_update)),
      (''app_description'', go_on (set_string AppDescription_update)),
      (''use_case'', go_on (set_string Client_UseCase_update)),
      (''date_created'', set_by (time_unmarshal E) Client_DateCreated Client_DateCreated_update),
      (''dcr_registration'', \<lambda>j c. (True, DCRRegistration_update
         (\<lambda>r. snd (unmarshal_struct registration_fields j r)) c))]"

fun client_items :: "environ \<Rightarrow> json list \<Rightarrow> oauth_client list option" where
  "client_items E [] = Some []"
| "client_items E (j # js) =
     (case struct_until (oauth_client_fields E) j (zero_oauth_client E) of
        (False, _) \<Rightarrow> None
      | (True, c) \<Rightarrow> map_option (\<lambda>cs. c # cs) (client_items E js))"

fun client_entries ::
    "environ \<Rightarrow> (string \<times> json) list \<Rightarrow> oauth_client list option gomap \<Rightarrow>
      bool \<times> oauth_client list option gomap" where
  "client_entries E [] m = (True, m)"
| "client_entries E ((k, JArr js) # es) m =
     (case client_items E js of
        None \<Rightarrow> (False, m)
      | Some cs \<Rightarrow> client_entries E es (map_put k (Some cs) m))"
| "client_entries E ((k, _) # es) m = client_entries E es (map_put k None m)"

definition client_map ::
    "environ \<Rightarrow> json \<Rightarrow> oauth_client list option gomap \<Rightarrow> bool \<times> oauth_client list option gomap" where
  "client_map E j old =
     (case j of JObj es \<Rightarrow> client_entries E es old | JNull \<Rightarrow> (True, []) | _ \<Rightarrow> (True, old))"

definition developer_fields :: "environ \<Rightarrow> (string \<times> portal_developer setter) list" where
  "developer_fields E =
     [(''id'', set_by (oid_unmarshal E) Dev_Id Dev_Id_update),
      (''email'', go_on (set_string Dev_Email_update)),
      (''date_created'', set_by (time_unmarshal E) Dev_DateCreated Dev_DateCreated_update),
      (''inactive'', go_on (set_bool Dev_InActive_update)),
      (''org_id'', go_on (set_string Dev_OrgId_update)),
      (''keys'', \<lambda>j s. (True, Dev_Keys_update (slice_map j) s)),
      (''subscriptions'', go_on (set_string_map Dev_Subscriptions_update)),
      (''fields'', go_on (set_string_map Dev_Fields_update)),
      (''nonce'', go_on (set_string Dev_Nonce_update)),
      (''sso_key'', go_on (set_string Dev_SSOKey_update)),
      (''oauth_clients'', set_by (client_map E) Dev_OauthClients Dev_OauthClients_update),
      (''password_max_days'', go_on (set_int Dev_PasswordMaxDays_update)),
      (''password_updated'', set_by (time_unmarshal E) Dev_PasswordUpdated Dev_PasswordUpdated_update),
      (''PWHistory'', \<lambda>j s. (True, Dev_PWHistory_update (string_slice j) s)),
      (''last_login_date'', set_by (time_unmarshal E) Dev_LastLoginDate Dev_LastLoginDate_update)]"

definition decode_developer :: "environ \<Rightarrow> string \<Rightarrow> portal_developer \<Rightarrow> portal_developer" where
  "decode_developer E text dev =
     (case json_decode text of None \<Rightarrow> dev | Some j \<Rightarrow> snd (struct_until (developer_fields E) j dev))"

subsection \<open>Dispatching a request\<close>

type_synonym 'a api = "(call list, 'a) act"

text \<open>Sending a request, and reading the reply the way the three dispatchers do (\<open>msg\<close> is their error
  message for a status above 201).\<close>

definition send :: "environ \<Rightarrow> outgoing \<Rightarrow> reply api" where
  "send E out h = (Returns (net_reply E h out), h @ [Http out])"

fun read_reply :: "string \<Rightarrow> reply \<Rightarrow> dispatched" where
  "read_reply msg (Transport_error e) = ('''', 500, Some e)"
| "read_reply msg (Reply code (Inl e)) = ('''', code, Some e)"
| "read_reply msg (Reply code (Inr retBody)) =
     (if code > 201 then (retBody, code, Some msg) else (retBody, code, None))"

definition prepared :: "endpoint_config \<Rightarrow> endpoint \<Rightarrow> string" where
  "prepared c target = Endpoint c @ '':'' @ Port c @ target"

definition DispatchDashboard ::
    "environ \<Rightarrow> tyk_api \<Rightarrow> endpoint \<Rightarrow> string \<Rightarrow> string \<Rightarrow> string option \<Rightarrow> dispatched api" where
  "DispatchDashboard E t target verb usercode body h =
     (case CustomDispatcher t of
        Some f \<Rightarrow> (Returns (f h target verb usercode body), h @ [Custom_dashboard target verb usercode body])
      | None \<Rightarrow>
          (let url = prepared (DashboardConfig t) target in
           case newRequest E verb url of
             Some err \<Rightarrow> (Returns ('''', 500, Some err), h)
           | None \<Rightarrow>
               bind_act
                 (send E \<lparr>out_method = verb, out_url = url,
                    out_headers = [(''authorization'', usercode)], out_body = body\<rparr>)
                 (\<lambda>r. return_act (read_reply ''Response code from dashboard was not 200!'' r)) h))"

definition DispatchDashboardSuper ::
    "environ \<Rightarrow> tyk_api \<Rightarrow> endpoint \<Rightarrow> string \<Rightarrow> string option \<Rightarrow> dispatched api" where
  "DispatchDashboardSuper E t target verb body h =
     (case CustomSuperDispatcher t of
        Some f \<Rightarrow> (Returns (f h target verb body), h @ [Custom_super target verb body])
      | None \<Rightarrow>
          (let url = prepared (DashboardConfig t) target in
           case newRequest E verb url of
             Some err \<Rightarrow> (Returns ('''', 500, Some err), h)
           | None \<Rightarrow>
               bind_act
                 (send E \<lparr>out_method = verb, out_url = url,
                    out_headers = [(''admin-auth'', AdminSecret (DashboardConfig t))], out_body = body\<rparr>)
                 (\<lambda>r. return_act (read_reply ''Response code admin dashboard was not 200!'' r)) h))"

text \<open>The gateway's dispatcher goes on after \<^verbatim>\<open>http.NewRequest\<close> failed, with a \<^verbatim>\<open>nil\<close> request.\<close>

definition DispatchGateway ::
    "environ \<Rightarrow> tyk_api \<Rightarrow> endpoint \<Rightarrow> string \<Rightarrow> string option \<Rightarrow> string \<Rightarrow> dispatched api" where
  "DispatchGateway E t target verb body ctype h =
     (let url = prepared (GatewayConfig t) target;
          ctype' = (if ctype = '''' then ''application/json'' else ctype) in
      case newRequest E verb url of
        Some err \<Rightarrow> (Panics Nil_dereference, h)
      | None \<Rightarrow>
          bind_act
            (send E \<lparr>out_method = verb, out_url = url,
               out_headers = [(''x-tyk-authorization'', AdminSecret (GatewayConfig t)), (''content-type'', ctype')],
               out_body = body\<rparr>)
            (\<lambda>r. return_act (read_reply ''Response code from the gateway was not 200!'' r)) h)"

text \<open>
  \<open>dec\<close> decodes a reply over the value the caller passed, \<open>zero\<close>; the error of the decoding is
  dropped. The result: the error, the status, whether the caller is authorised, and the value.
\<close>

definition DispatchAndDecode ::
    "environ \<Rightarrow> tyk_api \<Rightarrow> endpoint \<Rightarrow> string \<Rightarrow> string \<Rightarrow> (string \<Rightarrow> 'a) \<Rightarrow> 'a \<Rightarrow> string \<Rightarrow> string option \<Rightarrow>
      string \<Rightarrow> (go_error option \<times> int \<times> bool \<times> 'a) api" where
  "DispatchAndDecode E t target verb APIName dec zero creds body ctype =
     (let finish = (\<lambda>(retBytes, retCode, dispatchErr).
            return_act
              (case dispatchErr of
                 Some e \<Rightarrow> (Some e, retCode, retCode \<noteq> 401, zero)
               | None \<Rightarrow> (None, retCode, True, dec retBytes)))
      in
      if APIName = GATEWAY then bind_act (DispatchGateway E t target verb body ctype) finish
      else if APIName = DASH then bind_act (DispatchDashboard E t target verb creds body) finish
      else if APIName = DASH_SUPER then bind_act (DispatchDashboardSuper E t target verb body) finish
      else return_act (Some ''APIName must be one of GATEWAY, DASH or DASH_SUPER'', 0, False, zero))"

text \<open>Decoding into an \<^verbatim>\<open>interface{}\<close> that is \<^verbatim>\<open>nil\<close>.\<close>

definition decode_any :: "string \<Rightarrow> json" where
  "decode_any text = (case json_decode text of None \<Rightarrow> JNull | Some j \<Rightarrow> go_any j)"

subsection \<open>Nonces\<close>

text \<open>The access request the SSO endpoints take. The slice of group identifiers is never \<^verbatim>\<open>nil\<close>.\<close>

record sso_access_data =
  ForSection :: string
  SSO_OrgID :: string
  EmailAddress :: string
  DisplayName :: string
  GroupID :: string
  GroupsIDs :: "string list"
  SSO_OnlyForRegisteredUsers :: bool

definition sso_access_json :: "sso_access_data \<Rightarrow> json" where
  "sso_access_json d = JObj
     [(''ForSection'', JStr (ForSection d)),
      (''OrgID'', JStr (SSO_OrgID d)),
      (''EmailAddress'', JStr (EmailAddress d)),
      (''DisplayName'', JStr (DisplayName d)),
      (''GroupID'', JStr (GroupID d)),
      (''GroupsIDs'', JArr (map JStr (GroupsIDs d))),
      (''SSOOnlyForRegisteredUsers'', JBool (SSO_OnlyForRegisteredUsers d))]"

text \<open>The result of the two calls: the value, the endpoint and the error. The admin call prints the
  text of its error also when there is none, which is a panic.\<close>

definition CreateAdminSSONonce ::
    "environ \<Rightarrow> tyk_api \<Rightarrow> json \<Rightarrow> (json \<times> endpoint \<times> go_error option) api" where
  "CreateAdminSSONonce E t data =
     bind_act
       (DispatchAndDecode E t SSO_ADMIN ''POST'' DASH_SUPER decode_any JNull '''' (Some (print_json data)) '''')
       (\<lambda>(dErr, retCode, _, returnVal).
          if dErr = None \<and> retCode = 200 then return_act (returnVal, SSO_ADMIN, dErr)
          else if dErr = None then lift_outcome (Panics Nil_dereference)
          else return_act (returnVal, SSO_ADMIN, dErr))"

definition CreateSSONonce ::
    "environ \<Rightarrow> tyk_api \<Rightarrow> string \<Rightarrow> json \<Rightarrow> (json \<times> endpoint \<times> go_error option) api" where
  "CreateSSONonce E t userAPICred data =
     bind_act
       (DispatchAndDecode E t SSO_REGULAR ''POST'' DASH decode_any JNull userAPICred
          (Some (print_json data)) '''')
       (\<lambda>(dErr, retCode, _, returnVal).
          if retCode \<noteq> 200 then CreateAdminSSONonce E t data
          else return_act (returnVal, SSO_REGULAR, dErr))"

subsection \<open>Developers\<close>

definition GetDeveloper ::
    "environ \<Rightarrow> tyk_api \<Rightarrow> string \<Rightarrow> string \<Rightarrow> (portal_developer \<times> go_error option) api" where
  "GetDeveloper E t UserCred DeveloperEmail =
     bind_act
       (DispatchAndDecode E t (Join [PORTAL_DEVS, QueryEscape DeveloperEmail] ''/'') ''GET'' DASH
          (\<lambda>b. decode_developer E b (zero_developer E)) (zero_developer E) UserCred None '''')
       (\<lambda>(dErr, _, _, retUser). return_act (retUser, dErr))"

definition GetDeveloperBySSOKey ::
    "environ \<Rightarrow> tyk_api \<Rightarrow> string \<Rightarrow> string \<Rightarrow> (portal_developer \<times> go_error option \<times> bool) api" where
  "GetDeveloperBySSOKey E t UserCred SsoKey =
     bind_act
       (DispatchAndDecode E t (Join [PORTAL_DEVS_SSO, QueryEscape SsoKey] ''/'') ''GET'' DASH
          (\<lambda>b. decode_developer E b (zero_developer E)) (zero_developer E) UserCred None '''')
       (\<lambda>(err, _, isAuthorised, retUser). return_act (retUser, err, isAuthorised))"

definition UpdateDeveloper :: "environ \<Rightarrow> tyk_api \<Rightarrow> string \<Rightarrow> portal_developer \<Rightarrow> go_error option api" where
  "UpdateDeveloper E t UserCred dev =
     bind_act
       (DispatchAndDecode E t (Join [PORTAL_DEV, Dev_Id dev] ''/'') ''PUT'' DASH
          decode_any (JObj []) UserCred (Some (print_json (developer_json E dev))) '''')
       (\<lambda>(dErr, _, _, _). return_act dErr)"

definition CreateDeveloper :: "environ \<Rightarrow> tyk_api \<Rightarrow> string \<Rightarrow> portal_developer \<Rightarrow> go_error option api" where
  "CreateDeveloper E t UserCred dev =
     bind_act
       (DispatchAndDecode E t (Join [PORTAL_DEV] ''/'') ''POST'' DASH
          decode_any (JObj []) UserCred (Some (print_json (developer_json E dev))) '''')
       (\<lambda>(dErr, _, _, _). return_act dErr)"

subsection \<open>Sessions and tokens\<close>

text \<open>The session a token is made from. The \<^verbatim>\<open>float64\<close> fields only ever hold 0 or 1 (and the list of trigger
  limits nothing), so they are integers here.\<close>

type_synonym HashType = string

definition HASH_PlainText :: HashType where "HASH_PlainText = ''''"
definition HASH_BCrypt :: HashType where "HASH_BCrypt = ''bcrypt''"

record access_spec =
  Access_URL :: string
  Access_Methods :: "string list option"

record access_definition =
  APIName :: string
  APIID :: string
  Versions :: "string list option"
  AllowedURLs :: "access_spec list option"

record session_state =
  LastCheck :: int
  Allowance :: int
  Rate :: int
  Per :: int
  Expires :: int
  QuotaMax :: int
  QuotaRenews :: int
  QuotaRemaining :: int
  QuotaRenewalRate :: int
  AccessRights :: "access_definition gomap"
  Session_OrgID :: string
  OauthClientID :: string
  OauthKeys :: "string gomap option"
  BasicAuth_Password :: string
  BasicAuth_Hash :: HashType
  JWT_Secret :: string
  HMACEnabled :: bool
  HmacSecret :: string
  IsInactive :: bool
  ApplyPolicyID :: string
  DataExpires :: int
  TriggerLimits :: "int list option"
  MetaData :: "json gomap"
  Tags :: "string list option"

definition access_spec_json :: "access_spec \<Rightarrow> json" where
  "access_spec_json a = JObj
     [(''url'', JStr (Access_URL a)), (''methods'', slice_json JStr (Access_Methods a))]"

definition access_definition_json :: "access_definition \<Rightarrow> json" where
  "access_definition_json a = JObj
     [(''api_name'', JStr (APIName a)), (''api_id'', JStr (APIID a)),
      (''versions'', slice_json JStr (Versions a)),
      (''allowed_urls'', slice_json access_spec_json (AllowedURLs a))]"

definition session_json :: "session_state \<Rightarrow> json" where
  "session_json s = JObj
     [(''last_check'', JInt (LastCheck s)),
      (''allowance'', JInt (Allowance s)),
      (''rate'', JInt (Rate s)),
      (''per'', JInt (Per s)),
      (''expires'', JInt (Expires s)),
      (''quota_max'', JInt (QuotaMax s)),
      (''quota_renews'', JInt (QuotaRenews s)),
      (''quota_remaining'', JInt (QuotaRemaining s)),
      (''quota_renewal_rate'', JInt (QuotaRenewalRate s)),
      (''access_rights'', entries_json access_definition_json (AccessRights s)),
      (''org_id'', JStr (Session_OrgID s)),
      (''oauth_client_id'', JStr (OauthClientID s)),
      (''oauth_keys'', string_map_json (OauthKeys s)),
      (''basic_auth_data'', JObj
         [(''password'', JStr (BasicAuth_Password s)), (''hash_type'', JStr (BasicAuth_Hash s))]),
      (''jwt_data'', JObj [(''secret'', JStr (JWT_Secret s))]),
      (''hmac_enabled'', JBool (HMACEnabled s)),
      (''hmac_string'', JStr (HmacSecret s)),
      (''is_inactive'', JBool (IsInactive s)),
      (''apply_policy_id'', JStr (ApplyPolicyID s)),
      (''data_expires'', JInt (DataExpires s)),
      (''monitor'', JObj [(''trigger_limits'', slice_json JInt (TriggerLimits s))]),
      (''meta_data'', JObj (MetaData s)),
      (''tags'', slice_json JStr (Tags s))]"

definition generateBasicTykSesion :: "string \<Rightarrow> string \<Rightarrow> string \<Rightarrow> string \<Rightarrow> session_state" where
  "generateBasicTykSesion baseAPIID baseVersion policyID orgID =
     \<lparr>LastCheck = 0, Allowance = 1, Rate = 1, Per = 1, Expires = -1, QuotaMax = 1, QuotaRenews = 60,
      QuotaRemaining = 1, QuotaRenewalRate = 1,
      AccessRights = map_put baseAPIID
        \<lparr>APIName = ''Base'', APIID = baseAPIID, Versions = Some [baseVersion], AllowedURLs = None\<rparr> [],
      Session_OrgID = orgID, OauthClientID = '''', OauthKeys = None,
      BasicAuth_Password = '''', BasicAuth_Hash = '''', JWT_Secret = '''',
      HMACEnabled = False, HmacSecret = '''', IsInactive = False, ApplyPolicyID = policyID, DataExpires = 0,
      TriggerLimits = None, MetaData = map_put ''Origin'' (JStr ''TAP'') [],
      Tags = Some [''TykOrigin-TAP'']\<rparr>"

text \<open>The four entries both token requests add to the meta data.\<close>

definition add_user_meta :: "goth_user \<Rightarrow> session_state \<Rightarrow> session_state" where
  "add_user_meta user s = s\<lparr>MetaData :=
     map_put ''AccessTokenSecret'' (JStr (AccessTokenSecret user))
       (map_put ''AccessToken'' (JStr (AccessToken user))
         (map_put ''AuthProviderSource'' (JStr (Provider user))
           (map_put ''AuthProviderUserID'' (JStr (UserID user)) (MetaData s))))\<rparr>"

record oauth_response =
  OAuth_AccessToken :: string
  OAuth_ExpiresIn :: int
  OAuth_RedirectTo :: string
  OAuth_TokenType :: string

definition zero_oauth_response :: oauth_response where
  "zero_oauth_response =
     \<lparr>OAuth_AccessToken = '''', OAuth_ExpiresIn = 0, OAuth_RedirectTo = '''', OAuth_TokenType = ''''\<rparr>"

definition oauth_response_json :: "oauth_response \<Rightarrow> json" where
  "oauth_response_json r = JObj
     [(''access_token'', JStr (OAuth_AccessToken r)), (''expires_in'', JInt (OAuth_ExpiresIn r)),
      (''redirect_to'', JStr (OAuth_RedirectTo r)), (''token_type'', JStr (OAuth_TokenType r))]"

definition oauth_response_fields :: "(string \<times> oauth_response setter) list" where
  "oauth_response_fields =
     [(''access_token'', set_string OAuth_AccessToken_update),
      (''expires_in'', set_int OAuth_ExpiresIn_update),
      (''redirect_to'', set_string OAuth_RedirectTo_update),
      (''token_type'', set_string OAuth_TokenType_update)]"

definition decode_oauth_response :: "string \<Rightarrow> oauth_response" where
  "decode_oauth_response text = snd (Unmarshal (unmarshal_struct oauth_response_fields) text zero_oauth_response)"

record token_response =
  KeyID :: string

definition token_response_json :: "token_response \<Rightarrow> json" where
  "token_response_json r = JObj [(''key_id'', JStr (KeyID r))]"

definition decode_token_response :: "string \<Rightarrow> token_response" where
  "decode_token_response text =
     snd (Unmarshal (unmarshal_struct [(''key_id'', set_string KeyID_update)]) text \<lparr>KeyID = ''''\<rparr>)"

text \<open>The result of the two requests: the response, \<^verbatim>\<open>nil\<close> exactly when there is an error.\<close>

definition oauth_request_data :: "string \<Rightarrow> string \<Rightarrow> string \<Rightarrow> string \<Rightarrow> string" where
  "oauth_request_data responseType clientId redirect_uri keyDataJSON =
     ''response_type='' @ responseType @ ''&client_id='' @ clientId @
     ''&redirect_uri='' @ redirect_uri @ ''&key_rules='' @ QueryEscape keyDataJSON"

definition RequestOAuthToken ::
    "environ \<Rightarrow> tyk_api \<Rightarrow> string \<Rightarrow> string \<Rightarrow> string \<Rightarrow> string \<Rightarrow> string \<Rightarrow> string \<Rightarrow> string \<Rightarrow> string \<Rightarrow>
      goth_user \<Rightarrow> (oauth_response option \<times> go_error option) api" where
  "RequestOAuthToken E t APIlistenPath redirect_uri responseType clientId secret orgID policyID BaseAPIID
      userInfo =
     (let session = add_user_meta userInfo
            ((generateBasicTykSesion BaseAPIID ''Default'' policyID orgID)\<lparr>OauthClientID := clientId\<rparr>)
      in
      if clientId = '''' then return_act (None, Some ''Requires client ID'')
      else
        bind_act
          (DispatchAndDecode E t (''/'' @ Join [APIlistenPath, OAUTH_AUTHORIZE] ''/'') ''POST'' GATEWAY
             decode_oauth_response zero_oauth_response ''''
             (Some (oauth_request_data responseType clientId redirect_uri (print_json (session_json session))))
             ''application/x-www-form-urlencoded'')
          (\<lambda>(dErr, _, _, response).
             return_act (if dErr \<noteq> None then (None, dErr) else (Some response, None))))"

text \<open>
  \<^verbatim>\<open>time.Now().Add(time.Duration(expires) * time.Second).Unix()\<close>: a duration is a signed 64-bit number
  of nanoseconds, so the product wraps around.
\<close>

definition duration_seconds :: "int \<Rightarrow> 64 word" where
  "duration_seconds n = word_of_int n * 1000000000"

definition expires_at :: "int \<Rightarrow> int \<Rightarrow> int" where
  "expires_at now expires = (now + sint (duration_seconds expires)) div 1000000000"

definition RequestStandardToken ::
    "environ \<Rightarrow> tyk_api \<Rightarrow> string \<Rightarrow> string \<Rightarrow> string \<Rightarrow> string \<Rightarrow> int \<Rightarrow> goth_user \<Rightarrow>
      (token_response option \<times> go_error option) api" where
  "RequestStandardToken E t orgID policyID BaseAPIID UserCred expires userInfo = (\<lambda>h.
     let session = (add_user_meta userInfo (generateBasicTykSesion BaseAPIID ''Default'' policyID orgID))
            \<lparr>Expires := expires_at (clock E h) expires\<rparr>
     in
      bind_act
        (DispatchAndDecode E t (Join [STANDARD_TOKENS] ''/'') ''POST'' DASH
           decode_token_response \<lparr>KeyID = ''''\<rparr> UserCred (Some (print_json (session_json session))) '''')
        (\<lambda>(dErr, _, _, response).
           return_act (if dErr \<noteq> None then (None, dErr) else (Some response, None))) h)"

definition InvalidateToken ::
    "environ \<Rightarrow> tyk_api \<Rightarrow> string \<Rightarrow> string \<Rightarrow> string \<Rightarrow> (go_error option \<times> bool) api" where
  "InvalidateToken E t UserCred BaseAPI token =
     (let target = ReplaceFirst (Join [TOKENS, token] ''/'') ''{APIID}'' BaseAPI in
      bind_act
        (DispatchAndDecode E t target ''DELETE'' DASH decode_any JNull UserCred None '''')
        (\<lambda>(oErr, _, isAuthorised, _). return_act (oErr, isAuthorised)))"

subsection \<open>Lemmas\<close>

text \<open>The session's expiry is the one asked for while the duration fits 64 bits, and only then.\<close>

lemma sint_duration_seconds:
  "sint (duration_seconds n) = signed_take_bit 63 (n * 1000000000)"
proof -
  have "duration_seconds n = word_of_int (n * 1000000000)"
    by (simp add: duration_seconds_def)
  then have "sint (duration_seconds n) = signed_take_bit (LENGTH(64) - 1) (n * 1000000000)"
    by (simp only: sint_sbintrunc')
  then show ?thesis by simp
qed

lemma expires_at_in_range:
  assumes "- 9223372036 \<le> n" and "n \<le> 9223372036"
  shows "expires_at now n = now div 1000000000 + n"
proof -
  have "signed_take_bit 63 (n * 1000000000) = n * 1000000000"
    by (rule signed_take_bit_int_eq_self) (use assms in \<open>simp_all\<close>)
  then show ?thesis
    by (simp add: expires_at_def sint_duration_seconds)
qed

lemma expires_at_bounds:
  "now div 1000000000 - 9223372037 \<le> expires_at now n"
  "expires_at now n \<le> now div 1000000000 + 9223372037"
proof -
  have "- 9223372036854775808 \<le> sint (duration_seconds n)" "sint (duration_seconds n) < 9223372036854775808"
    using sint_greater_eq [of "duration_seconds n"] sint_less [of "duration_seconds n"] by simp_all
  then show "now div 1000000000 - 9223372037 \<le> expires_at now n"
    "expires_at now n \<le> now div 1000000000 + 9223372037"
    unfolding expires_at_def by linarith+
qed

text \<open>The path of a deletion.\<close>

lemma InvalidateToken_target:
  "ReplaceFirst (Join [TOKENS, token] ''/'') ''{APIID}'' BaseAPI = ''/api/apis/'' @ BaseAPI @ ''/keys/'' @ token"
proof -
  have "Cut (Join [TOKENS, token] ''/'') ''{APIID}'' = Some (''/api/apis/'', ''/keys/'' @ token)"
    by (simp add: TOKENS_def HasPrefix_def)
  then show ?thesis by (simp add: ReplaceFirst_def)
qed

text \<open>The history only grows, and what is added to it meets a condition.\<close>

definition extends_with :: "('c \<Rightarrow> bool) \<Rightarrow> 'c list \<Rightarrow> 'c list \<Rightarrow> bool" where
  "extends_with P h h' \<longleftrightarrow> (\<exists>cs. h' = h @ cs \<and> list_all P cs)"

lemma extends_with_refl [simp]: "extends_with P h h"
  by (simp add: extends_with_def)

lemma extends_with_snoc [simp]: "extends_with P h (h @ [c]) \<longleftrightarrow> P c"
  by (auto simp: extends_with_def)

lemma extends_with_trans: "extends_with P h h' \<Longrightarrow> extends_with P h' h'' \<Longrightarrow> extends_with P h h''"
  by (auto simp: extends_with_def)

lemma reflp_extends_with [simp]: "reflp (extends_with P)"
  by (simp add: reflp_def)

lemma transp_extends_with [simp]: "transp (extends_with P)"
  by (auto simp: transp_def intro: extends_with_trans)

text \<open>
  The calls of the Tyk APIs, by the credential they carry. Most go to the dashboard and carry the credential they were
  given, which a login takes from its profile. Two carry a secret of the configuration instead: the second request for a
  nonce, at the admin endpoint of the dashboard, and the request for an OAuth token at the gateway. A call through
  a custom dispatcher goes where the dispatcher takes it.
\<close>

definition credential_call :: "tyk_api \<Rightarrow> string \<Rightarrow> call \<Rightarrow> bool" where
  "credential_call t creds c =
     (case c of
        Custom_dashboard target verb usercode body \<Rightarrow> CustomDispatcher t \<noteq> None \<and> usercode = creds
      | Custom_super target verb body \<Rightarrow> False
      | Http out \<Rightarrow>
          HasPrefix (out_url out) (prepared (DashboardConfig t) '''') \<and> out_headers out = [(''authorization'', creds)])"

definition admin_nonce_call :: "tyk_api \<Rightarrow> call \<Rightarrow> bool" where
  "admin_nonce_call t c =
     (case c of
        Custom_dashboard target verb usercode body \<Rightarrow> False
      | Custom_super target verb body \<Rightarrow> CustomSuperDispatcher t \<noteq> None \<and> target = SSO_ADMIN \<and> verb = ''POST''
      | Http out \<Rightarrow>
          out_method out = ''POST'' \<and> out_url out = prepared (DashboardConfig t) SSO_ADMIN \<and>
          out_headers out = [(''admin-auth'', AdminSecret (DashboardConfig t))])"

definition oauth_target :: "endpoint \<Rightarrow> bool" where
  "oauth_target e \<longleftrightarrow> HasPrefix e ''/'' \<and> HasSuffix e (''/'' @ OAUTH_AUTHORIZE)"

definition gateway_oauth_call :: "tyk_api \<Rightarrow> call \<Rightarrow> bool" where
  "gateway_oauth_call t c =
     (case c of
        Custom_dashboard target verb usercode body \<Rightarrow> False
      | Custom_super target verb body \<Rightarrow> False
      | Http out \<Rightarrow>
          out_method out = ''POST'' \<and>
          HasPrefix (out_url out) (prepared (GatewayConfig t) '''') \<and>
          oauth_target (drop (length (prepared (GatewayConfig t) '''')) (out_url out)) \<and>
          out_headers out =
            [(''x-tyk-authorization'', AdminSecret (GatewayConfig t)), (''content-type'', ''application/x-www-form-urlencoded'')])"

definition tyk_call :: "tyk_api \<Rightarrow> string \<Rightarrow> call \<Rightarrow> bool" where
  "tyk_call t creds c \<longleftrightarrow> credential_call t creds c \<or> admin_nonce_call t c \<or> gateway_oauth_call t c"

lemmas tyk_call_defs = tyk_call_def credential_call_def admin_nonce_call_def gateway_oauth_call_def

lemma HasPrefix_prepared [simp]: "HasPrefix (prepared c target) (prepared c '''')"
  by (simp add: HasPrefix_iff prepared_def)

lemma bind_act_return_snd: "snd (bind_act m (\<lambda>r. return_act (f r)) w) = snd (m w)"
  by (auto simp: bind_act_def split: prod.splits outcome.splits)

lemma preserves_DispatchDashboard:
  "preserves (extends_with (tyk_call t creds)) (DispatchDashboard E t target verb creds body)"
  by (rule preservesI)
    (auto simp: DispatchDashboard_def Let_def bind_act_return_snd send_def tyk_call_defs split: option.splits)

lemma preserves_DispatchDashboardSuper:
  "preserves (extends_with (tyk_call t creds)) (DispatchDashboardSuper E t SSO_ADMIN ''POST'' body)"
  by (rule preservesI)
    (auto simp: DispatchDashboardSuper_def Let_def bind_act_return_snd send_def tyk_call_defs split: option.splits)

lemma prepared_target [simp]: "drop (length (prepared c '''')) (prepared c target) = target"
  by (simp add: prepared_def)

lemma preserves_DispatchGateway:
  "oauth_target target \<Longrightarrow> preserves (extends_with (tyk_call t creds))
     (DispatchGateway E t target ''POST'' body ''application/x-www-form-urlencoded'')"
  by (rule preservesI)
    (auto simp: DispatchGateway_def Let_def bind_act_return_snd send_def tyk_call_defs split: option.splits)

lemma preserves_DispatchAndDecode:
  assumes "api = DASH \<Longrightarrow> creds' = creds"
    and "api = DASH_SUPER \<Longrightarrow> target = SSO_ADMIN \<and> verb = ''POST''"
    and "api = GATEWAY \<Longrightarrow> oauth_target target \<and> verb = ''POST'' \<and> ctype = ''application/x-www-form-urlencoded''"
  shows "preserves (extends_with (tyk_call t creds)) (DispatchAndDecode E t target verb api dec z creds' body ctype)"
  using assms preserves_DispatchDashboard [of t creds] preserves_DispatchDashboardSuper [of t creds]
    preserves_DispatchGateway [of target t creds]
  by (auto simp: DispatchAndDecode_def Let_def case_prod_unfold intro!: preserves_bind preserves_return)

lemma oauth_target_joined [simp]: "oauth_target (CHR ''/'' # path @ CHR ''/'' # OAUTH_AUTHORIZE)"
  by (auto simp: oauth_target_def HasPrefix_def HasSuffix_iff intro: exI [of _ "CHR ''/'' # path"])

text \<open>So every operation of the client only talks to the APIs it was configured with.\<close>

lemma api_name_distinct [simp]: "DASH_SUPER \<noteq> DASH" "GATEWAY \<noteq> DASH" "DASH \<noteq> GATEWAY" "DASH_SUPER \<noteq> GATEWAY"
  "DASH \<noteq> DASH_SUPER" "GATEWAY \<noteq> DASH_SUPER"
  by (simp_all add: api_name_defs)

lemma preserves_case_prod:
  "(\<And>a b. preserves R (f a b)) \<Longrightarrow> preserves R (case p of (a, b) \<Rightarrow> f a b)"
  by (cases p) simp

lemmas preserves_rules = preserves_bind preserves_return preserves_lift preserves_case_prod
  preserves_DispatchAndDecode

lemma preserves_CreateAdminSSONonce:
  "preserves (extends_with (tyk_call t creds)) (CreateAdminSSONonce E t data)"
  by (auto simp: CreateAdminSSONonce_def intro!: preserves_rules)

lemma preserves_CreateSSONonce:
  "preserves (extends_with (tyk_call t creds)) (CreateSSONonce E t creds data)"
  by (auto simp: CreateSSONonce_def intro!: preserves_rules preserves_CreateAdminSSONonce)

lemma preserves_developers:
  "preserves (extends_with (tyk_call t creds)) (GetDeveloper E t creds email)"
  "preserves (extends_with (tyk_call t creds)) (GetDeveloperBySSOKey E t creds key)"
  "preserves (extends_with (tyk_call t creds)) (UpdateDeveloper E t creds dev)"
  "preserves (extends_with (tyk_call t creds)) (CreateDeveloper E t creds dev)"
  by (auto simp: GetDeveloper_def GetDeveloperBySSOKey_def UpdateDeveloper_def CreateDeveloper_def
      intro!: preserves_rules)

lemma preserves_RequestOAuthToken:
  "preserves (extends_with (tyk_call t creds))
     (RequestOAuthToken E t path uri rt client secret org policy base user)"
  by (auto simp: RequestOAuthToken_def Let_def intro!: preserves_rules)

lemma preserves_RequestStandardToken:
  "preserves (extends_with (tyk_call t creds)) (RequestStandardToken E t org policy base creds expires user)"
proof (rule preservesI)
  fix h
  show "extends_with (tyk_call t creds) h (snd (RequestStandardToken E t org policy base creds expires user h))"
    unfolding RequestStandardToken_def Let_def
    by (rule preservesD [where w = h], intro preserves_rules) simp_all
qed

lemma preserves_InvalidateToken:
  "preserves (extends_with (tyk_call t creds)) (InvalidateToken E t creds base token)"
  by (auto simp: InvalidateToken_def Let_def intro!: preserves_rules)

lemmas api_preserves = preserves_CreateSSONonce preserves_developers preserves_RequestOAuthToken
  preserves_RequestStandardToken preserves_InvalidateToken

subsection \<open>What a successful call means\<close>

text \<open>For the facts below the dispatchers are the broker's own.\<close>

definition plain_api :: "tyk_api \<Rightarrow> bool" where
  "plain_api t \<longleftrightarrow> CustomDispatcher t = None \<and> CustomSuperDispatcher t = None"

lemma bind_act_Returns:
  "bind_act m f w = (Returns b, w') \<longleftrightarrow> (\<exists>a w1. m w = (Returns a, w1) \<and> f a w1 = (Returns b, w'))"
  by (auto simp: bind_act_def split: prod.splits outcome.splits)

lemma read_reply_ok:
  "read_reply msg r = (b, code, None) \<longleftrightarrow> r = Reply code (Inr b) \<and> code \<le> 201"
  by (cases "(msg, r)" rule: read_reply.cases) auto

definition exchanged :: "environ \<Rightarrow> call list \<Rightarrow> call list \<Rightarrow> string \<Rightarrow> string \<Rightarrow> string option \<Rightarrow> int \<Rightarrow> string \<Rightarrow> bool" where
  "exchanged E h h' verb url body code b \<longleftrightarrow>
     (\<exists>hs. let out = \<lparr>out_method = verb, out_url = url, out_headers = hs, out_body = body\<rparr> in
        h' = h @ [Http out] \<and> net_reply E h out = Reply code (Inr b) \<and> code \<le> 201)"

definition api_config :: "tyk_api \<Rightarrow> string \<Rightarrow> endpoint_config" where
  "api_config t api = (if api = GATEWAY then GatewayConfig t else DashboardConfig t)"

lemma exchangedI:
  "net_reply E h \<lparr>out_method = verb, out_url = url, out_headers = hs, out_body = body\<rparr> = Reply code (Inr b) \<Longrightarrow>
    code \<le> 201 \<Longrightarrow>
    exchanged E h (h @ [Http \<lparr>out_method = verb, out_url = url, out_headers = hs, out_body = body\<rparr>]) verb url body code b"
  by (auto simp: exchanged_def Let_def)

lemma dispatch_ok:
  assumes "plain_api t"
  shows "DispatchDashboard E t target verb creds body h = (Returns (b, code, None), h') \<Longrightarrow>
      exchanged E h h' verb (prepared (DashboardConfig t) target) body code b"
    and "DispatchDashboardSuper E t target verb body h = (Returns (b, code, None), h') \<Longrightarrow>
      exchanged E h h' verb (prepared (DashboardConfig t) target) body code b"
    and "DispatchGateway E t target verb body ctype h = (Returns (b, code, None), h') \<Longrightarrow>
      exchanged E h h' verb (prepared (GatewayConfig t) target) body code b"
  using assms
  by (auto simp: plain_api_def DispatchDashboard_def DispatchDashboardSuper_def DispatchGateway_def
      Let_def bind_act_Returns send_def read_reply_ok exchangedI split: option.splits)

lemma DispatchAndDecode_ok:
  assumes "plain_api t"
    and "DispatchAndDecode E t target verb api dec z creds body ctype h = (Returns (None, code, auth, v), h')"
  shows "\<exists>b. exchanged E h h' verb (prepared (api_config t api) target) body code b \<and> v = dec b"
  using assms(2)
  by (auto simp: DispatchAndDecode_def Let_def bind_act_Returns api_config_def
      split: if_splits prod.splits option.splits dest!: dispatch_ok [OF assms(1)])

text \<open>A nonce that was created is one of the two SSO endpoints' own answer, a 200, to the request for it.\<close>

lemma CreateAdminSSONonce_ok:
  assumes "plain_api t" and "CreateAdminSSONonce E t data h = (Returns (v, ep, None), h')"
  shows "\<exists>b. exchanged E h h' ''POST'' (prepared (DashboardConfig t) SSO_ADMIN) (Some (print_json data)) 200 b \<and>
    v = decode_any b"
  using assms(2)
  by (auto simp: CreateAdminSSONonce_def bind_act_Returns api_config_def split: if_splits
      dest!: DispatchAndDecode_ok [OF assms(1)])

lemma CreateSSONonce_ok:
  assumes "plain_api t" and "CreateSSONonce E t cred data h = (Returns (v, ep, None), h')"
  shows "\<exists>g target b. prefix h g \<and> target \<in> {SSO_REGULAR, SSO_ADMIN} \<and>
    exchanged E g h' ''POST'' (prepared (DashboardConfig t) target) (Some (print_json data)) 200 b \<and>
    v = decode_any b"
proof -
  from assms(2) obtain dErr code auth v1 h1 where
    first: "DispatchAndDecode E t SSO_REGULAR ''POST'' DASH decode_any JNull cred (Some (print_json data)) '''' h
      = (Returns (dErr, code, auth, v1), h1)"
    and rest: "(if code \<noteq> 200 then CreateAdminSSONonce E t data else return_act (v1, SSO_REGULAR, dErr)) h1
      = (Returns (v, ep, None), h')"
    by (auto simp: CreateSSONonce_def bind_act_Returns)
  show ?thesis
  proof (cases "code = 200")
    case True
    with rest have "dErr = None" "v1 = v" "h1 = h'" by auto
    then show ?thesis
      using DispatchAndDecode_ok [OF assms(1)] first True by (fastforce simp: api_config_def)
  next
    case False
    have "extends_with (tyk_call t cred) h (snd (DispatchAndDecode E t SSO_REGULAR ''POST'' DASH decode_any JNull
        cred (Some (print_json data)) '''' h))"
      by (rule preservesD [where w = h], rule preserves_DispatchAndDecode) simp_all
    with first have "prefix h h1" by (auto simp: extends_with_def)
    with False rest CreateAdminSSONonce_ok [OF assms(1)] show ?thesis by fastforce
  qed
qed

text \<open>The password of a developer is not part of what is sent.\<close>

lemma developer_json_no_password: "developer_json E (d\<lparr>Dev_Password := pw\<rparr>) = developer_json E d"
  by (simp add: developer_json_def)

end
