(* ===== verification/Backends.thy ===== *)
theory Backends
  imports Tap_Profile
begin

section \<open>Stores for profiles and identities (package backends)\<close>

text \<open>
  The three implementations of \<^verbatim>\<open>tap.AuthRegisterBackend\<close>: the in-memory map that holds the profiles,
  the Redis store that holds identities and path parameters, and the Mongo store an embedding program
  may use for the profiles. The clients of the interface Redis and Mongo are reached through
  (\<^verbatim>\<open>temporal.KeyValue\<close>, \<^verbatim>\<open>persistent.PersistentStorage\<close>) are parameters: records of their operations.

  \<open>register_backend\<close> is the contract of the interface, interpreted on the in-memory store; the lemmas
  about the Redis and Mongo stores say where these two break it.
\<close>

subsection \<open>Values passed as interface{}\<close>

text \<open>What the broker stores: a token, a profile by value or by pointer, path parameters
  (\<^verbatim>\<open>tothic.PathParam\<close>).\<close>

record path_param =
  Id :: string
  Provider_name :: string

definition path_param_json :: "path_param \<Rightarrow> json" where
  "path_param_json p = JObj [(''id'', JStr (Id p)), (''provider'', JStr (Provider_name p))]"

definition path_param_fields :: "(string \<times> path_param setter) list" where
  "path_param_fields = [(''id'', set_string Id_update), (''provider'', set_string Provider_name_update)]"

definition zero_path_param :: path_param where
  "zero_path_param = \<lparr>Id = '''', Provider_name = ''''\<rparr>"

definition unmarshal_path_param :: "string \<Rightarrow> go_error option \<times> path_param" where
  "unmarshal_path_param text = Unmarshal (unmarshal_struct path_param_fields) text zero_path_param"

text \<open>Unmarshalling into a \<^verbatim>\<open>*string\<close> that holds the empty string.\<close>

definition unmarshal_string :: "string \<Rightarrow> go_error option \<times> string" where
  "unmarshal_string text = Unmarshal (set_string (\<lambda>f. f)) text ''''"

datatype go_value =
    StringVal string
  | ProfileVal profile
  | ProfilePtr profile
  | PathParamVal path_param

definition value_json :: "go_value \<Rightarrow> json" where
  "value_json v =
     (case v of
        StringVal s \<Rightarrow> JStr s
      | ProfileVal p \<Rightarrow> profile_json p
      | ProfilePtr p \<Rightarrow> profile_json p
      | PathParamVal p \<Rightarrow> path_param_json p)"

text \<open>\<^verbatim>\<open>json.Marshal\<close> of such a value; it cannot fail, since none of them holds a channel, a function or
  a cycle.\<close>

definition marshal_value :: "go_value \<Rightarrow> string" where
  "marshal_value v = print_json (value_json v)"

lemma marshal_value_profile [simp]:
  "marshal_value (ProfileVal p) = marshal_profile p"
  "marshal_value (ProfilePtr p) = marshal_profile p"
  by (simp_all add: marshal_value_def value_json_def marshal_profile_def)

lemma unmarshal_path_param_marshal:
  "unmarshal_path_param (marshal_value (PathParamVal p)) = (None, p)"
proof -
  have "json_decode (print_json (path_param_json p)) = Some (path_param_json p)"
    by (rule json_decode_print) (simp add: path_param_json_def)
  moreover have "unmarshal_struct path_param_fields (path_param_json p) zero_path_param = (True, p)"
    by (simp add: unmarshal_struct_def path_param_json_def path_param_fields_def find_field_exact
        zero_path_param_def)
  ultimately show ?thesis
    by (simp add: unmarshal_path_param_def marshal_value_def value_json_def Unmarshal_def)
qed

lemma unmarshal_string_quoted: "unmarshal_string (marshal_value (StringVal t)) = (None, t)"
  by (simp add: unmarshal_string_def marshal_value_def value_json_def Unmarshal_def json_decode_print
      del: print_json.simps)

subsection \<open>The contract of AuthRegisterBackend\<close>

text \<open>
  The operations on a store of profiles, and what a client may rely on: \<open>view\<close> is the map from
  profile identifiers to profiles that a store stands for. The organisation a key comes with plays no
  part in it: the in-memory store ignores it.
\<close>

definition holds_profile :: "go_value \<Rightarrow> profile \<Rightarrow> bool" where
  "holds_profile v p \<longleftrightarrow> v = ProfileVal p \<or> v = ProfilePtr p"

lemma holds_profile_simps [simp]: "holds_profile (ProfileVal p) p" "holds_profile (ProfilePtr p) p"
  by (simp_all add: holds_profile_def)

locale register_backend =
  fixes set_key :: "string \<Rightarrow> string \<Rightarrow> go_value \<Rightarrow> ('s, go_error option) act"
    and get_key :: "string \<Rightarrow> string \<Rightarrow> 's \<Rightarrow> go_error option \<times> profile"
    and delete_key :: "string \<Rightarrow> string \<Rightarrow> 's \<Rightarrow> go_error option \<times> 's"
    and inv :: "'s \<Rightarrow> bool"
    and view :: "'s \<Rightarrow> string \<rightharpoonup> profile"
  assumes get_present: "inv s \<Longrightarrow> view s k = Some p \<Longrightarrow> get_key k org s = (None, p)"
    and get_absent: "inv s \<Longrightarrow> view s k = None \<Longrightarrow> \<exists>e. fst (get_key k org s) = Some e"
    and set_returns: "inv s \<Longrightarrow> wf_profile p \<Longrightarrow> holds_profile v p \<Longrightarrow> fst (set_key k org v s) = Returns None"
    and set_inv: "inv s \<Longrightarrow> wf_profile p \<Longrightarrow> holds_profile v p \<Longrightarrow> inv (snd (set_key k org v s))"
    and set_view: "inv s \<Longrightarrow> wf_profile p \<Longrightarrow> holds_profile v p \<Longrightarrow>
      view (snd (set_key k org v s)) = (view s)(k \<mapsto> p)"
    and delete_returns: "inv s \<Longrightarrow> fst (delete_key k org s) = None"
    and delete_inv: "inv s \<Longrightarrow> inv (snd (delete_key k org s))"
    and delete_view: "inv s \<Longrightarrow> view (snd (delete_key k org s)) = (view s)(k := None)"
begin

lemma get_after_set:
  "inv s \<Longrightarrow> wf_profile p \<Longrightarrow> holds_profile v p \<Longrightarrow> get_key k org' (snd (set_key k org v s)) = (None, p)"
  by (rule get_present) (simp_all add: set_inv set_view)

lemma get_after_delete:
  "inv s \<Longrightarrow> \<exists>e. fst (get_key k org' (snd (delete_key k org s))) = Some e"
  by (rule get_absent) (simp_all add: delete_inv delete_view)

lemma get_ok_iff: "inv s \<Longrightarrow> fst (get_key k org s) = None \<longleftrightarrow> k \<in> dom (view s)"
  by (metis domIff fst_conv get_absent get_present not_Some_eq option.distinct(1))

end

subsection \<open>The in-memory store\<close>

text \<open>\<^verbatim>\<open>InMemoryBackend\<close>: \<^const>\<open>None\<close> is the \<^verbatim>\<open>nil\<close> map a store has before \<^verbatim>\<open>Init\<close>. Every operation runs
  under the store's lock, so it is one step.\<close>

record in_memory =
  kv :: "string gomap option"

definition in_memory_Init :: "in_memory \<Rightarrow> go_error option \<times> in_memory" where
  "in_memory_Init m = (None, m\<lparr>kv := Some []\<rparr>)"

definition in_memory_SetKey :: "string \<Rightarrow> string \<Rightarrow> go_value \<Rightarrow> (in_memory, go_error option) act" where
  "in_memory_SetKey key orgId val m =
     (case kv m of
        None \<Rightarrow> (Returns (Some ''store not initialised!''), m)
      | Some s \<Rightarrow> (Returns None, m\<lparr>kv := Some (map_put key (marshal_value val) s)\<rparr>))"

definition in_memory_DeleteKey :: "string \<Rightarrow> string \<Rightarrow> in_memory \<Rightarrow> go_error option \<times> in_memory" where
  "in_memory_DeleteKey key orgId m = (None, m\<lparr>kv := map_option (map_del key) (kv m)\<rparr>)"

text \<open>\<^verbatim>\<open>GetKey\<close> decodes into the target its caller passes: \<open>dec\<close> is \<^verbatim>\<open>json.Unmarshal\<close> at the type of the
  target, \<open>zero\<close> the target before the call.\<close>

definition in_memory_GetKey ::
    "(string \<Rightarrow> go_error option \<times> 'a) \<Rightarrow> 'a \<Rightarrow> string \<Rightarrow> string \<Rightarrow> in_memory \<Rightarrow> go_error option \<times> 'a" where
  "in_memory_GetKey dec zero key orgId m =
     (case kv m of
        None \<Rightarrow> (Some ''not found'', zero)
      | Some s \<Rightarrow>
          (case map_get s key of
             None \<Rightarrow> (Some ''not found'', zero)
           | Some v \<Rightarrow> dec v))"

text \<open>\<^verbatim>\<open>GetAll\<close> ranges over the map, in an order the language leaves open: \<open>order\<close> is the sequence of keys
  of one run. An entry that does not decode is skipped.\<close>

definition iteration_order :: "string list \<Rightarrow> 'v gomap \<Rightarrow> bool" where
  "iteration_order order m \<longleftrightarrow> distinct order \<and> set order = fst ` set m"

definition in_memory_GetAll :: "string list \<Rightarrow> string \<Rightarrow> in_memory \<Rightarrow> go_value list" where
  "in_memory_GetAll order orgId m =
     (case kv m of
        None \<Rightarrow> []
      | Some s \<Rightarrow>
          List.map_filter (\<lambda>key.
            case map_get s key of
              None \<Rightarrow> None
            | Some v \<Rightarrow>
                (case unmarshal_profile v of
                   (None, p) \<Rightarrow> Some (ProfileVal p)
                 | (Some e, _) \<Rightarrow> None)) order)"

abbreviation in_memory_GetProfile :: "string \<Rightarrow> string \<Rightarrow> in_memory \<Rightarrow> go_error option \<times> profile" where
  "in_memory_GetProfile \<equiv> in_memory_GetKey unmarshal_profile zero_profile"

text \<open>The map the store stands for, and its invariant: the map is there, in canonical form, and every
  text in it is a well-formed profile.\<close>

definition in_memory_view :: "in_memory \<Rightarrow> string \<rightharpoonup> profile" where
  "in_memory_view m k =
     (case kv m of
        None \<Rightarrow> None
      | Some s \<Rightarrow> (case map_get s k of None \<Rightarrow> None | Some v \<Rightarrow> profile_of_text v))"

definition in_memory_inv :: "in_memory \<Rightarrow> bool" where
  "in_memory_inv m \<longleftrightarrow>
     (case kv m of
        None \<Rightarrow> False
      | Some s \<Rightarrow> wf_map s \<and> (\<forall>(k, v)\<in>set s. \<exists>p. wf_profile p \<and> v = marshal_profile p))"

lemma in_memory_inv_Init: "in_memory_inv (snd (in_memory_Init m))"
  by (simp add: in_memory_inv_def in_memory_Init_def)

lemma profile_of_text_marshal [simp]: "wf_profile p \<Longrightarrow> profile_of_text (marshal_profile p) = Some p"
  by (rule profile_text.dec_enc)

lemma set_map_put_subset: "set (map_put k v m) \<subseteq> insert (k, v) (set m)"
  by (induction k v m rule: map_put.induct) auto

lemma map_get_set: "map_get m k = Some v \<Longrightarrow> (k, v) \<in> set m"
  by (simp add: map_get_def map_of_SomeD)

lemma in_memory_inv_get:
  assumes "in_memory_inv m" and "kv m = Some s" and "map_get s k = Some v"
  obtains p where "wf_profile p" "v = marshal_profile p"
  using assms map_get_set [OF assms(3)] by (auto simp: in_memory_inv_def)

interpretation mem: register_backend
  in_memory_SetKey in_memory_GetProfile in_memory_DeleteKey in_memory_inv in_memory_view
proof
  fix s k p org
  assume inv: "in_memory_inv s" and v: "in_memory_view s k = Some p"
  then obtain m t where m: "kv s = Some m" "map_get m k = Some t" "profile_of_text t = Some p"
    by (auto simp: in_memory_view_def split: option.splits)
  obtain q where q: "wf_profile q" "t = marshal_profile q" by (rule in_memory_inv_get [OF inv m(1,2)])
  with m show "in_memory_GetProfile k org s = (None, p)"
    by (simp add: in_memory_GetKey_def unmarshal_marshal_profile)
next
  fix s k org
  assume inv: "in_memory_inv s" and v: "in_memory_view s k = None"
  show "\<exists>e. fst (in_memory_GetProfile k org s) = Some e"
  proof (cases "kv s")
    case (Some m)
    show ?thesis
    proof (cases "map_get m k")
      case (Some t)
      then obtain q where "wf_profile q" "t = marshal_profile q"
        using in_memory_inv_get [OF inv \<open>kv s = Some m\<close>] by blast
      with v Some \<open>kv s = Some m\<close> show ?thesis by (simp add: in_memory_view_def)
    qed (simp add: in_memory_GetKey_def Some)
  qed (simp add: in_memory_GetKey_def)
next
  fix s p v k org
  assume "in_memory_inv s"
  then show "fst (in_memory_SetKey k org v s) = Returns None"
    by (auto simp: in_memory_inv_def in_memory_SetKey_def split: option.splits)
next
  fix s p v k org
  assume "in_memory_inv s" "wf_profile p" "holds_profile v p"
  moreover have "marshal_value v = marshal_profile p" using calculation(3) by (auto simp: holds_profile_def)
  ultimately show "in_memory_inv (snd (in_memory_SetKey k org v s))"
    using set_map_put_subset [of k "marshal_profile p"]
    by (fastforce simp: in_memory_inv_def in_memory_SetKey_def split: option.splits)
next
  fix s p v k org
  assume "in_memory_inv s" "wf_profile p" "holds_profile v p"
  then show "in_memory_view (snd (in_memory_SetKey k org v s)) = (in_memory_view s)(k \<mapsto> p)"
    by (auto simp: in_memory_inv_def in_memory_SetKey_def in_memory_view_def fun_eq_iff holds_profile_def
        split: option.splits)
next
  fix s k org
  show "fst (in_memory_DeleteKey k org s) = None" by (simp add: in_memory_DeleteKey_def)
next
  fix s k org
  assume "in_memory_inv s"
  then show "in_memory_inv (snd (in_memory_DeleteKey k org s))"
    by (auto simp: in_memory_inv_def in_memory_DeleteKey_def map_del_def wf_map_del [unfolded map_del_def]
        split: option.splits)
next
  fix s k org
  assume "in_memory_inv s"
  then show "in_memory_view (snd (in_memory_DeleteKey k org s)) = (in_memory_view s)(k := None)"
    by (auto simp: in_memory_DeleteKey_def in_memory_view_def fun_eq_iff split: option.splits)
qed

lemma in_memory_ignores_org: "in_memory_GetKey dec zero k org m = in_memory_GetKey dec zero k org' m"
  by (simp add: in_memory_GetKey_def)

lemma map_filter_total:
  "(\<And>k. k \<in> set ks \<Longrightarrow> f k = Some (g k)) \<Longrightarrow> List.map_filter f ks = map g ks"
  by (induction ks) (simp_all add: List.map_filter_simps)

text \<open>A listing shows the profiles of the store, each once, whatever the order.\<close>

lemma in_memory_view_get:
  assumes "in_memory_inv m" and "kv m = Some s" and "k \<in> fst ` set s"
  shows "\<exists>t p. map_get s k = Some t \<and> unmarshal_profile t = (None, p) \<and> in_memory_view m k = Some p"
proof -
  from assms(3) have "map_get s k \<noteq> None"
    unfolding map_get_def using map_of_eq_None_iff [of s k] by simp
  then obtain t where t: "map_get s k = Some t" by blast
  obtain p where "wf_profile p" "t = marshal_profile p"
    by (rule in_memory_inv_get [OF assms(1,2) t])
  with t assms(2) show ?thesis
    by (simp add: unmarshal_marshal_profile in_memory_view_def)
qed

lemma dom_in_memory_view:
  assumes "in_memory_inv m" and "kv m = Some s"
  shows "dom (in_memory_view m) = fst ` set s"
proof (intro set_eqI iffI)
  fix k assume "k \<in> dom (in_memory_view m)"
  then obtain t where "map_get s k = Some t"
    using assms(2) by (auto simp: in_memory_view_def split: option.splits)
  then show "k \<in> fst ` set s" by (metis map_get_set fst_conv image_eqI)
next
  fix k assume "k \<in> fst ` set s"
  then show "k \<in> dom (in_memory_view m)" using in_memory_view_get [OF assms] by blast
qed

lemma in_memory_GetAll_map:
  assumes "in_memory_inv m" and "kv m = Some s" and "iteration_order order s"
  shows "in_memory_GetAll order org m = map (\<lambda>k. ProfileVal (the (in_memory_view m k))) order"
proof -
  have "(case map_get s k of None \<Rightarrow> None | Some v \<Rightarrow>
      (case unmarshal_profile v of (None, p) \<Rightarrow> Some (ProfileVal p) | (Some e, _) \<Rightarrow> None))
      = Some (ProfileVal (the (in_memory_view m k)))" if "k \<in> set order" for k
    using in_memory_view_get [OF assms(1,2), of k] that assms(3) by (auto simp: iteration_order_def)
  then show ?thesis
    using assms(2) by (simp add: in_memory_GetAll_def map_filter_total)
qed

lemma in_memory_GetAll_view:
  assumes "in_memory_inv m" and "kv m = Some s" and "iteration_order order s"
  shows "set (in_memory_GetAll order org m) = ProfileVal ` ran (in_memory_view m)"
proof -
  have "set order = dom (in_memory_view m)"
    using assms(3) dom_in_memory_view [OF assms(1,2)] by (simp add: iteration_order_def)
  moreover have "(the \<circ> in_memory_view m) ` dom (in_memory_view m) = ran (in_memory_view m)"
    by (force simp: ran_def image_iff)
  ultimately show ?thesis
    by (simp add: in_memory_GetAll_map [OF assms] image_image comp_def flip: \<open>_ = ran _\<close>)
qed

lemma in_memory_GetAll_length:
  assumes "in_memory_inv m" and "kv m = Some s" and "iteration_order order s"
  shows "length (in_memory_GetAll order org m) = length s"
proof -
  have "distinct (map fst s)"
    using assms(1,2) by (simp add: in_memory_inv_def wf_map_def strict_sorted_iff)
  then have "length s = card (fst ` set s)" by (metis distinct_card length_map set_map)
  with assms(3) show ?thesis
    by (simp add: in_memory_GetAll_map [OF assms] iteration_order_def) (metis distinct_card)
qed

subsection \<open>The Redis store\<close>

text \<open>The operations of \<^verbatim>\<open>temporal.KeyValue\<close> the store calls, over the state \<open>'r\<close> of the server: an error,
  and for a read the value (\<^const>\<open>None\<close> is a \<^verbatim>\<open>nil\<close> slice of keys).\<close>

record 'r key_value =
  kvSet :: "string \<Rightarrow> string \<Rightarrow> 'r \<Rightarrow> go_error option \<times> 'r"
  kvGet :: "string \<Rightarrow> 'r \<Rightarrow> go_error option \<times> string"
  kvDelete :: "string \<Rightarrow> 'r \<Rightarrow> go_error option \<times> 'r"
  kvKeys :: "string \<Rightarrow> 'r \<Rightarrow> go_error option \<times> string list option"

text \<open>The documented behaviour the lemmas rely on: \<open>db\<close> is the content of the server. A call may fail; a
  write that does not fail is done, and a read that does not fail returns what is there.\<close>

definition key_value_documented :: "'r key_value \<Rightarrow> ('r \<Rightarrow> string \<rightharpoonup> string) \<Rightarrow> bool" where
  "key_value_documented ops db \<longleftrightarrow>
     (\<forall>k v r r'. kvSet ops k v r = (None, r') \<longrightarrow> db r' = (db r)(k \<mapsto> v)) \<and>
     (\<forall>k r r'. kvDelete ops k r = (None, r') \<longrightarrow> db r' = (db r)(k := None)) \<and>
     (\<forall>k r v. kvGet ops k r = (None, v) \<longrightarrow> db r k = Some v)"

lemma key_value_documentedD:
  assumes "key_value_documented ops db"
  shows "kvSet ops k v r = (None, r') \<Longrightarrow> db r' = (db r)(k \<mapsto> v)"
    and "kvDelete ops k r = (None, r') \<Longrightarrow> db r' = (db r)(k := None)"
    and "kvGet ops k r = (None, v) \<Longrightarrow> db r k = Some v"
  using assms by (simp_all add: key_value_documented_def)

record 'r redis =
  client :: 'r
  KeyPrefix :: string

definition fixKey :: "'r redis \<Rightarrow> string \<Rightarrow> string" where
  "fixKey r keyName = KeyPrefix r @ keyName"

definition cleanKey :: "'r redis \<Rightarrow> string \<Rightarrow> string" where
  "cleanKey r keyName = ReplaceFirst keyName (KeyPrefix r) ''''"

text \<open>A string is stored as it is, anything else as its JSON text.\<close>

definition redis_text :: "go_value \<Rightarrow> string" where
  "redis_text val = (case val of StringVal s \<Rightarrow> s | _ \<Rightarrow> marshal_value val)"

definition redis_SetKey ::
    "'r key_value \<Rightarrow> string \<Rightarrow> string \<Rightarrow> go_value \<Rightarrow> 'r redis \<Rightarrow> go_error option \<times> 'r redis" where
  "redis_SetKey ops key orgId val r =
     (case kvSet ops (fixKey r key) (redis_text val) (client r) of
        (Some e, c) \<Rightarrow> (Some e, r\<lparr>client := c\<rparr>)
      | (None, c) \<Rightarrow> (None, r\<lparr>client := c\<rparr>))"

definition redis_GetKey ::
    "'r key_value \<Rightarrow> (string \<Rightarrow> go_error option \<times> 'a) \<Rightarrow> 'a \<Rightarrow> string \<Rightarrow> string \<Rightarrow> 'r redis \<Rightarrow>
      go_error option \<times> 'a" where
  "redis_GetKey ops dec zero key orgId r =
     (case kvGet ops (fixKey r key) (client r) of
        (Some e, _) \<Rightarrow> (Some e, zero)
      | (None, result) \<Rightarrow> dec result)"

definition redis_DeleteKey ::
    "'r key_value \<Rightarrow> string \<Rightarrow> string \<Rightarrow> 'r redis \<Rightarrow> go_error option \<times> 'r redis" where
  "redis_DeleteKey ops key orgId r =
     (case kvDelete ops (fixKey r key) (client r) of (e, c) \<Rightarrow> (e, r\<lparr>client := c\<rparr>))"

definition redis_GetKeys :: "'r key_value \<Rightarrow> string \<Rightarrow> 'r redis \<Rightarrow> string list" where
  "redis_GetKeys ops filt r =
     (case snd (kvKeys ops filt (client r)) of None \<Rightarrow> [] | Some keys \<Rightarrow> map (cleanKey r) keys)"

text \<open>\<^verbatim>\<open>GetAll\<close>: \<^const>\<open>None\<close> is the \<^verbatim>\<open>nil\<close> slice.\<close>

definition redis_GetAll :: "'r key_value \<Rightarrow> string \<Rightarrow> 'r redis \<Rightarrow> go_value list option" where
  "redis_GetAll ops orgId r =
     (case kvKeys ops (KeyPrefix r) (client r) of
        (Some e, _) \<Rightarrow> None
      | (None, None) \<Rightarrow> None
      | (None, Some keys) \<Rightarrow>
          if keys = [] then None else Some (map (\<lambda>v. StringVal (KeyPrefix r @ v)) keys))"

lemma Cut_prefix [simp]: "Cut (p @ r) p = Some ([], r)"
proof (cases "p @ r")
  case (Cons c q)
  then have "HasPrefix (c # q) p" by (metis HasPrefix_append)
  then show ?thesis unfolding Cons using Cons by (simp add: append_eq_conv_conj [symmetric]) (metis append_eq_conv_conj)
qed simp

lemma cleanKey_fixKey: "cleanKey r (fixKey r key) = key"
  by (simp add: cleanKey_def fixKey_def ReplaceFirst_def)

lemma fixKey_client [simp]: "fixKey (r\<lparr>client := c\<rparr>) k = fixKey r k"
  by (simp add: fixKey_def)

lemma fixKey_inject [simp]: "fixKey r k = fixKey r k' \<longleftrightarrow> k = k'"
  by (simp add: fixKey_def)

text \<open>What is written under a key is what a later read decodes; a write under one key leaves the others
  alone.\<close>

lemma redis_get_after_set:
  assumes "key_value_documented ops db" and "redis_SetKey ops k org v r = (None, r')"
    and "kvGet ops (fixKey r k) (client r') = (None, t)"
  shows "redis_GetKey ops dec zero k org' r' = dec (redis_text v)"
proof -
  from assms(2) obtain c where c: "kvSet ops (fixKey r k) (redis_text v) (client r) = (None, c)"
    "r' = r\<lparr>client := c\<rparr>"
    by (auto simp: redis_SetKey_def split: prod.splits option.splits)
  have "db c = (db (client r))(fixKey r k \<mapsto> redis_text v)"
    by (rule key_value_documentedD(1) [OF assms(1) c(1)])
  moreover have "db c (fixKey r k) = Some t"
    using assms(3) c by (intro key_value_documentedD(3) [OF assms(1)]) simp
  ultimately have "t = redis_text v" by simp
  with assms(3) c show ?thesis by (simp add: redis_GetKey_def)
qed

lemma redis_set_other:
  assumes "key_value_documented ops db" and "redis_SetKey ops k org v r = (None, r')" and "k' \<noteq> k"
  shows "db (client r') (fixKey r' k') = db (client r) (fixKey r k')"
  using assms by (auto simp: redis_SetKey_def key_value_documented_def split: prod.splits option.splits)

lemma redis_delete_absent:
  assumes "key_value_documented ops db" and "redis_DeleteKey ops k org r = (None, r')"
  shows "db (client r') (fixKey r' k) = None"
  using assms by (auto simp: redis_DeleteKey_def key_value_documented_def split: prod.splits)

text \<open>A string literal is longer than the string it denotes, so no text is a literal of itself: a string
  the Redis store holds does not come back through \<^verbatim>\<open>GetKey\<close>, which reads JSON.\<close>

lemma utf8_encode_length: "length (utf8_encode u) \<le> 4"
  by (simp add: utf8_encode_def Let_def)

lemma utf8_encode_length_bmp: "u < 0x10000 \<Longrightarrow> length (utf8_encode u) \<le> 3"
  by (auto simp: utf8_encode_def Let_def)

lemma hex4_length_eq: "hex4 r = Some (u, r') \<Longrightarrow> length r = length r' + 4"
  by (induction r rule: hex4.induct) (auto split: option.splits)

lemma low_surrogate_length_eq: "low_surrogate r = Some (u, r') \<Longrightarrow> length r = length r' + 6"
  by (induction r rule: low_surrogate.induct)
    (auto split: option.splits if_splits dest: hex4_length_eq)

lemma parse_string_shrinks:
  "parse_string s = Some (t, r) \<Longrightarrow> length t + length r < length s"
proof (induction s arbitrary: t r rule: measure_induct_rule [where f = length])
  case (less s)
  have IH: "length y < length s \<longrightarrow> length u + length q < length y" if "parse_string y = Some (u, q)" for y u q
    using less.IH that by blast
  have u: "length (utf8_encode u) \<le> 4" for u by (rule utf8_encode_length)
  show ?case
  proof (cases s)
    case (Cons c r')
    have le: "m < n \<Longrightarrow> length (utf8_encode u) + m < 6 + n" "m < n \<Longrightarrow> length (utf8_encode u) + m < 12 + n"
      for m n u using u [of u] by linarith+
    from less.prems Cons show ?thesis
      by (auto simp: parse_string.simps(2) add.assoc le split: if_splits list.splits option.splits
          dest!: hex4_length_eq low_surrogate_length_eq IH)
  qed (use less.prems in simp)
qed

lemma parse_number_no_string: "parse_number s \<noteq> Some (JStr t, r)"
  by (simp add: parse_number_def Let_def)

lemma parse_value_string:
  assumes "parse_value n s = Some (JStr t, r)"
  shows "length t < length s"
proof -
  from assms obtain n' where n: "n = Suc n'" by (cases n) auto
  from assms obtain c q where s: "skip_ws s = c # q"
    by (cases "skip_ws s") (simp_all add: n parse_value.simps(2))
  from assms have "parse_string q = Some (t, r)"
    by (auto simp: n s parse_value.simps(2) parse_literal_def parse_number_no_string split: if_splits)
  then have "length t < length q" using parse_string_shrinks by fastforce
  also have "length q < length s" using skip_ws_Cons_length [OF s] .
  finally show ?thesis .
qed

lemma json_decode_string: "json_decode s = Some (JStr t) \<Longrightarrow> length t < length s"
  by (auto simp: json_decode_def split: option.splits if_splits dest: parse_value_string)

lemma unmarshal_string_not_self: "unmarshal_string t \<noteq> (None, t)"
proof (cases "json_decode t")
  case (Some j)
  have "t \<noteq> []" using Some by (auto simp: json_decode_def numeral_2_eq_2 parse_value.simps(2))
  with Some show ?thesis
    using json_decode_string [of t] by (auto simp: unmarshal_string_def Unmarshal_def set_string_def split: json.splits)
qed (simp add: unmarshal_string_def Unmarshal_def)

text \<open>A listing of keys or of values never reads a value: \<^verbatim>\<open>GetAll\<close> answers with names.\<close>

lemma redis_GetAll_names:
  "redis_GetAll ops org r = Some vs \<Longrightarrow> v \<in> set vs \<Longrightarrow> \<exists>k. v = StringVal (KeyPrefix r @ k)"
  by (auto simp: redis_GetAll_def split: prod.splits option.splits if_splits)

subsection \<open>The Mongo store\<close>

text \<open>The operations of \<^verbatim>\<open>persistent.PersistentStorage\<close> the store calls, over the state \<open>'m\<close> of the
  database. A query for one profile leaves the profile it is given alone when it fails.\<close>

type_synonym filter_doc = "string gomap"

record 'm document_store =
  dsInsert :: "profile \<Rightarrow> 'm \<Rightarrow> go_error option \<times> 'm"
  dsDelete :: "filter_doc \<Rightarrow> 'm \<Rightarrow> go_error option \<times> 'm"
  dsQuery :: "filter_doc \<Rightarrow> 'm \<Rightarrow> go_error option \<times> profile list"
  dsQueryOne :: "filter_doc \<Rightarrow> profile \<Rightarrow> 'm \<Rightarrow> go_error option \<times> profile"

definition mongo_filter :: "string \<Rightarrow> string \<Rightarrow> filter_doc" where
  "mongo_filter key orgId =
     (let f = map_put ''ID'' key []
      in if orgId \<noteq> '''' then map_put ''OrgID'' orgId f else f)"

text \<open>The error of the deletion is logged and otherwise ignored. A value that is not a profile by value
  fails the type assertion, which is a panic.\<close>

definition mongo_SetKey ::
    "'m document_store \<Rightarrow> string \<Rightarrow> string \<Rightarrow> go_value \<Rightarrow> ('m, go_error option) act" where
  "mongo_SetKey ops key orgId val m =
     (case val of
        ProfileVal p \<Rightarrow>
          (let (_, m1) = dsDelete ops (mongo_filter key orgId) m;
               (err, m2) = dsInsert ops p m1
           in (Returns err, m2))
      | _ \<Rightarrow> (Panics Type_assertion, m))"

text \<open>The error of the query is logged and then overwritten by the one of \<^verbatim>\<open>json.Marshal\<close>.\<close>

definition mongo_GetKey ::
    "'m document_store \<Rightarrow> (string \<Rightarrow> go_error option \<times> 'a) \<Rightarrow> string \<Rightarrow> string \<Rightarrow> 'm \<Rightarrow>
      go_error option \<times> 'a" where
  "mongo_GetKey ops dec key orgId m =
     (let (_, p) = dsQueryOne ops (mongo_filter key orgId) zero_profile m
      in dec (marshal_profile p))"

definition mongo_GetAll :: "'m document_store \<Rightarrow> string \<Rightarrow> 'm \<Rightarrow> go_value list" where
  "mongo_GetAll ops orgId m =
     (let (_, profiles) = dsQuery ops (if orgId \<noteq> '''' then map_put ''OrgID'' orgId [] else []) m
      in map ProfileVal profiles)"

definition mongo_DeleteKey ::
    "'m document_store \<Rightarrow> string \<Rightarrow> string \<Rightarrow> 'm \<Rightarrow> go_error option \<times> 'm" where
  "mongo_DeleteKey ops key orgId m = dsDelete ops (mongo_filter key orgId) m"

text \<open>The documented behaviour: \<open>docs\<close> is the collection. Deleting removes every document the filter
  matches, or fails and removes none; a query finds the first match, or fails and leaves its target
  alone.\<close>

definition filter_matches :: "filter_doc \<Rightarrow> profile \<Rightarrow> bool" where
  "filter_matches f p \<longleftrightarrow>
     (map_get f ''ID'' = None \<or> map_get f ''ID'' = Some (ID p)) \<and>
     (map_get f ''OrgID'' = None \<or> map_get f ''OrgID'' = Some (OrgID p))"

definition document_store_documented :: "'m document_store \<Rightarrow> ('m \<Rightarrow> profile list) \<Rightarrow> bool" where
  "document_store_documented ops docs \<longleftrightarrow>
     (\<forall>p m m'. dsInsert ops p m = (None, m') \<longrightarrow> docs m' = docs m @ [p]) \<and>
     (\<forall>f m e m'. dsDelete ops f m = (e, m') \<longrightarrow>
        docs m' = (if e = None then filter (\<lambda>p. \<not> filter_matches f p) (docs m) else docs m)) \<and>
     (\<forall>f d m p. dsQueryOne ops f d m = (None, p) \<longrightarrow> find (filter_matches f) (docs m) = Some p) \<and>
     (\<forall>f d m e p. dsQueryOne ops f d m = (Some e, p) \<longrightarrow> p = d)"

lemma wf_zero_profile [simp]: "wf_profile zero_profile"
  by (simp add: wf_profile_def zero_profile_def)

text \<open>Looking a profile up in Mongo never fails: one that is missing is the empty profile.\<close>

lemma mongo_GetKey_profile:
  assumes "dsQueryOne ops (mongo_filter k org) zero_profile m = (err, p)" and "wf_profile p"
  shows "mongo_GetKey ops unmarshal_profile k org m = (None, p)"
  using assms by (simp add: mongo_GetKey_def unmarshal_marshal_profile)

lemma mongo_GetKey_missing:
  assumes doc: "document_store_documented ops docs"
    and err: "dsQueryOne ops (mongo_filter k org) zero_profile m = (Some e, p)"
  shows "mongo_GetKey ops unmarshal_profile k org m = (None, zero_profile)"
proof -
  have "p = zero_profile" using doc err by (simp add: document_store_documented_def)
  with mongo_GetKey_profile [OF err] show ?thesis by simp
qed

lemma mongo_SetKey_not_value: "(\<forall>p. v \<noteq> ProfileVal p) \<Longrightarrow> mongo_SetKey ops k org v m = (Panics Type_assertion, m)"
  by (cases v) (simp_all add: mongo_SetKey_def)

end
