(* ===== verification/Identity_Handler.thy ===== *)
theory Identity_Handler
  imports Tyk_Api Backends
begin

section \<open>Identity handlers (package identityHandlers)\<close>

text \<open>
  What happens once a provider has authenticated a user: \<^verbatim>\<open>TykIdentityHandler\<close> makes a session or a
  token on the Tyk side and answers the browser, \<^verbatim>\<open>DummyIdentityHandler\<close> only redirects. A handler is a
  step on a \<open>world\<close>: the history of the calls to the Tyk APIs, the response so far, and the state of
  the identity store. The user is a \<^typ>\<open>goth_user\<close>, the type every provider passes, so the assertion
  \<^verbatim>\<open>i.(goth.User)\<close> succeeds; every other type assertion of the code is a possible panic here.
\<close>

subsection \<open>The world of a request\<close>

record 'st world =
  calls :: "call list"
  resp :: response
  ids :: 'st

text \<open>The identity store, as the handlers use it: reading decodes into a string that is empty.\<close>

record 'st id_store =
  idGet :: "string \<Rightarrow> string \<Rightarrow> 'st \<Rightarrow> go_error option \<times> string"
  idSet :: "string \<Rightarrow> string \<Rightarrow> go_value \<Rightarrow> ('st, go_error option) act"

definition on_calls :: "'a api \<Rightarrow> ('st world, 'a) act" where
  "on_calls m w = (case m (calls w) of (r, h) \<Rightarrow> (r, w\<lparr>calls := h\<rparr>))"

definition on_ids :: "('st, 'a) act \<Rightarrow> ('st world, 'a) act" where
  "on_ids m w = (case m (ids w) of (r, s) \<Rightarrow> (r, w\<lparr>ids := s\<rparr>))"

definition respond :: "response \<Rightarrow> ('st world, unit) act" where
  "respond evs w = (Returns (), w\<lparr>resp := resp w @ evs\<rparr>)"

text \<open>A provider's state is the world and a state of its own.\<close>

definition on_world :: "('w, 'a) act \<Rightarrow> ('w \<times> 'l, 'a) act" where
  "on_world m = (\<lambda>(w, l). case m w of (r, w') \<Rightarrow> (r, (w', l)))"

definition on_aux :: "('l, 'a) act \<Rightarrow> ('w \<times> 'l, 'a) act" where
  "on_aux m = (\<lambda>(w, l). case m l of (r, l') \<Rightarrow> (r, (w, l')))"

lemma on_world_apply: "on_world m (w, l) = (fst (m w), (snd (m w), l))"
  by (simp add: on_world_def case_prod_unfold)

lemma on_aux_apply: "on_aux m (w, l) = (fst (m l), (w, snd (m l)))"
  by (simp add: on_aux_def case_prod_unfold)

text \<open>Going on with a value unless there is an error.\<close>

definition rbind :: "'a result \<Rightarrow> ('a \<Rightarrow> 'b result) \<Rightarrow> 'b result" where
  "rbind r f = (case r of Inl e \<Rightarrow> Inl e | Inr a \<Rightarrow> f a)"

lemma rbind_Inr [simp]: "rbind r f = Inr b \<longleftrightarrow> (\<exists>a. r = Inr a \<and> f a = Inr b)"
  by (cases r) (auto simp: rbind_def)

text \<open>The assertions on values of interface type.\<close>

definition as_string :: "json \<Rightarrow> string outcome" where
  "as_string j = (case j of JStr s \<Rightarrow> Returns s | _ \<Rightarrow> Panics Type_assertion)"

definition as_bool :: "json \<Rightarrow> bool outcome" where
  "as_bool j = (case j of JBool b \<Rightarrow> Returns b | _ \<Rightarrow> Panics Type_assertion)"

definition as_object :: "json \<Rightarrow> json gomap outcome" where
  "as_object j = (case j of JObj m \<Rightarrow> Returns m | _ \<Rightarrow> Panics Type_assertion)"

text \<open>A lookup in a \<^verbatim>\<open>map[string]interface{}\<close> without the second result: \<^verbatim>\<open>nil\<close> when the key is missing.\<close>

definition any_get :: "json gomap \<Rightarrow> string \<Rightarrow> json" where
  "any_get m k = (case map_get m k of Some j \<Rightarrow> j | None \<Rightarrow> JNull)"

text \<open>\<^verbatim>\<open>int64(x.(float64))\<close>: the value truncated towards zero; a value out of range becomes the least
  64-bit number, as on amd64 and as the language allows.\<close>

definition decimal_trunc :: "string \<Rightarrow> int" where
  "decimal_trunc t =
     (let u = strip_minus t;
          ip = takeWhile is_digit u;
          rest = dropWhile is_digit u;
          (fp, ep) = (case rest of
             c # r \<Rightarrow> if c = CHR ''.'' then (takeWhile is_digit r, dropWhile is_digit r) else ([], rest)
           | [] \<Rightarrow> ([], []));
          ex = (case ep of
             [] \<Rightarrow> 0
           | _ # r \<Rightarrow> (case r of
                c # r' \<Rightarrow> if c = CHR ''-'' then - int (atoi_nat r') else if c = CHR ''+'' then int (atoi_nat r')
                  else int (atoi_nat r)
              | [] \<Rightarrow> 0));
          m = int (atoi_nat (ip @ fp));
          e = ex - int (length fp);
          v = (if 0 \<le> e then m * 10 ^ nat e else m div 10 ^ nat (- e))
      in if u \<noteq> t then - v else v)"

definition to_int64 :: "int \<Rightarrow> int" where
  "to_int64 v = (if - (2 ^ 63) \<le> v \<and> v < 2 ^ 63 then v else - (2 ^ 63))"

definition number_int64 :: "json \<Rightarrow> int outcome" where
  "number_int64 j =
     (case j of
        JInt i \<Rightarrow> Returns (to_int64 i)
      | JFrac t \<Rightarrow> Returns (to_int64 (decimal_trunc t))
      | _ \<Rightarrow> Panics Type_assertion)"

subsection \<open>Configuring the Tyk handler\<close>

record oauth_settings =
  APIListenPath :: string
  RedirectURI :: string
  ResponseType :: string
  ClientId :: string
  Secret :: string
  OAuth_BaseAPIID :: string
  NoRedirect :: bool

record token_settings =
  Token_BaseAPIID :: string
  Token_Expires :: int

record tyk_handler =
  API :: tyk_api
  Handler_profile :: profile
  dashboardUserAPICred :: string
  oauth :: oauth_settings
  token :: token_settings
  disableOneTokenPerAPI :: bool

definition zero_oauth_settings :: oauth_settings where
  "zero_oauth_settings =
     \<lparr>APIListenPath = '''', RedirectURI = '''', ResponseType = '''', ClientId = '''', Secret = '''',
      OAuth_BaseAPIID = '''', NoRedirect = False\<rparr>"

definition new_tyk_handler :: "tyk_api \<Rightarrow> tyk_handler" where
  "new_tyk_handler t =
     \<lparr>API = t, Handler_profile = zero_profile, dashboardUserAPICred = '''', oauth = zero_oauth_settings,
      token = \<lparr>Token_BaseAPIID = '''', Token_Expires = 0\<rparr>, disableOneTokenPerAPI = False\<rparr>"

definition SSOForDashboard :: string where "SSOForDashboard = ''dashboard''"
definition SSOForPortal :: string where "SSOForPortal = ''portal''"
definition DefaultSSOEmail :: string where "DefaultSSOEmail = ''ssoSession@ssoSession.com''"

definition mapActionToModule :: "action \<Rightarrow> string result" where
  "mapActionToModule a =
     (if a = GenerateOrLoginUserProfile then Inr SSOForDashboard
      else if a = GenerateOrLoginDeveloperProfile then Inr SSOForPortal
      else Inl ''action does not exist'')"

abbreviation obind :: "'a outcome \<Rightarrow> ('a \<Rightarrow> 'b outcome) \<Rightarrow> 'b outcome" where
  "obind \<equiv> bind_outcome"

definition read_oauth_settings :: "json \<Rightarrow> oauth_settings outcome" where
  "read_oauth_settings j =
     obind (as_object j) (\<lambda>m.
     obind (as_string (any_get m ''APIListenPath'')) (\<lambda>path.
     obind (as_string (any_get m ''RedirectURI'')) (\<lambda>uri.
     obind (as_string (any_get m ''ResponseType'')) (\<lambda>rt.
     obind (as_string (any_get m ''ClientId'')) (\<lambda>client.
     obind (as_string (any_get m ''Secret'')) (\<lambda>secret.
     obind (as_string (any_get m ''BaseAPIID'')) (\<lambda>base.
     obind (as_bool (any_get m ''NoRedirect'')) (\<lambda>nr.
       Returns \<lparr>APIListenPath = path, RedirectURI = uri, ResponseType = rt, ClientId = client,
                Secret = secret, OAuth_BaseAPIID = base, NoRedirect = nr\<rparr>))))))))"

text \<open>The error, and the handler afterwards.\<close>

definition read_token_settings :: "json \<Rightarrow> token_settings \<Rightarrow> (go_error option \<times> token_settings) outcome" where
  "read_token_settings j ts =
     obind (as_object j) (\<lambda>m.
       if any_get m ''BaseAPIID'' = JNull then Returns (Some ''Base API cannot be empty'', ts)
       else
         obind (as_string (any_get m ''BaseAPIID'')) (\<lambda>base.
           if any_get m ''Expires'' = JNull
           then Returns (None, ts\<lparr>Token_BaseAPIID := base, Token_Expires := 3600\<rparr>)
           else
             obind (number_int64 (any_get m ''Expires'')) (\<lambda>e.
               Returns (None, ts\<lparr>Token_BaseAPIID := base, Token_Expires := e\<rparr>))))"

definition tyk_Init :: "profile \<Rightarrow> tyk_handler \<Rightarrow> (go_error option \<times> tyk_handler) outcome" where
  "tyk_Init conf t0 =
     (let t = t0\<lparr>Handler_profile := conf\<rparr> in
      case IdentityHandlerConfig conf of
        None \<Rightarrow> Returns (None, t)
      | Some theseConfs \<Rightarrow>
          obind (if any_get theseConfs ''DashboardCredential'' = JNull then Returns (dashboardUserAPICred t)
                 else as_string (any_get theseConfs ''DashboardCredential'')) (\<lambda>cred.
          obind (if any_get theseConfs ''DisableOneTokenPerAPI'' = JNull then Returns (disableOneTokenPerAPI t)
                 else as_bool (any_get theseConfs ''DisableOneTokenPerAPI'')) (\<lambda>one.
          obind (case map_get theseConfs ''OAuth'' of
                   None \<Rightarrow> Returns (oauth t)
                 | Some j \<Rightarrow> read_oauth_settings j) (\<lambda>oa.
            (let t1 = t\<lparr>dashboardUserAPICred := cred, disableOneTokenPerAPI := one, oauth := oa\<rparr> in
             case map_get theseConfs ''TokenAuth'' of
               None \<Rightarrow> Returns (None, t1)
             | Some j \<Rightarrow>
                 obind (read_token_settings j (token t1)) (\<lambda>(err, ts).
                   Returns (err, t1\<lparr>token := ts\<rparr>)))))))"

subsection \<open>What is known of a user\<close>

text \<open>A lookup in the raw data that distinguishes no missing entry from \<^verbatim>\<open>nil\<close>.\<close>

definition raw_get :: "goth_user \<Rightarrow> string \<Rightarrow> raw_value" where
  "raw_get u k = (case RawData u k of Some v \<Rightarrow> v | None \<Rightarrow> Raw JNull)"

definition raw_string :: "raw_value \<Rightarrow> string outcome" where
  "raw_string v = (case v of Raw (JStr s) \<Rightarrow> Returns s | _ \<Rightarrow> Panics Type_assertion)"

definition GetEmail :: "goth_user \<Rightarrow> string \<Rightarrow> string outcome" where
  "GetEmail gUser customEmailField =
     obind (if customEmailField \<noteq> '''' \<and> raw_get gUser customEmailField \<noteq> Raw JNull
            then raw_string (raw_get gUser customEmailField) else Returns '''') (\<lambda>email.
       Returns
         (let email1 = (if email = '''' \<and> Email gUser \<noteq> '''' then Email gUser else email)
          in if email1 = '''' then DefaultSSOEmail else email1))"

definition GetUserID :: "goth_user \<Rightarrow> string \<Rightarrow> string outcome" where
  "GetUserID gUser customUserIDField =
     (if customUserIDField \<noteq> '''' \<and> raw_get gUser customUserIDField \<noteq> Raw JNull
      then raw_string (raw_get gUser customUserIDField) else Returns (UserID gUser))"

definition defaultOrEmptyGroupIDs :: "string \<Rightarrow> string list" where
  "defaultOrEmptyGroupIDs d = (if d = '''' then [] else [d])"

fun json_strings :: "json list \<Rightarrow> string list outcome" where
  "json_strings [] = Returns []"
| "json_strings (j # js) =
     obind (as_string j) (\<lambda>s. obind (json_strings js) (\<lambda>ss. Returns (s # ss)))"

definition groupsStringer :: "raw_value \<Rightarrow> string \<Rightarrow> string list outcome" where
  "groupsStringer i separator =
     (case i of
        RawStrings v \<Rightarrow> Returns v
      | Raw (JArr v) \<Rightarrow> json_strings v
      | Raw j \<Rightarrow>
          obind (as_string j) (\<lambda>s. Returns (Split s (if separator = '''' then '' '' else separator))))"

definition GetGroupId ::
    "goth_user \<Rightarrow> string \<Rightarrow> string \<Rightarrow> string gomap option \<Rightarrow> string \<Rightarrow> string list outcome" where
  "GetGroupId gUser customUserGroupField defaultUserGroup userGroupMapping userGroupSeparator =
     (if customUserGroupField = '''' then Returns (defaultOrEmptyGroupIDs defaultUserGroup)
      else if raw_get gUser customUserGroupField = Raw JNull
      then Returns (defaultOrEmptyGroupIDs defaultUserGroup)
      else
        obind (groupsStringer (raw_get gUser customUserGroupField) userGroupSeparator) (\<lambda>groups.
          if groups = [] then Returns (defaultOrEmptyGroupIDs defaultUserGroup)
          else
            (let mapping = (case userGroupMapping of None \<Rightarrow> [] | Some m \<Rightarrow> m);
                 groupsIDs = List.map_filter (map_get mapping) groups
             in Returns (if groupsIDs = [] then defaultOrEmptyGroupIDs defaultUserGroup else groupsIDs))))"

definition displayName :: "goth_user \<Rightarrow> string \<Rightarrow> string" where
  "displayName gUser email =
     (let d1 = (if FirstName gUser \<noteq> '''' then FirstName gUser else '''');
          d2 = (if LastName gUser \<noteq> ''''
                then (if d1 \<noteq> '''' then d1 @ '' '' else d1) @ LastName gUser else d1)
      in if d2 = '''' then email else d2)"

subsection \<open>Completing the login\<close>

text \<open>The access request for a user (the first part of \<^verbatim>\<open>CreateIdentity\<close>).\<close>

definition access_request :: "profile \<Rightarrow> string \<Rightarrow> goth_user \<Rightarrow> sso_access_data outcome" where
  "access_request p thisModule gUser =
     obind (GetEmail gUser (CustomEmailField p)) (\<lambda>email.
     obind (GetGroupId gUser (CustomUserGroupField p) (DefaultUserGroupID p) (UserGroupMapping p)
              (UserGroupSeparator p)) (\<lambda>groupsIDs.
       Returns
         \<lparr>ForSection = thisModule, SSO_OrgID = OrgID p, EmailAddress = email,
          DisplayName = displayName gUser email,
          GroupID = (case groupsIDs of [] \<Rightarrow> '''' | g # _ \<Rightarrow> g),
          GroupsIDs = groupsIDs,
          SSO_OnlyForRegisteredUsers = SSOOnlyForRegisteredUsers p\<rparr>))"

definition CreateIdentity :: "environ \<Rightarrow> tyk_handler \<Rightarrow> goth_user \<Rightarrow> ('st world, string result) act" where
  "CreateIdentity E t gUser =
     (case mapActionToModule (ActionType (Handler_profile t)) of
        Inl modErr \<Rightarrow> return_act (Inl modErr)
      | Inr thisModule \<Rightarrow>
          bind_act (lift_outcome (access_request (Handler_profile t) thisModule gUser)) (\<lambda>accessRequest.
          bind_act (on_calls (CreateSSONonce E (API t) (dashboardUserAPICred t) (sso_access_json accessRequest)))
            (\<lambda>(returnVal, ssoEndpoint, retErr).
               case retErr of
                 Some e \<Rightarrow> return_act (Inl e)
               | None \<Rightarrow>
                   lift_outcome
                     (obind (as_object returnVal) (\<lambda>m.
                      obind (as_string (any_get m ''Meta'')) (\<lambda>nonce. Returns (Inr nonce)))))))"

definition CompleteIdentityActionForDashboard ::
    "environ \<Rightarrow> tyk_handler \<Rightarrow> goth_user \<Rightarrow> profile \<Rightarrow> ('st world, unit) act" where
  "CompleteIdentityActionForDashboard E t i p =
     bind_act (CreateIdentity E t i) (\<lambda>n.
       case n of
         Inl nErr \<Rightarrow> respond [Write ''Login failed'']
       | Inr nonce \<Rightarrow>
           if ReturnURL p \<noteq> '''' then respond [Redirect (ReturnURL p @ ''?nonce='' @ nonce) 301]
           else respond [Write ''Check with your admin why there's no URI defined''])"

definition newUUID :: "environ \<Rightarrow> ('st world, string) act" where
  "newUUID E w =
     (case new_uuid E (calls w) of
        Some u \<Rightarrow> (Returns u, w)
      | None \<Rightarrow> (Panics (Explicit_panic ''uuid''), w))"

definition now :: "environ \<Rightarrow> ('st world, int) act" where
  "now E w = (Returns (clock E (calls w)), w)"

text \<open>The redirect at the end of a portal login.\<close>

definition portal_redirect :: "profile \<Rightarrow> string \<Rightarrow> ('st world, unit) act" where
  "portal_redirect p nonce =
     (if ReturnURL p \<noteq> '''' then respond [Redirect (ReturnURL p @ ''?nonce='' @ nonce) 301]
      else respond [Write ''Success! (Have you set a return URL?)''])"

definition new_developer ::
    "environ \<Rightarrow> tyk_handler \<Rightarrow> goth_user \<Rightarrow> string \<Rightarrow> string \<Rightarrow> string \<Rightarrow> int \<Rightarrow> portal_developer" where
  "new_developer E t user sso_key nonce password created =
     (zero_developer E)
       \<lparr>Dev_Email := Email user, Dev_Password := password, Dev_DateCreated := (created, local_zone E),
        Dev_OrgId := OrgID (Handler_profile t), Dev_Keys := Some [], Dev_Subscriptions := Some [],
        Dev_Fields := Some [], Dev_Nonce := nonce, Dev_SSOKey := sso_key\<rparr>"

definition create_portal_user ::
    "environ \<Rightarrow> tyk_handler \<Rightarrow> goth_user \<Rightarrow> string \<Rightarrow> string \<Rightarrow> profile \<Rightarrow> ('st world, unit) act" where
  "create_portal_user E t user sso_key nonce p =
     bind_act (newUUID E) (\<lambda>password.
     bind_act (now E) (\<lambda>created.
       bind_act
         (on_calls (CreateDeveloper E (API t) (dashboardUserAPICred t)
            (new_developer E t user sso_key nonce password created)))
         (\<lambda>createErr.
            if createErr \<noteq> None then respond [Write ''Login failed''] else portal_redirect p nonce)))"

definition update_portal_user ::
    "environ \<Rightarrow> tyk_handler \<Rightarrow> goth_user \<Rightarrow> portal_developer \<Rightarrow> string \<Rightarrow> profile \<Rightarrow> ('st world, unit) act" where
  "update_portal_user E t user thisUser nonce p =
     (let u1 = (if Dev_Email thisUser = '''' then thisUser\<lparr>Dev_Email := Email user\<rparr> else thisUser);
          u2 = u1\<lparr>Dev_Nonce := nonce\<rparr>
      in
      bind_act (if Dev_Password u2 = '''' then newUUID E else return_act (Dev_Password u2)) (\<lambda>password.
      bind_act (on_calls (UpdateDeveloper E (API t) (dashboardUserAPICred t) (u2\<lparr>Dev_Password := password\<rparr>)))
        (\<lambda>updateErr.
           if updateErr \<noteq> None then respond [Write ''Login failed''] else portal_redirect p nonce)))"

definition CompleteIdentityActionForPortal ::
    "environ \<Rightarrow> tyk_handler \<Rightarrow> goth_user \<Rightarrow> profile \<Rightarrow> ('st world, unit) act" where
  "CompleteIdentityActionForPortal E t i p =
     bind_act (CreateIdentity E t i) (\<lambda>n.
       case n of
         Inl nErr \<Rightarrow> respond [Write ''Login failed'']
       | Inr nonce \<Rightarrow>
           bind_act (lift_outcome (GetUserID i (CustomUserIDField (Handler_profile t)))) (\<lambda>uid.
             let user = i\<lparr>UserID := uid\<rparr>; sso_key = GenerateSSOKey user in
             bind_act (on_calls (GetDeveloperBySSOKey E (API t) (dashboardUserAPICred t) sso_key))
               (\<lambda>(thisUser, retErr, isAuthorised).
                  if \<not> isAuthorised then respond [Write ''Login failed'']
                  else if retErr \<noteq> None then create_portal_user E t user sso_key nonce p
                  else update_portal_user E t user thisUser nonce p)))"

text \<open>The key a user's token is stored under.\<close>

definition id_with_profile :: "tyk_handler \<Rightarrow> goth_user \<Rightarrow> string" where
  "id_with_profile t user = ID (Handler_profile t) @ ''-'' @ GenerateSSOKey user"

text \<open>Storing a token: the error of the store is dropped.\<close>

definition store_token :: "'st id_store \<Rightarrow> string \<Rightarrow> string \<Rightarrow> ('st world, unit) act" where
  "store_token st key tok =
     (if tok \<noteq> '''' then bind_act (on_ids (idSet st key '''' (StringVal tok))) (\<lambda>_. return_act ())
      else return_act ())"

text \<open>Invalidating the token a user already has, if the store knows one: whether the deletion failed,
  and whether the credential was accepted.\<close>

definition invalidate_known ::
    "environ \<Rightarrow> 'st id_store \<Rightarrow> tyk_handler \<Rightarrow> string \<Rightarrow> string \<Rightarrow> ('st world, go_error option \<times> bool) act" where
  "invalidate_known E st t base key = (\<lambda>w.
     if disableOneTokenPerAPI t then (Returns (None, True), w)
     else
       (case idGet st key '''' (ids w) of
          (Some e, _) \<Rightarrow> (Returns (None, True), w)
        | (None, tok) \<Rightarrow>
            on_calls (InvalidateToken E (API t) (dashboardUserAPICred t) base tok) w))"

definition CompleteIdentityActionForOAuth ::
    "environ \<Rightarrow> 'st id_store \<Rightarrow> tyk_handler \<Rightarrow> goth_user \<Rightarrow> ('st world, unit) act" where
  "CompleteIdentityActionForOAuth E st t i =
     (let key = id_with_profile t i in
      bind_act (invalidate_known E st t (OAuth_BaseAPIID (oauth t)) key) (\<lambda>_.
      bind_act
        (on_calls (RequestOAuthToken E (API t) (APIListenPath (oauth t)) (RedirectURI (oauth t))
           (ResponseType (oauth t)) (ClientId (oauth t)) (Secret (oauth t)) (OrgID (Handler_profile t))
           (MatchedPolicyID (Handler_profile t)) (OAuth_BaseAPIID (oauth t)) i))
        (\<lambda>(response, oErr).
           if oErr \<noteq> None then respond [Write ''OAuth token generation failed'']
           else
             (case response of
                None \<Rightarrow> respond [Write ''Login failed'']
              | Some r \<Rightarrow>
                  bind_act (store_token st key (OAuth_AccessToken r)) (\<lambda>_.
                    if NoRedirect (oauth t)
                    then respond [SetHeader ''Content-Type'' ''application/json'',
                                  Write (print_json (oauth_response_json r))]
                    else if OAuth_RedirectTo r \<noteq> '''' then respond [Redirect (OAuth_RedirectTo r) 301]
                    else return_act ())))))"

definition CompleteIdentityActionForTokenAuth ::
    "environ \<Rightarrow> 'st id_store \<Rightarrow> tyk_handler \<Rightarrow> goth_user \<Rightarrow> ('st world, unit) act" where
  "CompleteIdentityActionForTokenAuth E st t i =
     (let key = id_with_profile t i in
      bind_act (invalidate_known E st t (Token_BaseAPIID (token t)) key) (\<lambda>(iErr, isAuthorized).
        if iErr \<noteq> None \<and> \<not> isAuthorized
        then respond [Write ''Auth token generation failed due to invalid user credentials.'']
        else
          bind_act
            (on_calls (RequestStandardToken E (API t) (OrgID (Handler_profile t))
               (MatchedPolicyID (Handler_profile t)) (Token_BaseAPIID (token t)) (dashboardUserAPICred t)
               (Token_Expires (token t)) i))
            (\<lambda>(response, tErr).
               if tErr \<noteq> None then respond [Write ''Auth token generation failed'']
               else
                 (case response of
                    None \<Rightarrow> respond [Write ''Login failed'']
                  | Some r \<Rightarrow>
                      bind_act (store_token st key (KeyID r)) (\<lambda>_.
                        if ReturnURL (Handler_profile t) \<noteq> ''''
                        then respond [Redirect (ReturnURL (Handler_profile t) @ ''#token='' @ KeyID r) 301]
                        else respond [SetHeader ''Content-Type'' ''application/json'',
                                      Write (print_json (token_response_json r))])))))"

definition CompleteIdentityAction ::
    "environ \<Rightarrow> 'st id_store \<Rightarrow> tyk_handler \<Rightarrow> goth_user \<Rightarrow> profile \<Rightarrow> ('st world, unit) act" where
  "CompleteIdentityAction E st t i p =
     (if ActionType p = GenerateOrLoginUserProfile then CompleteIdentityActionForDashboard E t i p
      else if ActionType p = GenerateOrLoginDeveloperProfile then CompleteIdentityActionForPortal E t i p
      else if ActionType p = GenerateOAuthTokenForClient then CompleteIdentityActionForOAuth E st t i
      else if ActionType p = GenerateTemporaryAuthToken then CompleteIdentityActionForTokenAuth E st t i
      else return_act ())"

subsection \<open>The dummy handler\<close>

definition dummy_Init :: "profile \<Rightarrow> go_error option" where
  "dummy_Init conf = None"

definition dummy_CreateIdentity :: "goth_user \<Rightarrow> string result" where
  "dummy_CreateIdentity i = Inr ''''"

definition dummy_LoginIdentity :: "string \<Rightarrow> string \<Rightarrow> string result" where
  "dummy_LoginIdentity user pass = Inr ''12345''"

definition dummy_CompleteIdentityAction :: "goth_user \<Rightarrow> profile \<Rightarrow> ('st world, unit) act" where
  "dummy_CompleteIdentityAction i p =
     (let nonce = (case dummy_LoginIdentity ''DUMMY'' ''DUMMY'' of Inr n \<Rightarrow> n | Inl _ \<Rightarrow> '''') in
      if ReturnURL p \<noteq> '''' then respond [Redirect (ReturnURL p @ ''?nonce='' @ nonce) 301]
      else respond [Write ''Success! (Have you set a return URL?)''])"

subsection \<open>The contract of an identity handler\<close>

text \<open>A handler only adds: calls that meet a condition, and to the end of the response.\<close>

definition world_extends :: "(call \<Rightarrow> bool) \<Rightarrow> 'st world \<Rightarrow> 'st world \<Rightarrow> bool" where
  "world_extends P w w' \<longleftrightarrow> extends_with P (calls w) (calls w') \<and> prefix (resp w) (resp w')"

lemma world_extends_refl [simp]: "world_extends P w w"
  by (simp add: world_extends_def)

lemma reflp_world_extends [simp]: "reflp (world_extends P)"
  by (simp add: world_extends_def reflp_def)

lemma transp_world_extends [simp]: "transp (world_extends P)"
  by (auto simp: world_extends_def transp_def intro: extends_with_trans prefix_order.trans)

lemma preserves_on_calls:
  "preserves (extends_with P) m \<Longrightarrow> preserves (world_extends P) (on_calls m)"
  by (rule preservesI)
    (auto simp: on_calls_def world_extends_def split: prod.splits, metis preservesD snd_conv)

lemma preserves_on_ids: "preserves (world_extends P) (on_ids m)"
  by (rule preservesI) (auto simp: on_ids_def world_extends_def split: prod.splits)

lemma preserves_respond: "preserves (world_extends P) (respond evs)"
  by (rule preservesI) (auto simp: respond_def world_extends_def)

lemma preserves_newUUID: "preserves (world_extends P) (newUUID E)"
  by (rule preservesI) (auto simp: newUUID_def world_extends_def split: option.splits)

lemma preserves_now: "preserves (world_extends P) (now E)"
  by (rule preservesI) (auto simp: now_def world_extends_def)

lemmas handler_preserves = preserves_bind preserves_return preserves_lift preserves_case_prod
  preserves_on_calls preserves_on_ids preserves_respond preserves_newUUID preserves_now api_preserves

locale identity_handler =
  fixes complete :: "goth_user \<Rightarrow> profile \<Rightarrow> ('st world, unit) act"
    and call_ok :: "call \<Rightarrow> bool"
  assumes complete_extends: "preserves (world_extends call_ok) (complete user p)"
begin

lemma complete_calls: "extends_with call_ok (calls w) (calls (snd (complete user p w)))"
  using preservesD [OF complete_extends, of w] by (simp add: world_extends_def)

lemma complete_resp: "prefix (resp w) (resp (snd (complete user p w)))"
  using preservesD [OF complete_extends, of w] by (simp add: world_extends_def)

text \<open>What the client was sent before stays: an error status cannot become a success.\<close>

lemma complete_status:
  "\<not> unsent (resp w) \<Longrightarrow> resp_status (resp (snd (complete user p w))) = resp_status (resp w)"
  using complete_resp [of w user p] by (auto simp: prefix_def resp_status_sent)

lemma complete_unsent: "\<not> unsent (resp w) \<Longrightarrow> \<not> unsent (resp (snd (complete user p w)))"
  using complete_resp [of w user p] by (auto simp: prefix_def unsent_def)

end

lemma preserves_CreateIdentity:
  "preserves (world_extends (tyk_call (API t) (dashboardUserAPICred t))) (CreateIdentity E t user)"
  by (auto simp: CreateIdentity_def split: sum.split option.split intro!: handler_preserves)

lemma preserves_dashboard:
  "preserves (world_extends (tyk_call (API t) (dashboardUserAPICred t)))
     (CompleteIdentityActionForDashboard E t user p)"
  by (auto simp: CompleteIdentityActionForDashboard_def split: sum.split
      intro!: handler_preserves preserves_CreateIdentity)

lemma preserves_portal_redirect: "preserves (world_extends P) (portal_redirect p nonce)"
  by (simp add: portal_redirect_def preserves_respond)

lemma preserves_create_portal_user:
  "preserves (world_extends (tyk_call (API t) (dashboardUserAPICred t)))
     (create_portal_user E t user key nonce p)"
  by (auto simp: create_portal_user_def Let_def intro!: handler_preserves preserves_portal_redirect)

lemma preserves_update_portal_user:
  "preserves (world_extends (tyk_call (API t) (dashboardUserAPICred t)))
     (update_portal_user E t user dev nonce p)"
  unfolding update_portal_user_def Let_def
  by (rule preserves_bind, simp, simp add: handler_preserves)
    (auto intro!: handler_preserves preserves_portal_redirect)

lemma preserves_portal:
  "preserves (world_extends (tyk_call (API t) (dashboardUserAPICred t)))
     (CompleteIdentityActionForPortal E t user p)"
  by (auto simp: CompleteIdentityActionForPortal_def Let_def split: sum.split
      intro!: handler_preserves preserves_CreateIdentity preserves_create_portal_user
        preserves_update_portal_user)

lemma preserves_invalidate_known:
  "preserves (world_extends (tyk_call (API t) (dashboardUserAPICred t))) (invalidate_known E st t base key)"
  using preservesD [OF preserves_on_calls [OF preserves_InvalidateToken], of "API t" "dashboardUserAPICred t"]
  by (intro preservesI) (auto simp: invalidate_known_def split: prod.split option.split)

lemma preserves_store_token: "preserves (world_extends P) (store_token st key tok)"
  by (auto simp: store_token_def intro!: handler_preserves)

lemma preserves_oauth:
  "preserves (world_extends (tyk_call (API t) (dashboardUserAPICred t)))
     (CompleteIdentityActionForOAuth E st t user)"
  by (auto simp: CompleteIdentityActionForOAuth_def Let_def split: option.split
      intro!: handler_preserves preserves_invalidate_known preserves_store_token)

lemma preserves_token_auth:
  "preserves (world_extends (tyk_call (API t) (dashboardUserAPICred t)))
     (CompleteIdentityActionForTokenAuth E st t user)"
  by (auto simp: CompleteIdentityActionForTokenAuth_def Let_def split: option.split
      intro!: handler_preserves preserves_invalidate_known preserves_store_token)

interpretation tyk: identity_handler
  "CompleteIdentityAction E st t" "tyk_call (API t) (dashboardUserAPICred t)"
  by unfold_locales
    (auto simp: CompleteIdentityAction_def preserves_dashboard preserves_portal preserves_oauth
      preserves_token_auth intro: preserves_return)

interpretation dummy: identity_handler dummy_CompleteIdentityAction "\<lambda>_. False"
  by unfold_locales (simp add: dummy_CompleteIdentityAction_def Let_def preserves_respond)

subsection \<open>What a completed login means\<close>

lemma obind_Returns [simp]: "obind m f = Returns b \<longleftrightarrow> (\<exists>a. m = Returns a \<and> f a = Returns b)"
  by (cases m) auto

lemma as_Returns [simp]:
  "as_string j = Returns s \<longleftrightarrow> j = JStr s" "as_object j = Returns m \<longleftrightarrow> j = JObj m"
  "as_bool j = Returns b \<longleftrightarrow> j = JBool b"
  by (auto simp: as_string_def as_object_def as_bool_def split: json.splits)

lemma respond_Returns [simp]: "respond evs w = (Returns u, w') \<longleftrightarrow> w' = w\<lparr>resp := resp w @ evs\<rparr>"
  by (auto simp: respond_def)

lemma on_calls_Returns:
  "on_calls m w = (Returns a, w') \<longleftrightarrow> (\<exists>h. m (calls w) = (Returns a, h) \<and> w' = w\<lparr>calls := h\<rparr>)"
  by (auto simp: on_calls_def split: prod.splits)

text \<open>The nonce a handler works with is the \<^verbatim>\<open>Meta\<close> member of a 200 answer of the dashboard to the access
  request for this very user.\<close>

definition nonce_issued :: "environ \<Rightarrow> tyk_handler \<Rightarrow> goth_user \<Rightarrow> call list \<Rightarrow> call list \<Rightarrow> string \<Rightarrow> bool" where
  "nonce_issued E t user h h' nonce \<longleftrightarrow>
     (\<exists>g target b thisModule req m.
        prefix h g \<and> target \<in> {SSO_REGULAR, SSO_ADMIN} \<and>
        mapActionToModule (ActionType (Handler_profile t)) = Inr thisModule \<and>
        access_request (Handler_profile t) thisModule user = Returns req \<and>
        exchanged E g h' ''POST'' (prepared (DashboardConfig (API t)) target)
          (Some (print_json (sso_access_json req))) 200 b \<and>
        decode_any b = JObj m \<and> any_get m ''Meta'' = JStr nonce)"

text \<open>Making the identity sends nothing to the browser.\<close>

definition silent :: "'st world \<Rightarrow> 'st world \<Rightarrow> bool" where
  "silent w w' \<longleftrightarrow> resp w' = resp w \<and> ids w' = ids w"

lemma reflp_silent [simp]: "reflp silent" and transp_silent [simp]: "transp silent"
  by (simp_all add: silent_def reflp_def transp_def)

lemma silent_on_calls: "preserves silent (on_calls m)"
  by (rule preservesI) (auto simp: on_calls_def silent_def split: prod.splits)

lemma silent_CreateIdentity: "preserves silent (CreateIdentity E t user)"
  by (auto simp: CreateIdentity_def split: sum.split option.split
      intro!: preserves_bind preserves_return preserves_lift preserves_case_prod silent_on_calls)

lemma CreateIdentity_resp: "CreateIdentity E t user w = (r, w') \<Longrightarrow> resp w' = resp w"
  using preservesD [OF silent_CreateIdentity, of w E t user] by (simp add: silent_def)

lemma CreateIdentity_ok:
  assumes "plain_api (API t)" and run: "CreateIdentity E t user w = (Returns (Inr nonce), w')"
  shows "nonce_issued E t user (calls w) (calls w') nonce"
proof -
  from run obtain md req v ep h where
    md: "mapActionToModule (ActionType (Handler_profile t)) = Inr md"
    and req: "access_request (Handler_profile t) md user = Returns req"
    and sso: "CreateSSONonce E (API t) (dashboardUserAPICred t) (sso_access_json req) (calls w)
      = (Returns (v, ep, None), h)"
    and v: "\<exists>m. v = JObj m \<and> any_get m ''Meta'' = JStr nonce" and w': "calls w' = h"
    by (auto simp: CreateIdentity_def bind_act_Returns on_calls_Returns split: sum.splits option.splits)
  from CreateSSONonce_ok [OF assms(1) sso] v md req w' show ?thesis
    unfolding nonce_issued_def by metis
qed

text \<open>The other direction: a dashboard that answers the first request with a nonce completes the login.\<close>

definition sso_request :: "tyk_handler \<Rightarrow> sso_access_data \<Rightarrow> outgoing" where
  "sso_request t req =
     \<lparr>out_method = ''POST'', out_url = prepared (DashboardConfig (API t)) SSO_REGULAR,
      out_headers = [(''authorization'', dashboardUserAPICred t)],
      out_body = Some (print_json (sso_access_json req))\<rparr>"

lemma CreateIdentity_answered:
  assumes "plain_api (API t)" and "mapActionToModule (ActionType (Handler_profile t)) = Inr md"
    and "access_request (Handler_profile t) md user = Returns req"
    and "\<And>url. newRequest E ''POST'' url = None"
    and "net_reply E (calls w) (sso_request t req) = Reply 200 (Inr b)"
    and "decode_any b = JObj m" and "any_get m ''Meta'' = JStr nonce"
  shows "CreateIdentity E t user w = (Returns (Inr nonce), w\<lparr>calls := calls w @ [Http (sso_request t req)]\<rparr>)"
  using assms
  by (simp add: CreateIdentity_def CreateSSONonce_def DispatchAndDecode_def DispatchDashboard_def plain_api_def
      sso_request_def Let_def bind_act_def send_def on_calls_def api_name_defs as_object_def as_string_def)

lemma dashboard_completes:
  assumes "plain_api (API t)" and "ActionType (Handler_profile t) = GenerateOrLoginUserProfile"
    and "access_request (Handler_profile t) SSOForDashboard user = Returns req"
    and "\<And>url. newRequest E ''POST'' url = None"
    and "net_reply E (calls w) (sso_request t req) = Reply 200 (Inr b)"
    and "decode_any b = JObj m" and "any_get m ''Meta'' = JStr nonce" and "ReturnURL p \<noteq> ''''"
  shows "CompleteIdentityActionForDashboard E t user p w =
    (Returns (), w\<lparr>calls := calls w @ [Http (sso_request t req)],
       resp := resp w @ [Redirect (ReturnURL p @ ''?nonce='' @ nonce) 301]\<rparr>)"
proof -
  have "mapActionToModule (ActionType (Handler_profile t)) = Inr SSOForDashboard"
    by (simp add: mapActionToModule_def assms(2))
  note run = CreateIdentity_answered [OF assms(1) this assms(3-7)]
  show ?thesis
    by (simp add: CompleteIdentityActionForDashboard_def bind_act_def run assms(8) respond_def)
qed

lemma dashboard_redirect:
  assumes plain: "plain_api (API t)" and w: "unsent (resp w)"
    and run: "CompleteIdentityActionForDashboard E t user p w = (Returns (), w')"
    and loc: "resp_location (resp w') = Some url"
  shows "\<exists>nonce. url = ReturnURL p @ ''?nonce='' @ nonce \<and>
    nonce_issued E t user (calls w) (calls w') nonce"
proof -
  from run obtain n w1 where n: "CreateIdentity E t user w = (Returns n, w1)"
    and rest: "(case n of Inl nErr \<Rightarrow> respond [Write ''Login failed'']
       | Inr nonce \<Rightarrow>
           if ReturnURL p \<noteq> '''' then respond [Redirect (ReturnURL p @ ''?nonce='' @ nonce) 301]
           else respond [Write ''Check with your admin why there's no URI defined'']) w1 = (Returns (), w')"
    by (auto simp: CompleteIdentityActionForDashboard_def bind_act_Returns)
  have w1: "resp w1 = resp w" by (rule CreateIdentity_resp [OF n])
  from rest loc w w1 obtain nonce where nonce: "n = Inr nonce"
    "url = ReturnURL p @ ''?nonce='' @ nonce" "calls w' = calls w1"
    by (auto split: sum.splits if_splits)
  then show ?thesis using CreateIdentity_ok [OF plain n [unfolded nonce(1)]] by auto
qed

text \<open>The portal login stores the nonce with the developer before it redirects with it.\<close>

definition developer_saved :: "environ \<Rightarrow> tyk_handler \<Rightarrow> call list \<Rightarrow> string \<Rightarrow> bool" where
  "developer_saved E t h' nonce \<longleftrightarrow>
     (\<exists>g verb target dev code b.
        exchanged E g h' verb (prepared (DashboardConfig (API t)) target)
          (Some (print_json (developer_json E dev))) code b \<and>
        Dev_Nonce dev = nonce \<and>
        (verb = ''POST'' \<and> target = PORTAL_DEV \<or>
         verb = ''PUT'' \<and> target = PORTAL_DEV @ ''/'' @ Dev_Id dev))"

lemma portal_redirect_location:
  assumes "unsent (resp w)" and "portal_redirect p nonce w = (Returns (), w')" and "resp_location (resp w') = Some url"
  shows "url = ReturnURL p @ ''?nonce='' @ nonce" and "calls w' = calls w"
  using assms by (auto simp: portal_redirect_def split: if_splits)

lemma CreateDeveloper_saved:
  assumes "plain_api (API t)"
    and "CreateDeveloper E (API t) (dashboardUserAPICred t) dev h = (Returns None, h')"
  shows "developer_saved E t h' (Dev_Nonce dev)"
  using assms(2) unfolding developer_saved_def
  by (fastforce simp: CreateDeveloper_def bind_act_Returns api_config_def dest!: DispatchAndDecode_ok [OF assms(1)])

lemma UpdateDeveloper_saved:
  assumes "plain_api (API t)"
    and "UpdateDeveloper E (API t) (dashboardUserAPICred t) dev h = (Returns None, h')"
  shows "developer_saved E t h' (Dev_Nonce dev)"
  using assms(2) unfolding developer_saved_def
  by (fastforce simp: UpdateDeveloper_def bind_act_Returns api_config_def dest!: DispatchAndDecode_ok [OF assms(1)])

lemma save_then_redirect:
  assumes w: "unsent (resp w)" and loc: "resp_location (resp w') = Some url"
    and rest: "(if err \<noteq> None then respond [Write ''Login failed''] else portal_redirect p nonce) w = (Returns (), w')"
  shows "err = None" and "url = ReturnURL p @ ''?nonce='' @ nonce" and "calls w' = calls w"
  using assms portal_redirect_location [OF w _ loc] by (auto split: if_splits)

lemma create_portal_user_redirect:
  assumes plain: "plain_api (API t)" and w: "unsent (resp w)"
    and run: "create_portal_user E t user key nonce p w = (Returns (), w')"
    and loc: "resp_location (resp w') = Some url"
  shows "url = ReturnURL p @ ''?nonce='' @ nonce \<and> developer_saved E t (calls w') nonce"
proof -
  from run obtain pw err h where
    sent: "CreateDeveloper E (API t) (dashboardUserAPICred t)
      (new_developer E t user key nonce pw (clock E (calls w))) (calls w) = (Returns err, h)"
    and rest: "(if err \<noteq> None then respond [Write ''Login failed''] else portal_redirect p nonce) (w\<lparr>calls := h\<rparr>)
      = (Returns (), w')"
    by (auto simp: create_portal_user_def bind_act_Returns on_calls_Returns now_def newUUID_def
        split: option.splits)
  have "unsent (resp (w\<lparr>calls := h\<rparr>))" using w by simp
  note r = save_then_redirect [OF this loc rest]
  show ?thesis
    using CreateDeveloper_saved [OF plain sent [unfolded r(1)]] r by (simp add: new_developer_def)
qed

lemma update_portal_user_steps:
  assumes run: "update_portal_user E t user u nonce p w = (Returns (), w')"
  obtains pw err h where
    "UpdateDeveloper E (API t) (dashboardUserAPICred t)
       ((if Dev_Email u = '''' then u\<lparr>Dev_Email := Email user\<rparr> else u)\<lparr>Dev_Nonce := nonce, Dev_Password := pw\<rparr>)
       (calls w) = (Returns err, h)"
    and "(if err \<noteq> None then respond [Write ''Login failed''] else portal_redirect p nonce) (w\<lparr>calls := h\<rparr>)
      = (Returns (), w')"
proof -
  let ?u = "(if Dev_Email u = '''' then u\<lparr>Dev_Email := Email user\<rparr> else u)\<lparr>Dev_Nonce := nonce\<rparr>"
  from run obtain pw w1 where
    pw: "(if Dev_Password ?u = '''' then newUUID E else return_act (Dev_Password ?u)) w = (Returns pw, w1)"
    and more: "bind_act (on_calls (UpdateDeveloper E (API t) (dashboardUserAPICred t) (?u\<lparr>Dev_Password := pw\<rparr>)))
      (\<lambda>err. if err \<noteq> None then respond [Write ''Login failed''] else portal_redirect p nonce) w1 = (Returns (), w')"
    unfolding update_portal_user_def Let_def bind_act_Returns [of _ _ w] by blast
  from pw have "w1 = w" by (auto simp: newUUID_def split: option.splits if_splits)
  with more obtain err h where
    sent: "UpdateDeveloper E (API t) (dashboardUserAPICred t) (?u\<lparr>Dev_Password := pw\<rparr>) (calls w) = (Returns err, h)"
    and rest: "(if err \<noteq> None then respond [Write ''Login failed''] else portal_redirect p nonce) (w\<lparr>calls := h\<rparr>)
      = (Returns (), w')"
    unfolding bind_act_Returns on_calls_Returns by blast
  then show thesis by (rule that)
qed

lemma update_portal_user_redirect:
  assumes plain: "plain_api (API t)" and w: "unsent (resp w)"
    and run: "update_portal_user E t user dev nonce p w = (Returns (), w')"
    and loc: "resp_location (resp w') = Some url"
  shows "url = ReturnURL p @ ''?nonce='' @ nonce \<and> developer_saved E t (calls w') nonce"
proof -
  let ?u = "(if Dev_Email dev = '''' then dev\<lparr>Dev_Email := Email user\<rparr> else dev)\<lparr>Dev_Nonce := nonce\<rparr>"
  from update_portal_user_steps [OF run] obtain pw err h where
    sent: "UpdateDeveloper E (API t) (dashboardUserAPICred t) (?u\<lparr>Dev_Password := pw\<rparr>) (calls w) = (Returns err, h)"
    and rest: "(if err \<noteq> None then respond [Write ''Login failed''] else portal_redirect p nonce) (w\<lparr>calls := h\<rparr>)
      = (Returns (), w')" .
  have "unsent (resp (w\<lparr>calls := h\<rparr>))" using w by simp
  note r = save_then_redirect [OF this loc rest]
  show ?thesis
    using UpdateDeveloper_saved [OF plain sent [unfolded r(1)]] r by simp
qed

lemma preserves_prefix: "preserves (extends_with P) m \<Longrightarrow> m h = (r, h') \<Longrightarrow> prefix h h'"
  by (drule preservesD [of _ _ h]) (auto simp: extends_with_def)

lemma preserves_calls_prefix:
  "preserves (world_extends P) m \<Longrightarrow> m w = (r, w') \<Longrightarrow> prefix (calls w) (calls w')"
  by (drule preservesD [of _ _ w]) (auto simp: world_extends_def extends_with_def)

lemma portal_redirect_sound:
  assumes plain: "plain_api (API t)" and w: "unsent (resp w)"
    and run: "CompleteIdentityActionForPortal E t user p w = (Returns (), w')"
    and loc: "resp_location (resp w') = Some url"
  shows "\<exists>nonce h. url = ReturnURL p @ ''?nonce='' @ nonce \<and> prefix h (calls w') \<and>
    nonce_issued E t user (calls w) h nonce \<and> developer_saved E t (calls w') nonce"
proof -
  from run obtain n w1 where n: "CreateIdentity E t user w = (Returns n, w1)"
    by (auto simp: CompleteIdentityActionForPortal_def bind_act_Returns)
  have w1: "unsent (resp w1)" using CreateIdentity_resp [OF n] w by simp
  show ?thesis
  proof (cases n)
    case (Inl e)
    with run n loc w1 show ?thesis
      by (auto simp: CompleteIdentityActionForPortal_def bind_act_Returns)
  next
    case (Inr nonce)
    with run n obtain uid u err auth h where
      "GetUserID user (CustomUserIDField (Handler_profile t)) = Returns uid"
      and g: "GetDeveloperBySSOKey E (API t) (dashboardUserAPICred t) (GenerateSSOKey (user\<lparr>UserID := uid\<rparr>)) (calls w1)
        = (Returns (u, err, auth), h)"
      and rest: "(if \<not> auth then respond [Write ''Login failed'']
        else if err \<noteq> None
        then create_portal_user E t (user\<lparr>UserID := uid\<rparr>) (GenerateSSOKey (user\<lparr>UserID := uid\<rparr>)) nonce p
        else update_portal_user E t (user\<lparr>UserID := uid\<rparr>) u nonce p) (w1\<lparr>calls := h\<rparr>) = (Returns (), w')"
      by (auto simp: CompleteIdentityActionForPortal_def Let_def bind_act_Returns on_calls_Returns)
    let ?w2 = "w1\<lparr>calls := h\<rparr>"
    have w2: "unsent (resp ?w2)" using w1 by simp
    from rest loc w2 have save: "url = ReturnURL p @ ''?nonce='' @ nonce \<and> developer_saved E t (calls w') nonce"
      using create_portal_user_redirect [OF plain w2 _ loc] update_portal_user_redirect [OF plain w2 _ loc]
      by (auto split: if_splits)
    have "prefix (calls w1) h"
      by (rule preserves_prefix [OF preserves_developers(2) g])
    moreover have "prefix (calls ?w2) (calls w')"
      using rest preserves_calls_prefix [OF preserves_create_portal_user [of t E], where w = ?w2]
        preserves_calls_prefix [OF preserves_update_portal_user [of t E], where w = ?w2]
      by (auto split: if_splits)
    ultimately have "prefix (calls w1) (calls w')" by simp
    with save CreateIdentity_ok [OF plain n [unfolded Inr]] show ?thesis by blast
  qed
qed

subsection \<open>Groups and addresses\<close>

lemma Split_Join:
  "gs \<noteq> [] \<Longrightarrow> \<forall>g\<in>set gs. c \<notin> set g \<Longrightarrow> Split (Join gs [c]) [c] = gs"
proof (induction gs)
  case (Cons g gs)
  then show ?case by (cases "gs = []") (simp_all add: Join_Cons)
qed simp

lemma json_strings_map: "json_strings (map JStr gs) = Returns gs"
  by (induction gs) (simp_all add: as_string_def)

text \<open>The three ways a provider may state a user's groups read the same.\<close>

lemma groupsStringer_encodings:
  "groupsStringer (RawStrings gs) sep = Returns gs"
  "groupsStringer (Raw (JArr (map JStr gs))) sep = Returns gs"
  "gs \<noteq> [] \<Longrightarrow> \<forall>g\<in>set gs. c \<notin> set g \<Longrightarrow> groupsStringer (Raw (JStr (Join gs [c]))) [c] = Returns gs"
  "gs \<noteq> [] \<Longrightarrow> \<forall>g\<in>set gs. CHR '' '' \<notin> set g \<Longrightarrow>
    groupsStringer (Raw (JStr (Join gs '' ''))) '''' = Returns gs"
  by (simp_all add: groupsStringer_def json_strings_map as_string_def Split_Join)

lemma set_map_filter: "set (List.map_filter f xs) = {y. \<exists>x\<in>set xs. f x = Some y}"
  by (induction xs) (auto simp: List.map_filter_simps split: option.splits)

lemma map_filter_Nil_iff: "List.map_filter f xs = [] \<longleftrightarrow> (\<forall>x\<in>set xs. f x = None)"
  by (induction xs) (auto simp: List.map_filter_simps split: option.splits)

definition default_groups :: "string \<Rightarrow> string set" where
  "default_groups d = (if d = '''' then {} else {d})"

lemma set_defaultOrEmptyGroupIDs [simp]: "set (defaultOrEmptyGroupIDs d) = default_groups d"
  by (simp add: defaultOrEmptyGroupIDs_def default_groups_def)

lemma GetGroupId_no_claim:
  "f = '''' \<or> raw_get u f = Raw JNull \<Longrightarrow> GetGroupId u f d m sep = Returns (defaultOrEmptyGroupIDs d)"
  by (auto simp: GetGroupId_def)

lemma GetGroupId_claims:
  assumes "f \<noteq> ''''" and "raw_get u f \<noteq> Raw JNull" and "groupsStringer (raw_get u f) sep = Returns groups"
  shows "GetGroupId u f d m sep = Returns
    (let ids = List.map_filter (map_get (case m of None \<Rightarrow> [] | Some m' \<Rightarrow> m')) groups
     in if ids = [] then defaultOrEmptyGroupIDs d else ids)"
  using assms by (auto simp: GetGroupId_def Let_def List.map_filter_simps)

lemma GetEmail_not_empty: "GetEmail u f = Returns e \<Longrightarrow> e \<noteq> ''''"
  by (auto simp: GetEmail_def Let_def DefaultSSOEmail_def split: if_splits)

subsection \<open>Identity stores\<close>

definition redis_id_store :: "'r key_value \<Rightarrow> 'r redis id_store" where
  "redis_id_store ops =
     \<lparr>idGet = redis_GetKey ops unmarshal_string '''',
      idSet = \<lambda>k org v s. (case redis_SetKey ops k org v s of (e, s') \<Rightarrow> (Returns e, s'))\<rparr>"

definition mem_id_store :: "in_memory id_store" where
  "mem_id_store = \<lparr>idGet = in_memory_GetKey unmarshal_string '''', idSet = in_memory_SetKey\<rparr>"

text \<open>A token the Redis store was given is not what a later lookup returns.\<close>

lemma redis_id_not_read_back:
  assumes "key_value_documented ops db" and "redis_SetKey ops k org (StringVal tok) r = (None, r')"
  shows "idGet (redis_id_store ops) k org' r' \<noteq> (None, tok)"
proof (cases "kvGet ops (fixKey r' k) (client r')")
  case (Pair e v)
  show ?thesis
  proof (cases e)
    case (Some err)
    with Pair show ?thesis by (simp add: redis_id_store_def redis_GetKey_def)
  next
    case None
    have "fixKey r' k = fixKey r k"
      using assms(2) by (auto simp: redis_SetKey_def split: prod.splits option.splits)
    with Pair None redis_get_after_set [OF assms, of v unmarshal_string "''''" org'] show ?thesis
      by (simp add: redis_id_store_def redis_text_def unmarshal_string_not_self)
  qed
qed

text \<open>With the in-memory store it is.\<close>

lemma mem_id_read_back:
  assumes "in_memory_SetKey k org (StringVal tok) m = (Returns None, m')" and "\<And>s. kv m = Some s \<Longrightarrow> wf_map s"
  shows "idGet mem_id_store k org' m' = (None, tok)"
  using assms
  by (auto simp: mem_id_store_def in_memory_SetKey_def in_memory_GetKey_def unmarshal_string_quoted
      split: option.splits)

lemma calls_on_calls: "calls (snd (on_calls m w)) = snd (m (calls w))"
  by (simp add: on_calls_def split: prod.splits)

text \<open>The one call of an invalidation, for the dispatchers of the broker.\<close>

definition deletion :: "tyk_handler \<Rightarrow> string \<Rightarrow> string \<Rightarrow> call" where
  "deletion t base tok = Http
     \<lparr>out_method = ''DELETE'',
      out_url = prepared (DashboardConfig (API t)) (''/api/apis/'' @ base @ ''/keys/'' @ tok),
      out_headers = [(''authorization'', dashboardUserAPICred t)], out_body = None\<rparr>"

lemma deletion_inject [simp]: "deletion t base tok = deletion t base tok' \<longleftrightarrow> tok = tok'"
  by (simp add: deletion_def prepared_def)

lemma InvalidateToken_calls:
  assumes "plain_api (API t)"
  shows "snd (InvalidateToken E (API t) (dashboardUserAPICred t) base tok h) =
    (if newRequest E ''DELETE'' (prepared (DashboardConfig (API t)) (''/api/apis/'' @ base @ ''/keys/'' @ tok)) = None
     then h @ [deletion t base tok] else h)"
  using assms unfolding InvalidateToken_def InvalidateToken_target Let_def
  by (auto simp: plain_api_def DispatchAndDecode_def DispatchDashboard_def Let_def bind_act_def send_def
      deletion_def split: option.splits prod.splits)

lemma invalidate_known_calls:
  assumes "plain_api (API t)"
  shows "calls (snd (invalidate_known E st t base key w)) =
    (if disableOneTokenPerAPI t \<or> fst (idGet st key '''' (ids w)) \<noteq> None \<or>
        newRequest E ''DELETE'' (prepared (DashboardConfig (API t))
          (''/api/apis/'' @ base @ ''/keys/'' @ snd (idGet st key '''' (ids w)))) \<noteq> None
     then calls w
     else calls w @ [deletion t base (snd (idGet st key '''' (ids w)))])"
proof (cases "disableOneTokenPerAPI t \<or> fst (idGet st key '''' (ids w)) \<noteq> None")
  case True
  then show ?thesis
    by (auto simp: invalidate_known_def split: prod.split option.split)
next
  case False
  then obtain tok where "idGet st key '''' (ids w) = (None, tok)"
    by (cases "idGet st key '''' (ids w)") auto
  with False show ?thesis
    by (simp add: invalidate_known_def calls_on_calls InvalidateToken_calls [OF assms])
qed

subsection \<open>The contract of a provider\<close>

text \<open>
  A request that can end in a login, for any identity handler: \<open>verdict\<close> is the user the provider has
  authenticated, computed from the request and the provider's own state \<open>'l\<close> before the handler is
  involved. With a verdict the handler does all the rest, without one the provider refuses on its own.
\<close>

locale login_flow =
  fixes run :: "(goth_user \<Rightarrow> profile \<Rightarrow> ('st world, unit) act) \<Rightarrow> 'l \<Rightarrow> 'st world \<Rightarrow> 'st world"
    and verdict :: "'l \<Rightarrow> goth_user option"
    and refusal :: "'l \<Rightarrow> response"
    and prof :: profile
  assumes run_world: "run complete l w =
    (case verdict l of
       None \<Rightarrow> w\<lparr>resp := resp w @ refusal l\<rparr>
     | Some user \<Rightarrow> snd (complete user prof w))"
begin

lemma refused: "verdict l = None \<Longrightarrow> calls (run complete l w) = calls w \<and> ids (run complete l w) = ids w"
  by (simp add: run_world)

lemma acted_on_verdict:
  "calls (run complete l w) \<noteq> calls w \<or> ids (run complete l w) \<noteq> ids w \<Longrightarrow>
    \<exists>user. verdict l = Some user \<and> run complete l w = snd (complete user prof w)"
  by (cases "verdict l") (auto simp: run_world)

lemma run_extends:
  assumes "\<And>user. preserves (world_extends P) (complete user prof)"
  shows "world_extends P w (run complete l w)"
  using preservesD [OF assms, of w]
  by (cases "verdict l") (simp_all add: run_world world_extends_def)

end

end
