(* ===== verification/Provider_AD.thy ===== *)
theory Provider_AD
  imports Provider_Utils Identity_Handler
begin

section \<open>The LDAP provider (active_directory.go)\<close>

text \<open>
  A login with a user name and a password checked against a directory. The directory is reached
  through \<^verbatim>\<open>go-ldap\<close>: the history of the operations on it is part of the state, and what it answers
  to one is a function of the history (so also whether a bind on a connection that was never made
  panics). The identity handler is an argument.
\<close>

subsection \<open>The directory\<close>

datatype ldap_event =
    Dial bool string
  | Bind string string
  | Search string int string "string list"
  | Close

record ldap_entry =
  DN :: string
  Attributes :: "(string \<times> string list) list"

record ldap =
  ldBind :: "ldap_event list \<Rightarrow> string \<Rightarrow> string \<Rightarrow> go_error option outcome"
  ldSearch :: "ldap_event list \<Rightarrow> string \<Rightarrow> int \<Rightarrow> string \<Rightarrow> string list \<Rightarrow> ldap_entry list result outcome"
  ldClose :: "ldap_event list \<Rightarrow> unit outcome"

type_synonym 'a ldap_act = "(ldap_event list, 'a) act"

definition do_bind :: "ldap \<Rightarrow> string \<Rightarrow> string \<Rightarrow> go_error option ldap_act" where
  "do_bind L dn pw h = (ldBind L h dn pw, h @ [Bind dn pw])"

definition do_search :: "ldap \<Rightarrow> string \<Rightarrow> int \<Rightarrow> string \<Rightarrow> string list \<Rightarrow> ldap_entry list result ldap_act" where
  "do_search L base scope filt attrs h = (ldSearch L h base scope filt attrs, h @ [Search base scope filt attrs])"

definition do_close :: "ldap \<Rightarrow> unit ldap_act" where
  "do_close L h = (ldClose L h, h @ [Close])"

subsection \<open>Configuration\<close>

record ad_config =
  LDAPUseSSL :: bool
  LDAPServer :: string
  LDAPPort :: string
  LDAPUserDN :: string
  LDAPBaseDN :: string
  LDAPFilter :: string
  LDAPEmailAttribute :: string
  LDAPFirstNameAttribute :: string
  LDAPLastNameAttribute :: string
  LDAPAdminUser :: string
  LDAPAdminPassword :: string
  LDAPAttributes :: "string list"
  LDAPSearchScope :: int
  AD_FailureRedirect :: string
  DefaultDomain :: string
  GetAuthFromBAHeader :: bool
  SlugifyUserName :: bool

definition zero_ad_config :: ad_config where
  "zero_ad_config =
     \<lparr>LDAPUseSSL = False, LDAPServer = '''', LDAPPort = '''', LDAPUserDN = '''', LDAPBaseDN = '''',
      LDAPFilter = '''', LDAPEmailAttribute = '''', LDAPFirstNameAttribute = '''',
      LDAPLastNameAttribute = '''', LDAPAdminUser = '''', LDAPAdminPassword = '''', LDAPAttributes = [],
      LDAPSearchScope = 0, AD_FailureRedirect = '''', DefaultDomain = '''', GetAuthFromBAHeader = False,
      SlugifyUserName = False\<rparr>"

definition ad_config_fields :: "(string \<times> ad_config setter) list" where
  "ad_config_fields =
     [(''LDAPUseSSL'', set_bool LDAPUseSSL_update),
      (''LDAPServer'', set_string LDAPServer_update),
      (''LDAPPort'', set_string LDAPPort_update),
      (''LDAPUserDN'', set_string LDAPUserDN_update),
      (''LDAPBaseDN'', set_string LDAPBaseDN_update),
      (''LDAPFilter'', set_string LDAPFilter_update),
      (''LDAPEmailAttribute'', set_string LDAPEmailAttribute_update),
      (''LDAPFirstNameAttribute'', set_string LDAPFirstNameAttribute_update),
      (''LDAPLastNameAttribute'', set_string LDAPLastNameAttribute_update),
      (''LDAPAdminUser'', set_string LDAPAdminUser_update),
      (''LDAPAdminPassword'', set_string LDAPAdminPassword_update),
      (''LDAPAttributes'', set_string_list LDAPAttributes_update),
      (''LDAPSearchScope'', set_int LDAPSearchScope_update),
      (''FailureRedirect'', set_string AD_FailureRedirect_update),
      (''DefaultDomain'', set_string DefaultDomain_update),
      (''GetAuthFromBAHeader'', set_bool GetAuthFromBAHeader_update),
      (''SlugifyUserName'', set_bool SlugifyUserName_update)]"

text \<open>The provider, with the profile it was initialised for.\<close>

record ad_provider =
  AD_config :: ad_config
  AD_profile :: profile

definition ad_Init :: "profile \<Rightarrow> string \<Rightarrow> go_error option \<times> ad_provider" where
  "ad_Init p config =
     (let (err, c) = Unmarshal (unmarshal_struct ad_config_fields) config zero_ad_config
      in (err, \<lparr>AD_config = c, AD_profile = p\<rparr>))"

subsection \<open>Names\<close>

definition prepFilter :: "ad_config \<Rightarrow> string \<Rightarrow> string" where
  "prepFilter c thisUserName = ReplaceAll (LDAPFilter c) ''*USERNAME*'' thisUserName"

definition prepDN :: "ad_config \<Rightarrow> string \<Rightarrow> string" where
  "prepDN c thisUserName = ReplaceAll (LDAPUserDN c) ''*USERNAME*'' thisUserName"

definition generateUsername :: "unicode \<Rightarrow> ad_provider \<Rightarrow> string \<Rightarrow> string" where
  "generateUsername U s username =
     (if Contains username ''@'' then username
      else
        (let domain = (if DefaultDomain (AD_config s) = ''''
               then OrgID (AD_profile s) @ ''-'' @ ''ADProvider.com'' else DefaultDomain (AD_config s))
         in Slug U username @ ''@'' @ domain))"

subsection \<open>Looking the user up\<close>

text \<open>The configuration with the defaults \<^verbatim>\<open>getUserData\<close> fills in.\<close>

definition ad_defaults :: "ad_config \<Rightarrow> ad_config" where
  "ad_defaults c = c
     \<lparr>LDAPFilter := (if LDAPFilter c = '''' then ''(objectclass=*)'' else LDAPFilter c),
      LDAPEmailAttribute := (if LDAPEmailAttribute c = '''' then ''mail'' else LDAPEmailAttribute c),
      LDAPFirstNameAttribute :=
        (if LDAPFirstNameAttribute c = '''' then ''givenName'' else LDAPFirstNameAttribute c),
      LDAPLastNameAttribute := (if LDAPLastNameAttribute c = '''' then ''sn'' else LDAPLastNameAttribute c)\<rparr>"

definition first_value :: "string list \<Rightarrow> string outcome" where
  "first_value vs = (case vs of v # _ \<Rightarrow> Returns v | [] \<Rightarrow> Panics Index_out_of_range)"

text \<open>One attribute of the entry: it may be the e-mail address or a name, and is kept in the raw data,
  the group attribute with all its values.\<close>

definition read_attribute ::
    "ad_config \<Rightarrow> string \<Rightarrow> string \<times> string list \<Rightarrow> goth_user \<times> bool \<Rightarrow> (goth_user \<times> bool) outcome" where
  "read_attribute c groupField j s =
     (let (name, values) = j; (u, emailFound) = s in
      obind (if name = LDAPEmailAttribute c
             then obind (first_value values) (\<lambda>v. Returns (u\<lparr>Email := v\<rparr>, True))
             else Returns (u, emailFound)) (\<lambda>(u1, found).
      obind (if name = LDAPFirstNameAttribute c
             then obind (first_value values) (\<lambda>v. Returns (u1\<lparr>FirstName := v\<rparr>)) else Returns u1) (\<lambda>u2.
      obind (if name = LDAPLastNameAttribute c
             then obind (first_value values) (\<lambda>v. Returns (u2\<lparr>LastName := v\<rparr>)) else Returns u2) (\<lambda>u3.
        if name = groupField
        then Returns (u3\<lparr>RawData := (RawData u3)(name \<mapsto> RawStrings values)\<rparr>, found)
        else obind (first_value values) (\<lambda>v.
               Returns (u3\<lparr>RawData := (RawData u3)(name \<mapsto> Raw (JStr v))\<rparr>, found))))))"

fun read_attributes ::
    "ad_config \<Rightarrow> string \<Rightarrow> (string \<times> string list) list \<Rightarrow> goth_user \<times> bool \<Rightarrow> (goth_user \<times> bool) outcome" where
  "read_attributes c g [] s = Returns s"
| "read_attributes c g (j # js) s = obind (read_attribute c g j s) (read_attributes c g js)"

definition ad_user_of_entry ::
    "ad_provider \<Rightarrow> ad_config \<Rightarrow> string \<Rightarrow> ldap_entry \<Rightarrow> goth_user \<Rightarrow> goth_user outcome" where
  "ad_user_of_entry s c username entry thisUser =
     obind (read_attributes c (CustomUserGroupField (AD_profile s)) (Attributes entry) (thisUser, False))
       (\<lambda>(u, emailFound).
          Returns
            (if emailFound then u
             else if Contains username ''@'' then u\<lparr>Email := username\<rparr>
             else u\<lparr>Email := username @ ''@'' @ OrgID (AD_profile s) @ ''-'' @ ''ADProvider.com''\<rparr>))"

text \<open>What is done with the one entry that was found: with an administrator's connection, the user's own
  password is checked against it.\<close>

definition bind_and_read ::
    "ldap \<Rightarrow> ad_provider \<Rightarrow> ad_config \<Rightarrow> string \<Rightarrow> string \<Rightarrow> goth_user \<Rightarrow> ldap_entry \<Rightarrow> goth_user result ldap_act" where
  "bind_and_read L s c username password thisUser entry =
     bind_act (if LDAPAdminUser c \<noteq> '''' then do_bind L (DN entry) password else return_act None) (\<lambda>bindErr.
       if bindErr \<noteq> None then return_act (Inl ''Password not matched'')
       else
         bind_act (lift_outcome (ad_user_of_entry s c username entry thisUser)) (\<lambda>u. return_act (Inr u)))"

definition new_ad_user :: "unicode \<Rightarrow> ad_config \<Rightarrow> string \<Rightarrow> goth_user" where
  "new_ad_user U c username =
     zero_user\<lparr>UserID := (if SlugifyUserName c then Slug U username else username), Provider := ''ADProvider''\<rparr>"

text \<open>A search must find exactly one entry.\<close>

definition the_entry :: "ad_config \<Rightarrow> string \<Rightarrow> ldap_entry list result \<Rightarrow> ldap_entry result" where
  "the_entry c username sr =
     (case sr of
        Inl err \<Rightarrow> Inl err
      | Inr [] \<Rightarrow> Inl (''No users match given filter: '' @ prepFilter c username)
      | Inr [entry] \<Rightarrow> Inr entry
      | Inr (_ # _ # _) \<Rightarrow> Inl ''Filter matched multiple users'')"

definition getUserData ::
    "unicode \<Rightarrow> ldap \<Rightarrow> ad_provider \<Rightarrow> string \<Rightarrow> string \<Rightarrow> goth_user result ldap_act" where
  "getUserData U L s username password =
     (let c = ad_defaults (AD_config s);
          thisUser = new_ad_user U c username;
          dn = (if LDAPBaseDN c = '''' then prepDN c username else LDAPBaseDN c)
      in
      bind_act (do_search L dn (LDAPSearchScope c) (prepFilter c username) (LDAPAttributes c)) (\<lambda>sr.
        case the_entry c username sr of
          Inl err \<Rightarrow> return_act (Inl err)
        | Inr entry \<Rightarrow> bind_and_read L s c username password thisUser entry))"

subsection \<open>Handling a login\<close>

text \<open>The first part of \<^verbatim>\<open>Handle\<close>: the user who is authenticated, \<^const>\<open>None\<close> when the browser is sent to
  the failure page instead. Dialling is an event; its failure shows in what the bind does.\<close>

definition ad_credentials :: "ad_config \<Rightarrow> http_request \<Rightarrow> string \<times> string" where
  "ad_credentials c r =
     (if GetAuthFromBAHeader c then ExtractBAUsernameAndPasswordFromRequest r
      else (FormValue r ''username'', FormValue r ''password''))"

definition ad_checkConstraints :: "goth_user \<Rightarrow> go_error option" where
  "ad_checkConstraints user = None"

definition accept_user :: "goth_user result \<Rightarrow> goth_user option" where
  "accept_user res =
     (case res of
        Inl uErr \<Rightarrow> None
      | Inr user \<Rightarrow> if ad_checkConstraints user \<noteq> None then None else Some user)"

definition ad_connect :: "ad_provider \<Rightarrow> unit ldap_act" where
  "ad_connect s h =
     (Returns (), h @ [Dial (LDAPUseSSL (AD_config s)) (LDAPServer (AD_config s) @ '':'' @ LDAPPort (AD_config s))])"

definition ad_authenticate ::
    "unicode \<Rightarrow> ldap \<Rightarrow> ad_provider \<Rightarrow> http_request \<Rightarrow> goth_user option ldap_act" where
  "ad_authenticate U L s r =
     bind_act (ad_connect s) (\<lambda>_.
       let (username, password) = ad_credentials (AD_config s) r; c = AD_config s in
       if username = '''' \<or> password = '''' then return_act None
       else
         bind_act (if LDAPAdminUser c \<noteq> '''' then do_bind L (LDAPAdminUser c) (LDAPAdminPassword c)
                   else do_bind L (prepDN c username) password) (\<lambda>bindErr.
           if bindErr \<noteq> None then return_act None
           else
             bind_act (getUserData U L s username password) (\<lambda>res.
               return_act (accept_user res))))"

text \<open>The state of the provider: the world of the identity handler, and the directory.\<close>

definition ad_Handle ::
    "unicode \<Rightarrow> ldap \<Rightarrow> (goth_user \<Rightarrow> profile \<Rightarrow> ('st world, unit) act) \<Rightarrow> ad_provider \<Rightarrow> http_request \<Rightarrow>
      ('st world \<times> ldap_event list, unit) act" where
  "ad_Handle U L complete s r =
     bind_act (on_aux (ad_authenticate U L s r)) (\<lambda>auth.
       case auth of
         None \<Rightarrow> on_world (respond [Redirect (AD_FailureRedirect (AD_config s)) 301])
       | Some user \<Rightarrow>
           bind_act (on_world (complete user (AD_profile s))) (\<lambda>_. on_aux (do_close L)))"

definition ad_HandleCallback :: "('st world, unit) act" where
  "ad_HandleCallback = return_act ()"

text \<open>What the provider says of itself; it has no metadata.\<close>

definition ad_Name :: string where "ad_Name = ''ADProvider''"
definition ad_ProviderType :: provider_type where "ad_ProviderType = PASSTHROUGH_PROVIDER"
definition ad_UseCallback :: bool where "ad_UseCallback = False"
definition ad_HandleMetadata :: response where "ad_HandleMetadata = []"

subsection \<open>Lemmas\<close>

text \<open>The bind that vouches for a user: with the user's own password, which is not empty, under the name
  made from the user name, or under the one entry the directory found.\<close>

definition user_bound :: "ldap \<Rightarrow> ldap_event list \<Rightarrow> ldap_event list \<Rightarrow> string \<Rightarrow> string \<Rightarrow> bool" where
  "user_bound L l l' dn pw \<longleftrightarrow>
     (\<exists>h. prefix l h \<and> prefix (h @ [Bind dn pw]) l' \<and> ldBind L h dn pw = Returns None)"

definition entry_found ::
    "ldap \<Rightarrow> ad_config \<Rightarrow> string \<Rightarrow> ldap_event list \<Rightarrow> ldap_event list \<Rightarrow> ldap_entry \<Rightarrow> bool" where
  "entry_found L c username l l' entry \<longleftrightarrow>
     (\<exists>h base. prefix l h \<and> prefix (h @ [Search base (LDAPSearchScope c) (prepFilter c username) (LDAPAttributes c)]) l' \<and>
        ldSearch L h base (LDAPSearchScope c) (prepFilter c username) (LDAPAttributes c) = Returns (Inr [entry]))"

lemma the_entry_Inr [simp]: "the_entry c username sr = Inr e \<longleftrightarrow> sr = Inr [e]"
  by (auto simp: the_entry_def split: sum.splits list.splits)

lemma accept_user_Some [simp]: "accept_user res = Some u \<longleftrightarrow> res = Inr u"
  by (simp add: accept_user_def ad_checkConstraints_def split: sum.split)

lemma bind_and_read_ok:
  assumes "bind_and_read L s c username password u0 entry l = (Returns (Inr user), l')"
  shows "(LDAPAdminUser c \<noteq> '''' \<longrightarrow> user_bound L l l' (DN entry) password) \<and> prefix l l' \<and>
    ad_user_of_entry s c username entry u0 = Returns user"
  using assms by (auto simp: bind_and_read_def bind_act_Returns do_bind_def user_bound_def split: if_splits)

lemma user_bound_mono: "user_bound L l1 l' dn pw \<Longrightarrow> prefix l l1 \<Longrightarrow> prefix l' l'' \<Longrightarrow> user_bound L l l'' dn pw"
  unfolding user_bound_def by (meson prefix_order.trans)

lemma getUserData_ok:
  assumes run: "getUserData U L s username password l = (Returns (Inr user), l')"
  shows "\<exists>entry. entry_found L (ad_defaults (AD_config s)) username l l' entry \<and>
    (LDAPAdminUser (AD_config s) \<noteq> '''' \<longrightarrow> user_bound L l l' (DN entry) password) \<and>
    ad_user_of_entry s (ad_defaults (AD_config s)) username entry
      (new_ad_user U (ad_defaults (AD_config s)) username) = Returns user"
proof -
  let ?c = "ad_defaults (AD_config s)" and ?u = "new_ad_user U (ad_defaults (AD_config s)) username"
  let ?dn = "if LDAPBaseDN ?c = '''' then prepDN ?c username else LDAPBaseDN ?c"
  let ?l1 = "l @ [Search ?dn (LDAPSearchScope ?c) (prepFilter ?c username) (LDAPAttributes ?c)]"
  from run obtain sr r where
    sr: "ldSearch L l ?dn (LDAPSearchScope ?c) (prepFilter ?c username) (LDAPAttributes ?c) = Returns sr"
    and r: "the_entry ?c username sr = r"
    and rest: "(case r of Inl err \<Rightarrow> return_act (Inl err)
        | Inr entry \<Rightarrow> bind_and_read L s ?c username password ?u entry) ?l1 = (Returns (Inr user), l')"
    unfolding getUserData_def Let_def bind_act_Returns do_search_def by (elim exE conjE) (simp only: prod.inject)
  from rest r obtain entry where e: "sr = Inr [entry]"
    and read: "bind_and_read L s ?c username password ?u entry ?l1 = (Returns (Inr user), l')"
    by (auto split: sum.splits)
  note ok = bind_and_read_ok [OF read]
  have admin: "LDAPAdminUser ?c = LDAPAdminUser (AD_config s)" by (simp add: ad_defaults_def)
  have "entry_found L ?c username l l' entry"
    unfolding entry_found_def by (intro exI [of _ l] exI [of _ ?dn]) (use ok sr e in simp)
  moreover have "prefix l ?l1" by simp
  ultimately show ?thesis
    using ok admin user_bound_mono [of L ?l1 l' "DN entry" password l l'] by auto
qed

text \<open>Nobody is authenticated without a successful bind with the password that came with the request, and
  that password is not empty.\<close>

lemma ad_authenticate_ok:
  assumes "ad_authenticate U L s r l = (Returns (Some user), l')"
  shows "\<exists>username password dn entry. ad_credentials (AD_config s) r = (username, password) \<and>
    username \<noteq> '''' \<and> password \<noteq> '''' \<and> user_bound L l l' dn password \<and>
    entry_found L (ad_defaults (AD_config s)) username l l' entry \<and>
    dn = (if LDAPAdminUser (AD_config s) = '''' then prepDN (AD_config s) username else DN entry) \<and>
    ad_user_of_entry s (ad_defaults (AD_config s)) username entry
      (new_ad_user U (ad_defaults (AD_config s)) username) = Returns user"
proof -
  obtain username password where cred: "ad_credentials (AD_config s) r = (username, password)"
    by (cases "ad_credentials (AD_config s) r")
  let ?c = "AD_config s"
  let ?l1 = "l @ [Dial (LDAPUseSSL ?c) (LDAPServer ?c @ '':'' @ LDAPPort ?c)]"
  from assms cred obtain l2 where ne: "username \<noteq> ''''" "password \<noteq> ''''"
    and bind: "(if LDAPAdminUser ?c \<noteq> '''' then do_bind L (LDAPAdminUser ?c) (LDAPAdminPassword ?c)
        else do_bind L (prepDN ?c username) password) ?l1 = (Returns None, l2)"
    and data: "getUserData U L s username password l2 = (Returns (Inr user), l')"
    by (auto simp: ad_authenticate_def ad_connect_def Let_def bind_act_Returns
        split: if_splits)
  have l2: "prefix ?l1 l2" using bind by (auto simp: do_bind_def split: if_splits)
  then have l: "prefix l l2" by (meson append_prefixD)
  from getUserData_ok [OF data] obtain entry where
    found: "entry_found L (ad_defaults ?c) username l2 l' entry"
    and admin: "LDAPAdminUser ?c \<noteq> '''' \<longrightarrow> user_bound L l2 l' (DN entry) password"
    and user: "ad_user_of_entry s (ad_defaults ?c) username entry
      (new_ad_user U (ad_defaults ?c) username) = Returns user" by blast
  from found l have found': "entry_found L (ad_defaults ?c) username l l' entry"
    unfolding entry_found_def by (meson prefix_order.trans)
  show ?thesis
  proof (cases "LDAPAdminUser ?c = ''''")
    case False
    with admin l have "user_bound L l l' (DN entry) password"
      by (auto intro: user_bound_mono)
    with cred ne found' user False show ?thesis by auto
  next
    case True
    with bind have "l2 = ?l1 @ [Bind (prepDN ?c username) password]"
      "ldBind L ?l1 (prepDN ?c username) password = Returns None" by (auto simp: do_bind_def)
    moreover from found have "prefix l2 l'"
      unfolding entry_found_def by (meson append_prefixD prefix_order.trans)
    ultimately have "user_bound L l l' (prepDN ?c username) password"
      unfolding user_bound_def by (intro exI [of _ ?l1]) simp
    with cred ne found' user True show ?thesis by auto
  qed
qed

text \<open>
  Who is authenticated, from the request and the entry alone: the identifier is the name of the request, or its slug; address
  and names are the first values of the last attributes of the configured names, the raw data that of every attribute.
  Without an address one is made from the name.
\<close>

definition directory_user :: "unicode \<Rightarrow> ad_provider \<Rightarrow> string \<Rightarrow> ldap_entry \<Rightarrow> goth_user \<Rightarrow> bool" where
  "directory_user U s username entry user \<longleftrightarrow>
     (let c = ad_defaults (AD_config s); vals = map_of (rev (Attributes entry));
          value = (\<lambda>n z. case vals n of Some vs \<Rightarrow> hd vs | None \<Rightarrow> z) in
      user = zero_user
        \<lparr>UserID := (if SlugifyUserName (AD_config s) then Slug U username else username),
         Provider := ''ADProvider'',
         Email := value (LDAPEmailAttribute c)
           (if Contains username ''@'' then username else username @ ''@'' @ OrgID (AD_profile s) @ ''-ADProvider.com''),
         FirstName := value (LDAPFirstNameAttribute c) '''',
         LastName := value (LDAPLastNameAttribute c) '''',
         RawData := (\<lambda>n. map_option (\<lambda>vs. if n = CustomUserGroupField (AD_profile s) then RawStrings vs
           else Raw (JStr (hd vs))) (vals n))\<rparr>)"

lemma first_value_Returns [simp]: "first_value vs = Returns v \<longleftrightarrow> vs \<noteq> [] \<and> v = hd vs"
  by (cases vs) (auto simp: first_value_def)

lemma read_attribute_ok:
  assumes "read_attribute c g (n, vs) (u, f) = Returns (u', f')"
  shows "u' = u\<lparr>Email := (if n = LDAPEmailAttribute c then hd vs else Email u),
      FirstName := (if n = LDAPFirstNameAttribute c then hd vs else FirstName u),
      LastName := (if n = LDAPLastNameAttribute c then hd vs else LastName u),
      RawData := (RawData u)(n \<mapsto> (if n = g then RawStrings vs else Raw (JStr (hd vs))))\<rparr> \<and>
    f' = (f \<or> n = LDAPEmailAttribute c)"
  using assms by (auto simp: read_attribute_def split: if_splits)

lemma read_attributes_ok:
  assumes "read_attributes c g js (u, f) = Returns (u', f')"
  shows "u' = u\<lparr>Email := (case map_of (rev js) (LDAPEmailAttribute c) of Some vs \<Rightarrow> hd vs | None \<Rightarrow> Email u),
      FirstName := (case map_of (rev js) (LDAPFirstNameAttribute c) of Some vs \<Rightarrow> hd vs | None \<Rightarrow> FirstName u),
      LastName := (case map_of (rev js) (LDAPLastNameAttribute c) of Some vs \<Rightarrow> hd vs | None \<Rightarrow> LastName u),
      RawData := (\<lambda>n. case map_of (rev js) n of
        Some vs \<Rightarrow> Some (if n = g then RawStrings vs else Raw (JStr (hd vs))) | None \<Rightarrow> RawData u n)\<rparr> \<and>
    f' = (f \<or> map_of (rev js) (LDAPEmailAttribute c) \<noteq> None)"
  using assms
proof (induction js arbitrary: u f)
  case (Cons j js)
  obtain n vs where j: "j = (n, vs)" by (cases j)
  from Cons.prems j obtain u1 f1 where 1: "read_attribute c g (n, vs) (u, f) = Returns (u1, f1)"
    and 2: "read_attributes c g js (u1, f1) = Returns (u', f')" by auto
  from Cons.IH [OF 2] read_attribute_ok [OF 1] show ?case
    by (auto simp: j map_add_def fun_eq_iff split: option.split)
qed auto

lemma ad_user_of_entry_ok:
  assumes "ad_user_of_entry s (ad_defaults (AD_config s)) username entry
      (new_ad_user U (ad_defaults (AD_config s)) username) = Returns user"
  shows "directory_user U s username entry user"
proof -
  let ?c = "ad_defaults (AD_config s)" and ?u0 = "new_ad_user U (ad_defaults (AD_config s)) username"
  from assms obtain u f where
    r: "read_attributes ?c (CustomUserGroupField (AD_profile s)) (Attributes entry) (?u0, False) = Returns (u, f)"
    and user: "user = (if f then u else if Contains username ''@'' then u\<lparr>Email := username\<rparr>
      else u\<lparr>Email := username @ ''@'' @ OrgID (AD_profile s) @ ''-ADProvider.com''\<rparr>)"
    by (auto simp: ad_user_of_entry_def)
  let ?vals = "map_of (rev (Attributes entry))"
  have u0: "UserID ?u0 = (if SlugifyUserName (AD_config s) then Slug U username else username)"
    "Provider ?u0 = ''ADProvider''" "FirstName ?u0 = ''''" "LastName ?u0 = ''''" "RawData ?u0 = Map.empty"
    "AccessToken ?u0 = ''''" "AccessTokenSecret ?u0 = ''''"
    by (simp_all add: new_ad_user_def ad_defaults_def zero_user_def)
  note ok = read_attributes_ok [OF r]
  have raw: "(\<lambda>n. case ?vals n of None \<Rightarrow> None
        | Some vs \<Rightarrow> Some (if n = CustomUserGroupField (AD_profile s) then RawStrings vs else Raw (JStr (hd vs)))) =
      (\<lambda>n. map_option (\<lambda>vs. if n = CustomUserGroupField (AD_profile s) then RawStrings vs else Raw (JStr (hd vs))) (?vals n))"
    by (auto simp: fun_eq_iff split: option.split)
  have fields: "UserID u = UserID ?u0" "Provider u = Provider ?u0" "FirstName u = (case ?vals (LDAPFirstNameAttribute ?c) of Some vs \<Rightarrow> hd vs | None \<Rightarrow> '''')"
    "LastName u = (case ?vals (LDAPLastNameAttribute ?c) of Some vs \<Rightarrow> hd vs | None \<Rightarrow> '''')"
    "RawData u = (\<lambda>n. map_option (\<lambda>vs. if n = CustomUserGroupField (AD_profile s) then RawStrings vs else Raw (JStr (hd vs))) (?vals n))"
    "AccessToken u = ''''" "AccessTokenSecret u = ''''"
    and mail: "?vals (LDAPEmailAttribute ?c) = Some vs \<Longrightarrow> Email u = hd vs" for vs
    using conjunct1 [OF ok] by (simp_all add: u0 raw cong: option.case_cong)
  have f: "f \<longleftrightarrow> ?vals (LDAPEmailAttribute ?c) \<noteq> None" using conjunct2 [OF ok] by simp
  have email: "Email user = (case ?vals (LDAPEmailAttribute ?c) of Some vs \<Rightarrow> hd vs | None \<Rightarrow>
      if Contains username ''@'' then username else username @ ''@'' @ OrgID (AD_profile s) @ ''-ADProvider.com'')"
    using mail by (auto simp: user f split: option.split)
  have others: "UserID user = UserID u" "Provider user = Provider u" "FirstName user = FirstName u" "LastName user = LastName u"
    "RawData user = RawData u" "AccessToken user = AccessToken u" "AccessTokenSecret user = AccessTokenSecret u"
    by (simp_all add: user)
  show ?thesis
    unfolding directory_user_def Let_def
    by (rule goth_user.equality) (simp_all add: others fields email u0 zero_user_def)
qed

text \<open>The other direction: a directory that accepts the user's own bind and knows one readable entry
  authenticates the user.\<close>

lemma ad_authenticate_accepts:
  assumes "ad_credentials (AD_config s) r = (u, pw)" and "u \<noteq> ''''" and "pw \<noteq> ''''"
    and "LDAPAdminUser (AD_config s) = ''''"
    and "\<And>h. ldBind L h (prepDN (AD_config s) u) pw = Returns None"
    and "\<And>h base. ldSearch L h base (LDAPSearchScope (AD_config s)) (prepFilter (ad_defaults (AD_config s)) u)
          (LDAPAttributes (AD_config s)) = Returns (Inr [entry])"
    and "ad_user_of_entry s (ad_defaults (AD_config s)) u entry (new_ad_user U (ad_defaults (AD_config s)) u) = Returns user"
  shows "fst (ad_authenticate U L s r l) = Returns (Some user)"
proof -
  have kept: "LDAPSearchScope (ad_defaults c) = LDAPSearchScope c" "LDAPAttributes (ad_defaults c) = LDAPAttributes c"
    "LDAPAdminUser (ad_defaults c) = LDAPAdminUser c" for c
    by (simp_all add: ad_defaults_def)
  show ?thesis
    using assms
    by (simp add: ad_authenticate_def getUserData_def bind_and_read_def bind_act_def ad_connect_def do_bind_def
        do_search_def the_entry_def accept_user_def ad_checkConstraints_def Let_def kept lift_outcome_def)
qed

text \<open>What a login does to the world of the handler: nothing (a panic), the failure redirect, or the
  identity handler's work for the user who was authenticated.\<close>

lemma ad_Handle_world:
  "fst (snd (ad_Handle U L complete s r (w, l))) =
    (case fst (ad_authenticate U L s r l) of
       Panics x \<Rightarrow> w
     | Returns None \<Rightarrow> w\<lparr>resp := resp w @ [Redirect (AD_FailureRedirect (AD_config s)) 301]\<rparr>
     | Returns (Some user) \<Rightarrow> snd (complete user (AD_profile s) w))"
  by (auto simp: ad_Handle_def bind_act_def on_aux_def on_world_def respond_def
      split: prod.splits outcome.splits option.splits)

definition ad_verdict :: "unicode \<Rightarrow> ldap \<Rightarrow> ad_provider \<Rightarrow> http_request \<Rightarrow> ldap_event list \<Rightarrow> goth_user option" where
  "ad_verdict U L s r l =
     (case fst (ad_authenticate U L s r l) of Returns v \<Rightarrow> v | Panics x \<Rightarrow> None)"

definition ad_refusal :: "unicode \<Rightarrow> ldap \<Rightarrow> ad_provider \<Rightarrow> http_request \<Rightarrow> ldap_event list \<Rightarrow> response" where
  "ad_refusal U L s r l =
     (case fst (ad_authenticate U L s r l) of
        Returns v \<Rightarrow> [Redirect (AD_FailureRedirect (AD_config s)) 301]
      | Panics x \<Rightarrow> [])"

interpretation ad: login_flow
  "\<lambda>complete l w. fst (snd (ad_Handle U L complete s r (w, l)))" "ad_verdict U L s r" "ad_refusal U L s r"
  "AD_profile s"
  by unfold_locales
    (simp add: ad_Handle_world ad_verdict_def ad_refusal_def split: outcome.split option.split)

lemma ad_verdict_ok:
  "ad_verdict U L s r l = Some user \<Longrightarrow> \<exists>l'. ad_authenticate U L s r l = (Returns (Some user), l')"
  by (cases "ad_authenticate U L s r l") (auto simp: ad_verdict_def split: outcome.splits)

end
