(* ===== verification/Go_Url.thy ===== *)
theory Go_Url
  imports Go_Encoding
begin

section \<open>Package net/url\<close>

text \<open>
  What the broker uses of \<^verbatim>\<open>net/url\<close>: parsing an address that was configured, resolving a relative path against
  one, and reading a parameter of a query. As in Go 1.25.0, with two things left out: what an error says, and the
  difference between an empty query and none, which only printing an address shows.
\<close>

subsection \<open>Escaping\<close>

datatype encoding = encodePath | encodeUserPassword | encodeHost | encodeZone | encodeFragment

definition is_alpha :: "char \<Rightarrow> bool" where
  "is_alpha c \<longleftrightarrow> (CHR ''A'' \<le> c \<and> c \<le> CHR ''Z'') \<or> (CHR ''a'' \<le> c \<and> c \<le> CHR ''z'')"

definition shouldEscape :: "encoding \<Rightarrow> char \<Rightarrow> bool" where
  "shouldEscape mode c =
     (if unreserved c then False
      else if mode \<in> {encodeHost, encodeZone} \<and> c \<in> set ''!$&'' \<union> {CHR 0x27} \<union> set ''()*+,;=:[]<>'' \<union> {CHR 0x22} then False
      else if c \<in> set ''$&+,/:;=?@'' then
        (case mode of
           encodePath \<Rightarrow> c = CHR ''?''
         | encodeUserPassword \<Rightarrow> c \<in> set ''@/?:''
         | encodeFragment \<Rightarrow> False
         | _ \<Rightarrow> True)
      else if mode = encodeFragment \<and> c \<in> set ''!()*'' then False
      else True)"

definition url_escape :: "encoding \<Rightarrow> string \<Rightarrow> string" where
  "url_escape mode s =
     concat (map (\<lambda>c. if shouldEscape mode c
       then [CHR ''%'', upper_hex (of_char c div 16), upper_hex (of_char c mod 16)] else [c]) s)"

text \<open>In a host only bytes that are not ASCII, and the percent sign of a zone, may be escaped.\<close>

fun url_unescape :: "encoding \<Rightarrow> string \<Rightarrow> string option" where
  "url_unescape mode [] = Some []"
| "url_unescape mode (c # r) =
     (if c = CHR ''%'' then
        (case r of
           a # b # r' \<Rightarrow>
             (case (upper_hex_val a, upper_hex_val b) of
                (Some x, Some y) \<Rightarrow>
                  (let v = char_of (16 * x + y) in
                   if mode = encodeHost \<and> x < 8 \<and> [a, b] \<noteq> ''25'' then None
                   else if mode = encodeZone \<and> [a, b] \<noteq> ''25'' \<and> v \<noteq> CHR 0x20 \<and> shouldEscape encodeHost v then None
                   else map_option (Cons v) (url_unescape mode r'))
              | _ \<Rightarrow> None)
         | _ \<Rightarrow> None)
      else if mode \<in> {encodeHost, encodeZone} \<and> c < CHR 0x80 \<and> shouldEscape mode c then None
      else map_option (Cons c) (url_unescape mode r))"

subsection \<open>Parsing\<close>

text \<open>\<open>User\<close> is the user and, if there is one, the password; \<open>RawPath\<close> the path as it was written when that is not
  how it would be escaped.\<close>

record url =
  Scheme :: string
  Opaque :: string
  User :: "(string \<times> string option) option"
  Host :: string
  Path :: string
  RawPath :: string
  RawQuery :: string
  Fragment :: string

definition zero_url :: url where
  "zero_url = \<lparr>Scheme = '''', Opaque = '''', User = None, Host = '''', Path = '''', RawPath = '''', RawQuery = '''',
     Fragment = ''''\<rparr>"

text \<open>The text before and after the last occurrence of a byte.\<close>

definition cut_last :: "char \<Rightarrow> string \<Rightarrow> (string \<times> string) option" where
  "cut_last c s = map_option (\<lambda>(a, b). (rev b, rev a)) (Cut (rev s) [c])"

definition getScheme :: "string \<Rightarrow> (string \<times> string) result" where
  "getScheme rawURL =
     (let ok = (\<lambda>c. is_alpha c \<or> is_digit c \<or> c \<in> set ''+-.''); n = takeWhile ok rawURL in
      case dropWhile ok rawURL of
        [] \<Rightarrow> Inr ('''', rawURL)
      | c # r \<Rightarrow>
          if c \<noteq> CHR '':'' then Inr ('''', rawURL)
          else if n = '''' then Inl ''missing protocol scheme''
          else if is_alpha (hd n) then Inr (n, r)
          else Inr ('''', rawURL))"

definition validOptionalPort :: "string \<Rightarrow> bool" where
  "validOptionalPort port = (case port of [] \<Rightarrow> True | c # r \<Rightarrow> c = CHR '':'' \<and> list_all is_digit r)"

definition validUserinfo :: "string \<Rightarrow> bool" where
  "validUserinfo s = list_all (\<lambda>c. is_alpha c \<or> is_digit c \<or> c \<in> set ''-._:~!$&()*+,;=%@'' \<or> c = CHR 0x27) s"

definition of_unescaped :: "string option \<Rightarrow> string result" where
  "of_unescaped u = (case u of None \<Rightarrow> Inl ''invalid URL escape'' | Some s \<Rightarrow> Inr s)"

definition parseHost :: "string \<Rightarrow> string result" where
  "parseHost host =
     (if HasPrefix host ''['' then
        (case cut_last (CHR '']'') host of
           None \<Rightarrow> Inl ''missing ']' in host''
         | Some (inside, colonPort) \<Rightarrow>
             if \<not> validOptionalPort colonPort then Inl ''invalid port after host''
             else
               (case Cut inside ''%25'' of
                  None \<Rightarrow> of_unescaped (url_unescape encodeHost host)
                | Some (addr, zone) \<Rightarrow>
                    (case (url_unescape encodeHost addr, url_unescape encodeZone (''%25'' @ zone),
                        url_unescape encodeHost ('']'' @ colonPort)) of
                       (Some h1, Some h2, Some h3) \<Rightarrow> Inr (h1 @ h2 @ h3)
                     | _ \<Rightarrow> Inl ''invalid URL escape'')))
      else
        (case cut_last (CHR '':'') host of
           None \<Rightarrow> of_unescaped (url_unescape encodeHost host)
         | Some (_, port) \<Rightarrow>
             if validOptionalPort ('':'' @ port) then of_unescaped (url_unescape encodeHost host)
             else Inl ''invalid port after host''))"

definition parseUserinfo :: "string \<Rightarrow> (string \<times> string option) result" where
  "parseUserinfo userinfo =
     (if \<not> validUserinfo userinfo then Inl ''net/url: invalid userinfo''
      else
        (case Cut userinfo '':'' of
           None \<Rightarrow> (case url_unescape encodeUserPassword userinfo of
               None \<Rightarrow> Inl ''invalid URL escape'' | Some u \<Rightarrow> Inr (u, None))
         | Some (username, password) \<Rightarrow>
             (case (url_unescape encodeUserPassword username, url_unescape encodeUserPassword password) of
                (Some u, Some p) \<Rightarrow> Inr (u, Some p)
              | _ \<Rightarrow> Inl ''invalid URL escape'')))"

definition parseAuthority :: "string \<Rightarrow> ((string \<times> string option) option \<times> string) result" where
  "parseAuthority authority =
     (case cut_last (CHR ''@'') authority of
        None \<Rightarrow> (case parseHost authority of Inl e \<Rightarrow> Inl e | Inr h \<Rightarrow> Inr (None, h))
      | Some (userinfo, host) \<Rightarrow>
          (case parseHost host of
             Inl e \<Rightarrow> Inl e
           | Inr h \<Rightarrow> (case parseUserinfo userinfo of Inl e \<Rightarrow> Inl e | Inr u \<Rightarrow> Inr (Some u, h))))"

definition setPath :: "string \<Rightarrow> url \<Rightarrow> url result" where
  "setPath p u =
     (case url_unescape encodePath p of
        None \<Rightarrow> Inl ''invalid URL escape''
      | Some path \<Rightarrow> Inr (u\<lparr>Path := path, RawPath := (if p = url_escape encodePath path then '''' else p)\<rparr>))"

text \<open>The part before a separator and the part after it, which is empty if there is none.\<close>

definition cut_or_all :: "string \<Rightarrow> string \<Rightarrow> string \<times> string" where
  "cut_or_all s sep = (case Cut s sep of None \<Rightarrow> (s, '''') | Some ab \<Rightarrow> ab)"

definition parse_hierarchy :: "url \<Rightarrow> string \<Rightarrow> url result" where
  "parse_hierarchy u rest =
     (if (Scheme u \<noteq> '''' \<or> \<not> HasPrefix rest ''///'') \<and> HasPrefix rest ''//'' then
        (let after = drop 2 rest;
             authority = takeWhile (\<lambda>c. c \<noteq> CHR ''/'') after;
             path = dropWhile (\<lambda>c. c \<noteq> CHR ''/'') after in
         case parseAuthority authority of
           Inl e \<Rightarrow> Inl e
         | Inr (user, host) \<Rightarrow> setPath path (u\<lparr>User := user, Host := host\<rparr>))
      else setPath rest u)"

definition parse_no_fragment :: "string \<Rightarrow> url result" where
  "parse_no_fragment rawURL =
     (if list_ex (\<lambda>c. c < CHR 0x20 \<or> c = CHR 0x7F) rawURL then Inl ''net/url: invalid control character in URL''
      else if rawURL = ''*'' then Inr (zero_url\<lparr>Path := ''*''\<rparr>)
      else
        (case getScheme rawURL of
           Inl e \<Rightarrow> Inl e
         | Inr (scheme, after) \<Rightarrow>
             (let (rest, query) = cut_or_all after ''?'';
                  u = zero_url\<lparr>Scheme := ToLower scheme, RawQuery := query\<rparr> in
              if \<not> HasPrefix rest ''/'' \<and> scheme \<noteq> '''' then Inr (u\<lparr>Opaque := rest\<rparr>)
              else if \<not> HasPrefix rest ''/'' \<and> Contains (fst (cut_or_all rest ''/'')) '':''
                then Inl ''first path segment in URL cannot contain colon''
              else parse_hierarchy u rest)))"

definition url_Parse :: "string \<Rightarrow> url result" where
  "url_Parse rawURL =
     (let (u, frag) = cut_or_all rawURL ''#'' in
      case parse_no_fragment u of
        Inl e \<Rightarrow> Inl e
      | Inr url \<Rightarrow>
          (case url_unescape encodeFragment frag of
             None \<Rightarrow> Inl ''invalid URL escape''
           | Some f \<Rightarrow> Inr (url\<lparr>Fragment := f\<rparr>)))"

subsection \<open>Resolving a path\<close>

text \<open>The characters that may stand in an encoded path, and the path as it is written.\<close>

definition validEncoded :: "string \<Rightarrow> bool" where
  "validEncoded s \<longleftrightarrow>
     list_all (\<lambda>c. c \<in> set ''!$&()*+,;=:@[]%'' \<or> c = CHR 0x27 \<or> \<not> shouldEscape encodePath c) s"

definition EscapedPath :: "url \<Rightarrow> string" where
  "EscapedPath u =
     (if RawPath u \<noteq> '''' \<and> validEncoded (RawPath u) \<and> url_unescape encodePath (RawPath u) = Some (Path u)
      then RawPath u
      else if Path u = ''*'' then ''*''
      else url_escape encodePath (Path u))"

text \<open>Removing the dot segments: the text built so far without the slash it begins with, and whether nothing
  was written yet.\<close>

definition resolve_step :: "string \<times> bool \<Rightarrow> string \<Rightarrow> string \<times> bool" where
  "resolve_step s elem =
     (case s of (dst, first) \<Rightarrow>
        if elem = ''.'' then (dst, False)
        else if elem = ''..'' then
          (case cut_last (CHR ''/'') dst of None \<Rightarrow> ('''', True) | Some (a, _) \<Rightarrow> (a, first))
        else (dst @ (if first then '''' else ''/'') @ elem, False))"

definition remove_dots :: "string \<Rightarrow> string" where
  "remove_dots full =
     (if full = '''' then ''''
      else
        (let es = Split full ''/'';
             dst = fst (foldl resolve_step ('''', True) es);
             r = ''/'' @ dst @ (if last es \<in> {''.'', ''..''} then ''/'' else '''')
         in if HasPrefix (tl r) ''/'' then tl r else r))"

definition resolvePath :: "string \<Rightarrow> string \<Rightarrow> string" where
  "resolvePath base ref =
     remove_dots
       (if ref = '''' then base
        else if HasPrefix ref ''/'' then ref
        else (case cut_last (CHR ''/'') base of None \<Rightarrow> ref | Some (dir, _) \<Rightarrow> dir @ ''/'' @ ref))"

text \<open>\<^verbatim>\<open>ResolveReference\<close> for a reference that is a path, not empty, and nothing else. That the path cannot be
  set is ignored, as the package does.\<close>

definition resolve_path_reference :: "url \<Rightarrow> string \<Rightarrow> url" where
  "resolve_path_reference u p =
     (let ref = zero_url\<lparr>Path := p\<rparr>;
          base = ref\<lparr>Scheme := Scheme u, Host := Host u, User := User u\<rparr>
      in case setPath (resolvePath (EscapedPath u) (EscapedPath ref)) base of Inl _ \<Rightarrow> base | Inr v \<Rightarrow> v)"

subsection \<open>Queries\<close>

text \<open>One setting of a query: what has a semicolon, no name or a bad escape is left out.\<close>

definition query_pair :: "string \<Rightarrow> (string \<times> string) option" where
  "query_pair s =
     (if Contains s '';'' \<or> s = '''' then None
      else
        (let (key, value) = cut_or_all s ''='' in
         case (QueryUnescape key, QueryUnescape value) of
           (Some k, Some v) \<Rightarrow> Some (k, v)
         | _ \<Rightarrow> None))"

definition url_Query :: "string \<Rightarrow> (string \<times> string) list" where
  "url_Query rawQuery = List.map_filter query_pair (Split rawQuery ''&'')"

definition Query_Get :: "string \<Rightarrow> string \<Rightarrow> string" where
  "Query_Get rawQuery k = (case map_of (url_Query rawQuery) k of Some v \<Rightarrow> v | None \<Rightarrow> '''')"

subsection \<open>Lemmas\<close>

lemma unreserved_slash: "\<not> unreserved (CHR ''/'')" "unreserved (CHR ''.'')"
  by code_simp+

lemma shouldEscape_path_simps [simp]:
  "\<not> shouldEscape encodePath (CHR ''/'')" "\<not> shouldEscape encodePath (CHR ''.'')" "shouldEscape encodePath (CHR ''%'')"
  by code_simp+

lemma url_escape_simps [simp]:
  "url_escape m [] = []" "url_escape m (s @ t) = url_escape m s @ url_escape m t"
  by (simp_all add: url_escape_def)

lemma url_escape_Cons:
  "url_escape m (c # s) = (if shouldEscape m c
     then [CHR ''%'', upper_hex (of_char c div 16), upper_hex (of_char c mod 16)] else [c]) @ url_escape m s"
  by (simp add: url_escape_def)

lemma url_escape_safe [simp]: "list_all (\<lambda>c. \<not> shouldEscape m c) s \<Longrightarrow> url_escape m s = s"
  by (induction s) (simp_all add: url_escape_Cons)

text \<open>A path that was escaped is read back.\<close>

lemma url_unescape_escape: "url_unescape encodePath (url_escape encodePath s @ r) = map_option ((@) s) (url_unescape encodePath r)"
proof (induction s)
  case Nil
  show ?case by (simp add: option.map_ident)
next
  case (Cons c s)
  have "(of_char c :: nat) div 16 < 16" "(of_char c :: nat) mod 16 < 16"
    using nat_of_char_less_256 [of c] by presburger+
  then have hex: "upper_hex_val (upper_hex (of_char c div 16)) = Some (of_char c div 16)"
    "upper_hex_val (upper_hex (of_char c mod 16)) = Some (of_char c mod 16)" by simp_all
  have plain: "c \<noteq> CHR ''%''" if "\<not> shouldEscape encodePath c" using that by auto
  show ?case
  proof (cases "shouldEscape encodePath c")
    case True
    then show ?thesis by (simp add: url_escape_Cons hex Cons option.map_comp comp_def)
  next
    case False
    with plain show ?thesis by (simp add: url_escape_Cons Cons option.map_comp comp_def)
  qed
qed

lemma url_unescape_url_escape [simp]: "url_unescape encodePath (url_escape encodePath s) = Some s"
  using url_unescape_escape [of s "[]"] by simp

lemma url_escape_inject [simp]: "url_escape encodePath s = url_escape encodePath t \<longleftrightarrow> s = t"
  by (metis option.inject url_unescape_url_escape)

lemma setPath_escaped: "setPath (url_escape encodePath p) u = Inr (u\<lparr>Path := p, RawPath := ''''\<rparr>)"
  by (simp add: setPath_def)

text \<open>Escaping works on each segment of a path.\<close>

lemma upper_hex_not_slash: "d < 16 \<Longrightarrow> upper_hex d \<noteq> CHR ''/''"
  using unreserved_upper_hex [of d] unreserved_slash(1) by metis

lemma slash_in_escape [simp]: "CHR ''/'' \<in> set (url_escape encodePath s) \<longleftrightarrow> CHR ''/'' \<in> set s"
proof (induction s)
  case (Cons c s)
  have "(of_char c :: nat) div 16 < 16" "(of_char c :: nat) mod 16 < 16"
    using nat_of_char_less_256 [of c] by presburger+
  then have "CHR ''/'' \<noteq> upper_hex (of_char c div 16)" "CHR ''/'' \<noteq> upper_hex (of_char c mod 16)"
    using upper_hex_not_slash by metis+
  with Cons show ?case by (auto simp: url_escape_Cons)
qed simp

lemma url_escape_slash [simp]: "url_escape encodePath (CHR ''/'' # s) = CHR ''/'' # url_escape encodePath s"
  by (simp add: url_escape_Cons)

lemma Split_url_escape: "Split (url_escape encodePath s) ''/'' = map (url_escape encodePath) (Split s ''/'')"
proof (induction s "''/''" rule: Split.induct)
  case (1 s)
  show ?case
  proof (cases "CHR ''/'' \<in> set s")
    case True
    then obtain a b where s: "s = a @ CHR ''/'' # b" and a: "CHR ''/'' \<notin> set a"
      by (auto dest: split_list_first)
    with 1 show ?thesis by simp
  next
    case False
    then show ?thesis by simp
  qed
qed

lemma url_escape_dots [simp]:
  "url_escape encodePath e = ''.'' \<longleftrightarrow> e = ''.''" "url_escape encodePath e = ''..'' \<longleftrightarrow> e = ''..''"
  using url_escape_inject [of e "''.''"] url_escape_inject [of e "''..''"] by (simp_all add: url_escape_Cons)

text \<open>Without dot segments nothing is removed.\<close>

definition dotless :: "string \<Rightarrow> bool" where
  "dotless p \<longleftrightarrow> (\<forall>e\<in>set (Split p ''/''). e \<notin> {''.'', ''..''})"

lemma dotless_escape: "dotless (url_escape encodePath p) \<longleftrightarrow> dotless p"
  by (simp add: dotless_def Split_url_escape)

lemma dotless_append: "dotless (a @ ''/'' @ b) \<longleftrightarrow> dotless a \<and> dotless b"
proof (induction a "''/''" rule: Split.induct)
  case (1 a)
  show ?case
  proof (cases "CHR ''/'' \<in> set a")
    case True
    then obtain x y where a: "a = x @ CHR ''/'' # y" "CHR ''/'' \<notin> set x"
      by (auto dest: split_list_first)
    with 1 have "dotless (y @ ''/'' @ b) \<longleftrightarrow> dotless y \<and> dotless b" by simp
    with a show ?thesis by (simp add: dotless_def conj_assoc)
  next
    case False
    then show ?thesis by (simp add: dotless_def)
  qed
qed

lemma foldl_resolve_rest:
  "\<forall>e\<in>set es. e \<notin> {''.'', ''..''} \<Longrightarrow>
    foldl resolve_step (dst, False) es = (dst @ concat (map (\<lambda>e. ''/'' @ e) es), False)"
  by (induction es arbitrary: dst) (simp_all add: resolve_step_def)

lemma Join_concat: "Join (e # es) sep = e @ concat (map (\<lambda>e. sep @ e) es)"
  by (induction es arbitrary: e) simp_all

lemma remove_dots_dotless:
  assumes "dotless full" and "full \<noteq> ''''"
  shows "remove_dots full = (if HasPrefix full ''/'' then full else ''/'' @ full)"
proof -
  obtain e es where es: "Split full ''/'' = e # es" by (cases "Split full ''/''") (use Split_not_Nil in auto)
  have full: "e @ concat (map (\<lambda>e. ''/'' @ e) es) = full"
    using Join_Split [of full "''/''"] unfolding es by (simp only: Join_concat)
  have plain: "\<forall>x\<in>set (e # es). x \<notin> {''.'', ''..''}" using assms(1) unfolding dotless_def es .
  then have "foldl resolve_step ('''', True) (e # es) = (full, False)"
    using foldl_resolve_rest [of es e] full by (simp add: resolve_step_def)
  moreover have "last (e # es) \<notin> {''.'', ''..''}" using plain last_in_set by (metis list.distinct(1))
  ultimately show ?thesis
    using assms(2) by (simp add: remove_dots_def es Let_def)
qed

lemma cut_last_append: "c \<notin> set b \<Longrightarrow> cut_last c (a @ c # b) = Some (a, b)"
  by (simp add: cut_last_def)

lemma cut_last_absent: "c \<notin> set b \<Longrightarrow> cut_last c b = None"
  by (simp add: cut_last_def)

text \<open>The directory a path is resolved in: what comes before the last slash.\<close>

definition base_dir :: "string \<Rightarrow> string \<Rightarrow> bool" where
  "base_dir path dir \<longleftrightarrow>
     (path = '''' \<and> dir = '''' \<or> (\<exists>x. path = dir @ ''/'' @ x \<and> CHR ''/'' \<notin> set x)) \<and>
     (dir = '''' \<or> HasPrefix dir ''/'') \<and> dotless dir"

lemma resolve_in_dir:
  assumes dir: "base_dir (Path u) dir" and raw: "RawPath u = ''''" and p: "dotless p" "p \<noteq> ''''" "\<not> HasPrefix p ''/''" "p \<noteq> ''*''"
  shows "resolve_path_reference u p =
    zero_url\<lparr>Scheme := Scheme u, User := User u, Host := Host u, Path := dir @ ''/'' @ p\<rparr>"
proof -
  let ?esc = "url_escape encodePath"
  have star: "Path u \<noteq> ''*''" using dir by (auto simp: base_dir_def append_eq_Cons_conv)
  have up: "EscapedPath u = ?esc (Path u)" using raw star by (simp add: EscapedPath_def)
  have rp: "EscapedPath (zero_url\<lparr>Path := p\<rparr>) = ?esc p" using p(4) by (simp add: EscapedPath_def zero_url_def)
  obtain c q where cq: "p = c # q" "c \<noteq> CHR ''/''" using p(2,3) by (cases p) (auto simp: HasPrefix_def)
  have "\<exists>c' q'. ?esc p = c' # q' \<and> c' \<noteq> CHR ''/''" using cq by (simp add: url_escape_Cons)
  then have ne: "?esc p \<noteq> ''''" "\<not> HasPrefix (?esc p) ''/''" by (auto simp: HasPrefix_def)
  have dots: "dotless (?esc p)" using p(1) by (simp add: dotless_escape)
  have "resolvePath (?esc (Path u)) (?esc p) = ?esc (dir @ ''/'' @ p)"
  proof (cases "Path u = ''''")
    case True
    then have "dir = ''''" using dir by (auto simp: base_dir_def)
    with True ne dots show ?thesis
      by (simp add: resolvePath_def cut_last_absent remove_dots_dotless)
  next
    case False
    then obtain x where x: "Path u = dir @ ''/'' @ x" "CHR ''/'' \<notin> set x" using dir by (auto simp: base_dir_def)
    have d: "dotless (?esc dir)" using dir by (simp add: base_dir_def dotless_escape)
    have pre: "HasPrefix (?esc dir @ ''/'' @ ?esc p) ''/''"
      using dir by (auto simp: base_dir_def HasPrefix_iff)
    have "cut_last (CHR ''/'') (?esc (Path u)) = Some (?esc dir, ?esc x)"
      using x(2) by (simp add: x(1) cut_last_append)
    then have "resolvePath (?esc (Path u)) (?esc p) = remove_dots (?esc dir @ ''/'' @ ?esc p)"
      using ne by (simp add: resolvePath_def)
    also have "\<dots> = ?esc dir @ ''/'' @ ?esc p"
      using pre d dots by (subst remove_dots_dotless) (simp_all add: dotless_append [unfolded append_Cons append_Nil])
    finally show ?thesis by simp
  qed
  then have "resolve_path_reference u p =
      (case setPath (?esc (dir @ ''/'' @ p)) (zero_url\<lparr>Path := p, Scheme := Scheme u, Host := Host u, User := User u\<rparr>) of
         Inl _ \<Rightarrow> zero_url\<lparr>Path := p, Scheme := Scheme u, Host := Host u, User := User u\<rparr> | Inr v \<Rightarrow> v)"
    unfolding resolve_path_reference_def Let_def up rp by (simp only:)
  then show ?thesis by (simp only: setPath_escaped sum.case) (simp add: zero_url_def)
qed

text \<open>A setting that was escaped is found in a query.\<close>

lemma Query_Get_setting:
  "Query_Get (QueryEscape k @ ''='' @ QueryEscape v) k = v"
proof -
  have no: "CHR ''='' \<notin> set (QueryEscape k)" "CHR ''&'' \<notin> set (QueryEscape k)" "CHR ''&'' \<notin> set (QueryEscape v)"
    using QueryEscape_no_delimiter by auto
  have semi: "CHR '';'' \<notin> set (QueryEscape s)" for s
    using QueryEscape_safe [of s]
    by (auto simp: list_all_iff query_safe_def unreserved_def is_digit_iff less_eq_char_def)
  let ?s = "QueryEscape k @ ''='' @ QueryEscape v"
  have "Split ?s ''&'' = [?s]" using no by (intro Split_char_absent) auto
  moreover have "query_pair ?s = Some (k, v)"
    using no semi by (simp add: query_pair_def cut_or_all_def QueryUnescape_QueryEscape)
  ultimately show ?thesis by (simp add: Query_Get_def url_Query_def List.map_filter_simps)
qed

end
