(* ===== verification/Provider_Proxy.thy ===== *)
theory Provider_Proxy
  imports Provider_Utils Identity_Handler Go_Url
begin

section \<open>The proxy provider (proxy.go)\<close>

text \<open>
  A login that is decided by what another service answers to the same request. Arguments: the exchange with
  the service (the status and body the
  recorder holds after \<^verbatim>\<open>httputil\<close>'s proxy has served the request), the regular-expression package, the
  JSON paths of \<^verbatim>\<open>gabs\<close>, the random numbers, and the identity handler.
\<close>

record proxy_config =
  TargetHost :: string
  OKCode :: int
  OKResponse :: string
  OKRegex :: string
  ResponseIsJson :: bool
  AccessTokenField :: string
  UsernameField :: string
  ExrtactUserNameFromBasicAuthHeader :: bool

definition zero_proxy_config :: proxy_config where
  "zero_proxy_config =
     \<lparr>TargetHost = '''', OKCode = 0, OKResponse = '''', OKRegex = '''', ResponseIsJson = False,
      AccessTokenField = '''', UsernameField = '''', ExrtactUserNameFromBasicAuthHeader = False\<rparr>"

definition proxy_config_fields :: "(string \<times> proxy_config setter) list" where
  "proxy_config_fields =
     [(''TargetHost'', set_string TargetHost_update),
      (''OKCode'', set_int OKCode_update),
      (''OKResponse'', set_string OKResponse_update),
      (''OKRegex'', set_string OKRegex_update),
      (''ResponseIsJson'', set_bool ResponseIsJson_update),
      (''AccessTokenField'', set_string AccessTokenField_update),
      (''UsernameField'', set_string UsernameField_update),
      (''ExrtactUserNameFromBasicAuthHeader'', set_bool ExrtactUserNameFromBasicAuthHeader_update)]"

record proxy_provider =
  Proxy_config :: proxy_config
  Proxy_profile :: profile

definition proxy_Init :: "profile \<Rightarrow> string \<Rightarrow> go_error option \<times> proxy_provider" where
  "proxy_Init p config =
     (let (err, c) = Unmarshal (unmarshal_struct proxy_config_fields) config zero_proxy_config
      in (err, \<lparr>Proxy_config = c, Proxy_profile = p\<rparr>))"

record proxy_env =
  upstream :: "url \<Rightarrow> http_request \<Rightarrow> int \<times> string"
  regexp_match :: "string \<Rightarrow> (string \<Rightarrow> bool) result"
  gabs_path :: "string \<Rightarrow> (string \<Rightarrow> json) result"
  rand_draw :: "nat \<Rightarrow> nat"

definition respondFailure :: response where
  "respondFailure = [WriteHeader 401, Write ''Authentication Failed'']"

text \<open>The request the service is sent: the path is emptied and the host is the target's.\<close>

definition proxied_request :: "string \<Rightarrow> http_request \<Rightarrow> http_request" where
  "proxied_request host r = r\<lparr>req_path := '''', req_host := host\<rparr>"

text \<open>The checks on the answer, in order.\<close>

definition answer_accepted :: "proxy_env \<Rightarrow> proxy_config \<Rightarrow> int \<Rightarrow> string \<Rightarrow> bool" where
  "answer_accepted P c code thisBody =
     (if code \<ge> 400 then False
      else if OKCode c \<noteq> 0 \<and> code \<noteq> OKCode c then False
      else if OKResponse c \<noteq> '''' \<and> b64_encode thisBody \<noteq> OKResponse c then False
      else if OKRegex c \<noteq> '''' then
        (case regexp_match P (OKRegex c) of Inl rErr \<Rightarrow> False | Inr m \<Rightarrow> m thisBody)
      else True)"

text \<open>The user name and the access token: a random name, unless the header names the user, unless the
  answer does.\<close>

definition proxy_names :: "proxy_env \<Rightarrow> proxy_config \<Rightarrow> http_request \<Rightarrow> string \<Rightarrow> string \<times> string" where
  "proxy_names P c r thisBody =
     (let u0 = RandStringRunes (rand_draw P) 12;
          u1 = (if ExrtactUserNameFromBasicAuthHeader c
                then (let thisU = fst (ExtractBAUsernameAndPasswordFromRequest r)
                      in if thisU \<noteq> '''' then thisU else u0)
                else u0)
      in
      if ResponseIsJson c then
        (case gabs_path P thisBody of
           Inl pErr \<Rightarrow> (u1, '''')
         | Inr parsed \<Rightarrow>
             ((if UsernameField c \<noteq> '''' then (case parsed (UsernameField c) of JStr t \<Rightarrow> t | _ \<Rightarrow> u1) else u1),
              (if AccessTokenField c \<noteq> '''' then (case parsed (AccessTokenField c) of JStr t \<Rightarrow> t | _ \<Rightarrow> '''') else '''')))
      else (u1, ''''))"

definition proxy_user :: "string \<Rightarrow> string \<Rightarrow> goth_user" where
  "proxy_user uName accessToken =
     zero_user\<lparr>UserID := uName, Provider := ''ProxyProvider'', AccessToken := accessToken,
       Email := (if Contains uName ''@'' then uName else uName @ ''@soSession.com'')\<rparr>"

definition proxy_authenticate :: "proxy_env \<Rightarrow> proxy_config \<Rightarrow> http_request \<Rightarrow> goth_user option" where
  "proxy_authenticate P c r =
     (case url_Parse (TargetHost c) of
        Inl tErr \<Rightarrow> None
      | Inr target \<Rightarrow>
          (let r' = proxied_request (Host target) r; (code, thisBody) = upstream P target r' in
           if answer_accepted P c code thisBody
           then (let (uName, accessToken) = proxy_names P c r' thisBody in Some (proxy_user uName accessToken))
           else None))"

definition proxy_Handle ::
    "proxy_env \<Rightarrow> (goth_user \<Rightarrow> profile \<Rightarrow> ('st world, unit) act) \<Rightarrow> proxy_provider \<Rightarrow> http_request \<Rightarrow>
      ('st world, unit) act" where
  "proxy_Handle P complete p r =
     (case proxy_authenticate P (Proxy_config p) r of
        None \<Rightarrow> respond respondFailure
      | Some user \<Rightarrow> complete user (Proxy_profile p))"

definition proxy_HandleCallback :: "('st world, unit) act" where
  "proxy_HandleCallback = return_act ()"

text \<open>What the provider says of itself; it has no metadata.\<close>

definition proxy_Name :: string where "proxy_Name = ''ProxyProvider''"
definition proxy_ProviderType :: provider_type where "proxy_ProviderType = PASSTHROUGH_PROVIDER"
definition proxy_UseCallback :: bool where "proxy_UseCallback = False"
definition proxy_HandleMetadata :: response where "proxy_HandleMetadata = []"

subsection \<open>Lemmas\<close>

text \<open>The checks, as conditions on the answer.\<close>

lemma answer_accepted_iff:
  "answer_accepted P c code b \<longleftrightarrow>
     code < 400 \<and> (OKCode c = 0 \<or> code = OKCode c) \<and> (OKResponse c = '''' \<or> b64_encode b = OKResponse c) \<and>
     (OKRegex c = '''' \<or> (\<exists>m. regexp_match P (OKRegex c) = Inr m \<and> m b))"
  by (auto simp: answer_accepted_def split: sum.split)

text \<open>The configured response is compared exactly: it accepts one body.\<close>

lemma answer_accepted_body:
  "answer_accepted P c code b \<Longrightarrow> OKResponse c = b64_encode t \<Longrightarrow> t \<noteq> '''' \<Longrightarrow> b = t"
proof -
  assume "answer_accepted P c code b" "OKResponse c = b64_encode t" "t \<noteq> ''''"
  moreover have "b64_encode t \<noteq> ''''" using \<open>t \<noteq> ''''\<close> b64_encode_inject [of t "''''"] by simp
  ultimately show "b = t" by (simp add: answer_accepted_iff b64_encode_inject)
qed

lemma Contains_at_append [simp]: "Contains (s @ ''@'' @ t) ''@''"
  by simp

lemma proxy_authenticate_Some:
  "proxy_authenticate P c r = Some user \<Longrightarrow>
    \<exists>target code b n tok. url_Parse (TargetHost c) = Inr target \<and>
      upstream P target (proxied_request (Host target) r) = (code, b) \<and> answer_accepted P c code b \<and>
      proxy_names P c (proxied_request (Host target) r) b = (n, tok) \<and> user = proxy_user n tok"
  by (auto simp: proxy_authenticate_def Let_def split: sum.splits prod.splits if_splits)

lemma header_get_proxied [simp]: "header_get (proxied_request (Host target) r) k = header_get r k"
  by (simp add: proxied_request_def header_get_def)

text \<open>
  Who is authenticated, from the request and the answer alone: the user the answer names, or else the one the header names when it
  is to be read, or else a random name; the access token is the answer's.
\<close>

definition answer_field :: "proxy_env \<Rightarrow> proxy_config \<Rightarrow> string \<Rightarrow> string \<Rightarrow> string option" where
  "answer_field P c body field =
     (if ResponseIsJson c \<and> field \<noteq> '''' then
        (case gabs_path P body of
           Inl e \<Rightarrow> None
         | Inr parsed \<Rightarrow> (case parsed field of JStr t \<Rightarrow> Some t | _ \<Rightarrow> None))
      else None)"

definition answered_user :: "proxy_env \<Rightarrow> proxy_config \<Rightarrow> http_request \<Rightarrow> string \<Rightarrow> goth_user \<Rightarrow> bool" where
  "answered_user P c r body user \<longleftrightarrow>
     (let given = fst (ExtractBAUsernameAndPasswordFromRequest r);
          name = (case answer_field P c body (UsernameField c) of
            Some t \<Rightarrow> t
          | None \<Rightarrow> if ExrtactUserNameFromBasicAuthHeader c \<and> given \<noteq> '''' then given else RandStringRunes (rand_draw P) 12)
      in
      user = zero_user
        \<lparr>UserID := name, Provider := ''ProxyProvider'',
         AccessToken := (case answer_field P c body (AccessTokenField c) of Some t \<Rightarrow> t | None \<Rightarrow> ''''),
         Email := (if CHR ''@'' \<in> set name then name else name @ ''@soSession.com'')\<rparr>)"

lemma ExtractBA_proxied [simp]:
  "ExtractBAUsernameAndPasswordFromRequest (proxied_request h r) = ExtractBAUsernameAndPasswordFromRequest r"
  by (simp add: ExtractBAUsernameAndPasswordFromRequest_def proxied_request_def header_get_def)

lemma proxy_names_answered:
  "proxy_names P c (proxied_request h r) body =
    (case answer_field P c body (UsernameField c) of
       Some t \<Rightarrow> t
     | None \<Rightarrow> if ExrtactUserNameFromBasicAuthHeader c \<and> fst (ExtractBAUsernameAndPasswordFromRequest r) \<noteq> ''''
         then fst (ExtractBAUsernameAndPasswordFromRequest r) else RandStringRunes (rand_draw P) 12,
     case answer_field P c body (AccessTokenField c) of Some t \<Rightarrow> t | None \<Rightarrow> '''')"
proof (cases "ResponseIsJson c")
  case False
  then show ?thesis by (simp add: proxy_names_def answer_field_def Let_def)
next
  case True
  show ?thesis
  proof (cases "gabs_path P body")
    case (Inl e)
    with True show ?thesis by (simp add: proxy_names_def answer_field_def Let_def)
  next
    case (Inr parsed)
    let ?u = "parsed (UsernameField c)" and ?t = "parsed (AccessTokenField c)"
    from Inr True show ?thesis
      by (cases ?u; cases ?t) (simp_all add: proxy_names_def answer_field_def Let_def)
  qed
qed

lemma proxy_user_answered:
  "proxy_names P c (proxied_request h r) body = (n, tok) \<Longrightarrow> answered_user P c r body (proxy_user n tok)"
  by (auto simp: answered_user_def proxy_user_def proxy_names_answered Let_def)

lemma proxy_Handle_world:
  "snd (proxy_Handle P complete p r w) =
    (case proxy_authenticate P (Proxy_config p) r of
       None \<Rightarrow> w\<lparr>resp := resp w @ respondFailure\<rparr>
     | Some user \<Rightarrow> snd (complete user (Proxy_profile p) w))"
  by (simp add: proxy_Handle_def respond_def split: option.split)

interpretation proxy: login_flow
  "\<lambda>complete (_ :: unit) w. snd (proxy_Handle P complete p r w)"
  "\<lambda>_. proxy_authenticate P (Proxy_config p) r" "\<lambda>_. respondFailure" "Proxy_profile p"
  by unfold_locales (rule proxy_Handle_world)

end
