(* ===== verification/Tothic.thy ===== *)
theory Tothic
  imports Identity_Handler Go_Url
begin

section \<open>The redirect flow (packages tothic, toth and jwe)\<close>

text \<open>
  A login at an OAuth or OpenID provider takes two requests: \<^verbatim>\<open>BeginAuthHandler\<close> sends the browser to the
  provider, and \<^verbatim>\<open>CompleteUserAuth\<close> serves its return. Between the two, the chosen provider is kept in
  a store under a key made from the profile, and the provider's session in a signed cookie.

  Arguments: the providers and sessions of \<^verbatim>\<open>goth\<close>, the decryption of \<^verbatim>\<open>go-jose\<close>, the store of path
  parameters, and the two variables of the package, which start as \<^verbatim>\<open>nil\<close> and are set when the program starts.
\<close>

subsection \<open>Providers of an instance (package toth)\<close>

text \<open>A session store of \<^verbatim>\<open>gorilla/sessions\<close>, by what is used of it: reading the value of the session a request brings, and
  saving one, which yields the cookie.\<close>

record session_store =
  cookie_get :: "http_request \<Rightarrow> string option result"
  cookie_save :: "http_request \<Rightarrow> string \<Rightarrow> string result"

text \<open>\<open>'g\<close> is a provider of goth, \<open>'ss\<close> a session with one. Each operation is called at most once in a
  request. \<open>Store\<close> and \<open>TothErrorHandler\<close> are the variables of \<^verbatim>\<open>tothic\<close>; \<^const>\<open>None\<close> is \<^verbatim>\<open>nil\<close>.\<close>

record ('g, 'ss) goth_env =
  g_Name :: "'g \<Rightarrow> string"
  g_BeginAuth :: "'g \<Rightarrow> string \<Rightarrow> 'ss result"
  g_GetAuthURL :: "'ss \<Rightarrow> string result"
  g_Marshal :: "'ss \<Rightarrow> string"
  g_UnmarshalSession :: "'g \<Rightarrow> string \<Rightarrow> 'ss result"
  g_Authorize :: "'ss \<Rightarrow> 'g \<Rightarrow> string \<Rightarrow> 'ss result"
  g_FetchUser :: "'g \<Rightarrow> 'ss \<Rightarrow> goth_user result"
  g_DecodeOIDC :: "string \<Rightarrow> 'ss result"
  g_IDToken :: "'ss \<Rightarrow> string"
  g_SetIDToken :: "string \<Rightarrow> 'ss \<Rightarrow> 'ss"
  TothErrorHandler :: "(string \<Rightarrow> int \<Rightarrow> response) option"
  Store :: "session_store option"

type_synonym 'g toth_instance = "'g gomap"

definition toth_Init :: "'g toth_instance" where
  "toth_Init = []"

definition UseProviders :: "('g, 'ss) goth_env \<Rightarrow> 'g list \<Rightarrow> 'g toth_instance \<Rightarrow> 'g toth_instance" where
  "UseProviders G viders t = foldl (\<lambda>t g. map_put (g_Name G g) g t) t viders"

definition GetProvider :: "'g toth_instance \<Rightarrow> string \<Rightarrow> 'g result" where
  "GetProvider t name =
     (case map_get t name of
        None \<Rightarrow> Inl (''no provider for '' @ name @ '' exists'')
      | Some g \<Rightarrow> Inr g)"

definition GetProviders :: "'g toth_instance \<Rightarrow> 'g gomap" where
  "GetProviders t = t"

definition ClearProviders :: "'g toth_instance \<Rightarrow> 'g toth_instance" where
  "ClearProviders t = []"

subsection \<open>Encrypted tokens (package jwe)\<close>

text \<open>\<open>'k\<close> is a certificate; \<open>rsa_key\<close> says whether its private key is an RSA key, and \<open>jose_decrypt\<close>
  parses and decrypts.\<close>

record 'k jwe_handler =
  Enabled :: bool
  PrivateKeyLocation :: string
  Key :: "'k option"

record 'k jwe_env =
  rsa_key :: "'k \<Rightarrow> bool"
  jose_decrypt :: "'k \<Rightarrow> string \<Rightarrow> string result"

definition jwe_Decrypt :: "'k jwe_env \<Rightarrow> 'k jwe_handler \<Rightarrow> string \<Rightarrow> string result outcome" where
  "jwe_Decrypt J handler tok =
     (if \<not> Enabled handler then Returns (Inr tok)
      else
        (case Key handler of
           None \<Rightarrow> Returns (Inl ''JWE Private Key not loaded'')
         | Some k \<Rightarrow>
             if rsa_key J k then Returns (jose_decrypt J k tok) else Panics Type_assertion))"

definition DecryptIDToken ::
    "('g, 'ss) goth_env \<Rightarrow> 'k jwe_env \<Rightarrow> 'k jwe_handler \<Rightarrow> 'ss \<Rightarrow> 'ss result outcome" where
  "DecryptIDToken G J handler session =
     obind (jwe_Decrypt J handler (g_IDToken G session)) (\<lambda>r.
       Returns (rbind r (\<lambda>decrypted. Inr (g_SetIDToken G decrypted session))))"

definition prepareJWTSession ::
    "('g, 'ss) goth_env \<Rightarrow> 'k jwe_env \<Rightarrow> 'k jwe_handler \<Rightarrow> 'ss \<Rightarrow> 'ss result outcome" where
  "prepareJWTSession G J handler sess =
     (if \<not> Enabled handler then Returns (Inr sess)
      else
        (case g_DecodeOIDC G (g_Marshal G sess) of
           Inl err \<Rightarrow> Returns (Inl err)
         | Inr s \<Rightarrow> DecryptIDToken G J handler s))"

subsection \<open>Path parameters\<close>

record 'p param_store =
  ppSet :: "string \<Rightarrow> string \<Rightarrow> go_value \<Rightarrow> ('p, go_error option) act"
  ppGet :: "string \<Rightarrow> string \<Rightarrow> 'p \<Rightarrow> go_error option \<times> path_param"

definition path_params :: "string gomap \<Rightarrow> go_error option \<times> path_param" where
  "path_params newPathParams =
     (let m = (case map_get newPathParams '':provider'' of
            Some val \<Rightarrow> map_del '':provider'' (map_put ''provider'' val newPathParams)
          | None \<Rightarrow> newPathParams)
      in unmarshal_path_param (print_json (string_map_json (Some m))))"

definition SetPathParams :: "'p param_store \<Rightarrow> string gomap \<Rightarrow> profile \<Rightarrow> ('p, unit) act" where
  "SetPathParams S newPathParams p =
     (case path_params newPathParams of
        (Some err, _) \<Rightarrow> return_act ()
      | (None, params) \<Rightarrow> bind_act (ppSet S (GetPrefix p) (OrgID p) (PathParamVal params)) (\<lambda>err. return_act ()))"

text \<open>The binary encodings of path parameters; like that of a profile the decoding always fails.\<close>

definition path_param_MarshalBinary :: "path_param \<Rightarrow> string" where
  "path_param_MarshalBinary p = marshal_value (PathParamVal p)"

definition path_param_UnmarshalBinary :: "string \<Rightarrow> path_param \<Rightarrow> go_error option \<times> path_param" where
  "path_param_UnmarshalBinary bytes p =
     (if json_decode bytes = None then (Some ''invalid JSON'', p)
      else (Some ''json: Unmarshal(non-pointer tothic.PathParam)'', p))"

text \<open>A failed lookup leaves the empty parameters.\<close>

definition GetParams :: "'p param_store \<Rightarrow> profile \<Rightarrow> 'p \<Rightarrow> path_param" where
  "GetParams S p s = snd (ppGet S (GetPrefix p) (OrgID p) s)"

definition getProviderName :: "'p param_store \<Rightarrow> profile \<Rightarrow> 'p \<Rightarrow> string result" where
  "getProviderName S p s =
     (let provider = Provider_name (GetParams S p s)
      in if provider = '''' then Inl ''you must select a provider'' else Inr provider)"

subsection \<open>Beginning and completing\<close>

definition SessionName :: string where "SessionName = ''_gothic_session''"

text \<open>The state is taken from the request that begins the login, and the same for every request that gives none. No
  other function reads it.\<close>

definition GetState :: "http_request \<Rightarrow> string" where
  "GetState req =
     (let s0 = Query_Get (req_query req) ''state'';
          s1 = (if s0 = '''' \<and> req_method req = ''POST'' then FormValue req ''state'' else s0)
      in if s1 = '''' then ''state'' else s1)"

text \<open>The address to send the browser to, and the cookie that is set. Without a session store it panics.\<close>

definition GetAuthURL ::
    "('g, 'ss) goth_env \<Rightarrow> 'p param_store \<Rightarrow> http_request \<Rightarrow> 'g toth_instance \<Rightarrow> profile \<Rightarrow> 'p \<Rightarrow>
      (string \<times> response) result outcome" where
  "GetAuthURL G S req t p s =
     (case getProviderName S p s of
        Inl err \<Rightarrow> Returns (Inl err)
      | Inr providerName \<Rightarrow>
     (case GetProvider t providerName of
        Inl err \<Rightarrow> Returns (Inl err)
      | Inr provider \<Rightarrow>
     (case g_BeginAuth G provider (GetState req) of
        Inl err \<Rightarrow> Returns (Inl err)
      | Inr sess \<Rightarrow>
     (case g_GetAuthURL G sess of
        Inl err \<Rightarrow> Returns (Inl err)
      | Inr url \<Rightarrow>
     (case Store G of
        None \<Rightarrow> Panics Nil_dereference
      | Some store \<Rightarrow>
     (case cookie_save store req (g_Marshal G sess) of
        Inl err \<Rightarrow> Returns (Inl err)
      | Inr cookie \<Rightarrow> Returns (Inr (url, [SetCookie SessionName cookie]))))))))"

definition BeginAuthHandler ::
    "('g, 'ss) goth_env \<Rightarrow> 'p param_store \<Rightarrow> http_request \<Rightarrow> 'g toth_instance \<Rightarrow> string gomap \<Rightarrow>
      profile \<Rightarrow> ('st world \<times> 'p, unit) act" where
  "BeginAuthHandler G S req t pathParams p =
     bind_act (on_aux (SetPathParams S pathParams p)) (\<lambda>_ (w, s).
       bind_act (lift_outcome (GetAuthURL G S req t p s)) (\<lambda>r.
         case r of
           Inl err \<Rightarrow>
             (case TothErrorHandler G of
                None \<Rightarrow> lift_outcome (Panics Nil_dereference)
              | Some handler \<Rightarrow> on_world (respond (handler err 400)))
         | Inr (url, cookie) \<Rightarrow> on_world (respond (cookie @ [Redirect url 307]))) (w, s))"

definition CompleteUserAuth ::
    "('g, 'ss) goth_env \<Rightarrow> 'k jwe_env \<Rightarrow> 'p param_store \<Rightarrow> http_request \<Rightarrow> 'g toth_instance \<Rightarrow> profile \<Rightarrow>
      'k jwe_handler \<Rightarrow> 'p \<Rightarrow> goth_user result outcome" where
  "CompleteUserAuth G J S req t p handler s =
     (case getProviderName S p s of
        Inl err \<Rightarrow> Returns (Inl err)
      | Inr providerName \<Rightarrow>
     (case GetProvider t providerName of
        Inl err \<Rightarrow> Returns (Inl err)
      | Inr provider \<Rightarrow>
     (case Store G of
        None \<Rightarrow> Panics Nil_dereference
      | Some store \<Rightarrow>
     (case cookie_get store req of
        Inl err \<Rightarrow> Returns (Inl ''cannot get session store'')
      | Inr None \<Rightarrow> Returns (Inl ''could not find a matching session for this request'')
      | Inr (Some value) \<Rightarrow>
     (case g_UnmarshalSession G provider value of
        Inl err \<Rightarrow> Returns (Inl err)
      | Inr sess \<Rightarrow>
     (case g_Authorize G sess provider (req_query req) of
        Inl err \<Rightarrow> Returns (Inl err)
      | Inr sess1 \<Rightarrow>
          obind (prepareJWTSession G J handler sess1) (\<lambda>r.
            Returns (rbind r (\<lambda>jwt. g_FetchUser G provider jwt)))))))))"

text \<open>The key of the cookie store.\<close>

definition KeyFromEnv :: "(string \<rightharpoonup> string) \<Rightarrow> string" where
  "KeyFromEnv env =
     (let key = (case env ''SESSION_SECRET'' of Some v \<Rightarrow> v | None \<Rightarrow> '''');
          temp = (case env ''TYK_IB_SESSION_SECRET'' of Some v \<Rightarrow> v | None \<Rightarrow> '''')
      in if temp \<noteq> '''' then temp else key)"

text \<open>The session store that is set up: \<open>mk\<close> is \<^verbatim>\<open>sessions.NewCookieStore\<close>.\<close>

definition SetupSessionStore :: "(string \<Rightarrow> session_store) \<Rightarrow> (string \<rightharpoonup> string) \<Rightarrow> session_store option" where
  "SetupSessionStore mk env = Some (mk (KeyFromEnv env))"

subsection \<open>Lemmas\<close>

lemma UseProviders_wf: "wf_map t \<Longrightarrow> wf_map (UseProviders G gs t)"
  by (induction gs arbitrary: t) (simp_all add: UseProviders_def)

lemma GetProvider_UseProviders:
  "wf_map t \<Longrightarrow> GetProvider (UseProviders G gs t) name = Inr g \<Longrightarrow>
    (g \<in> set gs \<and> g_Name G g = name) \<or> GetProvider t name = Inr g"
proof (induction gs arbitrary: t)
  case (Cons x gs)
  have "(g \<in> set gs \<and> g_Name G g = name) \<or> GetProvider (map_put (g_Name G x) x t) name = Inr g"
    using Cons by (simp add: UseProviders_def)
  with Cons.prems(1) show ?case
    by (auto simp: GetProvider_def split: option.splits if_splits)
qed (simp add: UseProviders_def)

text \<open>A provider an instance yields is one it was given, under its own name.\<close>

lemma GetProvider_given:
  "GetProvider (UseProviders G gs toth_Init) name = Inr g \<Longrightarrow> g \<in> set gs \<and> g_Name G g = name"
  using GetProvider_UseProviders [of toth_Init G gs name g]
  by (auto simp: toth_Init_def GetProvider_def map_get_def)

text \<open>A user comes out of the flow only with the cookie of a session that its provider has authorised.\<close>

lemma CompleteUserAuth_ok:
  assumes "CompleteUserAuth G J S req t p handler s = Returns (Inr user)"
  shows "\<exists>name provider store value sess sess1 jwt.
    getProviderName S p s = Inr name \<and> GetProvider t name = Inr provider \<and>
    Store G = Some store \<and> cookie_get store req = Inr (Some value) \<and> g_UnmarshalSession G provider value = Inr sess \<and>
    g_Authorize G sess provider (req_query req) = Inr sess1 \<and>
    prepareJWTSession G J handler sess1 = Returns (Inr jwt) \<and> g_FetchUser G provider jwt = Inr user"
  using assms
  by (auto simp: CompleteUserAuth_def split: sum.splits option.splits)

text \<open>Without the two variables no login can be begun and none completed: the first request always panics, and the second
  panics or is refused.\<close>

lemma BeginAuthHandler_unset:
  assumes "Store G = None" and "TothErrorHandler G = None"
  shows "\<exists>x. fst (BeginAuthHandler G S req t pp p (w, s)) = Panics x"
    and "fst (snd (BeginAuthHandler G S req t pp p (w, s))) = w"
  using assms
  by (auto simp: BeginAuthHandler_def GetAuthURL_def bind_act_def on_aux_def lift_outcome_def
      split: outcome.splits sum.splits prod.splits)

lemma CompleteUserAuth_unset:
  "Store G = None \<Longrightarrow> CompleteUserAuth G J S req t p handler s \<noteq> Returns (Inr user)"
  using CompleteUserAuth_ok [of G J S req t p handler s user] by auto

lemma prepareJWTSession_ok:
  assumes "prepareJWTSession G J handler sess = Returns (Inr jwt)" and "Enabled handler"
  shows "\<exists>k s tok. Key handler = Some k \<and> rsa_key J k \<and> g_DecodeOIDC G (g_Marshal G sess) = Inr s \<and>
    jose_decrypt J k (g_IDToken G s) = Inr tok \<and> jwt = g_SetIDToken G tok s"
  using assms
  by (auto simp: prepareJWTSession_def DecryptIDToken_def jwe_Decrypt_def split: sum.splits option.splits if_splits)

lemma path_params_routed:
  "path_params (map_put ''id'' i (map_put ''provider'' v [])) = (None, \<lparr>Id = i, Provider_name = v\<rparr>)"
proof -
  have "print_json (string_map_json (Some [(''id'', i), (''provider'', v)])) =
      marshal_value (PathParamVal \<lparr>Id = i, Provider_name = v\<rparr>)"
    by (simp add: marshal_value_def value_json_def path_param_json_def string_map_json_def)
  moreover have "map_get [(''id'', i), (''provider'', v)] '':provider'' = None"
    by (simp add: map_get_def)
  ultimately show ?thesis
    by (simp add: path_params_def unmarshal_path_param_marshal less_char_def)
qed

definition redis_param_store :: "'r key_value \<Rightarrow> 'r redis param_store" where
  "redis_param_store ops =
     \<lparr>ppSet = (\<lambda>k org v s. case redis_SetKey ops k org v s of (e, s') \<Rightarrow> (Returns e, s')),
      ppGet = redis_GetKey ops unmarshal_path_param zero_path_param\<rparr>"

text \<open>The parameters that were stored for a profile are the ones read for it, when the server answers;
  and so the last login that was begun decides for every login on the profile that is under way.\<close>

lemma GetParams_stored:
  assumes "key_value_documented ops db"
    and "redis_SetKey ops (GetPrefix p) (OrgID p) (PathParamVal params) s = (None, s')"
    and "kvGet ops (fixKey s (GetPrefix p)) (client s') = (None, t)"
    and "GetPrefix q = GetPrefix p"
  shows "GetParams (redis_param_store ops) q s' = params"
  using redis_get_after_set [OF assms(1-3), of unmarshal_path_param zero_path_param "OrgID q"] assms(4)
    unmarshal_path_param_marshal [of params]
  by (simp add: GetParams_def redis_param_store_def redis_text_def)

end
