(* ===== verification/Provider_Social.thy ===== *)
theory Provider_Social
  imports Tothic
begin

section \<open>The social provider (social.go)\<close>

text \<open>
  Logins at the providers of \<^verbatim>\<open>goth\<close>. Arguments, beside those of \<open>Tothic\<close>: the constructors of the
  providers and the certificate store the key of encrypted tokens is loaded from.
\<close>

record goth_provider_config =
  Goth_Name :: string
  Goth_Key :: string
  Goth_Secret :: string
  DiscoverURL :: string
  DisableAuthHeaderProviderDomain :: string
  Scopes :: "string list"
  SkipUserInfoRequest :: bool

record 'k goth_config =
  Goth_UseProviders :: "goth_provider_config list"
  CallbackBaseURL :: string
  Goth_FailureRedirect :: string
  JWE :: "'k jwe_handler"

record ('g, 'k) social =
  Social_config :: "'k goth_config"
  Social_toth :: "'g toth_instance"
  Social_profile :: profile

definition zero_goth_provider_config :: goth_provider_config where
  "zero_goth_provider_config =
     \<lparr>Goth_Name = '''', Goth_Key = '''', Goth_Secret = '''', DiscoverURL = '''',
      DisableAuthHeaderProviderDomain = '''', Scopes = [], SkipUserInfoRequest = False\<rparr>"

definition zero_goth_config :: "'k goth_config" where
  "zero_goth_config =
     \<lparr>Goth_UseProviders = [], CallbackBaseURL = '''', Goth_FailureRedirect = '''',
      JWE = \<lparr>Enabled = False, PrivateKeyLocation = '''', Key = None\<rparr>\<rparr>"

definition set_scopes :: "goth_provider_config setter" where
  "set_scopes j s =
     (case j of
        JArr xs \<Rightarrow>
          (list_all (\<lambda>x. case x of JStr _ \<Rightarrow> True | JNull \<Rightarrow> True | _ \<Rightarrow> False) xs,
           s\<lparr>Scopes := map (\<lambda>x. case x of JStr t \<Rightarrow> t | _ \<Rightarrow> '''') xs\<rparr>)
      | JNull \<Rightarrow> (True, s\<lparr>Scopes := []\<rparr>)
      | _ \<Rightarrow> (False, s))"

definition goth_provider_fields :: "(string \<times> goth_provider_config setter) list" where
  "goth_provider_fields =
     [(''Name'', set_string Goth_Name_update),
      (''Key'', set_string Goth_Key_update),
      (''Secret'', set_string Goth_Secret_update),
      (''DiscoverURL'', set_string DiscoverURL_update),
      (''DisableAuthHeaderProviderDomain'', set_string DisableAuthHeaderProviderDomain_update),
      (''Scopes'', set_scopes),
      (''SkipUserInfoRequest'', set_bool SkipUserInfoRequest_update)]"

fun goth_provider_elems :: "json list \<Rightarrow> bool \<times> goth_provider_config list" where
  "goth_provider_elems [] = (True, [])"
| "goth_provider_elems (j # js) =
     (let (ok, p) = unmarshal_struct goth_provider_fields j zero_goth_provider_config;
          (ok', ps) = goth_provider_elems js
      in (ok \<and> ok', p # ps))"

definition set_use_providers :: "'k goth_config setter" where
  "set_use_providers j s =
     (case j of
        JArr xs \<Rightarrow> (let (ok, ps) = goth_provider_elems xs in (ok, s\<lparr>Goth_UseProviders := ps\<rparr>))
      | JNull \<Rightarrow> (True, s\<lparr>Goth_UseProviders := []\<rparr>)
      | _ \<Rightarrow> (False, s))"

definition jwe_fields :: "(string \<times> 'k jwe_handler setter) list" where
  "jwe_fields =
     [(''Enabled'', set_bool Enabled_update), (''PrivateKeyLocation'', set_string PrivateKeyLocation_update)]"

definition set_jwe :: "'k goth_config setter" where
  "set_jwe j s = (let (ok, h) = unmarshal_struct jwe_fields j (JWE s) in (ok, s\<lparr>JWE := h\<rparr>))"

definition goth_config_fields :: "(string \<times> 'k goth_config setter) list" where
  "goth_config_fields =
     [(''UseProviders'', set_use_providers),
      (''CallbackBaseURL'', set_string CallbackBaseURL_update),
      (''FailureRedirect'', set_string Goth_FailureRedirect_update),
      (''JWE'', set_jwe)]"

text \<open>\<open>new_goth\<close> makes a provider of a kind from its configuration and callback address; of the kinds the
  broker knows only OpenID Connect can fail.\<close>

record ('g, 'k) social_env =
  new_goth :: "goth_provider_config \<Rightarrow> string \<Rightarrow> 'g"
  new_openid :: "goth_provider_config \<Rightarrow> string \<Rightarrow> 'g result"
  cert_list :: "string \<Rightarrow> 'k option list"

definition plain_goth_kinds :: "string list" where
  "plain_goth_kinds =
     [''gplus'', ''github'', ''twitter'', ''linkedin'', ''dropbox'', ''digitalocean'', ''bitbucket'',
      ''salesforce'']"

definition getCallBackURL :: "string \<Rightarrow> string \<Rightarrow> string \<Rightarrow> string" where
  "getCallBackURL base profile_id provider = base @ ''/auth/'' @ profile_id @ ''/'' @ provider @ ''/callback''"

fun goth_providers ::
    "('g, 'k) social_env \<Rightarrow> string \<Rightarrow> string \<Rightarrow> goth_provider_config list \<Rightarrow> 'g list result" where
  "goth_providers V base profile_id [] = Inr []"
| "goth_providers V base profile_id (c # cs) =
     (let url = getCallBackURL base profile_id (Goth_Name c) in
      if Goth_Name c \<in> set plain_goth_kinds
      then rbind (goth_providers V base profile_id cs) (\<lambda>gs. Inr (new_goth V c url # gs))
      else if Goth_Name c = ''openid-connect''
      then rbind (new_openid V c url) (\<lambda>g. rbind (goth_providers V base profile_id cs) (\<lambda>gs. Inr (g # gs)))
      else goth_providers V base profile_id cs)"

definition load_jwe_key :: "('g, 'k) social_env \<Rightarrow> 'k jwe_handler \<Rightarrow> 'k jwe_handler" where
  "load_jwe_key V h =
     (if Enabled h then
        (case cert_list V (PrivateKeyLocation h) of
           [] \<Rightarrow> h
         | k # _ \<Rightarrow> h\<lparr>Key := k\<rparr>)
      else h)"

definition social_Init ::
    "('g, 'ss) goth_env \<Rightarrow> ('g, 'k) social_env \<Rightarrow> profile \<Rightarrow> string \<Rightarrow> go_error option \<times> ('g, 'k) social" where
  "social_Init G V p config =
     (let (err, c) = Unmarshal (unmarshal_struct goth_config_fields) config zero_goth_config;
          s0 = \<lparr>Social_config = c, Social_toth = toth_Init, Social_profile = p\<rparr> in
      case err of
        Some e \<Rightarrow> (Some e, s0)
      | None \<Rightarrow>
          (let c1 = c\<lparr>JWE := load_jwe_key V (JWE c)\<rparr>; s1 = s0\<lparr>Social_config := c1\<rparr> in
           case goth_providers V (CallbackBaseURL c1) (ID p) (Goth_UseProviders c1) of
             Inl e \<Rightarrow> (Some e, s1)
           | Inr gs \<Rightarrow> (None, s1\<lparr>Social_toth := UseProviders G gs (Social_toth s1)\<rparr>)))"

definition social_Handle ::
    "('g, 'ss) goth_env \<Rightarrow> 'p param_store \<Rightarrow> ('g, 'k) social \<Rightarrow> http_request \<Rightarrow> string gomap \<Rightarrow>
      profile \<Rightarrow> ('st world \<times> 'p, unit) act" where
  "social_Handle G S s r pathParams p = BeginAuthHandler G S r (Social_toth s) pathParams p"

text \<open>The constraint on the domain is a constraint on the end of the address; a group constraint is only
  logged.\<close>

definition social_checkConstraints :: "profile \<Rightarrow> goth_user \<Rightarrow> go_error option" where
  "social_checkConstraints p user =
     (if Domain (ProviderConstraints p) \<noteq> '''' \<and> \<not> HasSuffix (Email user) (Domain (ProviderConstraints p))
      then Some ''domain constraint failed, user domain does not match profile''
      else None)"

text \<open>A failed login is answered with the error's text, and with status 200.\<close>

definition social_HandleCallback ::
    "('g, 'ss) goth_env \<Rightarrow> 'k jwe_env \<Rightarrow> 'p param_store \<Rightarrow> (goth_user \<Rightarrow> profile \<Rightarrow> ('st world, unit) act) \<Rightarrow>
      ('g, 'k) social \<Rightarrow> http_request \<Rightarrow> profile \<Rightarrow> 'p \<Rightarrow> ('st world, unit) act" where
  "social_HandleCallback G J S complete s r p params =
     bind_act (lift_outcome (CompleteUserAuth G J S r (Social_toth s) p (JWE (Social_config s)) params)) (\<lambda>res.
       case res of
         Inl err \<Rightarrow> respond [Write (err @ [CHR 0x0A])]
       | Inr user \<Rightarrow>
           if social_checkConstraints (Social_profile s) user \<noteq> None then
             (if Goth_FailureRedirect (Social_config s) = '''' then respond (HandleError ''Constraint failed'' 400)
              else respond [Redirect (Goth_FailureRedirect (Social_config s)) 301])
           else complete user (Social_profile s))"

text \<open>What the provider says of itself; it has no metadata.\<close>

definition social_Name :: string where "social_Name = ''SocialProvider''"
definition social_ProviderType :: provider_type where "social_ProviderType = REDIRECT_PROVIDER"
definition social_UseCallback :: bool where "social_UseCallback = True"
definition social_HandleMetadata :: response where "social_HandleMetadata = []"

subsection \<open>Lemmas\<close>

lemma social_checkConstraints_None:
  "social_checkConstraints p user = None \<longleftrightarrow> (\<exists>local. Email user = local @ Domain (ProviderConstraints p))"
  by (auto simp: social_checkConstraints_def HasSuffix_iff)

text \<open>A domain without its \<^verbatim>\<open>@\<close> also accepts the addresses of any domain that ends in it.\<close>

lemma social_domain_suffix:
  "Email user = local @ ''@'' @ other @ d \<Longrightarrow> Domain (ProviderConstraints p) = d \<Longrightarrow>
    social_checkConstraints p user = None"
  unfolding social_checkConstraints_None by (intro exI [of _ "local @ ''@'' @ other"]) simp

text \<open>The instance holds providers made from the configured entries only.\<close>

lemma goth_providers_configured:
  "goth_providers V base i cs = Inr gs \<Longrightarrow> g \<in> set gs \<Longrightarrow>
    \<exists>c\<in>set cs. g = new_goth V c (getCallBackURL base i (Goth_Name c)) \<or>
      new_openid V c (getCallBackURL base i (Goth_Name c)) = Inr g"
  by (induction cs arbitrary: gs) (auto simp: Let_def split: if_splits)

text \<open>What a callback does to the world: it only hands over a user who came out of the flow and meets the
  constraint.\<close>

lemma social_HandleCallback_world:
  "snd (social_HandleCallback G J S complete s r p params w) =
    (case CompleteUserAuth G J S r (Social_toth s) p (JWE (Social_config s)) params of
       Panics x \<Rightarrow> w
     | Returns (Inl err) \<Rightarrow> w\<lparr>resp := resp w @ [Write (err @ [CHR 0x0A])]\<rparr>
     | Returns (Inr user) \<Rightarrow>
         if social_checkConstraints (Social_profile s) user = None then snd (complete user (Social_profile s) w)
         else w\<lparr>resp := resp w @
           (if Goth_FailureRedirect (Social_config s) = '''' then HandleError ''Constraint failed'' 400
            else [Redirect (Goth_FailureRedirect (Social_config s)) 301])\<rparr>)"
  by (auto simp: social_HandleCallback_def bind_act_def lift_outcome_def respond_def
      split: outcome.splits sum.splits)

definition social_verdict ::
    "('g, 'ss) goth_env \<Rightarrow> 'k jwe_env \<Rightarrow> 'p param_store \<Rightarrow> ('g, 'k) social \<Rightarrow> http_request \<Rightarrow> profile \<Rightarrow> 'p \<Rightarrow>
      goth_user option" where
  "social_verdict G J S s r p params =
     (case CompleteUserAuth G J S r (Social_toth s) p (JWE (Social_config s)) params of
        Returns (Inr user) \<Rightarrow>
          if social_checkConstraints (Social_profile s) user = None then Some user else None
      | _ \<Rightarrow> None)"

definition social_refusal ::
    "('g, 'ss) goth_env \<Rightarrow> 'k jwe_env \<Rightarrow> 'p param_store \<Rightarrow> ('g, 'k) social \<Rightarrow> http_request \<Rightarrow> profile \<Rightarrow> 'p \<Rightarrow>
      response" where
  "social_refusal G J S s r p params =
     (case CompleteUserAuth G J S r (Social_toth s) p (JWE (Social_config s)) params of
        Returns (Inr user) \<Rightarrow>
          if Goth_FailureRedirect (Social_config s) = '''' then HandleError ''Constraint failed'' 400
          else [Redirect (Goth_FailureRedirect (Social_config s)) 301]
      | Returns (Inl err) \<Rightarrow> [Write (err @ [CHR 0x0A])]
      | Panics x \<Rightarrow> [])"

interpretation social: login_flow
  "\<lambda>complete params w. snd (social_HandleCallback G J S complete s r p params w)"
  "social_verdict G J S s r p" "social_refusal G J S s r p" "Social_profile s"
  by unfold_locales
    (simp add: social_HandleCallback_world social_verdict_def social_refusal_def
      split: outcome.split sum.split)

lemma social_verdict_ok:
  "social_verdict G J S s r p params = Some user \<longleftrightarrow>
    CompleteUserAuth G J S r (Social_toth s) p (JWE (Social_config s)) params = Returns (Inr user) \<and>
    social_checkConstraints (Social_profile s) user = None"
  by (auto simp: social_verdict_def split: outcome.splits sum.splits if_splits)

end
