(* ===== verification/Provider_SAML.thy ===== *)
theory Provider_SAML
  imports Identity_Handler Provider_Utils Go_Url
begin

section \<open>The SAML provider (saml.go)\<close>

text \<open>
  Logins at a SAML identity provider. The broker builds the service provider and the middleware of
  \<^verbatim>\<open>crewjam/saml\<close> itself, from the configuration and the profile's identifier; what that library does with them, fetching
  metadata, making requests and validating responses, is an argument, as is the certificate store.
\<close>

definition DefaultForeNameClaim :: string where
  "DefaultForeNameClaim = ''http://schemas.xmlsoap.org/ws/2005/05/identity/claims/givenname''"
definition DefaultSurNameClaim :: string where
  "DefaultSurNameClaim = ''http://schemas.xmlsoap.org/ws/2005/05/identity/claims/surname''"
definition DefaultEmailClaim :: string where
  "DefaultEmailClaim = ''http://schemas.xmlsoap.org/ws/2005/05/identity/claims/emailaddress''"
definition WIFUniqueName :: string where
  "WIFUniqueName = ''http://schemas.xmlsoap.org/ws/2005/05/identity/claims/name''"

record saml_config =
  IDPMetadataURL :: string
  CertLocation :: string
  SAMLBaseURL :: string
  ForceAuthentication :: bool
  SAMLBinding :: string
  SAMLEmailClaim :: string
  SAMLForenameClaim :: string
  SAMLSurnameClaim :: string
  SAML_FailureRedirect :: string
  EntityId :: string

definition zero_saml_config :: saml_config where
  "zero_saml_config =
     \<lparr>IDPMetadataURL = '''', CertLocation = '''', SAMLBaseURL = '''', ForceAuthentication = False,
      SAMLBinding = '''', SAMLEmailClaim = '''', SAMLForenameClaim = '''', SAMLSurnameClaim = '''',
      SAML_FailureRedirect = '''', EntityId = ''''\<rparr>"

definition saml_config_fields :: "(string \<times> saml_config setter) list" where
  "saml_config_fields =
     [(''IDPMetadataURL'', set_string IDPMetadataURL_update),
      (''CertLocation'', set_string CertLocation_update),
      (''SAMLBaseURL'', set_string SAMLBaseURL_update),
      (''ForceAuthentication'', set_bool ForceAuthentication_update),
      (''SAMLBinding'', set_string SAMLBinding_update),
      (''SAMLEmailClaim'', set_string SAMLEmailClaim_update),
      (''SAMLForenameClaim'', set_string SAMLForenameClaim_update),
      (''SAMLSurnameClaim'', set_string SAMLSurnameClaim_update),
      (''FailureRedirect'', set_string SAML_FailureRedirect_update),
      (''EntityId'', set_string EntityId_update)]"

subsection \<open>The middleware\<close>

text \<open>\<open>'k\<close> is a certificate and \<open>'m\<close> the metadata of an identity provider. The private key of a certificate is
  missing, an RSA key or of another kind.\<close>

datatype private_key = No_key | Rsa_key | Other_key

record attribute =
  Att_Name :: string
  Att_Values :: "string list"

type_synonym assertion = "attribute list list"

text \<open>\<open>SP_Key\<close> is the certificate whose private key is used, if there is one.\<close>

record ('k, 'm) service_provider =
  EntityID :: string
  SP_Key :: "'k option"
  Certificate :: 'k
  MetadataURL :: url
  AcsURL :: url
  SloURL :: url
  IDPMetadata :: "'m option"
  ForceAuthn :: bool
  AllowIDPInitiated :: bool

record 'k sp_options =
  Opt_URL :: url
  Opt_Key :: "'k option"
  Opt_AllowIDPInitiated :: bool

text \<open>The session and the request tracker are the library's, made from the options.\<close>

record ('k, 'm) saml_middleware =
  ServiceProvider :: "('k, 'm) service_provider"
  Binding :: string
  tracker_options :: "'k sp_options"

record ('k, 'm) saml_env =
  certificates :: "string \<Rightarrow> 'k option list"
  private_key_of :: "'k \<Rightarrow> private_key"
  FetchMetadata :: "url \<Rightarrow> 'm result"
  GetSSOBindingLocation :: "('k, 'm) service_provider \<Rightarrow> string \<Rightarrow> string"
  MakeAuthenticationRequest :: "('k, 'm) service_provider \<Rightarrow> string \<Rightarrow> string \<Rightarrow> string \<Rightarrow> string result"
  TrackRequest :: "('k, 'm) saml_middleware \<Rightarrow> http_request \<Rightarrow> string \<Rightarrow> (string \<times> response) result"
  AuthReq_Redirect :: "('k, 'm) service_provider \<Rightarrow> string \<Rightarrow> string \<Rightarrow> string result"
  AuthReq_Post :: "string \<Rightarrow> string \<Rightarrow> string"
  TrackedRequests :: "('k, 'm) saml_middleware \<Rightarrow> http_request \<Rightarrow> string list"
  ParseResponse :: "('k, 'm) service_provider \<Rightarrow> http_request \<Rightarrow> string list \<Rightarrow> assertion result"
  Metadata_xml :: "('k, 'm) service_provider \<Rightarrow> string"

definition HTTPRedirectBinding :: string where
  "HTTPRedirectBinding = ''urn:oasis:names:tc:SAML:2.0:bindings:HTTP-Redirect''"
definition HTTPPostBinding :: string where
  "HTTPPostBinding = ''urn:oasis:names:tc:SAML:2.0:bindings:HTTP-POST''"

record ('k, 'm) saml_provider =
  SAML_config :: saml_config
  SAML_profile :: profile
  middleware :: "('k, 'm) saml_middleware option"

text \<open>The addresses of the broker itself, relative to the configured one.\<close>

definition saml_url :: "url \<Rightarrow> string \<Rightarrow> string \<Rightarrow> url" where
  "saml_url rootURL profile_id endpoint =
     resolve_path_reference rootURL (''auth/'' @ profile_id @ ''/saml/'' @ endpoint)"

definition new_middleware ::
    "saml_config \<Rightarrow> string \<Rightarrow> url \<Rightarrow> 'm option \<Rightarrow> 'k \<Rightarrow> 'k option \<Rightarrow> ('k, 'm) saml_middleware" where
  "new_middleware c profile_id rootURL metadata keyPair key =
     \<lparr>ServiceProvider =
        \<lparr>EntityID = EntityId c, SP_Key = key, Certificate = keyPair, MetadataURL = saml_url rootURL profile_id ''metadata'',
         AcsURL = saml_url rootURL profile_id ''callback'', SloURL = saml_url rootURL profile_id ''slo'',
         IDPMetadata = metadata, ForceAuthn = ForceAuthentication c, AllowIDPInitiated = True\<rparr>,
      Binding = SAMLBinding c,
      tracker_options = \<lparr>Opt_URL = rootURL, Opt_Key = key, Opt_AllowIDPInitiated = True\<rparr>\<rparr>"

text \<open>An empty list of certificates is indexed all the same, and an address that does not parse is
  dereferenced: both panic. With a certificate that was not loaded there is no middleware; without metadata there is
  one all the same.\<close>

definition initialiseSAMLMiddleware ::
    "('k, 'm) saml_env \<Rightarrow> saml_config \<Rightarrow> string \<Rightarrow> ('k, 'm) saml_middleware option outcome" where
  "initialiseSAMLMiddleware V c profile_id =
     (case certificates V (CertLocation c) of
        [] \<Rightarrow> Panics Index_out_of_range
      | keyPair # _ \<Rightarrow>
          (case url_Parse (IDPMetadataURL c) of
             Inl err \<Rightarrow> Panics Nil_dereference
           | Inr idpMetadataURL \<Rightarrow>
               (case url_Parse (SAMLBaseURL c) of
                  Inl err \<Rightarrow> Panics Nil_dereference
                | Inr rootURL \<Rightarrow>
                    (let metadata = (case FetchMetadata V idpMetadataURL of Inl err \<Rightarrow> None | Inr md \<Rightarrow> Some md) in
                     case keyPair of
                       None \<Rightarrow> Returns None
                     | Some k \<Rightarrow>
                         (case private_key_of V k of
                            Other_key \<Rightarrow> Panics Type_assertion
                          | No_key \<Rightarrow> Returns (Some (new_middleware c profile_id rootURL metadata k None))
                          | Rsa_key \<Rightarrow> Returns (Some (new_middleware c profile_id rootURL metadata k (Some k))))))))"

definition saml_Init ::
    "('k, 'm) saml_env \<Rightarrow> profile \<Rightarrow> string \<Rightarrow> (go_error option \<times> ('k, 'm) saml_provider) outcome" where
  "saml_Init V p config =
     (let (err, c) = Unmarshal (unmarshal_struct saml_config_fields) config zero_saml_config in
      case err of
        Some e \<Rightarrow> Returns (Some e, \<lparr>SAML_config = c, SAML_profile = p, middleware = None\<rparr>)
      | None \<Rightarrow>
          obind (initialiseSAMLMiddleware V c (ID p)) (\<lambda>m.
            Returns (None, \<lparr>SAML_config = c, SAML_profile = p, middleware = m\<rparr>)))"

subsection \<open>Sending the browser to the identity provider\<close>

definition saml_error_redirect :: "saml_config \<Rightarrow> response" where
  "saml_error_redirect c = [Redirect (SAML_FailureRedirect c) 301]"

definition choose_binding :: "('k, 'm) saml_env \<Rightarrow> ('k, 'm) saml_middleware \<Rightarrow> string \<times> string" where
  "choose_binding V m =
     (if Binding m \<noteq> '''' then (Binding m, GetSSOBindingLocation V (ServiceProvider m) (Binding m))
      else
        (let loc = GetSSOBindingLocation V (ServiceProvider m) HTTPRedirectBinding in
         if loc = '''' then (HTTPPostBinding, GetSSOBindingLocation V (ServiceProvider m) HTTPPostBinding)
         else (HTTPRedirectBinding, loc)))"

definition content_security_policy :: string where
  "content_security_policy =
     ''default-src; script-src 'sha256-AjPdJSbZmeWHnEc5ykvJFay8FTWeTeRbs9dutfZ0HqE='; reflected-xss block; referrer no-referrer;''"

definition saml_Handle :: "('k, 'm) saml_env \<Rightarrow> ('k, 'm) saml_provider \<Rightarrow> http_request \<Rightarrow> response" where
  "saml_Handle V s r =
     (case middleware s of
        None \<Rightarrow> []
      | Some m \<Rightarrow>
          if req_path r = Path (AcsURL (ServiceProvider m)) then saml_error_redirect (SAML_config s)
          else
            (let (binding, location) = choose_binding V m in
             case MakeAuthenticationRequest V (ServiceProvider m) location binding HTTPPostBinding of
               Inl err \<Rightarrow> saml_error_redirect (SAML_config s)
             | Inr authReq \<Rightarrow>
                 (case TrackRequest V m r authReq of
                    Inl err \<Rightarrow> saml_error_redirect (SAML_config s)
                  | Inr (relayState, tracking) \<Rightarrow>
                      tracking @
                      (if binding = HTTPRedirectBinding then
                         (case AuthReq_Redirect V (ServiceProvider m) authReq relayState of
                            Inl err \<Rightarrow> saml_error_redirect (SAML_config s)
                          | Inr url \<Rightarrow> [SetHeader ''Location'' url, WriteHeader 302])
                       else if binding = HTTPPostBinding then
                         [SetHeader ''Content-Security-Policy'' content_security_policy,
                          SetHeader ''Content-Type'' ''text/html'',
                          Write ''<!DOCTYPE html><html><body>'', Write (AuthReq_Post V authReq relayState),
                          Write ''</body></html>'']
                       else []))))"

subsection \<open>Claims\<close>

type_synonym claims = "string \<rightharpoonup> raw_value"

text \<open>The values of an attribute, each followed by a space, and the last space trimmed.\<close>

definition claim_text :: "string list \<Rightarrow> string" where
  "claim_text vals = TrimSuffix (concat (map (\<lambda>v. v @ '' '') vals)) '' ''"

definition add_attribute :: "claims \<Rightarrow> attribute \<Rightarrow> claims" where
  "add_attribute rawData att = rawData(Att_Name att \<mapsto> Raw (JStr (claim_text (Att_Values att))))"

definition claims_of :: "assertion \<Rightarrow> claims" where
  "claims_of a = foldl (foldl add_attribute) Map.empty a"

definition claim_string :: "claims \<Rightarrow> string \<Rightarrow> string outcome" where
  "claim_string c k = (case c k of None \<Rightarrow> Returns '''' | Some v \<Rightarrow> raw_string v)"

definition ReadNamesFromClaims :: "string \<Rightarrow> string \<Rightarrow> claims \<Rightarrow> (string \<times> string) outcome" where
  "ReadNamesFromClaims forenameClaim surnameClaim c =
     obind (claim_string c (if forenameClaim = '''' then DefaultForeNameClaim else forenameClaim)) (\<lambda>forename.
     obind (claim_string c (if surnameClaim = '''' then DefaultSurNameClaim else surnameClaim)) (\<lambda>surname.
       Returns (forename, surname)))"

definition ReadEmailFromClaims :: "string \<Rightarrow> claims \<Rightarrow> string outcome" where
  "ReadEmailFromClaims emailClaim c =
     (let k = (if emailClaim = '''' then DefaultEmailClaim else emailClaim)
      in if c k \<noteq> None then claim_string c k else claim_string c WIFUniqueName)"

definition saml_user :: "saml_config \<Rightarrow> assertion \<Rightarrow> goth_user outcome" where
  "saml_user conf assertion =
     (let rawData = claims_of assertion in
      obind (ReadEmailFromClaims (SAMLEmailClaim conf) rawData) (\<lambda>email.
      obind (ReadNamesFromClaims (SAMLForenameClaim conf) (SAMLSurnameClaim conf) rawData) (\<lambda>(forename, surname).
        Returns
          (zero_user
             \<lparr>UserID := (if forename = '''' \<and> surname = '''' then email else forename @ '' '' @ surname),
              Email := email, Provider := ''SAMLProvider'', RawData := rawData, FirstName := forename,
              LastName := surname\<rparr>))))"

subsection \<open>The return from the identity provider\<close>

text \<open>The empty request identifier allows responses nobody asked for.\<close>

definition possibleRequestIDs :: "('k, 'm) saml_env \<Rightarrow> ('k, 'm) saml_middleware \<Rightarrow> http_request \<Rightarrow> string list" where
  "possibleRequestIDs V m r =
     (if AllowIDPInitiated (ServiceProvider m) then [''''] else []) @ TrackedRequests V m r"

definition saml_HandleCallback ::
    "('k, 'm) saml_env \<Rightarrow> (goth_user \<Rightarrow> profile \<Rightarrow> ('st world, unit) act) \<Rightarrow> ('k, 'm) saml_provider \<Rightarrow> http_request \<Rightarrow>
      ('st world, unit) act" where
  "saml_HandleCallback V complete s r =
     (case middleware s of
        None \<Rightarrow> lift_outcome (Panics Nil_dereference)
      | Some m \<Rightarrow>
          (case ParseResponse V (ServiceProvider m) r (possibleRequestIDs V m r) of
             Inl err \<Rightarrow> respond (saml_error_redirect (SAML_config s))
           | Inr assertion \<Rightarrow>
               bind_act (lift_outcome (saml_user (SAML_config s) assertion)) (\<lambda>user.
                 complete user (SAML_profile s))))"

definition saml_HandleMetadata :: "('k, 'm) saml_env \<Rightarrow> ('k, 'm) saml_provider \<Rightarrow> response outcome" where
  "saml_HandleMetadata V s =
     (case middleware s of
        None \<Rightarrow> Panics Nil_dereference
      | Some m \<Rightarrow>
          Returns [SetHeader ''Content-Type'' ''application/samlmetadata+xml'', Write (Metadata_xml V (ServiceProvider m))])"

text \<open>What the provider says of itself.\<close>

definition saml_Name :: string where "saml_Name = ''SAMLProvider''"
definition saml_ProviderType :: provider_type where "saml_ProviderType = REDIRECT_PROVIDER"
definition saml_UseCallback :: bool where "saml_UseCallback = True"

subsection \<open>Lemmas\<close>

lemma concat_spaces: "vals \<noteq> [] \<Longrightarrow> concat (map (\<lambda>v. v @ '' '') vals) = Join vals '' '' @ '' ''"
proof (induction vals)
  case (Cons v vals)
  then show ?case by (cases vals) simp_all
qed simp

lemma claim_text_Join: "claim_text vals = Join vals '' ''"
  by (cases "vals = []") (simp_all add: claim_text_def concat_spaces TrimSuffix_def HasSuffix_def)

text \<open>Every claim of an assertion is a string, so no claim can make the broker panic.\<close>

definition text_claims :: "claims \<Rightarrow> bool" where
  "text_claims c \<longleftrightarrow> (\<forall>v \<in> ran c. \<exists>t. v = Raw (JStr t))"

lemma text_claims_add: "text_claims c \<Longrightarrow> text_claims (add_attribute c att)"
  by (auto simp: text_claims_def add_attribute_def ran_def)

lemma text_claims_fold: "text_claims c \<Longrightarrow> text_claims (foldl add_attribute c as)"
  by (induction as arbitrary: c) (simp_all add: text_claims_add)

lemma text_claims_of: "text_claims (claims_of a)"
proof -
  have "text_claims c \<Longrightarrow> text_claims (foldl (foldl add_attribute) c a)" for c
    by (induction a arbitrary: c) (simp_all add: text_claims_fold)
  moreover have "text_claims Map.empty" by (simp add: text_claims_def)
  ultimately show ?thesis by (simp only: claims_of_def)
qed

lemma claim_string_claims: "\<exists>t. claim_string (claims_of a) k = Returns t"
proof (cases "claims_of a k")
  case (Some v)
  then obtain t where "v = Raw (JStr t)"
    using text_claims_of [of a] by (auto simp: text_claims_def ran_def)
  with Some show ?thesis by (simp add: claim_string_def raw_string_def)
qed (simp add: claim_string_def)

lemma saml_user_total: "\<exists>u. saml_user conf a = Returns u"
proof -
  obtain e where e: "ReadEmailFromClaims (SAMLEmailClaim conf) (claims_of a) = Returns e"
    using claim_string_claims [of a] unfolding ReadEmailFromClaims_def Let_def by presburger
  obtain n where n: "ReadNamesFromClaims (SAMLForenameClaim conf) (SAMLSurnameClaim conf) (claims_of a) = Returns n"
    using claim_string_claims [of a] unfolding ReadNamesFromClaims_def by (metis bind_outcome.simps(1))
  show ?thesis by (simp add: saml_user_def e n case_prod_unfold)
qed

text \<open>
  Who is authenticated, from the assertion alone: a claim is the text of the last attribute of its name.
\<close>

definition asserted_claims :: "assertion \<Rightarrow> string \<Rightarrow> string option" where
  "asserted_claims a k =
     map_option claim_text (map_of (rev (map (\<lambda>att. (Att_Name att, Att_Values att)) (concat a))) k)"

definition asserted_user :: "saml_config \<Rightarrow> assertion \<Rightarrow> goth_user \<Rightarrow> bool" where
  "asserted_user conf a user \<longleftrightarrow>
     (let claim = asserted_claims a; or_default = (\<lambda>k d. if k = '''' then d else k);
          text_of = (\<lambda>k. case claim k of Some t \<Rightarrow> t | None \<Rightarrow> '''');
          mail = or_default (SAMLEmailClaim conf) DefaultEmailClaim;
          email = text_of (if claim mail = None then WIFUniqueName else mail);
          forename = text_of (or_default (SAMLForenameClaim conf) DefaultForeNameClaim);
          surname = text_of (or_default (SAMLSurnameClaim conf) DefaultSurNameClaim)
      in
      user = zero_user
        \<lparr>UserID := (if forename = '''' \<and> surname = '''' then email else forename @ '' '' @ surname),
         Email := email, Provider := ''SAMLProvider'', RawData := (\<lambda>k. map_option (\<lambda>t. Raw (JStr t)) (claim k)),
         FirstName := forename, LastName := surname\<rparr>)"

lemma claims_of_asserted: "claims_of a = (\<lambda>k. map_option (\<lambda>t. Raw (JStr t)) (asserted_claims a k))"
proof -
  have flat: "foldl (foldl f) m a = foldl f m (concat a)" for f :: "claims \<Rightarrow> attribute \<Rightarrow> claims" and m
    by (induction a arbitrary: m) simp_all
  have "foldl add_attribute Map.empty xs = (\<lambda>k. map_option (\<lambda>t. Raw (JStr t))
      (map_option claim_text (map_of (rev (map (\<lambda>att. (Att_Name att, Att_Values att)) xs)) k)))" for xs
    by (induction xs rule: rev_induct) (auto simp: add_attribute_def fun_eq_iff)
  then show ?thesis by (simp add: claims_of_def flat asserted_claims_def fun_eq_iff)
qed

lemma saml_user_asserted:
  assumes "saml_user conf a = Returns user"
  shows "asserted_user conf a user"
proof -
  let ?t = "\<lambda>k. case asserted_claims a k of Some t \<Rightarrow> t | None \<Rightarrow> ''''" and ?d = "\<lambda>k d. if k = '''' then d else k"
  let ?mail = "?d (SAMLEmailClaim conf) DefaultEmailClaim"
  have claim: "claim_string (claims_of a) k = Returns (?t k)" for k
    by (simp add: claim_string_def claims_of_asserted raw_string_def as_string_def split: option.split)
  have none: "claims_of a k \<noteq> None \<longleftrightarrow> asserted_claims a k \<noteq> None" for k by (simp add: claims_of_asserted)
  have "ReadEmailFromClaims (SAMLEmailClaim conf) (claims_of a) =
      Returns (?t (if asserted_claims a ?mail = None then WIFUniqueName else ?mail))"
    unfolding ReadEmailFromClaims_def Let_def claim none by simp
  moreover have "ReadNamesFromClaims (SAMLForenameClaim conf) (SAMLSurnameClaim conf) (claims_of a) =
      Returns (?t (?d (SAMLForenameClaim conf) DefaultForeNameClaim), ?t (?d (SAMLSurnameClaim conf) DefaultSurNameClaim))"
    unfolding ReadNamesFromClaims_def claim by simp
  ultimately show ?thesis
    using assms unfolding saml_user_def asserted_user_def Let_def claims_of_asserted [symmetric]
    by (simp only: bind_outcome.simps prod.case outcome.inject)
qed

text \<open>The last attribute of a name gives its claim.\<close>

lemma claims_of_last:
  "claims_of (a @ [as @ [att]]) (Att_Name att) = Some (Raw (JStr (Join (Att_Values att) '' '')))"
  by (simp add: claims_of_def add_attribute_def claim_text_Join)

text \<open>What a callback does to the world: it only hands over the user of an assertion that was validated.\<close>

lemma saml_HandleCallback_world:
  "snd (saml_HandleCallback V complete s r w) =
    (case middleware s of
       None \<Rightarrow> w
     | Some m \<Rightarrow>
         (case ParseResponse V (ServiceProvider m) r (possibleRequestIDs V m r) of
            Inl err \<Rightarrow> w\<lparr>resp := resp w @ saml_error_redirect (SAML_config s)\<rparr>
          | Inr a \<Rightarrow> (case saml_user (SAML_config s) a of
               Returns u \<Rightarrow> snd (complete u (SAML_profile s) w) | Panics x \<Rightarrow> w)))"
  by (auto simp: saml_HandleCallback_def bind_act_def respond_def split: option.split sum.split outcome.split)

definition saml_verdict :: "('k, 'm) saml_env \<Rightarrow> ('k, 'm) saml_provider \<Rightarrow> http_request \<Rightarrow> goth_user option" where
  "saml_verdict V s r =
     (case middleware s of
        None \<Rightarrow> None
      | Some m \<Rightarrow>
          (case ParseResponse V (ServiceProvider m) r (possibleRequestIDs V m r) of
             Inl err \<Rightarrow> None
           | Inr a \<Rightarrow> (case saml_user (SAML_config s) a of Returns u \<Rightarrow> Some u | Panics x \<Rightarrow> None)))"

definition saml_refusal :: "('k, 'm) saml_provider \<Rightarrow> response" where
  "saml_refusal s = (case middleware s of None \<Rightarrow> [] | Some m \<Rightarrow> saml_error_redirect (SAML_config s))"

interpretation saml: login_flow
  "\<lambda>complete (_ :: unit) w. snd (saml_HandleCallback V complete s r w)"
  "\<lambda>_. saml_verdict V s r" "\<lambda>_. saml_refusal s" "SAML_profile s"
proof
  fix complete and l :: unit and w
  have total: "saml_user (SAML_config s) a \<noteq> Panics x" for a x
    using saml_user_total [of "SAML_config s" a] by auto
  show "snd (saml_HandleCallback V complete s r w) =
    (case saml_verdict V s r of
       None \<Rightarrow> w\<lparr>resp := resp w @ saml_refusal s\<rparr>
     | Some user \<Rightarrow> snd (complete user (SAML_profile s) w))"
    using total
    by (auto simp: saml_HandleCallback_world saml_verdict_def saml_refusal_def
        split: option.split sum.split outcome.split)
qed

lemma saml_verdict_ok:
  "saml_verdict V s r = Some user \<longleftrightarrow>
    (\<exists>m a. middleware s = Some m \<and> ParseResponse V (ServiceProvider m) r (possibleRequestIDs V m r) = Inr a \<and>
      saml_user (SAML_config s) a = Returns user)"
  by (auto simp: saml_verdict_def split: option.splits sum.splits outcome.splits)

text \<open>The addresses the service provider announces, for a base address in a directory without dot segments and an
  identifier that is one segment of a path.\<close>

lemma dotless_saml_url:
  assumes "CHR ''/'' \<notin> set i" and "i \<notin> {''.'', ''..''}" and "e \<in> {''metadata'', ''callback'', ''slo''}"
  shows "dotless (''auth/'' @ i @ ''/saml/'' @ e)"
proof -
  have "dotless ''auth''" "dotless ''saml''" "dotless e" by (use assms(3) in \<open>auto simp: dotless_def\<close>)
  moreover have "dotless i" using assms(1,2) by (simp add: dotless_def)
  ultimately have "dotless (''auth'' @ ''/'' @ i @ ''/'' @ ''saml'' @ ''/'' @ e)" by (simp only: dotless_append)
  then show ?thesis by simp
qed

lemma saml_url_in_dir:
  assumes "base_dir (Path u) dir" and "RawPath u = ''''" and "CHR ''/'' \<notin> set i" and "i \<notin> {''.'', ''..''}"
    and "e \<in> {''metadata'', ''callback'', ''slo''}"
  shows "saml_url u i e =
    zero_url\<lparr>Scheme := Scheme u, User := User u, Host := Host u, Path := dir @ ''/auth/'' @ i @ ''/saml/'' @ e\<rparr>"
proof -
  have "\<not> HasPrefix (''auth/'' @ i @ ''/saml/'' @ e) ''/''" by (simp add: HasPrefix_def)
  with resolve_in_dir [OF assms(1,2) dotless_saml_url [OF assms(3-5)]] show ?thesis by (simp add: saml_url_def)
qed

end
