(* ===== verification/Profile_Actions.thy ===== *)
theory Profile_Actions
  imports Backends Go_Http
begin

section \<open>Adding, updating and deleting profiles (tap/profileActions.go)\<close>

text \<open>
  The three operations of the profile registry, over any store (its operations are arguments) and any
  flush function: flushing reads the store and acts on the state \<open>'d\<close> of what profiles are saved to.
  The specification is a plain map from identifiers to profiles; over every store that meets
  \<open>register_backend\<close> the operations refine it.
\<close>

record http_error =
  Message :: string
  Code :: int
  Error :: "go_error option"

text \<open>A step on the store alone, and a flush, as steps on the two states.\<close>

definition on_store :: "('s, 'a) act \<Rightarrow> ('s \<times> 'd, 'a) act" where
  "on_store m = (\<lambda>(s, d). case m s of (r, s') \<Rightarrow> (r, (s', d)))"

definition on_disk :: "('s \<Rightarrow> ('d, 'a) act) \<Rightarrow> ('s \<times> 'd, 'a) act" where
  "on_disk f = (\<lambda>(s, d). case f s d of (r, d') \<Rightarrow> (r, (s, d')))"

text \<open>The end the three operations share: flush, and report a failure.\<close>

definition flush_and_report :: "('s \<Rightarrow> ('d, go_error option) act) \<Rightarrow> ('s \<times> 'd, http_error option) act" where
  "flush_and_report flush =
     bind_act (on_disk flush) (\<lambda>fErr.
       if fErr \<noteq> None
       then return_act (Some \<lparr>Message = ''flush failed'', Code = 400, Error = fErr\<rparr>)
       else return_act None)"

definition AddProfile ::
    "(string \<Rightarrow> string \<Rightarrow> 's \<Rightarrow> go_error option \<times> profile) \<Rightarrow>
     (string \<Rightarrow> string \<Rightarrow> go_value \<Rightarrow> ('s, go_error option) act) \<Rightarrow>
     ('s \<Rightarrow> ('d, go_error option) act) \<Rightarrow> profile \<Rightarrow> ('s \<times> 'd, http_error option) act" where
  "AddProfile get_key set_key flush profile = (\<lambda>(s, d).
     let (keyErr, dumpProfile) = get_key (ID profile) (OrgID profile) s in
     if keyErr = None \<and> ID dumpProfile \<noteq> ''''
     then (Returns (Some \<lparr>Message = ''Object ID already exists'', Code = 400, Error = keyErr\<rparr>), (s, d))
     else
       bind_act (on_store (set_key (ID profile) (OrgID profile) (ProfilePtr profile))) (\<lambda>saveErr.
         if saveErr \<noteq> None
         then return_act (Some \<lparr>Message = ''insert failed'', Code = 500, Error = saveErr\<rparr>)
         else
           flush_and_report flush) (s, d))"

definition UpdateProfile ::
    "(string \<Rightarrow> string \<Rightarrow> 's \<Rightarrow> go_error option \<times> profile) \<Rightarrow>
     (string \<Rightarrow> string \<Rightarrow> go_value \<Rightarrow> ('s, go_error option) act) \<Rightarrow>
     ('s \<Rightarrow> ('d, go_error option) act) \<Rightarrow> string \<Rightarrow> profile \<Rightarrow> ('s \<times> 'd, http_error option) act" where
  "UpdateProfile get_key set_key flush key profile = (\<lambda>(s, d).
     if ID profile \<noteq> key
     then (Returns (Some \<lparr>Message = ''Object ID and URI resource ID do not match'', Code = 400,
             Error = Some ''ID Mismatch''\<rparr>), (s, d))
     else
       let (keyErr, dumpProfile) = get_key key (OrgID profile) s in
       if keyErr \<noteq> None
       then (Returns (Some \<lparr>Message = ''Object ID does not exist, operation not permitted'', Code = 404,
               Error = keyErr\<rparr>), (s, d))
       else
         bind_act (on_store (set_key key (OrgID profile) (ProfilePtr profile))) (\<lambda>saveErr.
           if saveErr \<noteq> None
           then return_act (Some \<lparr>Message = ''Update failed'', Code = 500, Error = saveErr\<rparr>)
           else
             flush_and_report flush) (s, d))"

definition DeleteProfile ::
    "(string \<Rightarrow> string \<Rightarrow> 's \<Rightarrow> go_error option \<times> profile) \<Rightarrow>
     (string \<Rightarrow> string \<Rightarrow> 's \<Rightarrow> go_error option \<times> 's) \<Rightarrow>
     ('s \<Rightarrow> ('d, go_error option) act) \<Rightarrow> string \<Rightarrow> string \<Rightarrow> ('s \<times> 'd, http_error option) act" where
  "DeleteProfile get_key delete_key flush key orgID = (\<lambda>(s, d).
     let (keyErr, dumpProfile) = get_key key orgID s in
     if keyErr \<noteq> None
     then (Returns (Some \<lparr>Message = ''Object ID does not exist'', Code = 404, Error = keyErr\<rparr>), (s, d))
     else
       let (delErr, s1) = delete_key key orgID s in
       if delErr \<noteq> None
       then (Returns (Some \<lparr>Message = ''Delete failed'', Code = 500, Error = delErr\<rparr>), (s1, d))
       else
         flush_and_report flush (s1, d))"

text \<open>Storing profiles one by one (both loaders); an error of the store is logged and the next one is
  tried.\<close>

fun load_profiles ::
    "(string \<Rightarrow> string \<Rightarrow> go_value \<Rightarrow> ('s, go_error option) act) \<Rightarrow> profile list \<Rightarrow> ('s, unit) act" where
  "load_profiles set_key [] = return_act ()"
| "load_profiles set_key (p # ps) =
     bind_act (set_key (ID p) (OrgID p) (ProfileVal p)) (\<lambda>inputErr. load_profiles set_key ps)"

subsection \<open>The specification: a registry of profiles\<close>

type_synonym registry = "string \<rightharpoonup> profile"

text \<open>Every profile is registered under its own identifier.\<close>

definition keyed :: "registry \<Rightarrow> bool" where
  "keyed m \<longleftrightarrow> (\<forall>k p. m k = Some p \<longrightarrow> ID p = k)"

datatype registry_op = Add profile | Update string profile | Delete string

text \<open>The status an operation is refused with, or the registry after it.\<close>

fun registry_step :: "registry_op \<Rightarrow> registry \<Rightarrow> int + registry" where
  "registry_step (Add p) m =
     (if ID p \<noteq> '''' \<and> m (ID p) \<noteq> None then Inl 400 else Inr (m(ID p \<mapsto> p)))"
| "registry_step (Update k p) m =
     (if ID p \<noteq> k then Inl 400 else if m k = None then Inl 404 else Inr (m(k \<mapsto> p)))"
| "registry_step (Delete k) m =
     (if m k = None then Inl 404 else Inr (m(k := None)))"

lemma registry_step_keyed: "keyed m \<Longrightarrow> registry_step c m = Inr m' \<Longrightarrow> keyed m'"
  by (cases c) (auto simp: keyed_def split: if_splits)

text \<open>The profile an operation stores can be one that decoding yields.\<close>

fun wf_op :: "registry_op \<Rightarrow> bool" where
  "wf_op (Add p) = wf_profile p"
| "wf_op (Update k p) = wf_profile p"
| "wf_op (Delete k) = True"

text \<open>The operation as the code performs it, and the status it answers with: \<^const>\<open>None\<close> when the
  request succeeded.\<close>

fun run_op ::
    "(string \<Rightarrow> string \<Rightarrow> 's \<Rightarrow> go_error option \<times> profile) \<Rightarrow>
     (string \<Rightarrow> string \<Rightarrow> go_value \<Rightarrow> ('s, go_error option) act) \<Rightarrow>
     (string \<Rightarrow> string \<Rightarrow> 's \<Rightarrow> go_error option \<times> 's) \<Rightarrow>
     ('s \<Rightarrow> ('d, go_error option) act) \<Rightarrow> registry_op \<Rightarrow> ('s \<times> 'd, http_error option) act" where
  "run_op get_key set_key delete_key flush (Add p) = AddProfile get_key set_key flush p"
| "run_op get_key set_key delete_key flush (Update k p) = UpdateProfile get_key set_key flush k p"
| "run_op get_key set_key delete_key flush (Delete k) = DeleteProfile get_key delete_key flush k ''''"

text \<open>The outcome of the flush at the end of an operation.\<close>

definition flush_outcome :: "go_error option outcome \<Rightarrow> http_error option outcome" where
  "flush_outcome r =
     (case r of
        Panics x \<Rightarrow> Panics x
      | Returns None \<Rightarrow> Returns None
      | Returns (Some e) \<Rightarrow> Returns (Some \<lparr>Message = ''flush failed'', Code = 400, Error = Some e\<rparr>))"

lemma flush_tail:
  "flush_and_report flush (s, d) = (flush_outcome (fst (flush s d)), (s, snd (flush s d)))"
  by (auto simp: flush_and_report_def bind_act_def on_disk_def flush_outcome_def
      split: prod.splits outcome.splits)

context register_backend
begin

lemma set_key_step:
  assumes "inv s" and "wf_profile p"
  shows "bind_act (on_store (set_key k org (ProfilePtr p))) f (s, d)
    = f None (snd (set_key k org (ProfilePtr p) s), d)"
  using set_returns [OF assms, of "ProfilePtr p" k org]
  by (auto simp: bind_act_def on_store_def split: prod.splits)

text \<open>What each operation does on a store that meets the contract.\<close>

lemma AddProfile_run:
  assumes s: "inv s" and p: "wf_profile p" and keyed: "keyed (view s)"
  shows "AddProfile get_key set_key flush p (s, d) =
    (if ID p \<noteq> '''' \<and> view s (ID p) \<noteq> None
     then (Returns (Some \<lparr>Message = ''Object ID already exists'', Code = 400, Error = None\<rparr>), (s, d))
     else (let s' = snd (set_key (ID p) (OrgID p) (ProfilePtr p) s)
           in (flush_outcome (fst (flush s' d)), (s', snd (flush s' d)))))"
proof (cases "view s (ID p)")
  case None
  then obtain e where "fst (get_key (ID p) (OrgID p) s) = Some e" using get_absent [OF s] by blast
  with None show ?thesis
    by (simp add: AddProfile_def set_key_step [OF s p] flush_tail case_prod_unfold Let_def)
next
  case (Some q)
  then have "ID q = ID p" using keyed by (auto simp: keyed_def)
  with get_present [OF s Some] Some show ?thesis
    by (simp add: AddProfile_def set_key_step [OF s p] flush_tail Let_def)
qed

lemma UpdateProfile_run:
  assumes s: "inv s" and p: "wf_profile p"
  shows "UpdateProfile get_key set_key flush k p (s, d) =
    (if ID p \<noteq> k
     then (Returns (Some \<lparr>Message = ''Object ID and URI resource ID do not match'', Code = 400,
            Error = Some ''ID Mismatch''\<rparr>), (s, d))
     else if view s k = None
     then (Returns (Some \<lparr>Message = ''Object ID does not exist, operation not permitted'', Code = 404,
            Error = fst (get_key k (OrgID p) s)\<rparr>), (s, d))
     else (let s' = snd (set_key k (OrgID p) (ProfilePtr p) s)
           in (flush_outcome (fst (flush s' d)), (s', snd (flush s' d)))))"
proof (cases "view s k")
  case None
  then obtain e where "fst (get_key k (OrgID p) s) = Some e" using get_absent [OF s] by blast
  with None show ?thesis
    by (simp add: UpdateProfile_def case_prod_unfold Let_def)
next
  case (Some q)
  with get_present [OF s Some] show ?thesis
    by (simp add: UpdateProfile_def set_key_step [OF s p] flush_tail Let_def)
qed

lemma DeleteProfile_run:
  assumes s: "inv s"
  shows "DeleteProfile get_key delete_key flush k org (s, d) =
    (if view s k = None
     then (Returns (Some \<lparr>Message = ''Object ID does not exist'', Code = 404,
            Error = fst (get_key k org s)\<rparr>), (s, d))
     else (let s' = snd (delete_key k org s)
           in (flush_outcome (fst (flush s' d)), (s', snd (flush s' d)))))"
proof (cases "view s k")
  case None
  then obtain e where "fst (get_key k org s) = Some e" using get_absent [OF s] by blast
  with None show ?thesis by (simp add: DeleteProfile_def case_prod_unfold Let_def)
next
  case (Some q)
  with get_present [OF s Some] delete_returns [OF s, of k org] show ?thesis
    by (simp add: DeleteProfile_def flush_tail case_prod_unfold Let_def)
qed

text \<open>Storing profiles by value one after the other, as the loaders do.\<close>

lemma load_profiles_view:
  "inv s \<Longrightarrow> \<forall>p\<in>set ps. wf_profile p \<Longrightarrow>
    \<exists>s'. load_profiles set_key ps s = (Returns (), s') \<and> inv s' \<and>
      view s' = foldl (\<lambda>m p. m(ID p \<mapsto> p)) (view s) ps"
proof (induction ps arbitrary: s)
  case (Cons p ps)
  obtain r s1 where s1: "set_key (ID p) (OrgID p) (ProfileVal p) s = (r, s1)"
    by (cases "set_key (ID p) (OrgID p) (ProfileVal p) s")
  have p: "wf_profile p" using Cons.prems by simp
  have "r = Returns None" "inv s1" "view s1 = (view s)(ID p \<mapsto> p)"
    using set_returns [OF Cons.prems(1) p, of "ProfileVal p" "ID p" "OrgID p"]
      set_inv [OF Cons.prems(1) p, of "ProfileVal p" "ID p" "OrgID p"]
      set_view [OF Cons.prems(1) p, of "ProfileVal p" "ID p" "OrgID p"] s1 by simp_all
  with Cons.IH [of s1] Cons.prems s1 show ?case by (simp add: bind_act_def)
qed simp

text \<open>The refinement: an operation the specification refuses is refused with the same status and
  changes nothing; any other leaves a store that stands for the registry after it, whether or not
  flushing succeeds, and what it answers is the outcome of the flush.\<close>

theorem run_op_refines:
  assumes s: "inv s" and c: "wf_op c" and keyed: "keyed (view s)"
  shows "case registry_step c (view s) of
      Inl code \<Rightarrow> \<exists>e. run_op get_key set_key delete_key flush c (s, d) = (Returns (Some e), (s, d)) \<and> Code e = code
    | Inr m \<Rightarrow> \<exists>s'. inv s' \<and> view s' = m \<and> run_op get_key set_key delete_key flush c (s, d) =
        (flush_outcome (fst (flush s' d)), (s', snd (flush s' d)))"
proof (cases c)
  case (Add p)
  then have p: "wf_profile p" using c by simp
  show ?thesis
    unfolding Add run_op.simps AddProfile_run [OF s p keyed]
    using set_inv [OF s p, of "ProfilePtr p"] set_view [OF s p, of "ProfilePtr p"] by (auto simp: Let_def)
next
  case (Update k p)
  then have p: "wf_profile p" using c by simp
  show ?thesis
    unfolding Update run_op.simps UpdateProfile_run [OF s p]
    using set_inv [OF s p, of "ProfilePtr p"] set_view [OF s p, of "ProfilePtr p"] by (auto simp: Let_def)
next
  case (Delete k)
  show ?thesis
    unfolding Delete run_op.simps DeleteProfile_run [OF s]
    using delete_inv [OF s] delete_view [OF s] by (auto simp: Let_def)
qed

end

end
