(* ===== verification/Auth_Handlers.thy ===== *)
theory Auth_Handlers
  imports Provider_AD Provider_Proxy Provider_Social Provider_SAML Profile_Actions
begin

section \<open>From a request to a provider (tapProvider.go, http_handlers.go)\<close>

text \<open>
  The handlers under \<^verbatim>\<open>/auth\<close>: they find the profile of the identifier in the path, make the identity
  handler and the provider it names, and give them the request. Providers and handlers are made
  anew for every request, so all state is in the stores, the directory and the other side of the
  Tyk APIs. The arguments of the components are collected in one record.
\<close>

record ('k, 'm, 'g, 'ss, 'st, 'p) auth_env =
  ae_env :: environ
  ae_tyk :: tyk_api
  ae_ids :: "'st id_store"
  ae_params :: "'p param_store"
  ae_unicode :: unicode
  ae_ldap :: ldap
  ae_proxy :: proxy_env
  ae_goth :: "('g, 'ss) goth_env"
  ae_social :: "('g, 'k) social_env"
  ae_jwe :: "'k jwe_env"
  ae_saml :: "('k, 'm) saml_env"

text \<open>What a request changes: the world of the identity handler, the path parameters that are stored, and
  the directory.\<close>

record ('st, 'p) auth_state =
  as_world :: "'st world"
  as_params :: 'p
  as_directory :: "ldap_event list"

definition with_world :: "('st world, 'a) act \<Rightarrow> (('st, 'p) auth_state, 'a) act" where
  "with_world m a = (case m (as_world a) of (r, w) \<Rightarrow> (r, a\<lparr>as_world := w\<rparr>))"

definition with_directory :: "('st world \<times> ldap_event list, 'a) act \<Rightarrow> (('st, 'p) auth_state, 'a) act" where
  "with_directory m a =
     (case m (as_world a, as_directory a) of (r, w, l) \<Rightarrow> (r, a\<lparr>as_world := w, as_directory := l\<rparr>))"

definition with_params :: "('st world \<times> 'p, 'a) act \<Rightarrow> (('st, 'p) auth_state, 'a) act" where
  "with_params m a =
     (case m (as_world a, as_params a) of (r, w, p) \<Rightarrow> (r, a\<lparr>as_world := w, as_params := p\<rparr>))"

subsection \<open>Providers\<close>

datatype ('g, 'k, 'm) ta_provider =
    Social_provider "('g, 'k) social"
  | AD_provider ad_provider
  | Proxy_provider proxy_provider
  | SAML_provider "('k, 'm) saml_provider"

definition SocialProvider :: string where "SocialProvider = ''SocialProvider''"
definition ADProvider :: string where "ADProvider = ''ADProvider''"
definition ProxyProvider :: string where "ProxyProvider = ''ProxyProvider''"
definition SAMLProvider :: string where "SAMLProvider = ''SAMLProvider''"

lemmas provider_name_defs = SocialProvider_def ADProvider_def ProxyProvider_def SAMLProvider_def

fun provider_Name :: "('g, 'k, 'm) ta_provider \<Rightarrow> string" where
  "provider_Name (Social_provider s) = social_Name"
| "provider_Name (AD_provider s) = ad_Name"
| "provider_Name (Proxy_provider s) = proxy_Name"
| "provider_Name (SAML_provider s) = saml_Name"

fun ProviderType :: "('g, 'k, 'm) ta_provider \<Rightarrow> provider_type" where
  "ProviderType (Social_provider s) = social_ProviderType"
| "ProviderType (AD_provider s) = ad_ProviderType"
| "ProviderType (Proxy_provider s) = proxy_ProviderType"
| "ProviderType (SAML_provider s) = saml_ProviderType"

fun UseCallback :: "('g, 'k, 'm) ta_provider \<Rightarrow> bool" where
  "UseCallback (Social_provider s) = social_UseCallback"
| "UseCallback (AD_provider s) = ad_UseCallback"
| "UseCallback (Proxy_provider s) = proxy_UseCallback"
| "UseCallback (SAML_provider s) = saml_UseCallback"

fun provider_profile :: "('g, 'k, 'm) ta_provider \<Rightarrow> profile" where
  "provider_profile (Social_provider s) = Social_profile s"
| "provider_profile (AD_provider s) = AD_profile s"
| "provider_profile (Proxy_provider s) = Proxy_profile s"
| "provider_profile (SAML_provider s) = SAML_profile s"

text \<open>\<^verbatim>\<open>hackProviderConf\<close>: a value that came from decoding JSON can be encoded.\<close>

definition hackProviderConf :: "json \<Rightarrow> string" where
  "hackProviderConf conf = print_json conf"

text \<open>The handler of an action; for an action that is not one of the four it stays \<^verbatim>\<open>nil\<close>.\<close>

definition getIdentityHandler :: "action \<Rightarrow> tyk_api \<Rightarrow> tyk_handler option" where
  "getIdentityHandler name handler =
     (if name \<in> {GenerateOrLoginDeveloperProfile, GenerateOrLoginUserProfile, GenerateOAuthTokenForClient,
         GenerateTemporaryAuthToken}
      then Some (new_tyk_handler handler) else None)"

text \<open>Initialising a handler: the error is dropped.\<close>

definition init_handler :: "profile \<Rightarrow> tyk_handler option \<Rightarrow> tyk_handler outcome" where
  "init_handler conf handler =
     (case handler of
        None \<Rightarrow> Panics Nil_dereference
      | Some t \<Rightarrow> obind (tyk_Init conf t) (\<lambda>(err, t'). Returns t'))"

definition init_provider ::
    "('k, 'm, 'g, 'ss, 'st, 'p) auth_env \<Rightarrow> profile \<Rightarrow> string \<Rightarrow>
      (go_error option \<times> ('g, 'k, 'm) ta_provider) outcome" where
  "init_provider A conf config =
     (if ProviderName conf = SocialProvider then
        (case social_Init (ae_goth A) (ae_social A) conf config of (e, s) \<Rightarrow> Returns (e, Social_provider s))
      else if ProviderName conf = ADProvider then
        (case ad_Init conf config of (e, s) \<Rightarrow> Returns (e, AD_provider s))
      else if ProviderName conf = ProxyProvider then
        (case proxy_Init conf config of (e, s) \<Rightarrow> Returns (e, Proxy_provider s))
      else
        obind (saml_Init (ae_saml A) conf config) (\<lambda>(e, s). Returns (e, SAML_provider s)))"

type_synonym ('g, 'k, 'm) login = "('g, 'k, 'm) ta_provider \<times> tyk_handler"

definition GetTAProvider ::
    "('k, 'm, 'g, 'ss, 'st, 'p) auth_env \<Rightarrow> profile \<Rightarrow> ('g, 'k, 'm) login result outcome" where
  "GetTAProvider A conf =
     (if ProviderName conf \<notin> {SocialProvider, ADProvider, ProxyProvider, SAMLProvider}
      then Returns (Inl ''invalid provider name'')
      else
        obind (init_handler conf (getIdentityHandler (ActionType conf) (ae_tyk A))) (\<lambda>t.
        obind (init_provider A conf (hackProviderConf (ProviderConfig conf))) (\<lambda>(err, p).
          Returns (case err of Some e \<Rightarrow> Inl e | None \<Rightarrow> Inr (p, t)))))"

text \<open>The provider, its handler and the profile; the failures are those of the two steps.\<close>

definition GetTapProfile ::
    "('k, 'm, 'g, 'ss, 'st, 'p) auth_env \<Rightarrow> (string \<Rightarrow> string \<Rightarrow> go_error option \<times> profile) \<Rightarrow> string \<Rightarrow>
      (http_error + ('g, 'k, 'm) login \<times> profile) outcome" where
  "GetTapProfile A get_key ident =
     (case get_key ident (OrgID zero_profile) of
        (Some e, _) \<Rightarrow>
          Returns (Inl \<lparr>Message = ''Profile '' @ ident @ '' not found'', Code = 404, Error = Some e\<rparr>)
      | (None, thisProfile) \<Rightarrow>
          obind (GetTAProvider A thisProfile) (\<lambda>r.
            Returns
              (case r of
                 Inl e \<Rightarrow> Inl \<lparr>Message = ''Could not initialise provider'', Code = 400, Error = Some e\<rparr>
               | Inr login \<Rightarrow> Inr (login, thisProfile))))"

subsection \<open>The handlers\<close>

definition complete_with ::
    "('k, 'm, 'g, 'ss, 'st, 'p) auth_env \<Rightarrow> tyk_handler \<Rightarrow> goth_user \<Rightarrow> profile \<Rightarrow> ('st world, unit) act" where
  "complete_with A t = CompleteIdentityAction (ae_env A) (ae_ids A) t"

text \<open>The variables of the route, as the map \<^verbatim>\<open>mux.Vars\<close> returns.\<close>

definition mux_Vars :: "http_request \<Rightarrow> string gomap" where
  "mux_Vars r = fold (\<lambda>(k, v). map_put k v) (req_vars r) []"

fun provider_Handle ::
    "('k, 'm, 'g, 'ss, 'st, 'p) auth_env \<Rightarrow> tyk_handler \<Rightarrow> ('g, 'k, 'm) ta_provider \<Rightarrow> http_request \<Rightarrow>
      profile \<Rightarrow> (('st, 'p) auth_state, unit) act" where
  "provider_Handle A t (Social_provider s) r p =
     with_params (social_Handle (ae_goth A) (ae_params A) s r (mux_Vars r) p)"
| "provider_Handle A t (AD_provider s) r p =
     with_directory (ad_Handle (ae_unicode A) (ae_ldap A) (complete_with A t) s r)"
| "provider_Handle A t (Proxy_provider s) r p =
     with_world (proxy_Handle (ae_proxy A) (complete_with A t) s r)"
| "provider_Handle A t (SAML_provider s) r p = with_world (respond (saml_Handle (ae_saml A) s r))"

fun provider_HandleCallback ::
    "('k, 'm, 'g, 'ss, 'st, 'p) auth_env \<Rightarrow> tyk_handler \<Rightarrow> ('g, 'k, 'm) ta_provider \<Rightarrow> http_request \<Rightarrow>
      profile \<Rightarrow> (('st, 'p) auth_state, unit) act" where
  "provider_HandleCallback A t (Social_provider s) r p =
     (\<lambda>a. with_world
        (social_HandleCallback (ae_goth A) (ae_jwe A) (ae_params A) (complete_with A t) s r p (as_params a)) a)"
| "provider_HandleCallback A t (AD_provider s) r p = with_world ad_HandleCallback"
| "provider_HandleCallback A t (Proxy_provider s) r p = with_world proxy_HandleCallback"
| "provider_HandleCallback A t (SAML_provider s) r p =
     with_world (saml_HandleCallback (ae_saml A) (complete_with A t) s r)"

fun provider_HandleMetadata ::
    "('k, 'm, 'g, 'ss, 'st, 'p) auth_env \<Rightarrow> ('g, 'k, 'm) ta_provider \<Rightarrow> response outcome" where
  "provider_HandleMetadata A (Social_provider s) = Returns social_HandleMetadata"
| "provider_HandleMetadata A (AD_provider s) = Returns ad_HandleMetadata"
| "provider_HandleMetadata A (Proxy_provider s) = Returns proxy_HandleMetadata"
| "provider_HandleMetadata A (SAML_provider s) = saml_HandleMetadata (ae_saml A) s"

definition getId :: "http_request \<Rightarrow> string result" where
  "getId r =
     (let i = mux_var r ''id''; i' = (if i = '''' then mux_var r '':id'' else i)
      in if i' = '''' then Inl ''no profile id detected'' else Inr i')"

definition respond_to :: "response \<Rightarrow> (('st, 'p) auth_state, unit) act" where
  "respond_to evs = with_world (respond evs)"

text \<open>The three handlers share how they come to a provider; \<open>failed\<close> is the answer when they do not.\<close>

definition handle_login ::
    "('k, 'm, 'g, 'ss, 'st, 'p) auth_env \<Rightarrow> (string \<Rightarrow> string \<Rightarrow> go_error option \<times> profile) \<Rightarrow>
      (http_error \<Rightarrow> response) \<Rightarrow>
      (('g, 'k, 'm) ta_provider \<Rightarrow> tyk_handler \<Rightarrow> profile \<Rightarrow> (('st, 'p) auth_state, unit) act) \<Rightarrow>
      http_request \<Rightarrow> (('st, 'p) auth_state, unit) act" where
  "handle_login A get_key failed act r =
     (case getId r of
        Inl idErr \<Rightarrow> respond_to (HandleError ''Could not retrieve ID'' 400)
      | Inr thisId \<Rightarrow>
          bind_act (lift_outcome (GetTapProfile A get_key thisId)) (\<lambda>res.
            case res of
              Inl err \<Rightarrow> respond_to (failed err)
            | Inr ((provider, t), thisProfile) \<Rightarrow> act provider t thisProfile))"

text \<open>\<^verbatim>\<open>HandleAuth\<close> answers nothing when there is no provider for the profile.\<close>

definition HandleAuth ::
    "('k, 'm, 'g, 'ss, 'st, 'p) auth_env \<Rightarrow> (string \<Rightarrow> string \<Rightarrow> go_error option \<times> profile) \<Rightarrow> http_request \<Rightarrow>
      (('st, 'p) auth_state, unit) act" where
  "HandleAuth A get_key r =
     handle_login A get_key (\<lambda>err. []) (\<lambda>provider t p. provider_Handle A t provider r p) r"

definition error_reply :: "http_error \<Rightarrow> response" where
  "error_reply e = HandleError (Message e) (Code e)"

definition HandleAuthCallback ::
    "('k, 'm, 'g, 'ss, 'st, 'p) auth_env \<Rightarrow> (string \<Rightarrow> string \<Rightarrow> go_error option \<times> profile) \<Rightarrow> http_request \<Rightarrow>
      (('st, 'p) auth_state, unit) act" where
  "HandleAuthCallback A get_key r =
     handle_login A get_key error_reply (\<lambda>provider t p. provider_HandleCallback A t provider r p) r"

definition HandleMetadata ::
    "('k, 'm, 'g, 'ss, 'st, 'p) auth_env \<Rightarrow> (string \<Rightarrow> string \<Rightarrow> go_error option \<times> profile) \<Rightarrow> http_request \<Rightarrow>
      (('st, 'p) auth_state, unit) act" where
  "HandleMetadata A get_key r =
     handle_login A get_key error_reply
       (\<lambda>provider t p. bind_act (lift_outcome (provider_HandleMetadata A provider)) respond_to) r"

definition HandleHealthCheck :: response where
  "HandleHealthCheck = [WriteHeader 200]"

subsection \<open>Making a provider\<close>

lemma tyk_Init_profile:
  "tyk_Init conf t = Returns (e, t') \<Longrightarrow> Handler_profile t' = conf \<and> API t' = API t"
  by (auto simp: tyk_Init_def Let_def split: option.splits)

lemma init_handler_ok:
  "init_handler conf (getIdentityHandler a api) = Returns t \<Longrightarrow>
    Handler_profile t = conf \<and> API t = api \<and>
    a \<in> {GenerateOrLoginDeveloperProfile, GenerateOrLoginUserProfile, GenerateOAuthTokenForClient,
      GenerateTemporaryAuthToken}"
  by (auto simp: init_handler_def getIdentityHandler_def new_tyk_handler_def split: if_splits
      dest: tyk_Init_profile)

lemma saml_Init_profile: "saml_Init V p config = Returns (e, s) \<Longrightarrow> SAML_profile s = p"
  by (auto simp: saml_Init_def case_prod_unfold Let_def split: option.splits)

lemma other_Init_profile:
  "ad_Init p config = (e, a) \<Longrightarrow> AD_profile a = p"
  "proxy_Init p config = (e, b) \<Longrightarrow> Proxy_profile b = p"
  "social_Init G V p config = (e, c) \<Longrightarrow> Social_profile c = p"
  by (auto simp: ad_Init_def proxy_Init_def social_Init_def case_prod_unfold Let_def
      split: option.splits sum.splits)

lemma init_provider_ok:
  assumes "init_provider A conf config = Returns (e, p)"
    and "ProviderName conf \<in> {SocialProvider, ADProvider, ProxyProvider, SAMLProvider}"
  shows "provider_Name p = ProviderName conf \<and> provider_profile p = conf"
  using assms
  by (auto simp: init_provider_def provider_name_defs saml_Init_profile other_Init_profile
      social_Name_def ad_Name_def proxy_Name_def saml_Name_def split: if_splits prod.splits)

lemma GetTAProvider_ok:
  assumes "GetTAProvider A conf = Returns (Inr (p, t))"
  shows "provider_Name p = ProviderName conf" and "provider_profile p = conf" and "Handler_profile t = conf"
    and "API t = ae_tyk A"
proof -
  from assms obtain e where
    h: "init_handler conf (getIdentityHandler (ActionType conf) (ae_tyk A)) = Returns t"
    and i: "init_provider A conf (hackProviderConf (ProviderConfig conf)) = Returns (e, p)"
    and n: "ProviderName conf \<in> {SocialProvider, ADProvider, ProxyProvider, SAMLProvider}"
    by (auto simp: GetTAProvider_def split: if_splits option.splits)
  show "provider_Name p = ProviderName conf" "provider_profile p = conf" "Handler_profile t = conf"
    "API t = ae_tyk A"
    using init_provider_ok [OF i n] init_handler_ok [OF h] by simp_all
qed

text \<open>The providers are made without the variables of the redirect flow.\<close>

lemma GetTAProvider_goth_variables:
  assumes "ae_tyk A = ae_tyk B" and "ae_social A = ae_social B" and "ae_saml A = ae_saml B"
    and "g_Name (ae_goth A) = g_Name (ae_goth B)"
  shows "GetTAProvider A conf = GetTAProvider B conf"
proof -
  have "UseProviders (ae_goth A) = UseProviders (ae_goth B)" using assms(4) by (simp add: fun_eq_iff UseProviders_def)
  then have "social_Init (ae_goth A) (ae_social B) p c = social_Init (ae_goth B) (ae_social B) p c" for p c
    unfolding social_Init_def by (simp only:)
  then show ?thesis unfolding GetTAProvider_def init_provider_def assms(1-3) by (simp only:)
qed

lemma GetTapProfile_ok:
  assumes "GetTapProfile A get_key i = Returns (Inr ((p, t), conf))"
  shows "get_key i '''' = (None, conf)" and "GetTAProvider A conf = Returns (Inr (p, t))"
proof -
  from assms obtain c r where c: "get_key i '''' = (None, c)" "GetTAProvider A c = Returns r"
    and r: "(case r of
        Inl e \<Rightarrow> Inl \<lparr>Message = ''Could not initialise provider'', Code = 400, Error = Some e\<rparr>
      | Inr login \<Rightarrow> Inr (login, c)) = Inr ((p, t), conf)"
    by (auto simp: GetTapProfile_def zero_profile_def split: prod.splits option.splits)
  from r have "r = Inr (p, t) \<and> c = conf" by (cases r) auto
  with c show "get_key i '''' = (None, conf)" "GetTAProvider A conf = Returns (Inr (p, t))" by simp_all
qed

text \<open>What a handler does to its state, by what comes of finding a provider.\<close>

lemma handle_login_state:
  "snd (handle_login A get_key failed act r a) =
    (case getId r of
       Inl e \<Rightarrow> snd (respond_to (HandleError ''Could not retrieve ID'' 400) a)
     | Inr i \<Rightarrow>
         (case GetTapProfile A get_key i of
            Panics x \<Rightarrow> a
          | Returns (Inl err) \<Rightarrow> snd (respond_to (failed err) a)
          | Returns (Inr ((p, t), conf)) \<Rightarrow> snd (act p t conf a)))"
  by (auto simp: handle_login_def bind_act_def split: sum.split outcome.split prod.split)

lemma with_world_state [simp]:
  "as_world (snd (with_world m a)) = snd (m (as_world a))"
  "as_params (snd (with_world m a)) = as_params a"
  "as_directory (snd (with_world m a)) = as_directory a"
  by (simp_all add: with_world_def case_prod_unfold)

lemma with_directory_state [simp]:
  "as_world (snd (with_directory m a)) = fst (snd (m (as_world a, as_directory a)))"
  by (simp add: with_directory_def case_prod_unfold)

lemma with_params_state [simp]:
  "as_world (snd (with_params m a)) = fst (snd (m (as_world a, as_params a)))"
  by (simp add: with_params_def case_prod_unfold)

lemma respond_to_state [simp]:
  "calls (as_world (snd (respond_to evs a))) = calls (as_world a)"
  "ids (as_world (snd (respond_to evs a))) = ids (as_world a)"
  by (simp_all add: respond_to_def respond_def)

lemma BeginAuthHandler_world:
  "calls (fst (snd (BeginAuthHandler G S r t pp p (w, s)))) = calls w \<and>
    ids (fst (snd (BeginAuthHandler G S r t pp p (w, s)))) = ids w"
  by (auto simp: BeginAuthHandler_def bind_act_def on_aux_def on_world_def respond_def lift_outcome_def case_prod_unfold
      split: outcome.split sum.split option.split)

text \<open>The user a provider vouches for, in a login and in a callback.\<close>

fun login_verdict ::
    "('k, 'm, 'g, 'ss, 'st, 'p) auth_env \<Rightarrow> ('g, 'k, 'm) ta_provider \<Rightarrow> http_request \<Rightarrow>
      ('st, 'p) auth_state \<Rightarrow> goth_user option" where
  "login_verdict A (AD_provider s) r a = ad_verdict (ae_unicode A) (ae_ldap A) s r (as_directory a)"
| "login_verdict A (Proxy_provider s) r a = proxy_authenticate (ae_proxy A) (Proxy_config s) r"
| "login_verdict A _ r a = None"

fun callback_verdict ::
    "('k, 'm, 'g, 'ss, 'st, 'p) auth_env \<Rightarrow> ('g, 'k, 'm) ta_provider \<Rightarrow> http_request \<Rightarrow>
      ('st, 'p) auth_state \<Rightarrow> goth_user option" where
  "callback_verdict A (Social_provider s) r a =
     social_verdict (ae_goth A) (ae_jwe A) (ae_params A) s r (Social_profile s) (as_params a)"
| "callback_verdict A (SAML_provider s) r a = saml_verdict (ae_saml A) s r"
| "callback_verdict A _ r a = None"

text \<open>That a request acted: it made a call or changed the identity store.\<close>

definition acted :: "'st world \<Rightarrow> 'st world \<Rightarrow> bool" where
  "acted w w' \<longleftrightarrow> calls w' \<noteq> calls w \<or> ids w' \<noteq> ids w"

lemma not_acted [simp]: "\<not> acted w w" "\<not> acted w (w\<lparr>resp := x\<rparr>)"
  by (simp_all add: acted_def)

lemma provider_Handle_acted:
  assumes "acted (as_world a) (as_world (snd (provider_Handle A t p r conf a)))"
  shows "\<exists>user. login_verdict A p r a = Some user \<and>
    as_world (snd (provider_Handle A t p r conf a)) =
      snd (complete_with A t user (provider_profile p) (as_world a))"
proof (cases p)
  case (Social_provider s)
  with assms show ?thesis
    using BeginAuthHandler_world [of "ae_goth A" "ae_params A" r "Social_toth s" "mux_Vars r"
        conf "as_world a" "as_params a"]
    by (simp add: social_Handle_def acted_def)
next
  case (AD_provider s)
  with assms ad.acted_on_verdict [where complete = "complete_with A t" and w = "as_world a"] show ?thesis
    by (simp add: acted_def)
next
  case (Proxy_provider s)
  with assms proxy.acted_on_verdict [where complete = "complete_with A t" and w = "as_world a"] show ?thesis
    by (simp add: acted_def)
next
  case (SAML_provider s)
  with assms show ?thesis by (simp add: respond_def)
qed

lemma provider_HandleCallback_acted:
  assumes "acted (as_world a) (as_world (snd (provider_HandleCallback A t p r (provider_profile p) a)))"
  shows "\<exists>user. callback_verdict A p r a = Some user \<and>
    as_world (snd (provider_HandleCallback A t p r (provider_profile p) a)) =
      snd (complete_with A t user (provider_profile p) (as_world a))"
proof (cases p)
  case (Social_provider s)
  with assms social.acted_on_verdict [where complete = "complete_with A t" and w = "as_world a"] show ?thesis
    by (simp add: acted_def)
next
  case (AD_provider s)
  with assms show ?thesis by (simp add: ad_HandleCallback_def)
next
  case (Proxy_provider s)
  with assms show ?thesis by (simp add: proxy_HandleCallback_def)
next
  case (SAML_provider s)
  with assms saml.acted_on_verdict [where complete = "complete_with A t" and w = "as_world a"] show ?thesis
    by (simp add: acted_def)
qed

text \<open>With a verdict, a login request is the identity handler's work.\<close>

lemma HandleAuth_verdict:
  assumes "getId r = Inr i" and "get_key i '''' = (None, conf)" and "GetTAProvider A conf = Returns (Inr (p, t))"
    and "login_verdict A p r a = Some user"
  shows "as_world (snd (HandleAuth A get_key r a)) = snd (complete_with A t user conf (as_world a))"
proof -
  have conf: "provider_profile p = conf" by (rule GetTAProvider_ok(2) [OF assms(3)])
  have "GetTapProfile A get_key i = Returns (Inr ((p, t), conf))"
    using assms(2,3) by (simp add: GetTapProfile_def zero_profile_def)
  then have "snd (HandleAuth A get_key r a) = snd (provider_Handle A t p r conf a)"
    by (simp add: HandleAuth_def handle_login_state assms(1))
  moreover have "as_world (snd (provider_Handle A t p r conf a)) =
      snd (complete_with A t user (provider_profile p) (as_world a))"
    using assms(4)
    by (cases p) (auto simp: ad.run_world proxy.run_world)
  ultimately show ?thesis using conf by simp
qed

lemma handle_login_acted:
  assumes "acted (as_world a) (as_world (snd (handle_login A get_key failed act r a)))"
  shows "\<exists>i p t conf. getId r = Inr i \<and> get_key i '''' = (None, conf) \<and>
    GetTAProvider A conf = Returns (Inr (p, t)) \<and> provider_profile p = conf \<and>
    snd (handle_login A get_key failed act r a) = snd (act p t conf a)"
proof (cases "getId r")
  case (Inr i)
  have st: "snd (handle_login A get_key failed act r a) =
    (case GetTapProfile A get_key i of
       Panics x \<Rightarrow> a
     | Returns (Inl err) \<Rightarrow> snd (respond_to (failed err) a)
     | Returns (Inr ((p, t), conf)) \<Rightarrow> snd (act p t conf a))"
    unfolding handle_login_state by (simp add: Inr)
  show ?thesis
  proof (cases "GetTapProfile A get_key i")
    case (Panics x)
    with st assms show ?thesis by simp
  next
    case (Returns res)
    show ?thesis
    proof (cases res)
      case (Inl err)
      with st assms Returns show ?thesis by (simp add: acted_def)
    next
      case res: (Inr x)
      obtain p t conf where x: "x = ((p, t), conf)" by (metis prod.exhaust)
      note ok = GetTapProfile_ok [OF Returns [unfolded res x]]
      have "snd (handle_login A get_key failed act r a) = snd (act p t conf a)"
        using st Returns res x by simp
      then show ?thesis using ok GetTAProvider_ok(2) [OF ok(2)] Inr by blast
    qed
  qed
qed (use assms in \<open>simp add: handle_login_state acted_def\<close>)

lemma HandleAuth_acted:
  assumes "acted (as_world a) (as_world (snd (HandleAuth A get_key r a)))"
  shows "\<exists>i p t conf user. getId r = Inr i \<and> get_key i '''' = (None, conf) \<and>
    GetTAProvider A conf = Returns (Inr (p, t)) \<and> login_verdict A p r a = Some user \<and>
    as_world (snd (HandleAuth A get_key r a)) = snd (complete_with A t user conf (as_world a))"
proof -
  from handle_login_acted [OF assms [unfolded HandleAuth_def]] obtain i p t conf where
    *: "getId r = Inr i" "get_key i '''' = (None, conf)" "GetTAProvider A conf = Returns (Inr (p, t))"
    "provider_profile p = conf"
    "snd (HandleAuth A get_key r a) = snd (provider_Handle A t p r conf a)"
    unfolding HandleAuth_def by blast
  from provider_Handle_acted [of a A t p r conf] assms * show ?thesis by auto
qed

lemma HandleAuthCallback_acted:
  assumes "acted (as_world a) (as_world (snd (HandleAuthCallback A get_key r a)))"
  shows "\<exists>i p t conf user. getId r = Inr i \<and> get_key i '''' = (None, conf) \<and>
    GetTAProvider A conf = Returns (Inr (p, t)) \<and> callback_verdict A p r a = Some user \<and>
    as_world (snd (HandleAuthCallback A get_key r a)) = snd (complete_with A t user conf (as_world a))"
proof -
  from handle_login_acted [OF assms [unfolded HandleAuthCallback_def]] obtain i p t conf where
    *: "getId r = Inr i" "get_key i '''' = (None, conf)" "GetTAProvider A conf = Returns (Inr (p, t))"
    "provider_profile p = conf"
    "snd (HandleAuthCallback A get_key r a) = snd (provider_HandleCallback A t p r conf a)"
    unfolding HandleAuthCallback_def by blast
  from provider_HandleCallback_acted [of a A t p r] assms * show ?thesis by auto
qed

text \<open>Whatever happens, a request only makes calls of the configured APIs, with the credential of its own
  profile or the secrets of the configuration.\<close>

definition profile_credential :: "profile \<Rightarrow> string" where
  "profile_credential conf =
     (case IdentityHandlerConfig conf of
        None \<Rightarrow> ''''
      | Some m \<Rightarrow> (case any_get m ''DashboardCredential'' of JStr cred \<Rightarrow> cred | _ \<Rightarrow> ''''))"

lemma tyk_Init_credential:
  "tyk_Init conf (new_tyk_handler api) = Returns (e, t) \<Longrightarrow> dashboardUserAPICred t = profile_credential conf"
  by (auto simp: tyk_Init_def Let_def new_tyk_handler_def profile_credential_def split: option.splits if_splits)

lemma GetTAProvider_credential:
  "GetTAProvider A conf = Returns (Inr (p, t)) \<Longrightarrow> dashboardUserAPICred t = profile_credential conf"
  by (auto simp: GetTAProvider_def init_handler_def getIdentityHandler_def tyk_Init_credential
      split: if_splits option.splits)

lemma complete_with_extends:
  assumes "GetTAProvider A conf = Returns (Inr (p, t))"
  shows "world_extends (tyk_call (ae_tyk A) (profile_credential conf)) w (snd (complete_with A t user q w))"
  using preservesD [OF tyk.complete_extends [of t "ae_env A" "ae_ids A" user q], of w]
  by (simp add: complete_with_def GetTAProvider_ok(4) [OF assms] GetTAProvider_credential [OF assms])

lemma completed_calls:
  assumes "GetTAProvider A conf = Returns (Inr (p, t))" and "w' = snd (complete_with A t user conf w)"
  shows "extends_with (tyk_call (ae_tyk A) (profile_credential conf)) (calls w) (calls w')"
  using complete_with_extends [OF assms(1), of w user conf] assms(2) by (simp add: world_extends_def)

lemma HandleAuth_calls:
  assumes "calls (as_world (snd (HandleAuth A get_key r a))) \<noteq> calls (as_world a)"
  shows "\<exists>i conf. getId r = Inr i \<and> get_key i '''' = (None, conf) \<and>
    extends_with (tyk_call (ae_tyk A) (profile_credential conf)) (calls (as_world a))
      (calls (as_world (snd (HandleAuth A get_key r a))))"
proof -
  have "acted (as_world a) (as_world (snd (HandleAuth A get_key r a)))" using assms by (simp add: acted_def)
  from HandleAuth_acted [OF this] completed_calls show ?thesis by blast
qed

lemma HandleAuthCallback_calls:
  assumes "calls (as_world (snd (HandleAuthCallback A get_key r a))) \<noteq> calls (as_world a)"
  shows "\<exists>i conf. getId r = Inr i \<and> get_key i '''' = (None, conf) \<and>
    extends_with (tyk_call (ae_tyk A) (profile_credential conf)) (calls (as_world a))
      (calls (as_world (snd (HandleAuthCallback A get_key r a))))"
proof -
  have "acted (as_world a) (as_world (snd (HandleAuthCallback A get_key r a)))" using assms by (simp add: acted_def)
  from HandleAuthCallback_acted [OF this] completed_calls show ?thesis by blast
qed

lemma HandleMetadata_calls: "calls (as_world (snd (HandleMetadata A get_key r a))) = calls (as_world a)"
  unfolding HandleMetadata_def handle_login_state
  by (auto simp: bind_act_def split: sum.split outcome.split)

end
