(* ===== verification/Configuration.thy ===== *)
theory Configuration
  imports Tyk_Api
begin

section \<open>Configuration (packages configuration and log)\<close>

text \<open>
  The configuration record, \<^verbatim>\<open>LoadConfig\<close> with its retries, and the choice of a Mongo driver and of
  the log level. The environment variables are read by \<^verbatim>\<open>envconfig\<close>, which is an argument: \<open>process_env\<close>
  overlays them on the configuration. What the environment of the process holds is a map.
\<close>

definition MONGO :: string where "MONGO = ''mongo''"
definition FILE :: string where "FILE = ''file''"

record mongo_conf =
  DbName :: string
  MongoURL :: string
  MongoUseSSL :: bool
  MongoSSLInsecureSkipVerify :: bool
  MaxInsertBatchSizeBytes :: int
  MaxDocumentSizeBytes :: int
  CollectionCapMaxSizeBytes :: int
  CollectionCapEnable :: bool
  SessionConsistency :: string
  Driver :: string
  DirectConnection :: bool

record storage =
  StorageType :: string
  Mongo :: "mongo_conf option"

record file_loader_conf =
  FileName :: string
  ProfileDir :: string

record identity_backend_settings =
  Redis_Database :: int
  Redis_Username :: string
  Redis_Password :: string
  Redis_Host :: string
  Redis_Port :: int
  Redis_Timeout :: int
  Redis_MaxIdle :: int
  Redis_MaxActive :: int
  Redis_UseSSL :: bool
  Redis_SSLInsecureSkipVerify :: bool
  Redis_CAFile :: string
  Redis_CertFile :: string
  Redis_KeyFile :: string
  Redis_MaxVersion :: string
  Redis_MinVersion :: string
  Redis_EnableCluster :: bool
  Redis_Addrs :: "string list"
  Redis_Hosts :: "string gomap"
  Redis_MasterName :: string
  Redis_SentinelPassword :: string

record http_server_options =
  Server_UseSSL :: bool
  Server_CertFile :: string
  Server_KeyFile :: string
  Server_SSLInsecureSkipVerify :: bool

record configuration =
  Conf_Secret :: string
  Conf_Port :: int
  Conf_ProfileDir :: string
  ProfileBackendSettings :: json
  IdentityBackendSettings :: identity_backend_settings
  TykAPISettings :: tyk_api
  HttpServerOptions :: http_server_options
  Conf_SSLInsecureSkipVerify :: bool
  Storage :: "storage option"

definition zero_endpoint_config :: endpoint_config where
  "zero_endpoint_config = \<lparr>Endpoint = '''', Port = '''', AdminSecret = ''''\<rparr>"

definition zero_configuration :: configuration where
  "zero_configuration =
     \<lparr>Conf_Secret = '''', Conf_Port = 0, Conf_ProfileDir = '''', ProfileBackendSettings = JNull,
      IdentityBackendSettings =
        \<lparr>Redis_Database = 0, Redis_Username = '''', Redis_Password = '''', Redis_Host = '''',
         Redis_Port = 0, Redis_Timeout = 0, Redis_MaxIdle = 0, Redis_MaxActive = 0,
         Redis_UseSSL = False, Redis_SSLInsecureSkipVerify = False, Redis_CAFile = '''',
         Redis_CertFile = '''', Redis_KeyFile = '''', Redis_MaxVersion = '''', Redis_MinVersion = '''',
         Redis_EnableCluster = False, Redis_Addrs = [], Redis_Hosts = [], Redis_MasterName = '''',
         Redis_SentinelPassword = ''''\<rparr>,
      TykAPISettings =
        \<lparr>GatewayConfig = zero_endpoint_config, DashboardConfig = zero_endpoint_config,
         CustomDispatcher = None, CustomSuperDispatcher = None\<rparr>,
      HttpServerOptions =
        \<lparr>Server_UseSSL = False, Server_CertFile = '''', Server_KeyFile = '''',
         Server_SSLInsecureSkipVerify = False\<rparr>,
      Conf_SSLInsecureSkipVerify = False, Storage = None\<rparr>"

subsection \<open>The configuration file\<close>

text \<open>The hosts are a map that is never told from an empty one.\<close>

definition update_hosts ::
    "(string gomap option \<Rightarrow> string gomap option) \<Rightarrow> identity_backend_settings \<Rightarrow> identity_backend_settings" where
  "update_hosts f = Redis_Hosts_update (\<lambda>m. case f (Some m) of None \<Rightarrow> [] | Some m' \<Rightarrow> m')"

definition settings_fields :: "(string \<times> identity_backend_settings setter) list" where
  "settings_fields =
     [(''Database'', set_int Redis_Database_update),
      (''Username'', set_string Redis_Username_update),
      (''Password'', set_string Redis_Password_update),
      (''Host'', set_string Redis_Host_update),
      (''Port'', set_int Redis_Port_update),
      (''Timeout'', set_int Redis_Timeout_update),
      (''MaxIdle'', set_int Redis_MaxIdle_update),
      (''MaxActive'', set_int Redis_MaxActive_update),
      (''UseSSL'', set_bool Redis_UseSSL_update),
      (''SSLInsecureSkipVerify'', set_bool Redis_SSLInsecureSkipVerify_update),
      (''CAFile'', set_string Redis_CAFile_update),
      (''CertFile'', set_string Redis_CertFile_update),
      (''KeyFile'', set_string Redis_KeyFile_update),
      (''MaxVersion'', set_string Redis_MaxVersion_update),
      (''MinVersion'', set_string Redis_MinVersion_update),
      (''EnableCluster'', set_bool Redis_EnableCluster_update),
      (''Addrs'', set_string_list Redis_Addrs_update),
      (''Hosts'', set_string_map update_hosts),
      (''MasterName'', set_string Redis_MasterName_update),
      (''SentinelPassword'', set_string Redis_SentinelPassword_update)]"

definition zero_mongo_conf :: mongo_conf where
  "zero_mongo_conf =
     \<lparr>DbName = '''', MongoURL = '''', MongoUseSSL = False, MongoSSLInsecureSkipVerify = False,
      MaxInsertBatchSizeBytes = 0, MaxDocumentSizeBytes = 0, CollectionCapMaxSizeBytes = 0,
      CollectionCapEnable = False, SessionConsistency = '''', Driver = '''', DirectConnection = False\<rparr>"

definition mongo_conf_fields :: "(string \<times> mongo_conf setter) list" where
  "mongo_conf_fields =
     [(''db_name'', set_string DbName_update),
      (''mongo_url'', set_string MongoURL_update),
      (''mongo_use_ssl'', set_bool MongoUseSSL_update),
      (''mongo_ssl_insecure_skip_verify'', set_bool MongoSSLInsecureSkipVerify_update),
      (''max_insert_batch_size_bytes'', set_int MaxInsertBatchSizeBytes_update),
      (''max_document_size_bytes'', set_int MaxDocumentSizeBytes_update),
      (''collection_cap_max_size_bytes'', set_int CollectionCapMaxSizeBytes_update),
      (''collection_cap_enable'', set_bool CollectionCapEnable_update),
      (''session_consistency'', set_string SessionConsistency_update),
      (''driver'', set_string Driver_update),
      (''direct_connection'', set_bool DirectConnection_update)]"

definition zero_storage :: storage where
  "zero_storage = \<lparr>StorageType = '''', Mongo = None\<rparr>"

definition storage_fields :: "(string \<times> storage setter) list" where
  "storage_fields =
     [(''storage_type'', set_string StorageType_update),
      (''mongo'', set_pointer mongo_conf_fields zero_mongo_conf Mongo Mongo_update)]"

definition endpoint_config_fields :: "(string \<times> endpoint_config setter) list" where
  "endpoint_config_fields =
     [(''Endpoint'', set_string Endpoint_update),
      (''Port'', set_string Port_update),
      (''AdminSecret'', set_string AdminSecret_update)]"

definition tyk_api_fields :: "(string \<times> tyk_api setter) list" where
  "tyk_api_fields =
     [(''GatewayConfig'', set_struct endpoint_config_fields GatewayConfig GatewayConfig_update),
      (''DashboardConfig'', set_struct endpoint_config_fields DashboardConfig DashboardConfig_update)]"

definition server_options_fields :: "(string \<times> http_server_options setter) list" where
  "server_options_fields =
     [(''UseSSL'', set_bool Server_UseSSL_update),
      (''CertFile'', set_string Server_CertFile_update),
      (''KeyFile'', set_string Server_KeyFile_update),
      (''SSLInsecureSkipVerify'', set_bool Server_SSLInsecureSkipVerify_update)]"

text \<open>The two parts of the section \<^verbatim>\<open>BackEnd\<close> are fields of the configuration here.\<close>

definition backend_fields :: "(string \<times> configuration setter) list" where
  "backend_fields =
     [(''ProfileBackendSettings'', set_any ProfileBackendSettings_update),
      (''IdentityBackendSettings'', set_struct settings_fields IdentityBackendSettings IdentityBackendSettings_update)]"

definition configuration_fields :: "(string \<times> configuration setter) list" where
  "configuration_fields =
     [(''Secret'', set_string Conf_Secret_update),
      (''Port'', set_int Conf_Port_update),
      (''ProfileDir'', set_string Conf_ProfileDir_update),
      (''BackEnd'', unmarshal_struct backend_fields),
      (''TykAPISettings'', set_struct tyk_api_fields TykAPISettings TykAPISettings_update),
      (''HttpServerOptions'', set_struct server_options_fields HttpServerOptions HttpServerOptions_update),
      (''SSLInsecureSkipVerify'', set_bool Conf_SSLInsecureSkipVerify_update),
      (''Storage'', set_pointer storage_fields zero_storage Storage Storage_update)]"

text \<open>The error of decoding the file is only logged.\<close>

definition decode_configuration :: "string \<Rightarrow> configuration \<Rightarrow> configuration" where
  "decode_configuration text conf = snd (Unmarshal (unmarshal_struct configuration_fields) text conf)"

lemma decode_configuration_bad: "json_decode text = None \<Longrightarrow> decode_configuration text conf = conf"
  by (simp add: decode_configuration_def Unmarshal_def)

subsection \<open>Loading the configuration\<close>

text \<open>
  The state of a load: the counter of failures, which is a variable of the package and never reset,
  the configuration, and the number of times the file was read. \<open>read k\<close> is the outcome of the \<open>k\<close>-th
  attempt to read the file. Giving up is \<^verbatim>\<open>Fatal\<close>, which ends the process: \<^const>\<open>None\<close>.
\<close>

record load_state =
  failCount :: nat
  loaded_conf :: configuration
  reads :: nat

definition omit_config_file :: "(string \<rightharpoonup> string) \<Rightarrow> bool" where
  "omit_config_file env =
     (case env ''TYK_IB_OMITCONFIGFILE'' of None \<Rightarrow> False | Some v \<Rightarrow> ToLower v = ''true'')"

text \<open>What every call does after its attempt, the retried ones included.\<close>

definition apply_environment ::
    "(string \<rightharpoonup> string) \<Rightarrow> (configuration \<Rightarrow> configuration) \<Rightarrow> load_state \<Rightarrow> load_state" where
  "apply_environment env process_env s =
     s\<lparr>loaded_conf := process_env (if omit_config_file env then zero_configuration else loaded_conf s)\<rparr>"

function LoadConfig ::
    "(nat \<Rightarrow> string result) \<Rightarrow> (string \<rightharpoonup> string) \<Rightarrow>
      (configuration \<Rightarrow> configuration) \<Rightarrow> load_state \<Rightarrow> load_state option" where
  "LoadConfig read env process_env s =
     (let s1 = s\<lparr>reads := reads s + 1\<rparr> in
      case read (reads s) of
        Inl err \<Rightarrow>
          (let s2 = s1\<lparr>failCount := failCount s1 + 1\<rparr> in
           if failCount s2 < 3
           then map_option (apply_environment env process_env) (LoadConfig read env process_env s2)
           else None)
      | Inr text \<Rightarrow> Some (apply_environment env process_env (s1\<lparr>loaded_conf := decode_configuration text (loaded_conf s1)\<rparr>)))"
  by pat_completeness auto
termination
  by (relation "measure (\<lambda>(read, env, process_env, s). 3 - failCount s)") auto

declare LoadConfig.simps [simp del]

definition GetMongoDriver :: "string \<Rightarrow> string \<Rightarrow> string \<Rightarrow> string" where
  "GetMongoDriver mgo official driverFromConf =
     (if driverFromConf \<noteq> mgo \<and> driverFromConf \<noteq> official then official else driverFromConf)"

text \<open>At most three reads are made of a configuration, counting the failures of earlier loads.\<close>

lemma LoadConfig_step:
  "LoadConfig read env process_env s =
     (case read (reads s) of
        Inl err \<Rightarrow>
          (if failCount s < 2
           then map_option (apply_environment env process_env)
             (LoadConfig read env process_env (s\<lparr>reads := Suc (reads s), failCount := Suc (failCount s)\<rparr>))
           else None)
      | Inr text \<Rightarrow>
          Some (apply_environment env process_env (s\<lparr>reads := Suc (reads s), loaded_conf := decode_configuration text (loaded_conf s)\<rparr>)))"
  by (subst LoadConfig.simps) (simp add: Let_def split: sum.split)

lemma reads_apply_environment [simp]:
  "reads (apply_environment env pe s) = reads s" "failCount (apply_environment env pe s) = failCount s"
  by (simp_all add: apply_environment_def)

lemma LoadConfig_reads:
  "LoadConfig read env pe s = Some s' \<Longrightarrow>
    reads s < reads s' \<and> reads s' \<le> reads s + max 1 (3 - failCount s) \<and> (\<exists>text. read (reads s' - 1) = Inr text)"
proof (induction "3 - failCount s" arbitrary: s s' rule: less_induct)
  case less
  show ?case
  proof (cases "read (reads s)")
    case (Inr t)
    with less.prems show ?thesis by (auto simp: LoadConfig_step max_def)
  next
    case (Inl err)
    let ?s1 = "s\<lparr>reads := Suc (reads s), failCount := Suc (failCount s)\<rparr>"
    from less.prems Inl obtain s2 where lt: "failCount s < 2"
      and s2: "LoadConfig read env pe ?s1 = Some s2" and s': "s' = apply_environment env pe s2"
      by (simp add: LoadConfig_step [where s = s] split: if_splits) blast
    have "3 - failCount ?s1 < 3 - failCount s" using lt by simp
    from less.hyps [OF this s2] lt s' show ?thesis by auto
  qed
qed

text \<open>Three failures end the process.\<close>

lemma LoadConfig_gives_up:
  "\<forall>k. reads s \<le> k \<and> k < reads s + max 1 (3 - failCount s) \<longrightarrow> (\<exists>e. read k = Inl e) \<Longrightarrow>
    LoadConfig read env pe s = None"
proof (induction "3 - failCount s" arbitrary: s rule: less_induct)
  case less
  have "reads s < reads s + max 1 (3 - failCount s)" by simp
  with less.prems obtain e where e: "read (reads s) = Inl e" by blast
  show ?case
  proof (cases "failCount s < 2")
    case False
    with e show ?thesis by (simp add: LoadConfig_step)
  next
    case True
    let ?s1 = "s\<lparr>reads := Suc (reads s), failCount := Suc (failCount s)\<rparr>"
    have "LoadConfig read env pe ?s1 = None"
      by (rule less.hyps) (use True less.prems in auto)
    with e True show ?thesis by (simp add: LoadConfig_step [where s = s])
  qed
qed

subsection \<open>Log levels\<close>

datatype log_level = ErrorLevel | WarnLevel | InfoLevel | DebugLevel

text \<open>The order of the logger's levels: the later ones show more.\<close>

fun level_rank :: "log_level \<Rightarrow> nat" where
  "level_rank ErrorLevel = 2"
| "level_rank WarnLevel = 3"
| "level_rank InfoLevel = 4"
| "level_rank DebugLevel = 5"

instantiation log_level :: linorder
begin

definition less_eq_log_level :: "log_level \<Rightarrow> log_level \<Rightarrow> bool" where
  "less_eq_log_level a b \<longleftrightarrow> level_rank a \<le> level_rank b"

definition less_log_level :: "log_level \<Rightarrow> log_level \<Rightarrow> bool" where
  "less_log_level a b \<longleftrightarrow> level_rank a < level_rank b"

instance
proof
  fix x y z :: log_level
  show "x < y \<longleftrightarrow> x \<le> y \<and> \<not> y \<le> x" by (auto simp: less_eq_log_level_def less_log_level_def)
  show "x \<le> x" by (simp add: less_eq_log_level_def)
  show "x \<le> y \<Longrightarrow> y \<le> z \<Longrightarrow> x \<le> z" by (simp add: less_eq_log_level_def)
  show "x \<le> y \<Longrightarrow> y \<le> x \<Longrightarrow> x = y" by (cases x; cases y) (auto simp: less_eq_log_level_def)
  show "x \<le> y \<or> y \<le> x" by (auto simp: less_eq_log_level_def)
qed

end

definition level_of_env :: "(string \<rightharpoonup> string) \<Rightarrow> log_level" where
  "level_of_env env =
     (let v = ToLower (case env ''TYK_LOGLEVEL'' of None \<Rightarrow> '''' | Some v \<Rightarrow> v) in
      if v = ''error'' then ErrorLevel
      else if v = ''warn'' then WarnLevel
      else if v = ''debug'' then DebugLevel
      else InfoLevel)"

end
