(* ===== verification/Data_Loader.thy ===== *)
theory Data_Loader
  imports Profile_Actions Configuration
begin

section \<open>Loading and saving profiles (package data_loader)\<close>

text \<open>
  Where the profiles come from and are saved to: a JSON file, a Mongo collection, or nowhere. The
  operations on files (\<^verbatim>\<open>ioutil\<close>) act on a state \<open>'d\<close> and are arguments, as are those of
  \<^verbatim>\<open>persistent.PersistentStorage\<close>; \<^verbatim>\<open>path.Join\<close> is modelled.
\<close>

subsection \<open>Paths and files\<close>

text \<open>\<^verbatim>\<open>path.Clean\<close>: the elements are folded over a stack (the last one first).\<close>

fun clean_step :: "bool \<Rightarrow> string list \<Rightarrow> string \<Rightarrow> string list" where
  "clean_step rooted stack e =
     (if e = '''' \<or> e = ''.'' then stack
      else if e = ''..'' then
        (case stack of
           [] \<Rightarrow> if rooted then [] else [e]
         | x # r \<Rightarrow> if x = ''..'' then e # stack else r)
      else e # stack)"

definition path_Clean :: "string \<Rightarrow> string" where
  "path_Clean p =
     (if p = '''' then ''.''
      else
        (let rooted = HasPrefix p ''/'';
             out = (if rooted then ''/'' else '''') @ Join (rev (foldl (clean_step rooted) [] (Split p ''/''))) ''/''
         in if out = '''' then ''.'' else out))"

definition path_Join :: "string \<Rightarrow> string \<Rightarrow> string" where
  "path_Join a b =
     (if a = '''' then (if b = '''' then '''' else path_Clean b) else path_Clean (a @ ''/'' @ b))"

record 'd os_files =
  osReadFile :: "string \<Rightarrow> 'd \<Rightarrow> string result"
  osWriteFile :: "string \<Rightarrow> string \<Rightarrow> 'd \<Rightarrow> go_error option \<times> 'd"

text \<open>The documented behaviour: after a write that succeeded the file it names holds the bytes, and files
  of another name are as before. Two names that clean to the same path name the same file.\<close>

definition os_files_documented :: "'d os_files \<Rightarrow> bool" where
  "os_files_documented os \<longleftrightarrow>
     (\<forall>f g d. path_Clean f = path_Clean g \<longrightarrow> osReadFile os f d = osReadFile os g d) \<and>
     (\<forall>f b d d'. osWriteFile os f b d = (None, d') \<longrightarrow>
        osReadFile os f d' = Inr b \<and>
        (\<forall>g. path_Clean g \<noteq> path_Clean f \<longrightarrow> osReadFile os g d' = osReadFile os g d))"

subsection \<open>The file loader\<close>

text \<open>Decoding a list of profiles: every element into a fresh profile.\<close>

fun profile_elems :: "json list \<Rightarrow> bool \<times> profile list" where
  "profile_elems [] = (True, [])"
| "profile_elems (j # js) =
     (let (ok, p) = unmarshal_struct profile_fields j zero_profile; (ok', ps) = profile_elems js
      in (ok \<and> ok', p # ps))"

definition set_profiles :: "profile list setter" where
  "set_profiles j ps =
     (case j of JArr xs \<Rightarrow> profile_elems xs | JNull \<Rightarrow> (True, []) | _ \<Rightarrow> (False, ps))"

definition unmarshal_profiles :: "string \<Rightarrow> go_error option \<times> profile list" where
  "unmarshal_profiles t = Unmarshal set_profiles t []"

text \<open>When the file does not decode, the error returned is the one of reading it: \<^verbatim>\<open>nil\<close>.\<close>

definition FileLoader_LoadIntoStore ::
    "'d os_files \<Rightarrow> file_loader_conf \<Rightarrow> (string \<Rightarrow> string \<Rightarrow> go_value \<Rightarrow> ('s, go_error option) act) \<Rightarrow>
      'd \<Rightarrow> ('s, go_error option) act" where
  "FileLoader_LoadIntoStore os conf set_key d =
     (case osReadFile os (FileName conf) d of
        Inl err \<Rightarrow> return_act (Some err)
      | Inr thisSet \<Rightarrow>
          (case unmarshal_profiles thisSet of
             (Some jsErr, _) \<Rightarrow> return_act None
           | (None, profiles) \<Rightarrow> bind_act (load_profiles set_key profiles) (\<lambda>_. return_act None)))"

definition values_json :: "go_value list option \<Rightarrow> json" where
  "values_json vs = (case vs of None \<Rightarrow> JNull | Some xs \<Rightarrow> JArr (map value_json xs))"

definition backup_location :: "file_loader_conf \<Rightarrow> int \<Rightarrow> string" where
  "backup_location conf unix = path_Join (ProfileDir conf) (''profiles_backup_'' @ itoa unix @ ''.json'')"

definition save_path :: "file_loader_conf \<Rightarrow> string" where
  "save_path conf = path_Join (ProfileDir conf) (FileName conf)"

text \<open>The second write's error is looked at only when the first one failed, which cannot be.\<close>

definition FileLoader_Flush ::
    "'d os_files \<Rightarrow> file_loader_conf \<Rightarrow> int \<Rightarrow> ('s \<Rightarrow> go_value list option) \<Rightarrow> 's \<Rightarrow> ('d, go_error option) act" where
  "FileLoader_Flush os conf unix get_all s d =
     (case osReadFile os (FileName conf) d of
        Inl err \<Rightarrow> (Returns (Some err), d)
      | Inr oldSet \<Rightarrow>
          (let (wErr, d1) = osWriteFile os (backup_location conf unix) oldSet d in
           if wErr \<noteq> None then (Returns wErr, d1)
           else
             (let asJson = print_json (values_json (get_all s));
                  (w2Err, d2) = osWriteFile os (save_path conf) asJson d1
              in if wErr \<noteq> None then (Returns w2Err, d2) else (Returns None, d2))))"

subsection \<open>The Mongo loader\<close>

definition MongoLoader_LoadIntoStore ::
    "'m document_store \<Rightarrow> (string \<Rightarrow> string \<Rightarrow> go_value \<Rightarrow> ('s, go_error option) act) \<Rightarrow> 'm \<Rightarrow>
      ('s, go_error option) act" where
  "MongoLoader_LoadIntoStore ops set_key m =
     (case dsQuery ops [] m of
        (Some err, _) \<Rightarrow> return_act (Some err)
      | (None, profiles) \<Rightarrow> bind_act (load_profiles set_key profiles) (\<lambda>_. return_act None))"

definition handleEmptyProfilesError :: "(go_error \<Rightarrow> bool) \<Rightarrow> go_error option \<Rightarrow> go_error option" where
  "handleEmptyProfilesError is_no_rows err =
     (case err of None \<Rightarrow> None | Some e \<Rightarrow> if \<not> is_no_rows e then Some e else None)"

text \<open>Inserting the profiles of a listing: a string is decoded, a profile taken, anything else panics.\<close>

fun insert_all :: "'m document_store \<Rightarrow> go_value list \<Rightarrow> ('m, go_error option) act" where
  "insert_all ops [] m = (Returns None, m)"
| "insert_all ops (v # vs) m =
     (let insert = (\<lambda>p. case dsInsert ops p m of
            (Some e, m') \<Rightarrow> (Returns (Some e), m')
          | (None, m') \<Rightarrow> insert_all ops vs m')
      in
      case v of
        StringVal s \<Rightarrow>
          (case unmarshal_profile s of
             (Some e, _) \<Rightarrow> (Returns (Some e), m)
           | (None, p) \<Rightarrow> insert p)
      | ProfileVal p \<Rightarrow> insert p
      | _ \<Rightarrow> (Panics Type_assertion, m))"

definition MongoLoader_Flush ::
    "'m document_store \<Rightarrow> (go_error \<Rightarrow> bool) \<Rightarrow> ('s \<Rightarrow> go_value list option) \<Rightarrow> 's \<Rightarrow> ('m, go_error option) act" where
  "MongoLoader_Flush ops is_no_rows get_all s m =
     (let updatedSet = (case get_all s of None \<Rightarrow> [] | Some vs \<Rightarrow> vs);
          (err, m1) = dsDelete ops [] m
      in
      case handleEmptyProfilesError is_no_rows err of
        Some e \<Rightarrow> (Returns (Some e), m1)
      | None \<Rightarrow> insert_all ops updatedSet m1)"

text \<open>
  Connecting: \<open>connect\<close> is one attempt on the state of the environment, its error and the store it
  yields. After a failure the loader tries again, for as long as it takes, and then overwrites the
  store with the one of its own failed attempt and returns that attempt's error.
\<close>

partial_function (option) MongoLoader_Init ::
    "('n \<Rightarrow> (go_error option \<times> 'p) \<times> 'n) \<Rightarrow> 'n \<Rightarrow> ((go_error option \<times> 'p) \<times> 'n) option" where
  "MongoLoader_Init connect n =
     (case connect n of
        ((None, store), n1) \<Rightarrow> Some ((None, store), n1)
      | ((Some err, store), n1) \<Rightarrow>
          Option.bind (MongoLoader_Init connect n1) (\<lambda>(_, n2). Some ((Some err, store), n2)))"

subsection \<open>Choosing a loader\<close>

record client_opts =
  ConnectionString :: string
  Opts_UseSSL :: bool
  Opts_SSLInsecureSkipVerify :: bool
  Opts_SessionConsistency :: string
  Opts_Type :: string
  Opts_DirectConnection :: bool

datatype loader_choice = Use_file file_loader_conf | Use_mongo client_opts

definition mongo_opts :: "string \<Rightarrow> string \<Rightarrow> mongo_conf \<Rightarrow> client_opts" where
  "mongo_opts mgo official c =
     \<lparr>ConnectionString = MongoURL c, Opts_UseSSL = MongoUseSSL c,
      Opts_SSLInsecureSkipVerify = MongoSSLInsecureSkipVerify c,
      Opts_SessionConsistency = SessionConsistency c,
      Opts_Type = GetMongoDriver mgo official (Driver c), Opts_DirectConnection = DirectConnection c\<rparr>"

text \<open>The loader and its configuration. A configuration that asks for Mongo and has no Mongo section
  is dereferenced all the same.\<close>

definition CreateDataLoader :: "string \<Rightarrow> string \<Rightarrow> configuration \<Rightarrow> string \<Rightarrow> loader_choice outcome" where
  "CreateDataLoader mgo official config profileFilename =
     (let storageType = (case Storage config of None \<Rightarrow> FILE | Some s \<Rightarrow> StorageType s);
          file = Use_file \<lparr>FileName = profileFilename, ProfileDir = Conf_ProfileDir config\<rparr>
      in
      if storageType = MONGO then
        (case Storage config of
           None \<Rightarrow> Returns file
         | Some s \<Rightarrow>
             (case Mongo s of
                None \<Rightarrow> Panics Nil_dereference
              | Some c \<Rightarrow> Returns (Use_mongo (mongo_opts mgo official c))))
      else Returns file)"

text \<open>The loader that does nothing, for a store that is its own source.\<close>

definition DumbLoader_Flush :: "'s \<Rightarrow> ('d, go_error option) act" where
  "DumbLoader_Flush s = return_act None"

definition DumbLoader_LoadIntoStore :: "('s, go_error option) act" where
  "DumbLoader_LoadIntoStore = return_act None"

subsection \<open>Saving and loading again\<close>

lemma profile_elems_json:
  "\<forall>p\<in>set ps. wf_profile p \<Longrightarrow> profile_elems (map profile_json ps) = (True, ps)"
  by (induction ps) (simp_all add: unmarshal_profile_json)

lemma unmarshal_profiles_json:
  assumes "\<forall>p\<in>set ps. wf_profile p"
  shows "unmarshal_profiles (print_json (JArr (map profile_json ps))) = (None, ps)"
proof -
  have "json_decode (print_json (JArr (map profile_json ps))) = Some (JArr (map profile_json ps))"
    by (rule json_decode_print) (use assms in \<open>simp add: wf_profile_json\<close>)
  then show ?thesis
    using assms by (simp add: unmarshal_profiles_def Unmarshal_def set_profiles_def profile_elems_json
        del: print_json.simps)
qed

text \<open>What a successful flush leaves in the file the loader reads.\<close>

lemma FileLoader_Flush_written:
  assumes os: "os_files_documented os" and same: "path_Clean (save_path conf) = path_Clean (FileName conf)"
    and bk: "osWriteFile os (backup_location conf unix) old d = (None, d1)"
    and old: "osReadFile os (FileName conf) d = Inr old"
    and w2: "osWriteFile os (save_path conf) (print_json (values_json (get_all s))) d1 = (None, d2)"
  shows "FileLoader_Flush os conf unix get_all s d = (Returns None, d2)"
    and "osReadFile os (FileName conf) d2 = Inr (print_json (values_json (get_all s)))"
proof -
  show "FileLoader_Flush os conf unix get_all s d = (Returns None, d2)"
    using bk old w2 by (simp add: FileLoader_Flush_def)
  have "osReadFile os (FileName conf) d2 = osReadFile os (save_path conf) d2"
    using os same unfolding os_files_documented_def by metis
  also have "\<dots> = Inr (print_json (values_json (get_all s)))"
    using os w2 unfolding os_files_documented_def by blast
  finally show "osReadFile os (FileName conf) d2 = Inr (print_json (values_json (get_all s)))" .
qed

text \<open>The outcome of a flush does not depend on whether the profiles were written.\<close>

lemma FileLoader_Flush_outcome:
  assumes "osReadFile os (FileName conf) d = Inr old"
    and "osWriteFile os (backup_location conf unix) old d = (None, d1)"
  shows "FileLoader_Flush os conf unix get_all s d =
    (Returns None, snd (osWriteFile os (save_path conf) (print_json (values_json (get_all s))) d1))"
  using assms by (simp add: FileLoader_Flush_def case_prod_unfold)

lemma foldl_registry:
  "distinct (map ID ps) \<Longrightarrow> p \<in> set ps \<Longrightarrow> foldl (\<lambda>m p. m(ID p \<mapsto> p)) m ps (ID p) = Some p"
proof (induction ps rule: rev_induct)
  case (snoc x xs)
  show ?case
  proof (cases "p = x")
    case False
    with snoc.prems have "p \<in> set xs" "ID x \<noteq> ID p" by (auto simp: image_iff)
    with snoc show ?thesis by simp
  qed simp
qed simp

lemma foldl_registry_other:
  "k \<notin> ID ` set ps \<Longrightarrow> foldl (\<lambda>m p. m(ID p \<mapsto> p)) m ps k = m k"
  by (induction ps rule: rev_induct) auto

text \<open>A registry is rebuilt from the profiles in it, whatever their order.\<close>

lemma foldl_registry_all:
  assumes "keyed r" and "distinct ks" and "set ks = dom r"
  shows "foldl (\<lambda>m p. m(ID p \<mapsto> p)) Map.empty (map (\<lambda>k. the (r k)) ks) = r"
proof
  fix k
  let ?ps = "map (\<lambda>k. the (r k)) ks"
  have ID: "ID (the (r k)) = k" if "k \<in> set ks" for k
    using that assms(1,3) by (auto simp: keyed_def domIff)
  then have ids: "map ID ?ps = ks" by (induction ks) auto
  show "foldl (\<lambda>m p. m(ID p \<mapsto> p)) Map.empty ?ps k = r k"
  proof (cases "k \<in> set ks")
    case True
    then have "foldl (\<lambda>m p. m(ID p \<mapsto> p)) Map.empty ?ps (ID (the (r k))) = Some (the (r k))"
      using assms(2) ids by (intro foldl_registry) auto
    then show ?thesis using True assms(3) ID by (auto simp: domIff)
  next
    case False
    then have "k \<notin> ID ` set ?ps" using ID by auto
    then show ?thesis using False assms(3) by (simp add: foldl_registry_other domIff del: set_map)
  qed
qed

lemma in_memory_listing_json:
  assumes "in_memory_inv m" and "kv m = Some s" and "iteration_order order s"
  shows "values_json (Some (in_memory_GetAll order org m)) =
    JArr (map profile_json (map (\<lambda>k. the (in_memory_view m k)) order))"
  by (simp add: values_json_def in_memory_GetAll_map [OF assms] value_json_def)

lemma in_memory_view_wf:
  assumes "in_memory_inv m" and "in_memory_view m k = Some p"
  shows "wf_profile p"
proof -
  from assms(2) obtain s t where s: "kv m = Some s" "map_get s k = Some t" "profile_of_text t = Some p"
    by (auto simp: in_memory_view_def split: option.splits)
  obtain q where "wf_profile q" "t = marshal_profile q" by (rule in_memory_inv_get [OF assms(1) s(1,2)])
  with s show ?thesis by simp
qed

lemma load_listing:
  assumes m: "in_memory_inv m" "kv m = Some s" and order: "iteration_order order s"
    and keyed: "keyed (in_memory_view m)"
    and stored: "osReadFile os (FileName conf) d = Inr (print_json (values_json (Some (in_memory_GetAll order org m))))"
  shows "\<exists>m'. FileLoader_LoadIntoStore os conf in_memory_SetKey d (snd (in_memory_Init m0)) = (Returns None, m') \<and>
    in_memory_inv m' \<and> in_memory_view m' = in_memory_view m"
proof -
  let ?ps = "map (\<lambda>k. the (in_memory_view m k)) order"
  let ?s0 = "snd (in_memory_Init m0)"
  have dom: "set order = dom (in_memory_view m)"
    using order dom_in_memory_view [OF m] by (simp add: iteration_order_def)
  then have wf: "\<forall>p\<in>set ?ps. wf_profile p"
    by (auto intro: in_memory_view_wf [OF m(1)])
  have s0: "in_memory_inv ?s0" "in_memory_view ?s0 = Map.empty"
    by (auto simp: in_memory_inv_Init) (simp add: in_memory_view_def in_memory_Init_def map_get_def fun_eq_iff)
  obtain m' where m': "load_profiles in_memory_SetKey ?ps ?s0 = (Returns (), m')" "in_memory_inv m'"
    "in_memory_view m' = foldl (\<lambda>m p. m(ID p \<mapsto> p)) (in_memory_view ?s0) ?ps"
    using mem.load_profiles_view [OF s0(1) wf] by blast
  have "in_memory_view m' = in_memory_view m"
    unfolding m'(3) s0(2) by (rule foldl_registry_all [OF keyed _ dom]) (use order in \<open>simp add: iteration_order_def\<close>)
  moreover have "FileLoader_LoadIntoStore os conf in_memory_SetKey d ?s0 = (Returns None, m')"
    unfolding FileLoader_LoadIntoStore_def stored in_memory_listing_json [OF m order]
    by (simp add: unmarshal_profiles_json [OF wf] m'(1) bind_act_def del: print_json.simps map_map)
  ultimately show ?thesis using m'(2) by blast
qed

subsection \<open>Connecting, and flushing a listing of names\<close>

lemma MongoLoader_Init_first:
  assumes "MongoLoader_Init connect n = Some (r, n')"
  shows "r = fst (connect n)"
  using assms
  by (subst (asm) MongoLoader_Init.simps)
    (auto split: prod.splits option.splits Option.bind_splits)

text \<open>The state after \<open>k\<close> attempts.\<close>

definition attempts :: "('n \<Rightarrow> (go_error option \<times> 'p) \<times> 'n) \<Rightarrow> nat \<Rightarrow> 'n \<Rightarrow> 'n" where
  "attempts connect k = (\<lambda>n. snd (connect n)) ^^ k"

lemma MongoLoader_Init_returns:
  "fst (fst (connect (attempts connect k n))) = None \<Longrightarrow> \<exists>r n'. MongoLoader_Init connect n = Some (r, n')"
proof (induction k arbitrary: n)
  case 0
  then show ?case
    by (subst MongoLoader_Init.simps) (auto simp: attempts_def split: prod.splits option.splits)
next
  case (Suc k)
  obtain e st n1 where c: "connect n = ((e, st), n1)" by (metis prod.exhaust)
  from Suc.prems c have "fst (fst (connect (attempts connect k n1))) = None"
    by (simp add: attempts_def funpow_Suc_right del: funpow.simps)
  then obtain r n' where "MongoLoader_Init connect n1 = Some (r, n')" using Suc.IH by blast
  with c show ?case
    by (subst MongoLoader_Init.simps) (auto split: option.splits)
qed

lemma MongoLoader_Init_attempts:
  fixes connect :: "'n \<Rightarrow> (go_error option \<times> 'p) \<times> 'n"
  shows "MongoLoader_Init connect n = Some y \<Longrightarrow> \<exists>k. fst (fst (connect (attempts connect k n))) = None"
proof (erule MongoLoader_Init.raw_induct [rotated])
  fix init and connect :: "'n \<Rightarrow> (go_error option \<times> 'p) \<times> 'n" and n y
  assume IH: "\<And>connect n (y :: (go_error option \<times> 'p) \<times> 'n). init connect n = Some y \<Longrightarrow>
      \<exists>k. fst (fst (connect (attempts connect k n))) = None"
    and step: "(case connect n of
        ((None, store), n1) \<Rightarrow> Some ((None, store), n1)
      | ((Some err, store), n1) \<Rightarrow> Option.bind (init connect n1) (\<lambda>(_, n2). Some ((Some err, store), n2))) = Some y"
  obtain e st n1 where c: "connect n = ((e, st), n1)" by (metis prod.exhaust)
  show "\<exists>k. fst (fst (connect (attempts connect k n))) = None"
  proof (cases e)
    case None
    with c show ?thesis by (intro exI [of _ 0]) (simp add: attempts_def)
  next
    case (Some err)
    with step c obtain z where "init connect n1 = Some z" by (auto split: Option.bind_splits)
    from IH [OF this] obtain k where "fst (fst (connect (attempts connect k n1))) = None" ..
    with c show ?thesis by (intro exI [of _ "Suc k"]) (simp add: attempts_def funpow_Suc_right del: funpow.simps)
  qed
qed

lemma insert_all_bad_name:
  "unmarshal_profile s = (Some e, p) \<Longrightarrow> insert_all ops (StringVal s # vs) m = (Returns (Some e), m)"
  by simp

end
