(* ===== verification/Decoding.thy ===== *)
theory Decoding
  imports Tap_Profile
begin

section \<open>What decoding yields\<close>

text \<open>
  Whatever text a request or a file holds, a profile that was decoded from it is well-formed: the
  numbers the parser lets through are numbers, and the maps decoding builds are in canonical form. So
  the hypothesis of the round trips holds of every profile the broker ever stores.
\<close>

lemma takeWhile_all: "list_all P (takeWhile P xs)"
  by (induction xs) auto

lemma parse_number_wf: "parse_number s = Some (j, r) \<Longrightarrow> wf_json j"
  by (auto simp: parse_number_def Let_def wf_frac_def takeWhile_all split: if_splits)

lemma parse_literal_wf: "parse_literal w j s = Some (j', r) \<Longrightarrow> wf_json j \<Longrightarrow> wf_json j'"
  by (auto simp: parse_literal_def split: if_splits)

lemma parse_wf:
  "parse_value n s = Some (j, r) \<Longrightarrow> wf_json j"
  "parse_elems n s = Some (xs, r) \<Longrightarrow> \<forall>x\<in>set xs. wf_json x"
  "parse_members n s = Some (m, r) \<Longrightarrow> \<forall>(k, x)\<in>set m. wf_json x"
proof (induction n s and n s and n s arbitrary: j r and xs r and m r
    rule: parse_value_parse_elems_parse_members.induct)
  case (2 n s)
  show ?case
  proof (cases "skip_ws s")
    case (Cons c q)
    with 2 show ?thesis
      by (auto simp: parse_value.simps(2) split: if_splits dest: parse_number_wf parse_literal_wf)
  qed (use 2 in \<open>simp add: parse_value.simps(2)\<close>)
next
  case (4 n s)
  then show ?case
    by (fastforce simp: parse_elems.simps(2) split: option.splits list.splits if_splits)
next
  case (6 n s)
  then show ?case
    by (fastforce simp: parse_members.simps(2) split: option.splits list.splits if_splits)
qed simp_all

lemma json_decode_wf: "json_decode s = Some j \<Longrightarrow> wf_json j"
  by (auto simp: json_decode_def split: option.splits if_splits dest: parse_wf(1))

lemma fold_map_put_wf:
  "wf_any (JObj a) \<Longrightarrow> \<forall>(k, x)\<in>set m. wf_any x \<Longrightarrow> wf_any (JObj (fold (\<lambda>(k, v). map_put k v) m a))"
proof (induction m arbitrary: a)
  case (Cons e m)
  obtain k v where e: "e = (k, v)" by (cases e)
  have "set (map_put k v a) \<subseteq> insert (k, v) (set a)"
    by (induction k v a rule: map_put.induct) auto
  with Cons.prems e have "wf_any (JObj (map_put k v a))" by fastforce
  with Cons.IH [of "map_put k v a"] Cons.prems e show ?case by (simp del: wf_any.simps)
qed simp

lemma go_any_wf_any:
  "wf_json j \<Longrightarrow> wf_any (go_any j)"
  "\<forall>x\<in>set xs. wf_json x \<Longrightarrow> \<forall>x\<in>set (go_any_list xs). wf_any x"
  "\<forall>(k, x)\<in>set m. wf_json x \<Longrightarrow> \<forall>(k, x)\<in>set (go_any_members m). wf_any x"
proof (induction j and xs and m rule: go_any_go_any_list_go_any_members.induct)
  case (2 m)
  then show ?case using fold_map_put_wf [of "[]" "go_any_members m"] by simp
qed auto

subsection \<open>Decoding a struct keeps an invariant\<close>

definition keeps :: "('s \<Rightarrow> bool) \<Rightarrow> 's setter \<Rightarrow> bool" where
  "keeps Q f \<longleftrightarrow> (\<forall>j s. wf_json j \<longrightarrow> Q s \<longrightarrow> Q (snd (f j s)))"

lemma find_field_in: "find_field fs k = Some f \<Longrightarrow> \<exists>n. (n, f) \<in> set fs"
  by (auto simp: find_field_def split: option.splits dest: map_of_SomeD)
    (metis find_Some_iff nth_mem snd_conv)

lemma unmarshal_members_keeps:
  assumes "\<forall>(n, f)\<in>set fs. keeps Q f"
  shows "\<forall>(k, j)\<in>set m. wf_json j \<Longrightarrow> Q s \<Longrightarrow> Q (snd (unmarshal_members fs m s))"
proof (induction m arbitrary: s)
  case (Cons e m)
  obtain k j where e: "e = (k, j)" by (cases e)
  show ?case
  proof (cases "find_field fs k")
    case None
    with Cons e show ?thesis by simp
  next
    case (Some f)
    then have "keeps Q f" using assms find_field_in by fastforce
    with Cons.prems e have "Q (snd (f j s))" by (simp add: keeps_def)
    with Cons e Some show ?thesis by (simp add: case_prod_unfold Let_def)
  qed
qed simp

lemma unmarshal_struct_keeps:
  assumes "\<forall>(n, f)\<in>set fs. keeps Q f"
  shows "keeps Q (unmarshal_struct fs)"
  using unmarshal_members_keeps [OF assms]
  by (auto simp: keeps_def unmarshal_struct_def split: json.splits)

lemma Unmarshal_keeps: "keeps Q f \<Longrightarrow> Q s \<Longrightarrow> Q (snd (Unmarshal f t s))"
  by (auto simp: Unmarshal_def keeps_def case_prod_unfold Let_def split: option.splits dest: json_decode_wf)

subsection \<open>Profiles\<close>

lemma wf_profile_updates [simp]:
  "wf_profile (p\<lparr>ID := a\<rparr>) = wf_profile p" "wf_profile (p\<lparr>Name := a\<rparr>) = wf_profile p"
  "wf_profile (p\<lparr>OrgID := a\<rparr>) = wf_profile p" "wf_profile (p\<lparr>ActionType := a\<rparr>) = wf_profile p"
  "wf_profile (p\<lparr>MatchedPolicyID := a\<rparr>) = wf_profile p" "wf_profile (p\<lparr>Type := a\<rparr>) = wf_profile p"
  "wf_profile (p\<lparr>ProviderName := a\<rparr>) = wf_profile p" "wf_profile (p\<lparr>CustomEmailField := a\<rparr>) = wf_profile p"
  "wf_profile (p\<lparr>CustomUserIDField := a\<rparr>) = wf_profile p"
  "wf_profile (p\<lparr>ProviderConstraints := c\<rparr>) = wf_profile p"
  "wf_profile (p\<lparr>ReturnURL := a\<rparr>) = wf_profile p" "wf_profile (p\<lparr>DefaultUserGroupID := a\<rparr>) = wf_profile p"
  "wf_profile (p\<lparr>CustomUserGroupField := a\<rparr>) = wf_profile p"
  "wf_profile (p\<lparr>UserGroupSeparator := a\<rparr>) = wf_profile p"
  "wf_profile (p\<lparr>SSOOnlyForRegisteredUsers := b\<rparr>) = wf_profile p"
  by (simp_all add: wf_profile_def)

lemma keeps_set_string: "(\<And>a p. Q p \<Longrightarrow> Q (upd (\<lambda>_. a) p)) \<Longrightarrow> keeps Q (set_string upd)"
  by (auto simp: keeps_def set_string_def split: json.splits)

lemma keeps_set_bool: "(\<And>a p. Q p \<Longrightarrow> Q (upd (\<lambda>_. a) p)) \<Longrightarrow> keeps Q (set_bool upd)"
  by (auto simp: keeps_def set_bool_def split: json.splits)

lemma keeps_constraints: "keeps wf_profile set_constraints"
  by (simp add: keeps_def set_constraints_def case_prod_unfold Let_def)

lemma keeps_provider_config: "keeps wf_profile (set_any ProviderConfig_update)"
  using go_any_wf_any(1) by (auto simp: keeps_def set_any_def wf_profile_def)

lemma keeps_handler_config: "keeps wf_profile (set_any_map IdentityHandlerConfig_update)"
proof -
  have "wf_any (JObj (fold (\<lambda>(k, v). map_put k v) (go_any_members m) (case old of None \<Rightarrow> [] | Some x \<Rightarrow> x)))"
    if "\<forall>(k, x)\<in>set m. wf_json x" "case old of None \<Rightarrow> True | Some m \<Rightarrow> wf_any (JObj m)" for m old
    using that go_any_wf_any(3) by (intro fold_map_put_wf) (auto split: option.splits)
  then show ?thesis
    by (auto simp: keeps_def set_any_map_def wf_profile_def simp del: wf_any.simps split: json.splits)
qed

lemma fold_map_put_wf_map: "wf_map a \<Longrightarrow> wf_map (fold (\<lambda>(k, v). map_put k v) m a)"
  by (induction m arbitrary: a) auto

lemma keeps_group_mapping: "keeps wf_profile (set_string_map UserGroupMapping_update)"
  by (auto simp: keeps_def set_string_map_def wf_profile_def fold_map_put_wf_map [unfolded case_prod_unfold] case_prod_unfold Let_def
      split: json.splits option.splits)

lemma profile_fields_keep: "\<forall>(n, f)\<in>set profile_fields. keeps wf_profile f"
  by (simp add: profile_fields_def keeps_set_string keeps_set_bool keeps_constraints keeps_provider_config
      keeps_handler_config keeps_group_mapping)

lemma unmarshal_profile_wf: "wf_profile (snd (unmarshal_profile t))"
proof -
  have "wf_profile zero_profile" by (simp add: wf_profile_def zero_profile_def)
  then show ?thesis
    unfolding unmarshal_profile_def
    by (rule Unmarshal_keeps [OF unmarshal_struct_keeps [OF profile_fields_keep]])
qed

end
