(* ===== verification/Profile_Api.thy ===== *)
theory Profile_Api
  imports Data_Loader Decoding
begin

section \<open>The profile API (api.go)\<close>

text \<open>
  The handlers under \<^verbatim>\<open>/api/profiles\<close>. A handler acts on the profile store and on what profiles are
  saved to, and yields the response. The store's operations are arguments, as in
  \<^verbatim>\<open>AuthConfigStore\<close>'s type; the loader's flush is one too (\<^verbatim>\<open>GlobalDataLoader.Flush\<close>).
\<close>

record ('s, 'd) profile_store =
  psGet :: "string \<Rightarrow> string \<Rightarrow> 's \<Rightarrow> go_error option \<times> profile"
  psSet :: "string \<Rightarrow> string \<Rightarrow> go_value \<Rightarrow> ('s, go_error option) act"
  psDelete :: "string \<Rightarrow> string \<Rightarrow> 's \<Rightarrow> go_error option \<times> 's"
  psGetAll :: "string \<Rightarrow> 's \<Rightarrow> go_value list option"
  psFlush :: "'s \<Rightarrow> ('d, go_error option) act"

type_synonym ('s, 'd) api_handler = "http_request \<Rightarrow> ('s \<times> 'd, response) act"

definition reply_http_error :: "http_error \<Rightarrow> response" where
  "reply_http_error e = HandleAPIError (Message e) (Code e)"

definition HandleGetProfileList :: "('s, 'd) profile_store \<Rightarrow> ('s, 'd) api_handler" where
  "HandleGetProfileList ps r = (\<lambda>(s, d).
     (Returns (HandleAPIOK (values_json (psGetAll ps '''' s)) '''' 200), (s, d)))"

definition HandleGetProfile :: "('s, 'd) profile_store \<Rightarrow> ('s, 'd) api_handler" where
  "HandleGetProfile ps r = (\<lambda>(s, d).
     let key = mux_var r ''id'';
         (keyErr, thisProfile) = psGet ps key (OrgID zero_profile) s
     in (Returns (if keyErr \<noteq> None then HandleAPIError ''Profile not found'' 404
                  else HandleAPIOK (profile_json thisProfile) key 200), (s, d)))"

definition HandleAddProfile :: "('s, 'd) profile_store \<Rightarrow> ('s, 'd) api_handler" where
  "HandleAddProfile ps r =
     (let key = mux_var r ''id'' in
      case req_body r of
        Inl err \<Rightarrow> return_act (HandleAPIError ''Invalid request data'' 400)
      | Inr profileData \<Rightarrow>
          (case unmarshal_profile profileData of
             (Some decodeErr, _) \<Rightarrow> return_act (HandleAPIError ''Failed to decode body data'' 400)
           | (None, thisProfile) \<Rightarrow>
               if ID thisProfile \<noteq> key
               then return_act (HandleAPIError ''Object ID and URI resource ID do not match'' 400)
               else
                 bind_act (AddProfile (psGet ps) (psSet ps) (psFlush ps) thisProfile) (\<lambda>httpErr.
                   return_act
                     (case httpErr of
                        Some e \<Rightarrow> reply_http_error e
                      | None \<Rightarrow> HandleAPIOK (profile_json thisProfile) key 201))))"

definition HandleUpdateProfile :: "('s, 'd) profile_store \<Rightarrow> ('s, 'd) api_handler" where
  "HandleUpdateProfile ps r =
     (let key = mux_var r ''id'' in
      case req_body r of
        Inl err \<Rightarrow> return_act (HandleAPIError ''Invalid request data'' 400)
      | Inr profileData \<Rightarrow>
          (case unmarshal_profile profileData of
             (Some decodeErr, _) \<Rightarrow> return_act (HandleAPIError ''Failed to decode body data'' 400)
           | (None, thisProfile) \<Rightarrow>
               bind_act (UpdateProfile (psGet ps) (psSet ps) (psFlush ps) key thisProfile) (\<lambda>updateErr.
                 return_act
                   (case updateErr of
                      Some e \<Rightarrow> reply_http_error e
                    | None \<Rightarrow> HandleAPIOK (profile_json thisProfile) key 200))))"

definition HandleDeleteProfile :: "('s, 'd) profile_store \<Rightarrow> ('s, 'd) api_handler" where
  "HandleDeleteProfile ps r =
     (let key = mux_var r ''id'' in
      bind_act (DeleteProfile (psGet ps) (psDelete ps) (psFlush ps) key '''') (\<lambda>err.
        return_act
          (case err of
             Some e \<Rightarrow> reply_http_error e
           | None \<Rightarrow> HandleAPIOK (JObj []) key 200)))"

subsection \<open>Authentication and routes\<close>

definition IsAuthenticated :: "string \<Rightarrow> ('s, 'd) api_handler \<Rightarrow> ('s, 'd) api_handler" where
  "IsAuthenticated secret h r =
     (if header_get r ''Authorization'' \<noteq> secret
      then return_act (HandleAPIError ''Authorization failed'' 401)
      else h r)"

text \<open>The routes \<^verbatim>\<open>main\<close> registers for the API: method, path, and the handler behind it. The router
  itself (\<^verbatim>\<open>gorilla/mux\<close>) matches a request against the table.\<close>

datatype api_endpoint = Get_profile | Add_profile | Update_profile | Delete_profile | List_profiles

definition api_routes :: "(string \<times> string \<times> api_endpoint) list" where
  "api_routes =
     [(''/api/profiles/{id}'', ''GET'', Get_profile),
      (''/api/profiles/{id}'', ''POST'', Add_profile),
      (''/api/profiles/{id}'', ''PUT'', Update_profile),
      (''/api/profiles/{id}'', ''DELETE'', Delete_profile),
      (''/api/profiles'', ''GET'', List_profiles)]"

fun api_handler :: "('s, 'd) profile_store \<Rightarrow> api_endpoint \<Rightarrow> ('s, 'd) api_handler" where
  "api_handler ps Get_profile = HandleGetProfile ps"
| "api_handler ps Add_profile = HandleAddProfile ps"
| "api_handler ps Update_profile = HandleUpdateProfile ps"
| "api_handler ps Delete_profile = HandleDeleteProfile ps"
| "api_handler ps List_profiles = HandleGetProfileList ps"

definition serve_api :: "string \<Rightarrow> ('s, 'd) profile_store \<Rightarrow> api_endpoint \<Rightarrow> ('s, 'd) api_handler" where
  "serve_api secret ps e = IsAuthenticated secret (api_handler ps e)"

definition listen_addr :: "configuration \<Rightarrow> string" where
  "listen_addr c = '':'' @ itoa (if Conf_Port c \<noteq> 0 then Conf_Port c else 3010)"

subsection \<open>Requests and the registry\<close>

text \<open>The operation on the registry a request asks for, or the status it is refused with before that.\<close>

definition requested :: "api_endpoint \<Rightarrow> http_request \<Rightarrow> int + registry_op" where
  "requested e r =
     (let key = mux_var r ''id''; decoded = (case req_body r of
            Inl err \<Rightarrow> Inl 400
          | Inr b \<Rightarrow> (case unmarshal_profile b of (Some e, _) \<Rightarrow> Inl 400 | (None, p) \<Rightarrow> Inr p))
      in
      case e of
        Add_profile \<Rightarrow>
          (case decoded of Inl c \<Rightarrow> Inl c | Inr p \<Rightarrow> if ID p \<noteq> key then Inl 400 else Inr (Add p))
      | Update_profile \<Rightarrow> (case decoded of Inl c \<Rightarrow> Inl c | Inr p \<Rightarrow> Inr (Update key p))
      | Delete_profile \<Rightarrow> Inr (Delete key)
      | _ \<Rightarrow> Inl 200)"

fun success_status :: "registry_op \<Rightarrow> int" where
  "success_status (Add p) = 201"
| "success_status _ = 200"

definition writes :: "api_endpoint \<Rightarrow> bool" where
  "writes e \<longleftrightarrow> e \<in> {Add_profile, Update_profile, Delete_profile}"

lemma requested_wf: "requested e r = Inr c \<Longrightarrow> wf_op c"
proof -
  have "wf_profile p" if "unmarshal_profile b = (x, p)" for b x p
    using unmarshal_profile_wf [of b] that by simp
  then show "requested e r = Inr c \<Longrightarrow> wf_op c"
    by (auto simp: requested_def Let_def split: api_endpoint.splits sum.splits prod.splits option.splits if_splits)
qed

text \<open>A request that asks for an operation is that operation, with the reply made from its outcome.\<close>

definition reply_of :: "registry_op \<Rightarrow> http_error option \<Rightarrow> response" where
  "reply_of c err =
     (case err of
        Some e \<Rightarrow> reply_http_error e
      | None \<Rightarrow>
          (case c of
             Add p \<Rightarrow> HandleAPIOK (profile_json p) (ID p) 201
           | Update k p \<Rightarrow> HandleAPIOK (profile_json p) k 200
           | Delete k \<Rightarrow> HandleAPIOK (JObj []) k 200))"

abbreviation store_op :: "('s, 'd) profile_store \<Rightarrow> registry_op \<Rightarrow> ('s \<times> 'd, http_error option) act" where
  "store_op ps \<equiv> run_op (psGet ps) (psSet ps) (psDelete ps) (psFlush ps)"

lemma api_handler_refused:
  "writes e \<Longrightarrow> requested e r = Inl code \<Longrightarrow>
    \<exists>m. api_handler ps e r = return_act (HandleAPIError m 400) \<and> code = 400"
  by (cases e)
    (auto simp: writes_def requested_def Let_def HandleAddProfile_def HandleUpdateProfile_def
      split: sum.splits prod.splits option.splits if_splits)

lemma api_handler_run:
  "writes e \<Longrightarrow> requested e r = Inr c \<Longrightarrow>
    api_handler ps e r = bind_act (store_op ps c) (\<lambda>err. return_act (reply_of c err))"
  by (cases e)
    (auto simp: writes_def requested_def Let_def HandleAddProfile_def HandleUpdateProfile_def
      HandleDeleteProfile_def reply_of_def cong: option.case_cong
      split: sum.splits prod.splits option.splits if_splits)

lemma reply_of_status:
  "resp_status (reply_of c err) = (case err of Some e \<Rightarrow> Code e | None \<Rightarrow> success_status c)"
  by (auto simp: reply_of_def reply_http_error_def split: option.split registry_op.split)

text \<open>A request that does not write leaves the store and what is saved alone.\<close>

lemma api_handler_reads: "\<not> writes e \<Longrightarrow> snd (api_handler ps e r w) = w"
  by (cases e; cases w)
    (auto simp: writes_def HandleGetProfile_def HandleGetProfileList_def Let_def case_prod_unfold)

lemma serve_api_unauthenticated:
  "header_get r ''Authorization'' \<noteq> secret \<Longrightarrow>
    serve_api secret ps e r w = (Returns (HandleAPIError ''Authorization failed'' 401), w)"
  by (simp add: serve_api_def IsAuthenticated_def)

lemma serve_api_authenticated:
  "header_get r ''Authorization'' = secret \<Longrightarrow> serve_api secret ps e r = api_handler ps e r"
  by (simp add: serve_api_def IsAuthenticated_def)

subsection \<open>The broker's own store\<close>

text \<open>The in-memory store with a flush; \<open>order\<close> is the order a listing visits the map in.\<close>

definition mem_store ::
    "(in_memory \<Rightarrow> string list) \<Rightarrow> (in_memory \<Rightarrow> ('d, go_error option) act) \<Rightarrow> (in_memory, 'd) profile_store" where
  "mem_store order flush =
     \<lparr>psGet = in_memory_GetProfile, psSet = in_memory_SetKey, psDelete = in_memory_DeleteKey,
      psGetAll = (\<lambda>org m. Some (in_memory_GetAll (order m) org m)), psFlush = flush\<rparr>"

definition registry_ok :: "in_memory \<Rightarrow> bool" where
  "registry_ok m \<longleftrightarrow> in_memory_inv m \<and> keyed (in_memory_view m)"

lemma mem_run_op:
  assumes "registry_ok m" and "wf_op c"
  shows "case registry_step c (in_memory_view m) of
      Inl code \<Rightarrow> \<exists>e. store_op (mem_store order flush) c (m, d) = (Returns (Some e), (m, d)) \<and> Code e = code
    | Inr r \<Rightarrow> \<exists>m'. in_memory_inv m' \<and> in_memory_view m' = r \<and>
        store_op (mem_store order flush) c (m, d) = (flush_outcome (fst (flush m' d)), (m', snd (flush m' d)))"
proof -
  have op: "store_op (mem_store order flush) c =
      run_op in_memory_GetProfile in_memory_SetKey in_memory_DeleteKey flush c"
    by (simp add: mem_store_def)
  show ?thesis
    unfolding op using assms unfolding registry_ok_def by (intro mem.run_op_refines) simp_all
qed

lemma mem_run_op_ok:
  assumes "registry_ok m" and "wf_op c"
  shows "registry_ok (fst (snd (store_op (mem_store order flush) c (m, d))))"
  using mem_run_op [OF assms, of order flush d] assms(1)
    registry_step_keyed [of "in_memory_view m" c]
  by (auto simp: registry_ok_def split: sum.splits)

text \<open>The states the store goes through: it starts empty, is loaded with the profiles of some text, and
  serves requests.\<close>

inductive api_reachable ::
    "string \<Rightarrow> (in_memory, 'd) profile_store \<Rightarrow> in_memory \<times> 'd \<Rightarrow> bool" for secret ps where
  initial: "api_reachable secret ps (snd (in_memory_Init m0), d)"
| loading: "api_reachable secret ps (m, d) \<Longrightarrow> unmarshal_profiles t = (None, profiles) \<Longrightarrow>
    api_reachable secret ps (snd (load_profiles in_memory_SetKey profiles m), d)"
| serving: "api_reachable secret ps w \<Longrightarrow> api_reachable secret ps (snd (serve_api secret ps e r w))"

inductive_cases api_reachable_cases: "api_reachable secret ps w"

lemma profile_elems_wf: "\<forall>j\<in>set js. wf_json j \<Longrightarrow> \<forall>p\<in>set (snd (profile_elems js)). wf_profile p"
proof (induction js)
  case (Cons j js)
  have "wf_profile (snd (unmarshal_struct profile_fields j zero_profile))"
    using unmarshal_struct_keeps [OF profile_fields_keep] Cons.prems by (simp add: keeps_def)
  with Cons show ?case by (simp add: case_prod_unfold Let_def)
qed simp

lemma unmarshal_profiles_wf: "unmarshal_profiles t = (e, ps) \<Longrightarrow> \<forall>p\<in>set ps. wf_profile p"
proof -
  have "keeps (\<lambda>ps. \<forall>p\<in>set ps. wf_profile p) set_profiles"
    using profile_elems_wf by (auto simp: keeps_def set_profiles_def split: json.splits)
  then show "unmarshal_profiles t = (e, ps) \<Longrightarrow> \<forall>p\<in>set ps. wf_profile p"
    using Unmarshal_keeps [of "\<lambda>ps. \<forall>p\<in>set ps. wf_profile p" set_profiles "[]" t]
    by (simp add: unmarshal_profiles_def)
qed

lemma keyed_upd: "keyed m \<Longrightarrow> keyed (m(ID p \<mapsto> p))"
  by (simp add: keyed_def)

lemma foldl_keyed: "keyed m \<Longrightarrow> keyed (foldl (\<lambda>m p. m(ID p \<mapsto> p)) m ps)"
  by (induction ps arbitrary: m) (simp_all add: keyed_upd del: fun_upd_apply)

lemma api_step_ok:
  assumes "registry_ok m"
  shows "registry_ok (fst (snd (serve_api secret (mem_store order flush) e r (m, d))))"
proof (cases "header_get r ''Authorization'' = secret \<and> writes e")
  case False
  then show ?thesis
    using assms api_handler_reads [of e "mem_store order flush" r "(m, d)"]
    by (cases "header_get r ''Authorization'' = secret")
      (auto simp: serve_api_authenticated serve_api_unauthenticated)
next
  case True
  show ?thesis
  proof (cases "requested e r")
    case (Inl code)
    with True assms api_handler_refused [of e r code "mem_store order flush"] show ?thesis
      by (auto simp: serve_api_authenticated)
  next
    case (Inr c)
    with True show ?thesis
      using mem_run_op_ok [OF assms requested_wf [OF Inr], of order flush d]
      by (simp add: serve_api_authenticated api_handler_run bind_act_return_snd)
  qed
qed

lemma api_reachable_ok: "api_reachable secret (mem_store order flush) w \<Longrightarrow> registry_ok (fst w)"
proof (induction rule: api_reachable.induct)
  case (initial m0 d)
  then show ?case
    by (auto simp: registry_ok_def in_memory_inv_Init)
      (simp add: in_memory_view_def in_memory_Init_def map_get_def keyed_def)
next
  case (loading m d t profiles)
  then obtain s' where "load_profiles in_memory_SetKey profiles m = (Returns (), s')" "in_memory_inv s'"
    "in_memory_view s' = foldl (\<lambda>m p. m(ID p \<mapsto> p)) (in_memory_view m) profiles"
    using mem.load_profiles_view [of m profiles] unmarshal_profiles_wf [OF loading(2)]
    by (auto simp: registry_ok_def)
  with loading show ?case by (simp add: registry_ok_def foldl_keyed)
next
  case (serving w e r)
  then show ?case using api_step_ok [of "fst w" secret order flush e r "snd w"] by simp
qed

end
