(* ===== verification/Broker.thy ===== *)
theory Broker
  imports Auth_Handlers Profile_Api
begin

section \<open>The broker (initializer.go, main.go)\<close>

text \<open>
  How the parts are put together: the stores \<^verbatim>\<open>InitBackend\<close> makes, the options a Redis connection is
  opened with, the routes, and the system as a whole. Its state is the profile store, what profiles
  are saved to, and the state of the login side; a step serves one request.
\<close>

subsection \<open>Stores\<close>

text \<open>The profile store and the identity store; \<open>c0\<close> is the connection of the second.\<close>

definition InitBackend :: "'r \<Rightarrow> in_memory \<times> 'r redis" where
  "InitBackend c0 =
     (snd (in_memory_Init \<lparr>kv = None\<rparr>), \<lparr>client = c0, KeyPrefix = ''identity-cache.''\<rparr>)"

definition CreateInMemoryBackend :: in_memory where
  "CreateInMemoryBackend = snd (in_memory_Init \<lparr>kv = None\<rparr>)"

definition redis_SetDb :: "'r \<Rightarrow> 'r redis \<Rightarrow> 'r redis" where
  "redis_SetDb c r = r\<lparr>client := c\<rparr>"

definition CreateBackendFromRedisConn :: "'r \<Rightarrow> string \<Rightarrow> 'r redis" where
  "CreateBackendFromRedisConn c keyPrefix = \<lparr>client = c, KeyPrefix = keyPrefix\<rparr>"

lemma CreateBackendFromRedisConn_SetDb:
  "CreateBackendFromRedisConn c p = redis_SetDb c (CreateBackendFromRedisConn c0 p)"
  by (simp add: CreateBackendFromRedisConn_def redis_SetDb_def)

text \<open>The Mongo store as an embedding program may use it for the profiles.\<close>

definition CreateMongoBackend ::
    "'m document_store \<Rightarrow> ('m \<Rightarrow> ('d, go_error option) act) \<Rightarrow> ('m, 'd) profile_store" where
  "CreateMongoBackend ops flush =
     \<lparr>psGet = mongo_GetKey ops unmarshal_profile, psSet = mongo_SetKey ops, psDelete = mongo_DeleteKey ops,
      psGetAll = (\<lambda>org m. Some (mongo_GetAll ops org m)), psFlush = flush\<rparr>"

lemma InitBackend_profiles: "fst (InitBackend c0) = CreateInMemoryBackend"
  by (simp add: InitBackend_def CreateInMemoryBackend_def)

text \<open>The store \<^verbatim>\<open>main\<close> keeps path parameters in.\<close>

definition config_store :: "'r \<Rightarrow> 'r redis" where
  "config_store c0 = \<lparr>client = c0, KeyPrefix = ''tib-provider-config-''\<rparr>"

record redis_options =
  opt_Username :: string
  opt_Password :: string
  opt_Host :: string
  opt_Port :: int
  opt_Timeout :: int
  opt_Hosts :: "string gomap"
  opt_Addrs :: "string list"
  opt_MasterName :: string
  opt_SentinelPassword :: string
  opt_Database :: int
  opt_MaxActive :: int
  opt_EnableCluster :: bool

record tls_options =
  tls_Enable :: bool
  tls_InsecureSkipVerify :: bool
  tls_CAFile :: string
  tls_CertFile :: string
  tls_KeyFile :: string
  tls_MinVersion :: string
  tls_MaxVersion :: string

definition redis_Connect_options :: "identity_backend_settings \<Rightarrow> redis_options \<times> tls_options" where
  "redis_Connect_options conf =
     (\<lparr>opt_Username = Redis_Username conf, opt_Password = Redis_Password conf, opt_Host = Redis_Host conf,
       opt_Port = Redis_Port conf, opt_Timeout = Redis_Timeout conf, opt_Hosts = Redis_Hosts conf,
       opt_Addrs = Redis_Addrs conf, opt_MasterName = Redis_MasterName conf,
       opt_SentinelPassword = Redis_SentinelPassword conf, opt_Database = Redis_Database conf,
       opt_MaxActive = Redis_MaxActive conf, opt_EnableCluster = Redis_EnableCluster conf\<rparr>,
      \<lparr>tls_Enable = Redis_UseSSL conf, tls_InsecureSkipVerify = Redis_SSLInsecureSkipVerify conf,
       tls_CAFile = Redis_CAFile conf, tls_CertFile = Redis_CertFile conf, tls_KeyFile = Redis_KeyFile conf,
       tls_MinVersion = Redis_MinVersion conf, tls_MaxVersion = Redis_MaxVersion conf\<rparr>)"

text \<open>The two Redis stores may share a server: no key of one is a key of the other.\<close>

lemma stores_disjoint: "fixKey (snd (InitBackend c0)) k \<noteq> fixKey (config_store c1) k'"
  by (simp add: fixKey_def InitBackend_def config_store_def)

subsection \<open>Routes and requests\<close>

text \<open>What an embedding program may set: the certificate store, which the social and the SAML provider share, and the store of
  the path parameters.\<close>

definition SetCertManager ::
    "(string \<Rightarrow> 'k option list) \<Rightarrow> ('k, 'm, 'g, 'ss, 'st, 'p) auth_env \<Rightarrow> ('k, 'm, 'g, 'ss, 'st, 'p) auth_env" where
  "SetCertManager cm A =
     A\<lparr>ae_saml := (ae_saml A)\<lparr>certificates := cm\<rparr>, ae_social := (ae_social A)\<lparr>cert_list := cm\<rparr>\<rparr>"

definition SetParamsStoreHandler ::
    "'p param_store \<Rightarrow> ('k, 'm, 'g, 'ss, 'st, 'p) auth_env \<Rightarrow> ('k, 'm, 'g, 'ss, 'st, 'p) auth_env" where
  "SetParamsStoreHandler newParamsStore A = A\<lparr>ae_params := newParamsStore\<rparr>"

datatype auth_route = Auth_login | Auth_callback | Auth_metadata

definition auth_routes :: "(string \<times> auth_route) list" where
  "auth_routes =
     [(''/auth/{id}/{provider}/callback'', Auth_callback),
      (''/auth/{id}/{provider}'', Auth_login),
      (''/auth/{id}/saml/metadata'', Auth_metadata)]"

fun auth_handler ::
    "('k, 'm, 'g, 'ss, 'st, 'p) auth_env \<Rightarrow> (string \<Rightarrow> string \<Rightarrow> go_error option \<times> profile) \<Rightarrow> auth_route \<Rightarrow>
      http_request \<Rightarrow> (('st, 'p) auth_state, unit) act" where
  "auth_handler A get_key Auth_login r = HandleAuth A get_key r"
| "auth_handler A get_key Auth_callback r = HandleAuthCallback A get_key r"
| "auth_handler A get_key Auth_metadata r = HandleMetadata A get_key r"

datatype broker_request = Api api_endpoint http_request | Login auth_route http_request

type_synonym ('d, 'st, 'p) broker = "(in_memory \<times> 'd) \<times> ('st, 'p) auth_state"

text \<open>Every request gets a response of its own.\<close>

definition fresh_response :: "('st, 'p) auth_state \<Rightarrow> ('st, 'p) auth_state" where
  "fresh_response a = a\<lparr>as_world := (as_world a)\<lparr>resp := []\<rparr>\<rparr>"

fun serve ::
    "('k, 'm, 'g, 'ss, 'st, 'p) auth_env \<Rightarrow> string \<Rightarrow> (in_memory, 'd) profile_store \<Rightarrow> broker_request \<Rightarrow>
      ('d, 'st, 'p) broker \<Rightarrow> ('d, 'st, 'p) broker" where
  "serve A secret ps (Api e r) (w, a) = (snd (serve_api secret ps e r w), a)"
| "serve A secret ps (Login route r) (w, a) =
     (w, snd (auth_handler A (\<lambda>k org. psGet ps k org (fst w)) route r (fresh_response a)))"

text \<open>The runs of the broker: it starts with nothing but an empty store, loads profiles, and serves
  requests one after the other.\<close>

inductive broker_reachable ::
    "('k, 'm, 'g, 'ss, 'st, 'p) auth_env \<Rightarrow> string \<Rightarrow> (in_memory, 'd) profile_store \<Rightarrow>
      ('d, 'st, 'p) broker \<Rightarrow> bool" for A secret ps where
  starting: "calls (as_world a) = [] \<Longrightarrow> broker_reachable A secret ps ((CreateInMemoryBackend, d), a)"
| loading: "broker_reachable A secret ps ((m, d), a) \<Longrightarrow> unmarshal_profiles t = (None, profiles) \<Longrightarrow>
    broker_reachable A secret ps ((snd (load_profiles in_memory_SetKey profiles m), d), a)"
| serving: "broker_reachable A secret ps b \<Longrightarrow> broker_reachable A secret ps (serve A secret ps q b)"

inductive_cases broker_reachable_cases: "broker_reachable A secret ps b"

subsection \<open>Lemmas\<close>

text \<open>The registry side of a run of the broker is a run of the API alone.\<close>

lemma broker_api: "broker_reachable A secret ps b \<Longrightarrow> api_reachable secret ps (fst b)"
proof (induction rule: broker_reachable.induct)
  case (starting a d)
  show ?case unfolding CreateInMemoryBackend_def fst_conv by (rule api_reachable.initial)
next
  case (loading m d a t profiles)
  then show ?case by (simp add: api_reachable.loading)
next
  case (serving b q)
  then show ?case by (cases b; cases q) (auto intro: api_reachable.serving)
qed

lemma auth_handler_calls:
  assumes "calls (as_world (snd (auth_handler A get_key route r a))) \<noteq> calls (as_world a)"
  shows "\<exists>i conf. getId r = Inr i \<and> get_key i '''' = (None, conf) \<and>
    extends_with (tyk_call (ae_tyk A) (profile_credential conf)) (calls (as_world a))
      (calls (as_world (snd (auth_handler A get_key route r a))))"
  using assms HandleAuth_calls [of A get_key r a] HandleAuthCallback_calls [of A get_key r a]
  by (cases route) (simp_all add: HandleMetadata_calls)

text \<open>What is in the store a request finds is registered, under the identifier of the request.\<close>

lemma registry_lookup:
  assumes "registry_ok m" and "in_memory_GetProfile i org m = (None, conf)"
  shows "in_memory_view m i = Some conf \<and> ID conf = i \<and> wf_profile conf"
proof -
  have inv: "in_memory_inv m" and keyed: "keyed (in_memory_view m)" using assms(1) by (simp_all add: registry_ok_def)
  have "i \<in> dom (in_memory_view m)" using mem.get_ok_iff [OF inv, of i org] assms(2) by simp
  then obtain p where p: "in_memory_view m i = Some p" by blast
  with mem.get_present [OF inv p, of org] assms(2) have "p = conf" by simp
  with p keyed in_memory_view_wf [OF inv p] show ?thesis by (simp add: keyed_def)
qed

definition api_call :: "tyk_api \<Rightarrow> call \<Rightarrow> bool" where
  "api_call t c \<longleftrightarrow> (\<exists>cred. tyk_call t cred c)"

lemma broker_calls:
  "broker_reachable A secret ps b \<Longrightarrow> list_all (api_call (ae_tyk A)) (calls (as_world (snd b)))"
proof (induction rule: broker_reachable.induct)
  case (serving b q)
  obtain w a where b: "b = (w, a)" by (cases b)
  show ?case
  proof (cases q)
    case (Login route r)
    let ?get = "\<lambda>k org. psGet ps k org (fst w)"
    let ?a = "fresh_response a"
    have same: "calls (as_world ?a) = calls (as_world a)" by (simp add: fresh_response_def)
    show ?thesis
    proof (cases "calls (as_world (snd (auth_handler A ?get route r ?a))) = calls (as_world ?a)")
      case False
      from auth_handler_calls [OF this] obtain conf where
        "extends_with (tyk_call (ae_tyk A) (profile_credential conf)) (calls (as_world ?a))
          (calls (as_world (snd (auth_handler A ?get route r ?a))))" by blast
      then obtain cs where "calls (as_world (snd (auth_handler A ?get route r ?a))) = calls (as_world a) @ cs"
        "list_all (tyk_call (ae_tyk A) (profile_credential conf)) cs"
        unfolding extends_with_def same by blast
      moreover from this(2) have "list_all (api_call (ae_tyk A)) cs"
        by (auto simp: list_all_iff api_call_def)
      ultimately show ?thesis using serving.IH Login b by simp
    qed (use serving.IH Login b same in simp)
  qed (use serving.IH b in simp)
qed simp_all

text \<open>A profile that is not registered cannot be logged in to.\<close>

lemma GetTapProfile_missing:
  assumes "registry_ok m" and "in_memory_view m i = None"
  shows "\<exists>e. GetTapProfile A (\<lambda>k org. in_memory_GetProfile k org m) i =
    Returns (Inl \<lparr>Message = ''Profile '' @ i @ '' not found'', Code = 404, Error = Some e\<rparr>)"
proof -
  have inv: "in_memory_inv m" using assms(1) by (simp add: registry_ok_def)
  obtain e where "fst (in_memory_GetProfile i '''' m) = Some e" using mem.get_absent [OF inv assms(2)] by blast
  then obtain p where "in_memory_GetProfile i '''' m = (Some e, p)" by (cases "in_memory_GetProfile i '''' m") auto
  then show ?thesis by (simp add: GetTapProfile_def zero_profile_def)
qed

end
