(* ===== verification/Startup.thy ===== *)
theory Startup
  imports Broker
begin

section \<open>Starting up (main.go, redis.go)\<close>

text \<open>
  What happens before the first request: the connections to Redis, the configuration, the stores, the loader
  and the profiles it loads, the session store, and the listener. Arguments: the connector of Redis, the
  files, the document store and how one connects to it, the certificates and the listening sockets.
\<close>

subsection \<open>Connecting to Redis\<close>

text \<open>The settings go through their JSON text before they are used.\<close>

definition settings_json :: "identity_backend_settings \<Rightarrow> json" where
  "settings_json c = JObj
     [(''Database'', JInt (Redis_Database c)),
      (''Username'', JStr (Redis_Username c)),
      (''Password'', JStr (Redis_Password c)),
      (''Host'', JStr (Redis_Host c)),
      (''Port'', JInt (Redis_Port c)),
      (''Timeout'', JInt (Redis_Timeout c)),
      (''MaxIdle'', JInt (Redis_MaxIdle c)),
      (''MaxActive'', JInt (Redis_MaxActive c)),
      (''UseSSL'', JBool (Redis_UseSSL c)),
      (''SSLInsecureSkipVerify'', JBool (Redis_SSLInsecureSkipVerify c)),
      (''CAFile'', JStr (Redis_CAFile c)),
      (''CertFile'', JStr (Redis_CertFile c)),
      (''KeyFile'', JStr (Redis_KeyFile c)),
      (''MaxVersion'', JStr (Redis_MaxVersion c)),
      (''MinVersion'', JStr (Redis_MinVersion c)),
      (''EnableCluster'', JBool (Redis_EnableCluster c)),
      (''Addrs'', JArr (map JStr (Redis_Addrs c))),
      (''Hosts'', string_map_json (Some (Redis_Hosts c))),
      (''MasterName'', JStr (Redis_MasterName c)),
      (''SentinelPassword'', JStr (Redis_SentinelPassword c))]"

definition redis_config_of :: "identity_backend_settings \<Rightarrow> go_error option \<times> identity_backend_settings" where
  "redis_config_of conf =
     Unmarshal (unmarshal_struct settings_fields) (print_json (settings_json conf))
       (IdentityBackendSettings zero_configuration)"

text \<open>The connection, by a connector from the options and a client from the connector.\<close>

definition redis_Connect ::
    "(redis_options \<times> tls_options \<Rightarrow> 'c result) \<Rightarrow> ('c \<Rightarrow> 'r result) \<Rightarrow> identity_backend_settings \<Rightarrow> 'r result" where
  "redis_Connect connector new_kv conf = rbind (connector (redis_Connect_options conf)) new_kv"

definition redis_Init ::
    "(redis_options \<times> tls_options \<Rightarrow> 'c result) \<Rightarrow> ('c \<Rightarrow> 'r result) \<Rightarrow> identity_backend_settings \<Rightarrow> 'r result" where
  "redis_Init connector new_kv conf =
     (case redis_config_of conf of
        (Some err, _) \<Rightarrow> Inl err
      | (None, fixedConf) \<Rightarrow> redis_Connect connector new_kv fixedConf)"

text \<open>Settings of a running program: the numbers have 64 bits, and a map has every key once.\<close>

definition settings_in_range :: "identity_backend_settings \<Rightarrow> bool" where
  "settings_in_range c \<longleftrightarrow>
     (\<forall>i\<in>{Redis_Database c, Redis_Port c, Redis_Timeout c, Redis_MaxIdle c, Redis_MaxActive c}.
        - (2 ^ 63) \<le> i \<and> i < 2 ^ 63) \<and>
     wf_map (Redis_Hosts c)"

lemma redis_config_same:
  assumes "settings_in_range c"
  shows "redis_config_of c = (None, c)"
proof -
  have "json_decode (print_json (settings_json c)) = Some (settings_json c)"
    by (rule json_decode_print) (auto simp: settings_json_def string_map_json_def)
  moreover have "unmarshal_struct settings_fields (settings_json c) (IdentityBackendSettings zero_configuration) = (True, c)"
    using assms
    by (simp add: unmarshal_struct_def settings_json_def settings_fields_def find_field_exact settings_in_range_def
        set_int_def set_string_map_json update_hosts_def zero_configuration_def fold_map_put [of "[]", simplified])
  ultimately show ?thesis by (simp add: redis_config_of_def Unmarshal_def)
qed

subsection \<open>The command line\<close>

text \<open>The three flags \<^verbatim>\<open>init\<close> defines, of which two set the same variable, parsed as the package \<^verbatim>\<open>flag\<close> does: a flag
  has one or two hyphens and its value after an equals sign or as the next argument; the first argument that is no
  flag, or two hyphens, end the flags. \<^const>\<open>None\<close> is an error or a request for help, which end the process.\<close>

record flags =
  confFile :: string
  ProfileFilename :: string

definition default_flags :: flags where
  "default_flags = \<lparr>confFile = ''tib.conf'', ProfileFilename = ''./profiles.json''\<rparr>"

definition set_flag :: "string \<Rightarrow> string \<Rightarrow> flags \<Rightarrow> flags option" where
  "set_flag name value f =
     (if name = ''conf'' \<or> name = ''c'' then Some (f\<lparr>confFile := value\<rparr>)
      else if name = ''p'' then Some (f\<lparr>ProfileFilename := value\<rparr>)
      else None)"

text \<open>The name and the value of an argument that is a flag.\<close>

definition flag_name :: "string \<Rightarrow> string" where
  "flag_name s = (if HasPrefix s ''--'' then drop 2 s else drop 1 s)"

fun parse_flags :: "string list \<Rightarrow> flags \<Rightarrow> flags option" where
  "parse_flags [] f = Some f"
| "parse_flags (s # args) f =
     (if length s < 2 \<or> \<not> HasPrefix s ''-'' \<or> s = ''--'' then Some f
      else
        (let name = flag_name s in
         if name = '''' \<or> HasPrefix name ''-'' \<or> HasPrefix name ''='' then None
         else
           (case Cut name ''='' of
              Some (n, value) \<Rightarrow> (case set_flag n value f of None \<Rightarrow> None | Some f' \<Rightarrow> parse_flags args f')
            | None \<Rightarrow>
                (case args of
                   [] \<Rightarrow> None
                 | value # args' \<Rightarrow>
                     (case set_flag name value f of None \<Rightarrow> None | Some f' \<Rightarrow> parse_flags args' f')))))"

subsection \<open>The start\<close>

text \<open>The machine the broker starts on.\<close>

record ('r, 'c, 'd, 'm, 'n) host =
  h_env :: "string \<rightharpoonup> string"
  h_connector :: "redis_options \<times> tls_options \<Rightarrow> 'c result"
  h_new_kv :: "'c \<Rightarrow> 'r result"
  h_files :: "'d os_files"
  h_disk :: 'd
  h_connect :: "client_opts \<Rightarrow> 'n \<Rightarrow> (go_error option \<times> 'm) \<times> 'n"
  h_net :: 'n
  h_docs :: "'m document_store"
  h_mgo :: string
  h_official :: string
  h_cookie_store :: "string \<Rightarrow> session_store"

text \<open>The variables of the program after the start. A Redis store without a connection is \<^const>\<open>None\<close>. The
  session store and the error handler are those of \<^verbatim>\<open>tothic\<close>; they stay \<^verbatim>\<open>nil\<close>, which is \<^const>\<open>None\<close>, when
  \<^verbatim>\<open>init\<close> returns before it sets them.
  \<open>gl_insecure_client\<close> is whether the default HTTP client, with which the providers fetch metadata, takes
  any certificate.\<close>

record 'r globals =
  gl_profiles :: in_memory
  gl_identities :: "'r redis option"
  gl_params :: "'r redis option"
  gl_tyk :: tyk_api
  gl_loader :: loader_choice
  gl_error_handler :: "(string \<Rightarrow> int \<Rightarrow> response) option"
  gl_session_store :: "session_store option"
  gl_insecure_client :: bool

text \<open>Initialising the loader and loading; connecting to Mongo may go on for ever (the outer \<^const>\<open>None\<close>).\<close>

definition load_at_start ::
    "('r, 'c, 'd, 'm, 'n) host \<Rightarrow> loader_choice \<Rightarrow> in_memory \<Rightarrow> (go_error option outcome \<times> in_memory) option" where
  "load_at_start H choice store =
     (case choice of
        Use_file conf \<Rightarrow> Some (FileLoader_LoadIntoStore (h_files H) conf in_memory_SetKey (h_disk H) store)
      | Use_mongo opts \<Rightarrow>
          (case MongoLoader_Init (h_connect H opts) (h_net H) of
             None \<Rightarrow> None
           | Some ((Some err, _), _) \<Rightarrow> Some (Returns (Some err), store)
           | Some ((None, db), _) \<Rightarrow> Some (MongoLoader_LoadIntoStore (h_docs H) in_memory_SetKey db store)))"

definition connected :: "('r \<Rightarrow> 'r redis) \<Rightarrow> 'r result \<Rightarrow> 'r redis option" where
  "connected mk res = (case res of Inl err \<Rightarrow> None | Inr c \<Rightarrow> Some (mk c))"

text \<open>When the profiles cannot be loaded \<^verbatim>\<open>init\<close> returns early, and \<^verbatim>\<open>main\<close> serves all the same.\<close>

definition main_init ::
    "('r, 'c, 'd, 'm, 'n) host \<Rightarrow> configuration \<Rightarrow> string \<Rightarrow> 'r globals outcome option" where
  "main_init H conf profileFilename =
     (let redis = redis_Init (h_connector H) (h_new_kv H) (IdentityBackendSettings conf);
          start = CreateInMemoryBackend
      in
      case CreateDataLoader (h_mgo H) (h_official H) conf profileFilename of
        Panics x \<Rightarrow> Some (Panics x)
      | Returns loader \<Rightarrow>
          (case load_at_start H loader start of
             None \<Rightarrow> None
           | Some (Panics x, _) \<Rightarrow> Some (Panics x)
           | Some (Returns err, profiles) \<Rightarrow>
               Some (Returns
                 \<lparr>gl_profiles = profiles, gl_identities = connected (\<lambda>c. snd (InitBackend c)) redis,
                  gl_params = connected config_store redis, gl_tyk = TykAPISettings conf, gl_loader = loader,
                  gl_error_handler = (if err = None then Some HandleError else None),
                  gl_session_store = (if err = None then SetupSessionStore (h_cookie_store H) (h_env H) else None),
                  gl_insecure_client = Conf_SSLInsecureSkipVerify conf\<rparr>)))"

text \<open>With the flags and the configuration that are read first; a bad flag ends the process, and so does giving up on the
  configuration. \<open>read\<close> is what the attempts to read a file yield.\<close>

definition start_broker ::
    "('r, 'c, 'd, 'm, 'n) host \<Rightarrow> (string \<Rightarrow> nat \<Rightarrow> string result) \<Rightarrow>
      (configuration \<Rightarrow> configuration) \<Rightarrow> string list \<Rightarrow> 'r globals outcome option" where
  "start_broker H read process_env args =
     Option.bind (parse_flags args default_flags) (\<lambda>f.
     Option.bind
       (LoadConfig (read (confFile f)) (h_env H) process_env
          \<lparr>failCount = 0, loaded_conf = zero_configuration, reads = 0\<rparr>)
       (\<lambda>s. main_init H (loaded_conf s) (ProfileFilename f)))"

text \<open>The variables of \<^verbatim>\<open>tothic\<close> the redirect flow then finds.\<close>

definition started_goth :: "'r globals \<Rightarrow> ('g, 'ss) goth_env \<Rightarrow> ('g, 'ss) goth_env" where
  "started_goth gl G = G\<lparr>TothErrorHandler := gl_error_handler gl, Store := gl_session_store gl\<rparr>"

subsection \<open>Listening\<close>

definition listen_port :: "configuration \<Rightarrow> int" where
  "listen_port c = (if Conf_Port c \<noteq> 0 then Conf_Port c else 3010)"

text \<open>The listener, and the TLS settings the client of the Tyk APIs gets.\<close>

definition createListener ::
    "(string \<Rightarrow> 'l result) \<Rightarrow> ('t \<Rightarrow> string \<Rightarrow> 'l result) \<Rightarrow> int \<Rightarrow> 't option \<Rightarrow> 'l outcome \<times> 't option" where
  "createListener net_listen tls_listen port tlsConfig =
     (let addr = '':'' @ itoa port;
          listener = (case tlsConfig of Some t \<Rightarrow> tls_listen t addr | None \<Rightarrow> net_listen addr)
      in (case listener of Inl err \<Rightarrow> Panics (Explicit_panic ''Server creation failed! '') | Inr l \<Rightarrow> Returns l,
          tlsConfig))"

text \<open>\<^const>\<open>None\<close> is a \<^verbatim>\<open>main\<close> that returns because the certificate could not be loaded.\<close>

definition main_listener ::
    "(string \<Rightarrow> 'l result) \<Rightarrow> ('k \<times> bool \<Rightarrow> string \<Rightarrow> 'l result) \<Rightarrow> (string \<Rightarrow> string \<Rightarrow> 'k result) \<Rightarrow> configuration \<Rightarrow>
      ('l outcome \<times> ('k \<times> bool) option) option" where
  "main_listener net_listen tls_listen load_pair c =
     (let o1 = HttpServerOptions c in
      if Server_UseSSL o1 then
        (case load_pair (Server_CertFile o1) (Server_KeyFile o1) of
           Inl err \<Rightarrow> None
         | Inr cert \<Rightarrow>
             Some (createListener net_listen tls_listen (listen_port c) (Some (cert, Server_SSLInsecureSkipVerify o1))))
      else Some (createListener net_listen tls_listen (listen_port c) None))"

subsection \<open>Lemmas\<close>

lemma CreateDataLoader_file:
  "CreateDataLoader mgo official conf f = Returns (Use_file fc) \<Longrightarrow> FileName fc = f"
  by (auto simp: CreateDataLoader_def Let_def split: if_splits option.splits)

text \<open>What the file loader leaves in the store is what loading the decoded profiles leaves, or nothing.\<close>

lemma FileLoader_LoadIntoStore_cases:
  assumes "FileLoader_LoadIntoStore os conf set_key d s = (r, s')"
  obtains e where "osReadFile os (FileName conf) d = Inl e" "r = Returns (Some e)" "s' = s"
  | t where "osReadFile os (FileName conf) d = Inr t" "fst (unmarshal_profiles t) \<noteq> None" "r = Returns None" "s' = s"
  | t ps where "osReadFile os (FileName conf) d = Inr t" "unmarshal_profiles t = (None, ps)"
      "s' = snd (load_profiles set_key ps s)" "r = Returns None \<or> (\<exists>x. r = Panics x)"
  using assms
  by (auto simp: FileLoader_LoadIntoStore_def return_act_def bind_act_def split: sum.splits prod.splits option.splits
      outcome.splits)

text \<open>The last of the flags for the configuration file wins, whichever of its two names it has.\<close>

lemma parse_flags_last:
  "parse_flags [''-conf'', a, ''--c='' @ b, ''-p'', q] default_flags = Some \<lparr>confFile = b, ProfileFilename = q\<rparr>"
proof -
  have "Cut (''c='' @ b) ''='' = Some (''c'', b)" "Cut ''conf'' ''='' = None" "Cut ''p'' ''='' = None"
    by (simp_all add: HasPrefix_def)
  then show ?thesis
    by (simp add: flag_name_def set_flag_def default_flags_def HasPrefix_def numeral_2_eq_2 Let_def)
qed

text \<open>A flag that is not known ends the process.\<close>

lemma parse_flags_unknown:
  assumes "n \<notin> {''conf'', ''c'', ''p''}" and "n \<noteq> ''''" and "CHR ''='' \<notin> set n" and "hd n \<noteq> CHR ''-''"
  shows "parse_flags ((''-'' @ n) # args) f = None"
proof -
  obtain c r where n: "n = c # r" "c \<noteq> CHR ''-''" "c \<noteq> CHR ''=''" using assms(2-4) by (cases n) auto
  have "flag_name (''-'' @ n) = n" using n by (simp add: flag_name_def HasPrefix_def)
  moreover have "\<not> HasPrefix n ''-''" "\<not> HasPrefix n ''=''" using n by (simp_all add: HasPrefix_def)
  moreover have "Cut n ''='' = None" using assms(3) by simp
  moreover have "set_flag n v f = None" for v using assms(1) by (simp add: set_flag_def)
  moreover have "\<not> (length (''-'' @ n) < 2 \<or> \<not> HasPrefix (''-'' @ n) ''-'' \<or> ''-'' @ n = ''--'')"
    using n by (simp add: HasPrefix_def)
  ultimately show ?thesis using assms(2) by (cases args) (simp_all only: parse_flags.simps Let_def if_False option.case list.case simp_thms)
qed

end
