(* ===== verification/Logging.thy ===== *)
theory Logging
  imports Go_Prelude
begin

section \<open>Loggers (log.go, and the variables that hold loggers)\<close>

text \<open>
  A program that embeds the broker can give it a logger. Each package has copies of the current one: the variable
  \<^verbatim>\<open>log\<close> (or \<^verbatim>\<open>logger\<close>) and the entries with a prefix it logs through. Some operations take the current logger
  again, and some of these only the first time they run. What is modelled is which logger each variable holds; what
  is logged, and how it looks, is not.
\<close>

subsection \<open>State\<close>

datatype log_package =
  Pkg_providers | Pkg_tyk_api | Pkg_identity_handlers | Pkg_initializer | Pkg_configuration | Pkg_data_loader | Pkg_backends

datatype log_entry =
    socialLogger | ADLogger | proxyLogger | SAMLLogger | reverseProxyLogger | tykAPILogger | tykHandlerLogger | dummyLogger
  | initializerLogger | mainLogger | dataLogger | inMemoryLogger | redisLogger

text \<open>The values of \<^verbatim>\<open>sync.Once\<close>. That of the social provider is declared and never used.\<close>

datatype once =
    onceReloadADLogger | onceReloadProxyLogger | onceReloadSAMLLogger | onceReloadReverseProxyLogger
  | onceReloadTykApiLogger | onceReloadTykIdHandlerLogger | onceReloadDummyLogger

record 'l loggers =
  std_log :: 'l
  raw_log :: 'l
  package_log :: "log_package \<Rightarrow> 'l"
  entry_log :: "log_entry \<Rightarrow> 'l"
  once_done :: "once \<Rightarrow> bool"

definition start_loggers :: "'l \<Rightarrow> 'l \<Rightarrow> 'l loggers" where
  "start_loggers l raw =
     \<lparr>std_log = l, raw_log = raw, package_log = (\<lambda>_. l), entry_log = (\<lambda>_. l), once_done = (\<lambda>_. False)\<rparr>"

subsection \<open>Operations\<close>

definition log_Get :: "'l loggers \<Rightarrow> 'l" where "log_Get s = std_log s"
definition log_GetRaw :: "'l loggers \<Rightarrow> 'l" where "log_GetRaw s = raw_log s"
definition log_SetLogger :: "'l \<Rightarrow> 'l loggers \<Rightarrow> 'l loggers" where "log_SetLogger l s = s\<lparr>std_log := l\<rparr>"

definition reload :: "log_package \<Rightarrow> log_entry \<Rightarrow> 'l loggers \<Rightarrow> 'l loggers" where
  "reload pkg e s =
     s\<lparr>package_log := (package_log s)(pkg := log_Get s), entry_log := (entry_log s)(e := log_Get s)\<rparr>"

definition once_Do :: "once \<Rightarrow> ('l loggers \<Rightarrow> 'l loggers) \<Rightarrow> 'l loggers \<Rightarrow> 'l loggers" where
  "once_Do o1 f s = (if once_done s o1 then s else (let s' = f s in s'\<lparr>once_done := (once_done s')(o1 := True)\<rparr>))"

definition initializer_SetLogger :: "'l \<Rightarrow> 'l loggers \<Rightarrow> 'l loggers" where
  "initializer_SetLogger newLogger s =
     (log_SetLogger newLogger s)
       \<lparr>package_log := (package_log s)(Pkg_initializer := newLogger),
        entry_log := (entry_log s)(initializerLogger := newLogger)\<rparr>"

text \<open>The social provider takes the \<^verbatim>\<open>Once\<close> of the directory provider.\<close>

definition social_reload :: "'l loggers \<Rightarrow> 'l loggers" where
  "social_reload = once_Do onceReloadADLogger (reload Pkg_providers socialLogger)"
definition ad_reload :: "'l loggers \<Rightarrow> 'l loggers" where
  "ad_reload = once_Do onceReloadADLogger (reload Pkg_providers ADLogger)"
definition proxy_reload :: "'l loggers \<Rightarrow> 'l loggers" where
  "proxy_reload = once_Do onceReloadProxyLogger (reload Pkg_providers proxyLogger)"
definition saml_reload :: "'l loggers \<Rightarrow> 'l loggers" where
  "saml_reload = once_Do onceReloadSAMLLogger (reload Pkg_providers SAMLLogger)"
definition reverse_proxy_reload :: "'l loggers \<Rightarrow> 'l loggers" where
  "reverse_proxy_reload = once_Do onceReloadReverseProxyLogger (reload Pkg_providers reverseProxyLogger)"
definition ReloadLogger :: "'l loggers \<Rightarrow> 'l loggers" where
  "ReloadLogger = once_Do onceReloadTykApiLogger (reload Pkg_tyk_api tykAPILogger)"
definition tyk_handler_reload :: "'l loggers \<Rightarrow> 'l loggers" where
  "tyk_handler_reload =
     once_Do onceReloadTykIdHandlerLogger (\<lambda>s. ReloadLogger (reload Pkg_identity_handlers tykHandlerLogger s))"
definition dummy_reload :: "'l loggers \<Rightarrow> 'l loggers" where
  "dummy_reload = once_Do onceReloadDummyLogger (reload Pkg_identity_handlers dummyLogger)"
definition config_reload :: "'l loggers \<Rightarrow> 'l loggers" where
  "config_reload = reload Pkg_configuration mainLogger"
definition reloadDataLoaderLogger :: "'l loggers \<Rightarrow> 'l loggers" where
  "reloadDataLoaderLogger = reload Pkg_data_loader dataLogger"
definition in_memory_reload :: "'l loggers \<Rightarrow> 'l loggers" where
  "in_memory_reload = reload Pkg_backends inMemoryLogger"
definition redis_SetDb_reload :: "'l loggers \<Rightarrow> 'l loggers" where
  "redis_SetDb_reload = reload Pkg_backends redisLogger"

lemmas reload_defs = social_reload_def ad_reload_def proxy_reload_def saml_reload_def reverse_proxy_reload_def
  ReloadLogger_def tyk_handler_reload_def dummy_reload_def config_reload_def reloadDataLoaderLogger_def
  in_memory_reload_def redis_SetDb_reload_def

text \<open>Anything that happens to the loggers.\<close>

inductive log_step :: "'l loggers \<Rightarrow> 'l loggers \<Rightarrow> bool" where
  Sets: "log_step s (initializer_SetLogger l s)"
| Reloads: "f \<in> {social_reload, ad_reload, proxy_reload, saml_reload, reverse_proxy_reload, ReloadLogger, tyk_handler_reload,
      dummy_reload, config_reload, reloadDataLoaderLogger, in_memory_reload, redis_SetDb_reload} \<Longrightarrow> log_step s (f s)"

subsection \<open>What an operation leaves\<close>

text \<open>The operations without a \<^verbatim>\<open>Once\<close> always log through the current logger afterwards.\<close>

lemma reload_current [simp]:
  "entry_log (reload pkg e s) e = std_log s" "package_log (reload pkg e s) pkg = std_log s"
  "std_log (reload pkg e s) = std_log s" "once_done (reload pkg e s) = once_done s"
  "e' \<noteq> e \<Longrightarrow> entry_log (reload pkg e s) e' = entry_log s e'"
  by (simp_all add: reload_def log_Get_def)

lemma initializer_SetLogger_sel [simp]:
  "std_log (initializer_SetLogger l s) = l" "once_done (initializer_SetLogger l s) = once_done s"
  "e \<noteq> initializerLogger \<Longrightarrow> entry_log (initializer_SetLogger l s) e = entry_log s e"
  by (simp_all add: initializer_SetLogger_def log_SetLogger_def)

lemma once_Do_done [simp]: "once_done s o1 \<Longrightarrow> once_Do o1 f s = s"
  by (simp add: once_Do_def)

text \<open>The first login after a logger was set makes the entry of its provider current, if nothing has used its \<^verbatim>\<open>Once\<close>.\<close>

lemma first_reload_current:
  "\<not> once_done s onceReloadProxyLogger \<Longrightarrow> entry_log (proxy_reload s) proxyLogger = std_log s"
  "\<not> once_done s onceReloadSAMLLogger \<Longrightarrow> entry_log (saml_reload s) SAMLLogger = std_log s"
  "\<not> once_done s onceReloadADLogger \<Longrightarrow> entry_log (ad_reload s) ADLogger = std_log s"
  by (simp_all add: reload_defs once_Do_def Let_def)

text \<open>Once the two providers' shared \<^verbatim>\<open>Once\<close> is used, nothing changes the entry of either any more.\<close>

lemma log_step_keeps_entry:
  assumes "log_step s s'" and "once_done s onceReloadADLogger" and "e \<in> {socialLogger, ADLogger}"
  shows "once_done s' onceReloadADLogger \<and> entry_log s' e = entry_log s e"
  using assms(1)
proof cases
  case (Sets l)
  with assms(2,3) show ?thesis by auto
next
  case (Reloads f)
  from Reloads(2) show ?thesis
    unfolding Reloads(1) insert_iff empty_iff
    by (elim disjE FalseE) (use assms(2,3) in \<open>auto simp: reload_defs once_Do_def Let_def\<close>)
qed

theorem shared_once_freezes:
  assumes "log_step\<^sup>*\<^sup>* s s'" and "once_done s onceReloadADLogger" and "e \<in> {socialLogger, ADLogger}"
  shows "once_done s' onceReloadADLogger \<and> entry_log s' e = entry_log s e"
  using assms(1)
proof (induction rule: rtranclp_induct)
  case (step y z)
  with log_step_keeps_entry [OF step(2) _ assms(3)] show ?case by simp
qed (use assms(2) in simp)

text \<open>So when a directory login comes first, the social provider logs through the logger it had before, whatever
  is set and whoever logs in afterwards; and the other way round.\<close>

theorem social_logger_stale:
  assumes "log_step\<^sup>*\<^sup>* (ad_reload (initializer_SetLogger l (start_loggers l0 raw))) s"
  shows "entry_log s socialLogger = l0" and "entry_log s ADLogger = l"
proof -
  let ?s = "ad_reload (initializer_SetLogger l (start_loggers l0 raw))"
  have d: "once_done ?s onceReloadADLogger" "entry_log ?s socialLogger = l0" "entry_log ?s ADLogger = l"
    by (simp_all add: ad_reload_def once_Do_def Let_def start_loggers_def)
  show "entry_log s socialLogger = l0" "entry_log s ADLogger = l"
    using shared_once_freezes [OF assms d(1)] d(2,3) by auto
qed

end
