(* ===== verification/Reverse_Proxy.thy ===== *)
theory Reverse_Proxy
  imports Go_Http Go_Url
begin

section \<open>The reverse proxy (reverse\_proxy.go)\<close>

text \<open>
  The broker's copy of an older reverse proxy: how a request is rewritten for its target, which
  headers are passed on in both directions, and what the client is answered. The round trip to the
  target is an argument. The goroutines that flush and cancel are in \<open>Proxy_Streaming\<close>. No other part of the broker uses this copy; the proxy provider uses the one of \<^verbatim>\<open>httputil\<close>.
\<close>

type_synonym header = "string list gomap"

definition first_header :: "header \<Rightarrow> string \<Rightarrow> string" where
  "first_header h k = (case map_get h k of Some (v # _) \<Rightarrow> v | _ \<Rightarrow> '''')"

definition header_add :: "string \<Rightarrow> string \<Rightarrow> header \<Rightarrow> header" where
  "header_add k v h = map_put k ((case map_get h k of Some vs \<Rightarrow> vs | None \<Rightarrow> []) @ [v]) h"

definition singleJoiningSlash :: "string \<Rightarrow> string \<Rightarrow> string" where
  "singleJoiningSlash a b =
     (let aslash = HasSuffix a ''/''; bslash = HasPrefix b ''/'' in
      if aslash \<and> bslash then a @ tl b
      else if \<not> aslash \<and> \<not> bslash then (if length b > 0 then a @ ''/'' @ b else a)
      else a @ b)"

definition director :: "url \<Rightarrow> url \<Rightarrow> url" where
  "director target u = u
     \<lparr>Scheme := Scheme target, Host := Host target, Path := singleJoiningSlash (Path target) (Path u),
      RawQuery :=
        (if RawQuery target = '''' \<or> RawQuery u = '''' then RawQuery target @ RawQuery u
         else RawQuery target @ ''&'' @ RawQuery u)\<rparr>"

definition copyHeader :: "header \<Rightarrow> header \<Rightarrow> header" where
  "copyHeader dst src = fold (\<lambda>(k, vv). fold (header_add k) vv) src dst"

definition hopHeaders :: "string list" where
  "hopHeaders =
     [''Connection'', ''Keep-Alive'', ''Proxy-Authenticate'', ''Proxy-Authorization'', ''Te'', ''Trailers'',
      ''Transfer-Encoding'', ''Upgrade'']"

subsection \<open>Serving a request\<close>

text \<open>The headers of the request and of the outgoing one are the same map until one of the hop-by-hop
  headers is found; then the outgoing ones are a copy. The pair: the copy, if there is one, and the
  headers of the request.\<close>

definition remove_hop_header :: "string \<Rightarrow> header option \<times> header \<Rightarrow> header option \<times> header" where
  "remove_hop_header h s =
     (let (copied, orig) = s; out = (case copied of None \<Rightarrow> orig | Some c \<Rightarrow> c) in
      if first_header out h \<noteq> ''''
      then (Some (map_del h (if copied = None then copyHeader [] orig else out)), orig)
      else s)"

definition remove_hop_headers :: "header \<Rightarrow> header option \<times> header" where
  "remove_hop_headers h = fold remove_hop_header hopHeaders (None, h)"

text \<open>\<^verbatim>\<open>net.SplitHostPort\<close>: host and port of an address; an IPv6 host is in brackets.\<close>

definition SplitHostPort :: "string \<Rightarrow> (string \<times> string) option" where
  "SplitHostPort s =
     (case cut_last (CHR '':'') s of
        None \<Rightarrow> None
      | Some (h, port) \<Rightarrow>
          if HasPrefix s ''['' then
            (if last h = CHR '']'' \<and> CHR '']'' \<notin> set (butlast h) \<and> CHR ''['' \<notin> set (tl s) \<and> CHR '']'' \<notin> set port
             then Some (tl (butlast h), port) else None)
          else if CHR '':'' \<in> set h \<or> CHR ''['' \<in> set s \<or> CHR '']'' \<in> set s then None
          else Some (h, port))"

text \<open>The headers that are sent, and those of the request afterwards. \<open>client\<close> is the address of the client,
  if it can be told from the request.\<close>

definition forwarded_for :: "string option \<Rightarrow> header option \<times> header \<Rightarrow> header \<times> header" where
  "forwarded_for client s =
     (let (copied, orig) = s; out = (case copied of None \<Rightarrow> orig | Some c \<Rightarrow> c) in
      case client of
        None \<Rightarrow> (out, orig)
      | Some clientIP \<Rightarrow>
          (let ip = (case map_get out ''X-Forwarded-For'' of
                 Some prior \<Rightarrow> Join prior '', '' @ '', '' @ clientIP
               | None \<Rightarrow> clientIP);
               out' = map_put ''X-Forwarded-For'' [ip] out
           in (out', if copied = None then out' else orig)))"

record proxied =
  px_status :: int
  px_header :: header
  px_body :: string

record target_reply =
  tr_status :: int
  tr_header :: header
  tr_body :: string
  tr_trailer :: header

definition announce_trailer :: "header \<Rightarrow> header \<Rightarrow> header" where
  "announce_trailer trailer h =
     (if length trailer > 0 then header_add ''Trailer'' (Join (map fst trailer) '', '') h else h)"

text \<open>The answer, from the headers that were already set on the response; the headers of the trailer are
  added after the body.\<close>

definition proxy_answer :: "target_reply result \<Rightarrow> header \<Rightarrow> proxied" where
  "proxy_answer res rw =
     (case res of
        Inl err \<Rightarrow> \<lparr>px_status = 500, px_header = rw, px_body = ''''\<rparr>
      | Inr r \<Rightarrow>
          (let h1 = copyHeader rw (fold map_del hopHeaders (tr_header r));
               h2 = announce_trailer (tr_trailer r) h1
           in \<lparr>px_status = tr_status r, px_header = copyHeader h2 (tr_trailer r), px_body = tr_body r\<rparr>))"

definition proxy_ServeHTTP ::
    "(url \<Rightarrow> header \<Rightarrow> target_reply result) \<Rightarrow> url \<Rightarrow> string \<Rightarrow> url \<Rightarrow> header \<Rightarrow> header \<Rightarrow>
      proxied \<times> header" where
  "proxy_ServeHTTP roundtrip target remoteAddr u reqHeader rw =
     (let (outHeader, reqHeader') =
            forwarded_for (map_option fst (SplitHostPort remoteAddr)) (remove_hop_headers reqHeader)
      in (proxy_answer (roundtrip (director target u) outHeader) rw, reqHeader'))"

subsection \<open>Lemmas\<close>

text \<open>The addresses a listener reports.\<close>

lemma SplitHostPort_host:
  assumes "CHR '':'' \<notin> set h \<union> set port" and "set (h @ port) \<inter> {CHR ''['', CHR '']''} = {}"
  shows "SplitHostPort (h @ '':'' @ port) = Some (h, port)"
proof -
  have "\<not> HasPrefix (h @ '':'' @ port) ''[''"
    using assms(2) by (cases h) (auto simp: HasPrefix_def)
  moreover have "cut_last (CHR '':'') (h @ '':'' @ port) = Some (h, port)"
    using assms(1) by (simp add: cut_last_append)
  ultimately show ?thesis using assms by (auto simp: SplitHostPort_def)
qed

lemma SplitHostPort_ip6:
  assumes "CHR '':'' \<notin> set port" and "set (h @ port) \<inter> {CHR ''['', CHR '']''} = {}"
  shows "SplitHostPort (''['' @ h @ '']:'' @ port) = Some (h, port)"
proof -
  have "cut_last (CHR '':'') ((''['' @ h @ '']'') @ CHR '':'' # port) = Some (''['' @ h @ '']'', port)"
    using assms(1) by (rule cut_last_append)
  then show ?thesis using assms by (auto simp: SplitHostPort_def HasPrefix_def butlast_append)
qed

text \<open>Paths are joined with one slash, and only slashes at the joint are added or dropped.\<close>

lemma singleJoiningSlash_parts:
  assumes "\<not> HasSuffix a ''/''" and "\<not> HasPrefix b ''/''" and "b \<noteq> ''''"
  shows "singleJoiningSlash a b = a @ ''/'' @ b" and "singleJoiningSlash (a @ ''/'') b = a @ ''/'' @ b"
    and "singleJoiningSlash a (''/'' @ b) = a @ ''/'' @ b"
    and "singleJoiningSlash (a @ ''/'') (''/'' @ b) = a @ ''/'' @ b"
proof -
  have p: "HasPrefix (CHR ''/'' # b) ''/''" by (simp add: HasPrefix_def)
  show "singleJoiningSlash a b = a @ ''/'' @ b" "singleJoiningSlash (a @ ''/'') b = a @ ''/'' @ b"
    "singleJoiningSlash a (''/'' @ b) = a @ ''/'' @ b"
    "singleJoiningSlash (a @ ''/'') (''/'' @ b) = a @ ''/'' @ b"
    using assms p by (simp_all add: singleJoiningSlash_def)
qed

lemma map_get_header_add:
  "wf_map h \<Longrightarrow> map_get (header_add k v h) k' =
    (if k' = k then Some ((case map_get h k of Some vs \<Rightarrow> vs | None \<Rightarrow> []) @ [v]) else map_get h k')"
  by (simp add: header_add_def)

lemma wf_header_add [simp]: "wf_map h \<Longrightarrow> wf_map (header_add k v h)"
  by (simp add: header_add_def)

lemma fold_header_add:
  "wf_map h \<Longrightarrow> wf_map (fold (header_add k) vv h) \<and> map_get (fold (header_add k) vv h) k' =
    (if k' = k \<and> vv \<noteq> [] then Some ((case map_get h k of Some vs \<Rightarrow> vs | None \<Rightarrow> []) @ vv) else map_get h k')"
  by (induction vv arbitrary: h) (auto simp: map_get_header_add)

text \<open>Copying adds the values of the source after those of the destination.\<close>

definition values_of :: "header \<Rightarrow> string \<Rightarrow> string list" where
  "values_of h k = (case map_get h k of Some vs \<Rightarrow> vs | None \<Rightarrow> [])"

lemma copyHeader_values:
  "wf_map dst \<Longrightarrow> wf_map src \<Longrightarrow> wf_map (copyHeader dst src) \<and>
    values_of (copyHeader dst src) k = values_of dst k @ values_of src k"
proof (induction src arbitrary: dst)
  case (Cons x src)
  obtain k' vv where x: "x = (k', vv)" by (cases x)
  have src: "wf_map src" and new: "k' \<notin> fst ` set src" using Cons.prems by (auto simp: x wf_map_def)
  from new have "map_of src k' = None" by (simp add: map_of_eq_None_iff)
  then have "values_of src k' = []" by (simp add: values_of_def map_get_def)
  moreover have "copyHeader dst (x # src) = copyHeader (fold (header_add k') vv dst) src"
    by (simp add: copyHeader_def x)
  moreover have "values_of (x # src) k = (if k = k' then vv else values_of src k)"
    by (simp add: values_of_def map_get_def x)
  moreover have "values_of (fold (header_add k') vv dst) k = values_of dst k @ (if k = k' then vv else [])"
    using fold_header_add [OF Cons.prems(1), of k' vv k] by (auto simp: values_of_def)
  ultimately show ?case
    using Cons.IH [OF _ src, of "fold (header_add k') vv dst"] fold_header_add [OF Cons.prems(1), of k' vv] by auto
qed (simp add: copyHeader_def values_of_def map_get_def)

lemma first_header_values: "first_header h k = (case values_of h k of [] \<Rightarrow> '''' | v # _ \<Rightarrow> v)"
  by (simp add: first_header_def values_of_def split: option.split list.split)

lemma values_of_del [simp]: "values_of (map_del k' h) k = (if k = k' then [] else values_of h k)"
  by (simp add: values_of_def)

definition current_header :: "header option \<times> header \<Rightarrow> header" where
  "current_header s = (case fst s of None \<Rightarrow> snd s | Some c \<Rightarrow> c)"

definition hop_state_ok :: "header option \<times> header \<Rightarrow> bool" where
  "hop_state_ok s \<longleftrightarrow> wf_map (snd s) \<and> wf_map (current_header s)"

lemma remove_hop_header_step:
  assumes "hop_state_ok s"
  shows "hop_state_ok (remove_hop_header h s)"
    and "values_of (current_header (remove_hop_header h s)) k =
      (if k = h \<and> first_header (current_header s) h \<noteq> '''' then [] else values_of (current_header s) k)"
    and "snd (remove_hop_header h s) = snd s"
proof -
  obtain c orig where s: "s = (c, orig)" by (cases s)
  have "wf_map orig" using assms by (simp add: s hop_state_ok_def)
  note cp = copyHeader_values [OF wf_map_Nil this]
  have nil: "values_of [] k = []" for k by (simp add: values_of_def map_get_def)
  show "hop_state_ok (remove_hop_header h s)" "snd (remove_hop_header h s) = snd s"
    "values_of (current_header (remove_hop_header h s)) k =
      (if k = h \<and> first_header (current_header s) h \<noteq> '''' then [] else values_of (current_header s) k)"
    using assms cp nil
    by (cases c; simp add: s remove_hop_header_def Let_def hop_state_ok_def current_header_def)+
qed

lemma remove_hop_headers_fold:
  "hop_state_ok s \<Longrightarrow> hop_state_ok (fold remove_hop_header hs s) \<and> snd (fold remove_hop_header hs s) = snd s \<and>
    (\<forall>k. values_of (current_header (fold remove_hop_header hs s)) k =
       (if k \<in> set hs \<and> first_header (current_header s) k \<noteq> '''' then [] else values_of (current_header s) k))"
proof (induction hs arbitrary: s)
  case (Cons h hs)
  note st = remove_hop_header_step [OF Cons.prems, of h]
  have first: "first_header (current_header (remove_hop_header h s)) k =
      (if k = h then '''' else first_header (current_header s) k)" for k
    using st(2) [of k] by (simp add: first_header_values split: list.split)
  from Cons.IH [OF st(1)] st(2,3) first show ?case by auto
qed simp

text \<open>A hop-by-hop header whose first value is not empty is not passed on to the target; all other headers are, with
  all their values.\<close>

lemma remove_hop_headers_out:
  assumes "wf_map h"
  shows "values_of (current_header (remove_hop_headers h)) k =
      (if k \<in> set hopHeaders \<and> first_header h k \<noteq> '''' then [] else values_of h k)"
    and "wf_map (current_header (remove_hop_headers h))" and "snd (remove_hop_headers h) = h"
proof -
  have "hop_state_ok (None, h)" using assms by (simp add: hop_state_ok_def current_header_def)
  note f = remove_hop_headers_fold [OF this, of hopHeaders, folded remove_hop_headers_def]
  have "current_header (None, h) = h" by (simp add: current_header_def)
  with f show "values_of (current_header (remove_hop_headers h)) k =
      (if k \<in> set hopHeaders \<and> first_header h k \<noteq> '''' then [] else values_of h k)"
    "wf_map (current_header (remove_hop_headers h))" "snd (remove_hop_headers h) = h"
    by (simp_all add: hop_state_ok_def)
qed

lemma forwarded_for_other:
  "wf_map (current_header s) \<Longrightarrow> k \<noteq> ''X-Forwarded-For'' \<Longrightarrow>
    values_of (fst (forwarded_for client s)) k = values_of (current_header s) k"
  by (cases s; cases "fst s") (auto simp: forwarded_for_def current_header_def values_of_def Let_def split: option.split)

end
