(* ===== verification/Samples.thy ===== *)
theory Samples
  imports Broker Reverse_Proxy
begin

section \<open>Concrete inputs\<close>

text \<open>
  A profile, stores, a directory, providers and requests that the components are run on. They show
  that the hypotheses of the properties can be met, also those that state the documented behaviour of
  the services: a Redis server is a map, a collection a list, a file system a function.
\<close>

subsection \<open>Profiles and stores\<close>

definition sample_profile :: profile where
  "sample_profile = zero_profile
     \<lparr>ID := ''p1'', OrgID := ''o1'', ActionType := GenerateOrLoginUserProfile, ProviderName := ''ADProvider'',
      ReturnURL := ''http://db/tap''\<rparr>"

lemma wf_sample_profile [simp]: "wf_profile sample_profile"
  by (simp add: sample_profile_def wf_profile_def zero_profile_def)

lemma sample_profile_sel [simp]:
  "ID sample_profile = ''p1''" "OrgID sample_profile = ''o1''" "ReturnURL sample_profile = ''http://db/tap''"
  by (simp_all add: sample_profile_def)

definition empty_store :: in_memory where
  "empty_store = \<lparr>kv = Some []\<rparr>"

definition sample_store :: in_memory where
  "sample_store = \<lparr>kv = Some [(''p1'', marshal_profile sample_profile)]\<rparr>"

lemma registry_ok_empty [simp]: "registry_ok empty_store"
  by (simp add: registry_ok_def in_memory_inv_def empty_store_def keyed_def in_memory_view_def map_get_def)

lemma view_empty_store [simp]: "in_memory_view empty_store k = None"
  by (simp add: in_memory_view_def empty_store_def map_get_def)

lemma view_sample_store: "in_memory_view sample_store k = (if k = ''p1'' then Some sample_profile else None)"
  by (simp add: in_memory_view_def sample_store_def map_get_def)

lemma registry_ok_sample [simp]: "registry_ok sample_store"
  by (auto simp: registry_ok_def in_memory_inv_def keyed_def view_sample_store)
    (auto simp: sample_store_def wf_map_def intro: wf_sample_profile)

text \<open>A flush that succeeds, on a state of nothing.\<close>

definition quiet_flush :: "in_memory \<Rightarrow> (unit, go_error option) act" where
  "quiet_flush s = return_act None"

definition sample_registry :: "(in_memory, unit) profile_store" where
  "sample_registry = mem_store (\<lambda>m. case kv m of None \<Rightarrow> [] | Some s \<Rightarrow> map fst s) quiet_flush"

text \<open>A Redis server that never fails.\<close>

definition map_server :: "(string \<rightharpoonup> string) key_value" where
  "map_server =
     \<lparr>kvSet = (\<lambda>k v r. (None, r(k \<mapsto> v))),
      kvGet = (\<lambda>k r. case r k of None \<Rightarrow> (Some ''key not found'', '''') | Some v \<Rightarrow> (None, v)),
      kvDelete = (\<lambda>k r. (None, r(k := None))),
      kvKeys = (\<lambda>p r. (None, Some []))\<rparr>"

lemma map_server_documented: "key_value_documented map_server (\<lambda>r. r)"
  by (auto simp: key_value_documented_def map_server_def split: option.splits)

text \<open>A server that knows one key.\<close>

definition one_key_server :: "string \<Rightarrow> unit key_value" where
  "one_key_server k =
     \<lparr>kvSet = (\<lambda>_ _ r. (None, r)), kvGet = (\<lambda>_ _. (Some ''key not found'', '''')),
      kvDelete = (\<lambda>_ r. (None, r)), kvKeys = (\<lambda>_ _. (None, Some [k]))\<rparr>"

text \<open>A collection of profiles.\<close>

definition list_collection :: "profile list document_store" where
  "list_collection =
     \<lparr>dsInsert = (\<lambda>p m. (None, m @ [p])),
      dsDelete = (\<lambda>f m. (None, filter (\<lambda>p. \<not> filter_matches f p) m)),
      dsQuery = (\<lambda>f m. (None, filter (filter_matches f) m)),
      dsQueryOne = (\<lambda>f d m. case find (filter_matches f) m of
         None \<Rightarrow> (Some ''not found'', d) | Some p \<Rightarrow> (None, p))\<rparr>"

lemma list_collection_documented: "document_store_documented list_collection (\<lambda>m. m)"
  by (auto simp: document_store_documented_def list_collection_def split: option.splits)

text \<open>Files by clean name; writing always succeeds.\<close>

definition path_files :: "(string \<rightharpoonup> string) os_files" where
  "path_files =
     \<lparr>osReadFile = (\<lambda>f d. case d (path_Clean f) of None \<Rightarrow> Inl ''no such file'' | Some b \<Rightarrow> Inr b),
      osWriteFile = (\<lambda>f b d. (None, d(path_Clean f \<mapsto> b)))\<rparr>"

lemma path_files_documented: "os_files_documented path_files"
  by (auto simp: os_files_documented_def path_files_def)

subsection \<open>Requests\<close>

definition sample_request :: http_request where
  "sample_request =
     \<lparr>req_method = ''GET'', req_host = ''tib'', req_path = ''/auth/p1/ADProvider'', req_query = '''',
      req_header = [(''Authorization'', ''secret'')],
      req_form = [(''username'', ''ann''), (''password'', ''pw'')], req_cookies = [],
      req_body = Inr (marshal_profile sample_profile),
      req_vars = [(''id'', ''p1''), (''provider'', ''ADProvider'')]\<rparr>"

subsection \<open>The Tyk side\<close>

text \<open>A dashboard that answers everything with a nonce.\<close>

definition nonce_reply :: string where
  "nonce_reply = print_json (JObj [(''Meta'', JStr ''n1'')])"

definition sample_env :: environ where
  "sample_env =
     \<lparr>net_reply = \<lambda>h out. Reply 200 (Inr nonce_reply), newRequest = \<lambda>verb url. None,
      clock = \<lambda>h. 1700000000000000000, new_uuid = \<lambda>h. Some ''u1'', oid_json = JStr,
      oid_unmarshal = \<lambda>j old. (case j of JStr t \<Rightarrow> (True, t) | _ \<Rightarrow> (False, old)),
      time_json = \<lambda>(t, z). JArr [JInt t, JInt z],
      time_unmarshal = \<lambda>j old. (case j of JArr [JInt t, JInt z] \<Rightarrow> (True, (t, z)) | _ \<Rightarrow> (False, old)),
      local_zone = 0, zero_time = (0, 0)\<rparr>"

definition sample_api :: tyk_api where
  "sample_api =
     \<lparr>GatewayConfig = \<lparr>Endpoint = ''http://gw'', Port = ''8080'', AdminSecret = ''gs''\<rparr>,
      DashboardConfig = \<lparr>Endpoint = ''http://db'', Port = ''3000'', AdminSecret = ''ds''\<rparr>,
      CustomDispatcher = None, CustomSuperDispatcher = None\<rparr>"

lemma plain_sample_api [simp]: "plain_api sample_api"
  by (simp add: plain_api_def sample_api_def)

definition sample_handler :: tyk_handler where
  "sample_handler = (new_tyk_handler sample_api)
     \<lparr>Handler_profile := sample_profile, dashboardUserAPICred := ''cred''\<rparr>"

lemma sample_handler_api [simp]: "API sample_handler = sample_api"
  by (simp add: sample_handler_def new_tyk_handler_def)

definition sample_user :: goth_user where
  "sample_user = zero_user\<lparr>UserID := ''ann'', Provider := ''ADProvider'', Email := ''ann@x''\<rparr>"

definition sample_world :: "unit world" where
  "sample_world = \<lparr>calls = [], resp = [], ids = ()\<rparr>"

subsection \<open>Providers\<close>

text \<open>A directory with one user, who is ann with the password pw.\<close>

definition sample_entry :: ldap_entry where
  "sample_entry =
     \<lparr>DN = ''uid=ann'', Attributes = [(''mail'', [''ann@x'']), (''memberOf'', [''devs'', ''ops''])]\<rparr>"

definition sample_ldap :: ldap where
  "sample_ldap =
     \<lparr>ldBind = \<lambda>h dn pw. Returns (if pw = ''pw'' then None else Some ''invalid credentials''),
      ldSearch = \<lambda>h base scope filt attrs. Returns (Inr [sample_entry]), ldClose = \<lambda>h. Returns ()\<rparr>"

text \<open>The part of the Unicode tables that is ASCII.\<close>

definition ascii_unicode :: unicode where
  "ascii_unicode =
     \<lparr>nfkd = \<lambda>s. map of_char s, is_lat = \<lambda>r. r < 128 \<and> slug_char (char_of r), is_nop = \<lambda>r. False,
      rune_lower = \<lambda>r. r\<rparr>"

lemma ascii_unicode_documented: "unicode_documented ascii_unicode"
proof -
  have "\<not> slug_char (char_of (45 :: nat))" by code_simp
  then show ?thesis by (auto simp: unicode_documented_def ascii_unicode_def slug_char_ascii)
qed

text \<open>A service that answers every request with 200 and the body ok.\<close>

definition sample_proxy :: proxy_env where
  "sample_proxy =
     \<lparr>upstream = \<lambda>t r. (200, ''ok''), regexp_match = \<lambda>x. Inr (\<lambda>b. b = x),
      gabs_path = \<lambda>b. Inl ''no JSON'', rand_draw = \<lambda>i. i mod 52\<rparr>"

text \<open>Providers and sessions of goth that are texts; the user is the text of the session. The token of a
  session is its text.\<close>

definition sample_cookies :: session_store where
  "sample_cookies = \<lparr>cookie_get = \<lambda>r. Inr (map_of (req_cookies r) SessionName), cookie_save = \<lambda>r v. Inr v\<rparr>"

lemma sample_cookies_get [simp]:
  "cookie_get sample_cookies r = Inr (map_of (req_cookies r) SessionName)" "cookie_save sample_cookies r v = Inr v"
  by (simp_all add: sample_cookies_def)

definition sample_goth :: "(string, string) goth_env" where
  "sample_goth =
     \<lparr>g_Name = \<lambda>g. g, g_BeginAuth = \<lambda>g state. Inr (g @ state), g_GetAuthURL = \<lambda>s. Inr (''http://idp/'' @ s),
      g_Marshal = \<lambda>s. s, g_UnmarshalSession = \<lambda>g t. Inr t, g_Authorize = \<lambda>s g q. Inr s,
      g_FetchUser = \<lambda>g s. Inr (zero_user\<lparr>UserID := s, Provider := g, Email := s @ ''@tyk.io''\<rparr>),
      g_DecodeOIDC = \<lambda>t. Inr t, g_IDToken = \<lambda>s. s, g_SetIDToken = \<lambda>t s. t,
      TothErrorHandler = Some HandleError, Store = Some sample_cookies\<rparr>"

definition sample_social :: "(string, unit) social_env" where
  "sample_social =
     \<lparr>new_goth = \<lambda>c url. Goth_Name c, new_openid = \<lambda>c url. Inr (Goth_Name c), cert_list = \<lambda>l. [Some ()]\<rparr>"

definition sample_jwe :: "unit jwe_env" where
  "sample_jwe = \<lparr>rsa_key = \<lambda>k. True, jose_decrypt = \<lambda>k t. Inr (rev t)\<rparr>"

text \<open>A SAML identity provider whose responses all carry the same assertion.\<close>

definition sample_assertion :: assertion where
  "sample_assertion =
     [[\<lparr>Att_Name = DefaultEmailClaim, Att_Values = [''ann@x'']\<rparr>,
       \<lparr>Att_Name = DefaultForeNameClaim, Att_Values = [''Ann'']\<rparr>,
       \<lparr>Att_Name = ''groups'', Att_Values = [''devs'', ''ops'']\<rparr>]]"

definition sample_saml :: "(unit, unit) saml_env" where
  "sample_saml =
     \<lparr>certificates = \<lambda>l. [Some ()], private_key_of = \<lambda>k. Rsa_key, FetchMetadata = \<lambda>u. Inr (),
      GetSSOBindingLocation = \<lambda>m b. ''http://idp'', MakeAuthenticationRequest = \<lambda>m l b rb. Inr ''req'', TrackRequest = \<lambda>m r q. Inr (''relay'', []),
      AuthReq_Redirect = \<lambda>m q rs. Inr ''http://idp?req'', AuthReq_Post = \<lambda>q rs. ''form'',
      TrackedRequests = \<lambda>m r. [], ParseResponse = \<lambda>m r ids. Inr sample_assertion, Metadata_xml = \<lambda>m. ''xml''\<rparr>"

subsection \<open>The login side\<close>

definition sample_auth :: "(unit, unit, string, string, in_memory, (string \<rightharpoonup> string) redis) auth_env" where
  "sample_auth =
     \<lparr>ae_env = sample_env, ae_tyk = sample_api, ae_ids = mem_id_store, ae_params = redis_param_store map_server,
      ae_unicode = ascii_unicode, ae_ldap = sample_ldap, ae_proxy = sample_proxy, ae_goth = sample_goth,
      ae_social = sample_social, ae_jwe = sample_jwe, ae_saml = sample_saml\<rparr>"

definition sample_state :: "(in_memory, (string \<rightharpoonup> string) redis) auth_state" where
  "sample_state =
     \<lparr>as_world = \<lparr>calls = [], resp = [], ids = empty_store\<rparr>, as_params = config_store Map.empty, as_directory = []\<rparr>"

definition sample_get :: "string \<Rightarrow> string \<Rightarrow> go_error option \<times> profile" where
  "sample_get k org = (if k = ''p1'' then (None, sample_profile) else (Some ''not found'', zero_profile))"

lemma sample_store_get: "(\<lambda>k org. in_memory_GetProfile k org sample_store) = sample_get"
  by (simp add: fun_eq_iff sample_get_def in_memory_GetKey_def sample_store_def map_get_def unmarshal_marshal_profile)

text \<open>A login through the directory, from the request to the redirect.\<close>

lemma sample_login:
  "case HandleAuth sample_auth sample_get sample_request sample_state of
     (r, a) \<Rightarrow> r = Returns () \<and> length (calls (as_world a)) = 1 \<and>
       resp (as_world a) = [Redirect ''http://db/tap?nonce=n1'' 301]"
  by code_simp

text \<open>A callback from the SAML identity provider.\<close>

definition saml_get :: "string \<Rightarrow> string \<Rightarrow> go_error option \<times> profile" where
  "saml_get k org = (None, sample_profile\<lparr>ProviderName := ''SAMLProvider''\<rparr>)"

lemma sample_saml_login:
  "case HandleAuthCallback sample_auth saml_get sample_request sample_state of
     (r, a) \<Rightarrow> r = Returns () \<and> length (calls (as_world a)) = 1 \<and>
       resp (as_world a) = [Redirect ''http://db/tap?nonce=n1'' 301]"
  by code_simp

end
