(* ===== verification/Props_Registry.thy ===== *)
theory Props_Registry
  imports Samples
begin

section \<open>Properties of the registry\<close>

text \<open>
  What the stores, the loaders and the profile API guarantee, each with its application to a concrete
  input where it has a hypothesis.
\<close>

subsection \<open>Operations on the registry\<close>

text \<open>C7: Adding, updating and deleting a profile refine the registry. An operation the specification refuses is
  refused with its status and changes neither the store nor what is saved; any other leaves a store
  that stands for the registry after it, with the outcome of flushing that store as its own. In particular
  the change stays when the flush fails.\<close>

theorem registry_refinement:
  assumes "registry_ok m" and "wf_op c"
  shows "case registry_step c (in_memory_view m) of
      Inl code \<Rightarrow> \<exists>e. Code e = code \<and>
        run_op in_memory_GetProfile in_memory_SetKey in_memory_DeleteKey flush c (m, d) = (Returns (Some e), (m, d))
    | Inr r \<Rightarrow> \<exists>m'. registry_ok m' \<and> in_memory_view m' = r \<and>
        run_op in_memory_GetProfile in_memory_SetKey in_memory_DeleteKey flush c (m, d) =
          (flush_outcome (fst (flush m' d)), (m', snd (flush m' d)))"
  using mem.run_op_refines [of m c flush d] registry_step_keyed [of "in_memory_view m" c] assms
  by (auto simp: registry_ok_def split: sum.splits)

theorem registry_refinement_witness:
  "registry_ok sample_store \<and> wf_op (Delete ''p1'') \<and>
   (\<exists>m'. registry_ok m' \<and> in_memory_view m' = Map.empty \<and>
      run_op in_memory_GetProfile in_memory_SetKey in_memory_DeleteKey quiet_flush (Delete ''p1'') (sample_store, ()) =
        (Returns None, (m', ())))"
proof -
  have view: "(in_memory_view sample_store)(''p1'' := None) = Map.empty"
    by (rule ext) (simp add: view_sample_store)
  have "registry_step (Delete ''p1'') (in_memory_view sample_store) = Inr Map.empty"
    by (simp add: view_sample_store fun_upd_def [symmetric] view)
  with registry_refinement [of sample_store "Delete ''p1''" quiet_flush "()"] show ?thesis
    by (auto simp: quiet_flush_def flush_outcome_def)
qed

text \<open>C13: A request of the profile API with the right secret is answered with the status of the specification.
  When the registry refuses the operation the request asks for, the reply has that status and nothing changes. Otherwise the
  registry changes as specified, and the reply is the status of success, or 400 when saving failed.\<close>

theorem api_request_refines:
  assumes "registry_ok m" and "header_get r ''Authorization'' = secret" and "writes e" and "requested e r = Inr c"
  shows "case registry_step c (in_memory_view m) of
      Inl code \<Rightarrow> \<exists>reply. resp_status reply = code \<and>
        serve_api secret (mem_store order flush) e r (m, d) = (Returns reply, (m, d))
    | Inr reg \<Rightarrow> \<exists>m'. in_memory_view m' = reg \<and>
        (case flush m' d of
           (Panics x, d') \<Rightarrow> serve_api secret (mem_store order flush) e r (m, d) = (Panics x, (m', d'))
         | (Returns ferr, d') \<Rightarrow> \<exists>reply.
             serve_api secret (mem_store order flush) e r (m, d) = (Returns reply, (m', d')) \<and>
             resp_status reply = (if ferr = None then success_status c else 400))"
proof -
  have serve: "serve_api secret (mem_store order flush) e r (m, d) =
      bind_act (store_op (mem_store order flush) c) (\<lambda>err. return_act (reply_of c err)) (m, d)"
    using assms(2-4) by (simp add: serve_api_authenticated api_handler_run)
  note run = mem_run_op [OF assms(1) requested_wf [OF assms(4)], of order flush d]
  show ?thesis
  proof (cases "registry_step c (in_memory_view m)")
    case (Inl code)
    with run obtain err where "store_op (mem_store order flush) c (m, d) = (Returns (Some err), (m, d))" "Code err = code"
      by auto
    with Inl show ?thesis unfolding serve by (simp add: bind_act_def reply_of_status)
  next
    case (Inr reg)
    with run obtain m' where m': "in_memory_view m' = reg"
      "store_op (mem_store order flush) c (m, d) = (flush_outcome (fst (flush m' d)), (m', snd (flush m' d)))"
      by auto
    obtain fr d' where f: "flush m' d = (fr, d')" by (cases "flush m' d")
    have "case fr of
        Panics x \<Rightarrow> serve_api secret (mem_store order flush) e r (m, d) = (Panics x, (m', d'))
      | Returns ferr \<Rightarrow> \<exists>reply.
          serve_api secret (mem_store order flush) e r (m, d) = (Returns reply, (m', d')) \<and>
          resp_status reply = (if ferr = None then success_status c else 400)"
      unfolding serve using m'(2) f
      by (auto simp: bind_act_def flush_outcome_def reply_of_status split: outcome.split option.split)
    then have "case flush m' d of
        (Panics x, d') \<Rightarrow> serve_api secret (mem_store order flush) e r (m, d) = (Panics x, (m', d'))
      | (Returns ferr, d') \<Rightarrow> \<exists>reply.
          serve_api secret (mem_store order flush) e r (m, d) = (Returns reply, (m', d')) \<and>
          resp_status reply = (if ferr = None then success_status c else 400)"
      by (cases fr) (simp_all only: f prod.case outcome.case)
    with m'(1) show ?thesis unfolding Inr sum.case by (intro exI [of _ m'] conjI)
  qed
qed

lemma sample_add_requested:
  "requested Add_profile sample_request = Inr (Add sample_profile)"
  by (simp add: requested_def sample_request_def mux_var_def get_first_def unmarshal_marshal_profile Let_def)

theorem api_request_refines_witness:
  "\<exists>m' reply. in_memory_view m' = [''p1'' \<mapsto> sample_profile] \<and>
     serve_api ''secret'' sample_registry Add_profile sample_request (empty_store, ()) = (Returns reply, (m', ())) \<and>
     resp_status reply = 201"
proof -
  have auth: "header_get sample_request ''Authorization'' = ''secret''"
    by (simp add: header_get_def get_first_def sample_request_def)
  have "in_memory_view empty_store = Map.empty" by (rule ext) simp
  note empty = this
  then have step: "registry_step (Add sample_profile) (in_memory_view empty_store) = Inr [''p1'' \<mapsto> sample_profile]"
    by simp
  show ?thesis
    using api_request_refines [OF registry_ok_empty auth _ sample_add_requested,
        of "\<lambda>m. case kv m of None \<Rightarrow> [] | Some s \<Rightarrow> map fst s" quiet_flush "()", folded sample_registry_def]
    by (auto simp: writes_def step quiet_flush_def empty)
qed

text \<open>C15: A request of the profile API without the right secret is refused with 401, whatever the endpoint, and changes
  nothing.\<close>

theorem api_unauthenticated:
  assumes "header_get r ''Authorization'' \<noteq> secret"
  shows "\<exists>reply. serve_api secret ps e r w = (Returns reply, w) \<and> resp_status reply = 401 \<and>
    json_decode (resp_body reply) =
      Some (JObj [(''Status'', JStr ''error''), (''Error'', JStr ''Authorization failed'')])"
proof -
  have "json_decode (resp_body (HandleAPIError ''Authorization failed'' 401)) =
      Some (error_message_json ''Authorization failed'')"
    unfolding resp_body_handlers by (rule json_text.dec_enc) (simp add: error_message_json_def)
  then show ?thesis
    using serve_api_unauthenticated [OF assms, of ps e w]
    by (intro exI [of _ "HandleAPIError ''Authorization failed'' 401"]) (simp add: error_message_json_def)
qed

theorem api_unauthenticated_witness:
  "\<exists>reply. serve_api ''other'' sample_registry Delete_profile sample_request (sample_store, ()) =
     (Returns reply, (sample_store, ())) \<and> resp_status reply = 401"
proof -
  have "header_get sample_request ''Authorization'' \<noteq> ''other''"
    by (simp add: header_get_def get_first_def sample_request_def)
  from api_unauthenticated [OF this, of sample_registry Delete_profile "(sample_store, ())"] show ?thesis by blast
qed

text \<open>With an empty secret in the configuration, a request that has no \<^verbatim>\<open>Authorization\<close> header is served.\<close>

theorem api_empty_secret:
  assumes "map_of (req_header r) ''Authorization'' = None"
  shows "serve_api '''' ps e r = api_handler ps e r"
  using assms by (simp add: serve_api_authenticated header_get_def get_first_def)

theorem api_empty_secret_witness:
  "serve_api '''' sample_registry Delete_profile (sample_request\<lparr>req_header := []\<rparr>) =
     api_handler sample_registry Delete_profile (sample_request\<lparr>req_header := []\<rparr>)"
  by (rule api_empty_secret) simp

end
