(* ===== verification/Proxy_Streaming.thy ===== *)
theory Proxy_Streaming
  imports Reverse_Proxy
begin

section \<open>Copying, flushing and cancelling (reverse\_proxy.go)\<close>

text \<open>
  The part of the reverse proxy that runs concurrently: with a flush interval the body is copied by one
  goroutine and flushed at every tick by another, over one destination. The two exclude each other by a
  mutex, and end together when the copying one hands its signal over an unbuffered channel. The steps of the relation
  are those of either goroutine from one program point to the next, and the handing over, which needs both. The body
  comes in the pieces \<^verbatim>\<open>io.Copy\<close> reads; copying ends at the first error of the source or the destination, which may have
  taken a part of the piece. The other part is the body of the request, which calls a hook before it is read for the
  first time, and the goroutine this hook starts, which cancels the request when the client goes away; its own steps
  are told apart from what the client, the transport and the handler do.
\<close>

subsection \<open>The hook of the request's body\<close>

text \<open>A read of the underlying reader yields its bytes and its error; \<open>hook\<close> says whether the function is
  still to be called. The result: what was read, and whether the function was called.\<close>

record 'r first_read =
  Reader :: "'r option"
  hook :: bool

definition first_read_Read ::
    "('r \<Rightarrow> (string \<times> go_error option) \<times> 'r) \<Rightarrow> 'r first_read \<Rightarrow>
      ((string \<times> go_error option) \<times> bool) \<times> 'r first_read" where
  "first_read_Read read c =
     (let ran = hook c; c1 = c\<lparr>hook := False\<rparr> in
      case Reader c1 of
        None \<Rightarrow> ((('''', Some ''EOF''), ran), c1)
      | Some r \<Rightarrow> (case read r of (res, r') \<Rightarrow> ((res, ran), c1\<lparr>Reader := Some r'\<rparr>)))"

text \<open>Reading \<open>n\<close> times: what each read yields, and whether it called the function.\<close>

fun reads_of ::
    "('r \<Rightarrow> (string \<times> go_error option) \<times> 'r) \<Rightarrow> nat \<Rightarrow> 'r first_read \<Rightarrow> ((string \<times> go_error option) \<times> bool) list" where
  "reads_of read 0 c = []"
| "reads_of read (Suc n) c = (case first_read_Read read c of (x, c') \<Rightarrow> x # reads_of read n c')"

lemma first_read_Read_hook: "hook (snd (first_read_Read read c)) = False"
  by (simp add: first_read_Read_def Let_def split: option.split prod.split)

lemma first_read_Read_ran: "snd (fst (first_read_Read read c)) = hook c"
  by (simp add: first_read_Read_def Let_def split: option.split prod.split)

lemma reads_of_hooked: "\<not> hook c \<Longrightarrow> map snd (reads_of read n c) = replicate n False"
proof (induction n arbitrary: c)
  case (Suc n)
  then show ?case
    using first_read_Read_hook [of read c] first_read_Read_ran [of read c]
    by (auto split: prod.split)
qed simp

text \<open>The function is called by the first read and by no other.\<close>

lemma reads_of_once: "hook c \<Longrightarrow> map snd (reads_of read (Suc n) c) = True # replicate n False"
  using first_read_Read_hook [of read c] first_read_Read_ran [of read c]
  by (auto simp: reads_of_hooked split: prod.split)

subsection \<open>The two goroutines\<close>

text \<open>
  Where each of the two is. The copying one is between two writes, in a write (under the mutex when its
  destination is the flushing writer), at the deferred \<^verbatim>\<open>m.done <- true\<close>, or back from \<^verbatim>\<open>copyResponse\<close>. The other
  is before its ticker is made, at its \<^verbatim>\<open>select\<close>, before the mutex after a tick, in the flush under the mutex, or has
  returned. A ticker of an interval that is not positive panics, in a goroutine nobody recovers, which ends the program.
\<close>

datatype copy_point = Copying | Writing | Stopping | Copied | Killed

datatype flush_point = No_loop | Starting | Selecting | Ticked | Flushing | Returned | Panicked

datatype stream_event = Written string | Flushed

record streaming =
  to_copy :: "string list"
  sent :: "stream_event list"
  latency :: int
  wrapped :: bool
  lk :: bool
  copier :: copy_point
  flusher :: flush_point

text \<open>Without an interval, or with a destination that cannot be flushed, there is no second goroutine and the
  destination is written to directly.\<close>

definition start_copy :: "int \<Rightarrow> bool \<Rightarrow> string list \<Rightarrow> streaming" where
  "start_copy interval can_flush body =
     (let mlw = (interval \<noteq> 0 \<and> can_flush) in
      \<lparr>to_copy = body, sent = [], latency = interval, wrapped = mlw, lk = False, copier = Copying,
       flusher = (if mlw then Starting else No_loop)\<rparr>)"

text \<open>The signal is sent over an unbuffered channel: \<^verbatim>\<open>stop\<close> returns only together with the receive in the \<^verbatim>\<open>select\<close>
  of the flush loop, so this step needs both goroutines at these points.\<close>

inductive stream_step :: "streaming \<Rightarrow> streaming \<Rightarrow> bool" where
  Begin_write: "copier s = Copying \<Longrightarrow> to_copy s \<noteq> [] \<Longrightarrow> \<not> (wrapped s \<and> lk s) \<Longrightarrow>
    stream_step s (s\<lparr>copier := Writing, lk := wrapped s\<rparr>)"
| Write_piece: "copier s = Writing \<Longrightarrow> to_copy s = b # bs \<Longrightarrow>
    stream_step s (s\<lparr>to_copy := bs, sent := sent s @ [Written b], copier := Copying, lk := False\<rparr>)"
| Write_fails: "copier s = Writing \<Longrightarrow> to_copy s = b # bs \<Longrightarrow> prefix c b \<Longrightarrow>
    stream_step s (s\<lparr>to_copy := [], sent := sent s @ [Written c], copier := Copying, lk := False\<rparr>)"
| Copy_ends: "copier s = Copying \<Longrightarrow> to_copy s = [] \<Longrightarrow>
    stream_step s (s\<lparr>copier := if wrapped s then Stopping else Copied\<rparr>)"
| Make_ticker: "flusher s = Starting \<Longrightarrow> 0 < latency s \<Longrightarrow> stream_step s (s\<lparr>flusher := Selecting\<rparr>)"
| Ticker_panics: "flusher s = Starting \<Longrightarrow> latency s \<le> 0 \<Longrightarrow>
    stream_step s (s\<lparr>flusher := Panicked, copier := Killed\<rparr>)"
| Tick: "flusher s = Selecting \<Longrightarrow> stream_step s (s\<lparr>flusher := Ticked\<rparr>)"
| Begin_flush: "flusher s = Ticked \<Longrightarrow> \<not> lk s \<Longrightarrow> stream_step s (s\<lparr>flusher := Flushing, lk := True\<rparr>)"
| Flush: "flusher s = Flushing \<Longrightarrow>
    stream_step s (s\<lparr>sent := sent s @ [Flushed], flusher := Selecting, lk := False\<rparr>)"
| Stop: "copier s = Stopping \<Longrightarrow> flusher s = Selecting \<Longrightarrow>
    stream_step s (s\<lparr>copier := Copied, flusher := Returned\<rparr>)"

inductive_cases stream_step_cases: "stream_step s s'"

text \<open>What has been written, flushes left out.\<close>

fun written :: "stream_event list \<Rightarrow> string" where
  "written [] = ''''"
| "written (Written b # es) = b @ written es"
| "written (Flushed # es) = written es"

lemma written_append [simp]: "written (es @ fs) = written es @ written fs"
  by (induction es rule: written.induct) simp_all

text \<open>The invariant: what is written and what is left to copy are the body as far as no write has failed; the mutex is held by one
  of the two and only while it writes or flushes; the flush loop has returned exactly when a wrapped copy is over.\<close>

definition stream_ok :: "int \<Rightarrow> bool \<Rightarrow> string list \<Rightarrow> streaming \<Rightarrow> bool" where
  "stream_ok interval can_flush body s \<longleftrightarrow>
     prefix (written (sent s) @ concat (to_copy s)) (concat body) \<and>
     latency s = interval \<and> wrapped s = (interval \<noteq> 0 \<and> can_flush) \<and> (wrapped s \<longleftrightarrow> flusher s \<noteq> No_loop) \<and>
     (copier s = Writing \<longrightarrow> to_copy s \<noteq> []) \<and> (copier s \<in> {Stopping, Copied} \<longrightarrow> to_copy s = []) \<and>
     (copier s = Stopping \<longrightarrow> wrapped s) \<and> (flusher s = Panicked \<longleftrightarrow> copier s = Killed) \<and>
     (flusher s = Panicked \<longrightarrow> interval \<le> 0) \<and> (flusher s = Returned \<longleftrightarrow> copier s = Copied \<and> wrapped s) \<and>
     (flusher s \<noteq> Panicked \<longrightarrow> (lk s \<longleftrightarrow> (wrapped s \<and> copier s = Writing) \<noteq> (flusher s = Flushing)) \<and>
       \<not> (wrapped s \<and> copier s = Writing \<and> flusher s = Flushing)) \<and>
     (Flushed \<in> set (sent s) \<longrightarrow> wrapped s)"

lemma stream_ok_start: "stream_ok interval can_flush body (start_copy interval can_flush body)"
  by (simp add: stream_ok_def start_copy_def Let_def)

lemma stream_ok_step: "stream_step s s' \<Longrightarrow> stream_ok i f body s \<Longrightarrow> stream_ok i f body s'"
  by (induction rule: stream_step.induct) (auto simp: stream_ok_def prefix_def)

lemma stream_ok_reachable:
  "stream_step\<^sup>*\<^sup>* (start_copy i f body) s \<Longrightarrow> stream_ok i f body s"
  by (induction rule: rtranclp_induct) (auto intro: stream_ok_start stream_ok_step)

lemma stream_ok_steps:
  "stream_step\<^sup>*\<^sup>* s s' \<Longrightarrow> stream_ok i f body s \<Longrightarrow> stream_ok i f body s'"
  by (induction rule: rtranclp_induct) (auto intro: stream_ok_step)

text \<open>After the copy is over the flush loop is too, and nothing is sent any more.\<close>

lemma stopped_quiet:
  "stream_ok i f body s \<Longrightarrow> copier s = Copied \<Longrightarrow> flusher s \<in> {No_loop, Returned} \<and> \<not> stream_step s s'"
  by (cases "flusher s") (auto simp: stream_ok_def elim: stream_step_cases)

text \<open>
  Copying can always be completed. The flush loop can be brought back to its \<^verbatim>\<open>select\<close> whenever the other goroutine
  does not hold the mutex; from there the pieces left are written one after the other, and the signal is received.
\<close>

abbreviation same_copy :: "streaming \<Rightarrow> streaming \<Rightarrow> bool" where
  "same_copy s s' \<equiv> copier s' = copier s \<and> to_copy s' = to_copy s \<and> written (sent s') = written (sent s)"

lemma flush_loop_settles:
  assumes "stream_ok i f body s" and "0 \<le> i" and "copier s \<in> {Copying, Stopping}"
  shows "\<exists>s'. stream_step\<^sup>*\<^sup>* s s' \<and> same_copy s s' \<and> flusher s' \<in> {No_loop, Selecting}"
proof (cases "flusher s")
  case Starting
  with assms have "stream_step s (s\<lparr>flusher := Selecting\<rparr>)" by (auto simp: stream_ok_def intro: stream_step.Make_ticker)
  then show ?thesis by (intro exI [of _ "s\<lparr>flusher := Selecting\<rparr>"]) auto
next
  case Ticked
  let ?s1 = "s\<lparr>flusher := Flushing, lk := True\<rparr>"
  let ?s2 = "?s1\<lparr>sent := sent ?s1 @ [Flushed], flusher := Selecting, lk := False\<rparr>"
  from assms Ticked have "stream_step s ?s1" by (auto simp: stream_ok_def intro: stream_step.Begin_flush)
  moreover have "stream_step ?s1 ?s2" by (rule stream_step.Flush) simp
  ultimately show ?thesis by (intro exI [of _ ?s2]) auto
next
  case Flushing
  let ?s1 = "s\<lparr>sent := sent s @ [Flushed], flusher := Selecting, lk := False\<rparr>"
  from Flushing have "stream_step s ?s1" by (rule stream_step.Flush)
  then show ?thesis by (intro exI [of _ ?s1]) auto
qed (use assms in \<open>auto simp: stream_ok_def\<close>)

lemma copy_runs_settled:
  assumes "stream_ok i f body s" and "flusher s \<in> {No_loop, Selecting}" and "copier s \<in> {Copying, Stopping}"
  shows "\<exists>s'. stream_step\<^sup>*\<^sup>* s s' \<and> copier s' = Copied \<and> written (sent s') = written (sent s) @ concat (to_copy s)"
  using assms
proof (induction "to_copy s" arbitrary: s)
  case Nil
  have stop: "\<exists>s'. stream_step\<^sup>*\<^sup>* t s' \<and> copier s' = Copied \<and> written (sent s') = written (sent t)"
    if "copier t = Stopping" "flusher t = Selecting" for t
    using stream_step.Stop [OF that] by (intro exI [of _ "t\<lparr>copier := Copied, flusher := Returned\<rparr>"]) auto
  show ?case
  proof (cases "copier s = Stopping")
    case True
    with Nil.prems have "flusher s = Selecting" by (auto simp: stream_ok_def)
    with True stop [of s] Nil.hyps [symmetric] show ?thesis by simp
  next
    case False
    with Nil have c: "copier s = Copying" by simp
    let ?s1 = "s\<lparr>copier := if wrapped s then Stopping else Copied\<rparr>"
    have s1: "stream_step s ?s1" by (rule stream_step.Copy_ends [OF c Nil.hyps [symmetric]])
    show ?thesis
    proof (cases "wrapped s")
      case True
      with Nil.prems have "flusher ?s1 = Selecting" by (auto simp: stream_ok_def)
      with True stop [of ?s1] obtain s' where "stream_step\<^sup>*\<^sup>* ?s1 s'" "copier s' = Copied"
        "written (sent s') = written (sent ?s1)" by auto
      with s1 Nil.hyps [symmetric] show ?thesis
        by (intro exI [of _ s'] conjI converse_rtranclp_into_rtranclp [of _ s ?s1]) simp_all
    next
      case False
      with s1 Nil.hyps [symmetric] show ?thesis by (intro exI [of _ ?s1]) auto
    qed
  qed
next
  case (Cons b bs)
  let ?s1 = "s\<lparr>copier := Writing, lk := wrapped s\<rparr>"
  let ?s2 = "?s1\<lparr>to_copy := bs, sent := sent ?s1 @ [Written b], copier := Copying, lk := False\<rparr>"
  from Cons.prems Cons.hyps(2) [symmetric] have c: "copier s = Copying" "\<not> lk s" by (auto simp: stream_ok_def)
  have "stream_step s ?s1"
    by (rule stream_step.Begin_write [OF c(1)]) (use Cons.hyps(2) [symmetric] c(2) in simp_all)
  moreover have "stream_step ?s1 ?s2"
    using stream_step.Write_piece [of ?s1 b bs] Cons.hyps(2) [symmetric] by simp
  ultimately have run: "stream_step\<^sup>*\<^sup>* s ?s2" by (meson converse_rtranclp_into_rtranclp rtranclp.rtrancl_refl)
  then have "stream_ok i f body ?s2" using Cons.prems(1) by (rule stream_ok_steps)
  moreover have "flusher ?s2 \<in> {No_loop, Selecting}" using Cons.prems(2) by simp
  ultimately obtain s' where s': "stream_step\<^sup>*\<^sup>* ?s2 s'" "copier s' = Copied"
    "written (sent s') = written (sent ?s2) @ concat (to_copy ?s2)" using Cons.hyps(1) [of ?s2] by auto
  from run s'(1) have "stream_step\<^sup>*\<^sup>* s s'" by (rule rtranclp_trans)
  with s'(2,3) Cons.hyps(2) [symmetric] show ?case by (intro exI [of _ s']) simp
qed

lemma copy_runs:
  assumes ok: "stream_ok i f body s" and "0 \<le> i"
  shows "\<exists>s'. stream_step\<^sup>*\<^sup>* s s' \<and> copier s' = Copied \<and> written (sent s') = written (sent s) @ concat (to_copy s)"
proof -
  have free: "\<exists>s'. stream_step\<^sup>*\<^sup>* t s' \<and> copier s' = Copied \<and> written (sent s') = written (sent t) @ concat (to_copy t)"
    if t: "stream_ok i f body t" "copier t \<in> {Copying, Stopping}" for t
  proof -
    from flush_loop_settles [OF t(1) assms(2) t(2)] obtain u where
      u: "stream_step\<^sup>*\<^sup>* t u" "same_copy t u" "flusher u \<in> {No_loop, Selecting}" by blast
    with t(2) have "copier u \<in> {Copying, Stopping}" by simp
    from copy_runs_settled [OF stream_ok_steps [OF u(1) t(1)] u(3) this] obtain s' where
      "stream_step\<^sup>*\<^sup>* u s'" "copier s' = Copied" "written (sent s') = written (sent u) @ concat (to_copy u)" by blast
    with u(2) rtranclp_trans [OF u(1)] show ?thesis by (intro exI [of _ s']) simp
  qed
  show ?thesis
  proof (cases "copier s")
    case Writing
    with ok obtain b bs where b: "to_copy s = b # bs" by (auto simp: stream_ok_def neq_Nil_conv)
    let ?s1 = "s\<lparr>to_copy := bs, sent := sent s @ [Written b], copier := Copying, lk := False\<rparr>"
    have st: "stream_step s ?s1" by (rule stream_step.Write_piece [OF Writing b])
    from free [OF stream_ok_step [OF st ok]] obtain s' where "stream_step\<^sup>*\<^sup>* ?s1 s'" "copier s' = Copied"
      "written (sent s') = written (sent ?s1) @ concat (to_copy ?s1)" by auto
    with st b show ?thesis by (intro exI [of _ s']) (auto intro: converse_rtranclp_into_rtranclp)
  next
    case Copied
    with ok show ?thesis by (intro exI [of _ s]) (auto simp: stream_ok_def)
  next
    case Killed
    with ok assms(2) have False by (auto simp: stream_ok_def)
    then show ?thesis ..
  qed (use free [OF ok] in auto)
qed

text \<open>A negative interval ends the program as soon as the flush loop runs.\<close>

lemma negative_interval_panics:
  assumes "i < 0"
  shows "\<exists>s. stream_step\<^sup>*\<^sup>* (start_copy i True body) s \<and> flusher s = Panicked \<and> copier s = Killed"
proof -
  let ?s = "start_copy i True body"
  have "stream_step ?s (?s\<lparr>flusher := Panicked, copier := Killed\<rparr>)"
    using assms by (intro stream_step.Ticker_panics) (auto simp: start_copy_def Let_def)
  then show ?thesis by (intro exI [of _ "?s\<lparr>flusher := Panicked, copier := Killed\<rparr>"]) auto
qed

subsection \<open>The client that goes away\<close>

text \<open>
  When the destination can tell that its client is gone and the transport can cancel a request, the hook of
  the body starts a third goroutine. It waits for the client to go or the request to be done, whichever
  it sees first, and cancels the request in the first case. Reads of the body may come at any time, also after
  the handler has returned.
\<close>

datatype watcher = Not_started | Waiting | Stopped

record watching =
  watch_hook :: bool
  watcher :: watcher
  client_gone :: bool
  req_done :: bool
  cancels :: nat

definition start_watch :: "bool \<Rightarrow> bool \<Rightarrow> watching" where
  "start_watch notifies can_cancel =
     \<lparr>watch_hook = (notifies \<and> can_cancel), watcher = Not_started, client_gone = False, req_done = False, cancels = 0\<rparr>"

text \<open>What happens around the goroutine: the transport reads the body, the client goes away, the handler returns and
  closes \<^verbatim>\<open>reqDone\<close>.\<close>

inductive watch_env :: "watching \<Rightarrow> watching \<Rightarrow> bool" where
  Body_read: "watch_env w (if watch_hook w then w\<lparr>watch_hook := False, watcher := Waiting\<rparr> else w)"
| Client_leaves: "watch_env w (w\<lparr>client_gone := True\<rparr>)"
| Handler_returns: "watch_env w (w\<lparr>req_done := True\<rparr>)"

text \<open>The two branches of its \<^verbatim>\<open>select\<close>.\<close>

inductive watch_own :: "watching \<Rightarrow> watching \<Rightarrow> bool" where
  Cancels: "watcher w = Waiting \<Longrightarrow> client_gone w \<Longrightarrow>
    watch_own w (w\<lparr>watcher := Stopped, cancels := cancels w + 1\<rparr>)"
| Gives_up: "watcher w = Waiting \<Longrightarrow> req_done w \<Longrightarrow> watch_own w (w\<lparr>watcher := Stopped\<rparr>)"

definition watch_step :: "watching \<Rightarrow> watching \<Rightarrow> bool" where
  "watch_step w w' \<longleftrightarrow> watch_env w w' \<or> watch_own w w'"

inductive_cases watch_own_cases: "watch_own w w'"

definition watch_ok :: "bool \<Rightarrow> watching \<Rightarrow> bool" where
  "watch_ok active w \<longleftrightarrow>
     (watcher w = Not_started \<longleftrightarrow> watch_hook w \<or> \<not> active) \<and> (watch_hook w \<longrightarrow> active) \<and>
     (watcher w \<noteq> Stopped \<longrightarrow> cancels w = 0) \<and> cancels w \<le> 1 \<and>
     (0 < cancels w \<longrightarrow> client_gone w) \<and> (watcher w = Stopped \<longrightarrow> client_gone w \<or> req_done w)"

lemma watch_ok_start: "watch_ok (notifies \<and> can_cancel) (start_watch notifies can_cancel)"
  by (simp add: watch_ok_def start_watch_def)

lemma watch_ok_env: "watch_env w w' \<Longrightarrow> watch_ok active w \<Longrightarrow> watch_ok active w'"
  by (induction rule: watch_env.induct) (auto simp: watch_ok_def)

lemma watch_ok_own: "watch_own w w' \<Longrightarrow> watch_ok active w \<Longrightarrow> watch_ok active w'"
  by (induction rule: watch_own.induct) (auto simp: watch_ok_def)

lemma watch_ok_step: "watch_step w w' \<Longrightarrow> watch_ok active w \<Longrightarrow> watch_ok active w'"
  by (auto simp: watch_step_def intro: watch_ok_env watch_ok_own)

lemma watch_ok_reachable:
  "watch_step\<^sup>*\<^sup>* (start_watch notifies can_cancel) w \<Longrightarrow> watch_ok (notifies \<and> can_cancel) w"
  by (induction rule: rtranclp_induct) (auto intro: watch_ok_start watch_ok_step)

text \<open>The goroutine does not outlive the request: it has a step of its own exactly when the client has gone or the handler has
  returned, and each such step ends it.\<close>

lemma watcher_moves: "(\<exists>w'. watch_own w w') \<longleftrightarrow> watcher w = Waiting \<and> (client_gone w \<or> req_done w)"
  by (blast elim: watch_own_cases intro: watch_own.intros)

lemma watcher_stops: "watch_own w w' \<Longrightarrow> watcher w' = Stopped"
  by (erule watch_own_cases) simp_all

end
