(* ===== verification/Props_Storage.thy ===== *)
theory Props_Storage
  imports Samples Startup Proxy_Streaming
begin

section \<open>Properties of encodings, stores and loaders\<close>

text \<open>
  Encodings and their round trips, the three kinds of store, and the loaders, each property with its
  application to a concrete input where it has a hypothesis.
\<close>

subsection \<open>Encodings\<close>

text \<open>C17: A profile survives the trip through its JSON text: decoding what was printed yields the same profile and no
  error.\<close>

theorem profile_roundtrip:
  assumes "wf_profile p"
  shows "unmarshal_profile (marshal_profile p) = (None, p)"
  by (rule unmarshal_marshal_profile [OF assms])

theorem profile_roundtrip_witness:
  "unmarshal_profile (marshal_profile sample_profile) = (None, sample_profile)"
  by (rule profile_roundtrip) simp

text \<open>C36: Whatever text a profile is decoded from, and whether or not that fails, the result is a well-formed profile, so
  that printing and decoding it again gives it back.\<close>

theorem decoded_profile_stable:
  "wf_profile (snd (unmarshal_profile t)) \<and>
    unmarshal_profile (marshal_profile (snd (unmarshal_profile t))) = (None, snd (unmarshal_profile t))"
  using unmarshal_profile_wf [of t] by (simp add: unmarshal_marshal_profile)

subsection \<open>Stores\<close>

text \<open>A listing of the in-memory store shows every profile of the registry exactly once, in whatever order the map is
  visited.\<close>

theorem listing_complete:
  assumes "registry_ok m" and "kv m = Some s" and "iteration_order order s"
  shows "set (in_memory_GetAll order org m) = ProfileVal ` ran (in_memory_view m) \<and>
    distinct (in_memory_GetAll order org m) \<and> length (in_memory_GetAll order org m) = length s"
proof -
  have inv: "in_memory_inv m" and keyed: "keyed (in_memory_view m)" using assms(1) by (simp_all add: registry_ok_def)
  have dom: "set order = dom (in_memory_view m)"
    using assms(3) dom_in_memory_view [OF inv assms(2)] by (simp add: iteration_order_def)
  have "inj_on (\<lambda>k. ProfileVal (the (in_memory_view m k))) (set order)"
  proof (rule inj_onI)
    fix k k' assume k: "k \<in> set order" "k' \<in> set order"
      and same: "ProfileVal (the (in_memory_view m k)) = ProfileVal (the (in_memory_view m k'))"
    from k obtain p p' where "in_memory_view m k = Some p" "in_memory_view m k' = Some p'"
      unfolding dom by blast
    with same keyed show "k = k'" by (simp add: keyed_def) metis
  qed
  with assms(3) have "distinct (in_memory_GetAll order org m)"
    by (simp add: in_memory_GetAll_map [OF inv assms(2,3)] distinct_map iteration_order_def)
  then show ?thesis
    using in_memory_GetAll_view [OF inv assms(2,3)] in_memory_GetAll_length [OF inv assms(2,3)] by simp
qed

theorem listing_complete_witness:
  "set (in_memory_GetAll [''p1''] ''o'' sample_store) = {ProfileVal sample_profile}"
proof -
  have "kv sample_store = Some [(''p1'', marshal_profile sample_profile)]" by (simp add: sample_store_def)
  moreover have "ran (in_memory_view sample_store) = {sample_profile}"
    by (auto simp: ran_def view_sample_store)
  ultimately show ?thesis
    using listing_complete [OF registry_ok_sample, of "[(''p1'', marshal_profile sample_profile)]" "[''p1'']" "''o''"]
    by (simp add: iteration_order_def)
qed

text \<open>C37: The identity store and the store of path parameters may share a Redis server: a write to the first leaves every
  parameter as it was, and every identity but the one that is written.\<close>

theorem redis_stores_apart:
  assumes "key_value_documented ops db"
    and "redis_SetKey ops k org v ((snd (InitBackend c0))\<lparr>client := c\<rparr>) = (None, r')"
  shows "db (client r') (fixKey (config_store c1) k') = db c (fixKey (config_store c1) k') \<and>
    (k'' \<noteq> k \<longrightarrow> db (client r') (fixKey r' k'') = db c (fixKey r' k''))"
proof -
  let ?r = "(snd (InitBackend c0))\<lparr>client := c\<rparr>"
  have "db (client r') = (db c)(fixKey ?r k \<mapsto> redis_text v)" and r': "fixKey r' = fixKey ?r"
    using assms by (auto simp: redis_SetKey_def key_value_documented_def fun_eq_iff split: prod.splits option.splits)
  moreover have "fixKey ?r k \<noteq> fixKey (config_store c1) k'"
    using stores_disjoint [of c0 k c1 k'] by simp
  ultimately show ?thesis by simp
qed

theorem redis_stores_apart_witness:
  "\<exists>r'. redis_SetKey map_server ''k'' '''' (StringVal ''t'') (snd (InitBackend Map.empty)) = (None, r') \<and>
     client r' (fixKey (config_store Map.empty) ''o1-p1'') = None"
proof -
  let ?r = "(snd (InitBackend (Map.empty :: string \<rightharpoonup> string)))\<lparr>client := Map.empty\<rparr>"
  obtain r' where r': "redis_SetKey map_server ''k'' '''' (StringVal ''t'') ?r = (None, r')"
    by (simp add: redis_SetKey_def map_server_def)
  have "?r = snd (InitBackend Map.empty)" by (simp add: InitBackend_def)
  with redis_stores_apart [OF map_server_documented r', of Map.empty "''o1-p1''" "''k''"] r' show ?thesis by auto
qed

lemma json_decode_name: "json_decode (CHR ''i'' # s) = None"
proof -
  have "skip_ws (CHR ''i'' # s) = CHR ''i'' # s" by (simp add: skip_ws_def is_ws_def)
  moreover have "parse_number (CHR ''i'' # s) = None"
  proof -
    have c: "\<not> is_num_char CHR ''i''" by code_simp
    have "\<not> is_int_literal ''''" "\<not> is_number ''''" by code_simp+
    with c show ?thesis by (simp add: parse_number_def)
  qed
  ultimately show ?thesis by (simp add: json_decode_def numeral_2_eq_2 parse_value.simps(2))
qed

text \<open>C25: Flushing the identity store into Mongo, as a loader of a Redis store would, loses the collection: a listing of
  the identity store holds names and not profiles, so the first one fails to decode, after all documents have been deleted.\<close>

theorem mongo_flush_of_identities:
  assumes "document_store_documented ops docs" and "dsDelete ops [] m = (None, m1)"
    and "KeyPrefix r = ''identity-cache.''" and "redis_GetAll rops org r = Some vs"
  shows "\<exists>e. MongoLoader_Flush ops is_no_rows (redis_GetAll rops org) r m = (Returns (Some e), m1) \<and> docs m1 = []"
proof -
  have "docs m1 = []"
    using assms(1,2) by (auto simp: document_store_documented_def filter_matches_def map_get_def)
  moreover have "vs \<noteq> []" using assms(4) by (auto simp: redis_GetAll_def split: prod.splits option.splits if_splits)
  then obtain v vs' where vs: "vs = v # vs'" by (cases vs) auto
  then obtain k where v: "v = StringVal (''identity-cache.'' @ k)"
    using redis_GetAll_names [OF assms(4), of v] assms(3) by auto
  have "json_decode (''identity-cache.'' @ k) = None" using json_decode_name by simp
  then obtain e p where "unmarshal_profile (''identity-cache.'' @ k) = (Some e, p)"
    by (auto simp: unmarshal_profile_def Unmarshal_def)
  ultimately show ?thesis
    using assms(2,4) v vs by (auto simp: MongoLoader_Flush_def handleEmptyProfilesError_def)
qed

theorem mongo_flush_of_identities_witness:
  "\<exists>e. MongoLoader_Flush list_collection (\<lambda>e. False) (redis_GetAll (one_key_server ''t'') '''')
     (snd (InitBackend ())) [sample_profile] = (Returns (Some e), [])"
proof -
  have del: "dsDelete list_collection [] [sample_profile] = (None, [])"
    by (simp add: list_collection_def filter_matches_def map_get_def)
  have pre: "KeyPrefix (snd (InitBackend ())) = ''identity-cache.''" by (simp add: InitBackend_def)
  have "redis_GetAll (one_key_server ''t'') '''' (snd (InitBackend ())) = Some [StringVal ''identity-cache.t'']"
    by (simp add: redis_GetAll_def one_key_server_def InitBackend_def)
  from mongo_flush_of_identities [OF list_collection_documented del pre this] show ?thesis by blast
qed

text \<open>What the configuration says of Redis is what the connector is given: the detour of the settings through their JSON
  text changes nothing.\<close>

theorem redis_options_kept:
  assumes "settings_in_range conf"
  shows "redis_Init connector new_kv conf = rbind (connector (redis_Connect_options conf)) new_kv"
  by (simp add: redis_Init_def redis_config_same [OF assms] redis_Connect_def)

theorem redis_options_kept_witness:
  "redis_Init (\<lambda>(o1, o2). Inr (opt_Host o1, tls_Enable o2)) Inr
     ((IdentityBackendSettings zero_configuration)\<lparr>Redis_Host := ''db'', Redis_Hosts := [(''a'', ''1'')]\<rparr>) =
     Inr (''db'', False)"
proof -
  have "settings_in_range ((IdentityBackendSettings zero_configuration)\<lparr>Redis_Host := ''db'', Redis_Hosts := [(''a'', ''1'')]\<rparr>)"
    by (simp add: settings_in_range_def zero_configuration_def wf_map_def)
  then show ?thesis
    by (subst redis_options_kept) (simp_all add: redis_Connect_options_def rbind_def zero_configuration_def)
qed

subsection \<open>Loaders\<close>

text \<open>C18: What the file loader saves, it loads, when it saves to the file it loads from, that is when no other directory is configured for
  saving and the two paths are the same once cleaned: after a flush whose read of the old file and two writes succeed, loading the file into a
  fresh store restores the registry, whatever the order of the listing that was saved.\<close>

theorem flush_then_load:
  assumes "registry_ok m" and "kv m = Some s" and "iteration_order order s"
    and "os_files_documented os" and "path_Clean (save_path conf) = path_Clean (FileName conf)"
    and "osReadFile os (FileName conf) d = Inr old"
    and "osWriteFile os (backup_location conf unix) old d = (None, d1)"
    and "osWriteFile os (save_path conf) (print_json (values_json (Some (in_memory_GetAll order '''' m)))) d1 = (None, d2)"
  shows "FileLoader_Flush os conf unix (\<lambda>m. Some (in_memory_GetAll order '''' m)) m d = (Returns None, d2) \<and>
    (\<exists>m'. FileLoader_LoadIntoStore os conf in_memory_SetKey d2 CreateInMemoryBackend = (Returns None, m') \<and>
      registry_ok m' \<and> in_memory_view m' = in_memory_view m)"
proof -
  have inv: "in_memory_inv m" and keyed: "keyed (in_memory_view m)" using assms(1) by (simp_all add: registry_ok_def)
  note written = FileLoader_Flush_written [where get_all = "\<lambda>m. Some (in_memory_GetAll order '''' m)" and s = m,
      OF assms(4,5,7,6,8)]
  obtain m' where "FileLoader_LoadIntoStore os conf in_memory_SetKey d2 CreateInMemoryBackend = (Returns None, m')"
    "in_memory_inv m'" "in_memory_view m' = in_memory_view m"
    using load_listing [OF inv assms(2,3) keyed written(2)] unfolding CreateInMemoryBackend_def by blast
  with written(1) keyed show ?thesis by (simp add: registry_ok_def)
qed

text \<open>The file loader reports success also when the profiles could not be written: the error of that write is never
  looked at, only the one of the backup before it.\<close>

theorem flush_hides_failure:
  assumes "osReadFile os (FileName conf) d = Inr old"
    and "osWriteFile os (backup_location conf unix) old d = (None, d1)"
    and "osWriteFile os (save_path conf) (print_json (values_json (get_all s))) d1 = (Some e, d2)"
  shows "FileLoader_Flush os conf unix get_all s d = (Returns None, d2)"
  using FileLoader_Flush_outcome [OF assms(1,2), of get_all s] assms(3) by simp

text \<open>A profile file that does not decode is reported as loaded, and nothing is stored.\<close>

theorem load_hides_bad_file:
  assumes "osReadFile os (FileName conf) d = Inr t" and "unmarshal_profiles t = (Some e, ps)"
  shows "FileLoader_LoadIntoStore os conf set_key d s = (Returns None, s)"
  using assms by (simp add: FileLoader_LoadIntoStore_def)

definition sample_files :: "string \<rightharpoonup> string" where
  "sample_files = [''profiles.json'' \<mapsto> ''{]'']"

definition sample_loader :: file_loader_conf where
  "sample_loader = \<lparr>FileName = ''./profiles.json'', ProfileDir = ''''\<rparr>"

lemma sample_paths:
  "path_Clean (FileName sample_loader) = ''profiles.json''" "path_Clean (save_path sample_loader) = ''profiles.json''"
  "path_Clean (backup_location sample_loader 7) = ''profiles_backup_7.json''"
  by code_simp+

theorem flush_then_load_witness:
  "\<exists>d2 m'. FileLoader_Flush path_files sample_loader 7 (\<lambda>m. Some (in_memory_GetAll [''p1''] '''' m)) sample_store
     sample_files = (Returns None, d2) \<and>
   FileLoader_LoadIntoStore path_files sample_loader in_memory_SetKey d2 CreateInMemoryBackend = (Returns None, m') \<and>
   in_memory_view m' = in_memory_view sample_store"
proof -
  have kv: "kv sample_store = Some [(''p1'', marshal_profile sample_profile)]" by (simp add: sample_store_def)
  have order: "iteration_order [''p1''] [(''p1'', marshal_profile sample_profile)]" by (simp add: iteration_order_def)
  have same: "path_Clean (save_path sample_loader) = path_Clean (FileName sample_loader)" by (simp add: sample_paths)
  have old: "osReadFile path_files (FileName sample_loader) sample_files = Inr ''{]''"
    by (simp add: path_files_def sample_paths sample_files_def)
  have bk: "osWriteFile path_files (backup_location sample_loader 7) ''{]'' sample_files =
      (None, sample_files(path_Clean (backup_location sample_loader 7) \<mapsto> ''{]''))"
    by (simp add: path_files_def)
  have w: "osWriteFile path_files (save_path sample_loader) b d = (None, d(path_Clean (save_path sample_loader) \<mapsto> b))"
    for b d by (simp add: path_files_def)
  from flush_then_load [OF registry_ok_sample kv order path_files_documented same old bk w] show ?thesis by blast
qed

theorem load_hides_bad_file_witness:
  "FileLoader_LoadIntoStore path_files sample_loader in_memory_SetKey sample_files empty_store = (Returns None, empty_store)"
proof -
  have t: "osReadFile path_files (FileName sample_loader) sample_files = Inr ''{]''"
    by (simp add: path_files_def sample_paths sample_files_def)
  have "fst (unmarshal_profiles ''{]'') \<noteq> None" by code_simp
  then obtain e ps where "unmarshal_profiles ''{]'' = (Some e, ps)" by (cases "unmarshal_profiles ''{]''") auto
  with t show ?thesis by (rule load_hides_bad_file)
qed

text \<open>Files of which only backups can be written.\<close>

definition read_only_files :: "unit os_files" where
  "read_only_files =
     \<lparr>osReadFile = (\<lambda>f d. Inr ''[]''),
      osWriteFile = (\<lambda>f b d. (if HasPrefix f ''profiles_backup_'' then None else Some ''permission denied'', d))\<rparr>"

theorem flush_hides_failure_witness:
  "FileLoader_Flush read_only_files sample_loader 7 (\<lambda>m. Some (in_memory_GetAll [''p1''] '''' m)) sample_store () =
     (Returns None, ())"
proof -
  have names: "HasPrefix (backup_location sample_loader 7) ''profiles_backup_''"
    "\<not> HasPrefix (save_path sample_loader) ''profiles_backup_''" by code_simp+
  show ?thesis
    by (rule flush_hides_failure [of read_only_files sample_loader "()" "''[]''" 7 "()"])
      (simp_all add: read_only_files_def names)
qed

subsection \<open>Starting up\<close>

text \<open>C26: Loading the configuration returns exactly when one of the first three attempts to read the file succeeds; then that many
  attempts were made, the configuration is the decoded text, and the environment was laid over it once for
  every attempt. Three failures end the process.\<close>

theorem LoadConfig_outcome:
  assumes "failCount s = 0" and "reads s = 0" and "\<not> omit_config_file env"
  shows "LoadConfig read env process_env s =
    (case (read 0, read 1, read 2) of
       (Inr t, _, _) \<Rightarrow> Some (s\<lparr>reads := 1, loaded_conf := process_env (decode_configuration t (loaded_conf s))\<rparr>)
     | (_, Inr t, _) \<Rightarrow> Some (s\<lparr>reads := 2, failCount := 1,
         loaded_conf := (process_env ^^ 2) (decode_configuration t (loaded_conf s))\<rparr>)
     | (_, _, Inr t) \<Rightarrow> Some (s\<lparr>reads := 3, failCount := 2,
         loaded_conf := (process_env ^^ 3) (decode_configuration t (loaded_conf s))\<rparr>)
     | _ \<Rightarrow> None)"
  using assms
  by (simp add: LoadConfig_step apply_environment_def numeral_2_eq_2 numeral_3_eq_3 split: sum.split)

theorem LoadConfig_outcome_witness:
  "LoadConfig (\<lambda>k. if k = 2 then Inr (print_json (JObj [(''Port'', JInt 1)])) else Inl ''no file'') Map.empty
     (\<lambda>c. c\<lparr>Conf_Port := Conf_Port c + 1\<rparr>) \<lparr>failCount = 0, loaded_conf = zero_configuration, reads = 0\<rparr> =
     Some \<lparr>failCount = 2, loaded_conf = zero_configuration\<lparr>Conf_Port := 4\<rparr>, reads = 3\<rparr>"
proof -
  have "json_decode (print_json (JObj [(''Port'', JInt 1)])) = Some (JObj [(''Port'', JInt 1)])"
    by (rule json_decode_print) simp
  then have "decode_configuration (print_json (JObj [(''Port'', JInt 1)])) c = c\<lparr>Conf_Port := 1\<rparr>" for c
    unfolding decode_configuration_def Unmarshal_def
    by (simp add: unmarshal_struct_def configuration_fields_def find_field_exact set_int_def)
  then show ?thesis
    by (subst LoadConfig_outcome) (simp_all add: omit_config_file_def numeral_3_eq_3 del: print_json.simps)
qed

text \<open>C35: The Mongo loader keeps trying to connect: it returns exactly when some attempt succeeds. But what it returns is
  the outcome of the first attempt: after a failure also a later success is reported as the first error, with the store of the
  failed attempt.\<close>

theorem mongo_init_outcome:
  "(MongoLoader_Init connect n = None \<longleftrightarrow> (\<forall>k. fst (fst (connect (attempts connect k n))) \<noteq> None)) \<and>
    (\<forall>r n'. MongoLoader_Init connect n = Some (r, n') \<longrightarrow> r = fst (connect n))"
proof -
  have "\<exists>k. fst (fst (connect (attempts connect k n))) = None" if "MongoLoader_Init connect n = Some y" for y
    using that by (rule MongoLoader_Init_attempts)
  moreover have "MongoLoader_Init connect n \<noteq> None" if "fst (fst (connect (attempts connect k n))) = None" for k
    using MongoLoader_Init_returns [where connect = connect and k = k and n = n, OF that] by auto
  moreover have "r = fst (connect n)" if "MongoLoader_Init connect n = Some (r, n')" for r n'
    using that by (rule MongoLoader_Init_first)
  ultimately show ?thesis by (cases "MongoLoader_Init connect n") auto
qed

theorem mongo_init_outcome_witness:
  "\<exists>n'. MongoLoader_Init (\<lambda>n :: nat. ((if n = 2 then None else Some ''refused'', n), Suc n)) 0 = Some ((Some ''refused'', 0), n')"
proof -
  let ?c = "\<lambda>n :: nat. ((if n = 2 then None else Some ''refused'', n), Suc n)"
  have "fst (fst (?c (attempts ?c 2 0))) = None" by (simp add: attempts_def numeral_2_eq_2)
  then have "MongoLoader_Init ?c 0 \<noteq> None" using mongo_init_outcome [of ?c 0] by blast
  then obtain r n' where "MongoLoader_Init ?c 0 = Some (r, n')" by auto
  then show ?thesis using mongo_init_outcome [of ?c 0] by auto
qed

text \<open>Choosing a loader panics for exactly one kind of configuration, one that asks for Mongo and has no Mongo section. Every other one
  gets a loader, for Mongo with one of the two drivers that exist.\<close>

theorem CreateDataLoader_outcome:
  "(CreateDataLoader mgo official config f = Panics x \<longleftrightarrow>
      x = Nil_dereference \<and> (\<exists>s. Storage config = Some s \<and> StorageType s = MONGO \<and> Mongo s = None)) \<and>
    (\<forall>opts. CreateDataLoader mgo official config f = Returns (Use_mongo opts) \<longrightarrow> Opts_Type opts \<in> {mgo, official})"
  by (auto simp: CreateDataLoader_def mongo_opts_def GetMongoDriver_def FILE_def MONGO_def Let_def
      split: option.splits if_splits)

theorem CreateDataLoader_outcome_witness:
  "CreateDataLoader ''mgo'' ''mongo-go'' (zero_configuration\<lparr>Storage := Some \<lparr>StorageType = ''mongo'', Mongo = None\<rparr>\<rparr>) ''p.json'' =
     Panics Nil_dereference"
  using CreateDataLoader_outcome [of "''mgo''" "''mongo-go''" _ "''p.json''" Nil_dereference] by (simp add: MONGO_def)

subsection \<open>The Mongo store behind the API\<close>

definition sample_mongo :: "(profile list, unit) profile_store" where
  "sample_mongo = CreateMongoBackend list_collection (\<lambda>s d. (Returns None, d))"

text \<open>With the Mongo store, asking the API for a profile that does not exist is answered with success and the empty profile:
  the store drops the error of its query, so the 404 of the handler is never reached.\<close>

theorem mongo_missing_profile:
  assumes "document_store_documented ops docs"
    and "dsQueryOne ops (mongo_filter (mux_var r ''id'') '''') zero_profile m = (Some e, p)"
  shows "HandleGetProfile (CreateMongoBackend ops flush) r (m, d) =
    (Returns (HandleAPIOK (profile_json zero_profile) (mux_var r ''id'') 200), (m, d))"
  using mongo_GetKey_missing [OF assms]
  by (simp add: HandleGetProfile_def CreateMongoBackend_def zero_profile_def [THEN arg_cong, of OrgID])

theorem mongo_missing_profile_witness:
  "\<exists>reply. HandleGetProfile sample_mongo sample_request ([], ()) = (Returns reply, ([], ())) \<and> resp_status reply = 200"
proof -
  have "dsQueryOne list_collection (mongo_filter (mux_var sample_request ''id'') '''') zero_profile [] =
      (Some ''not found'', zero_profile)"
    by (simp add: list_collection_def)
  from mongo_missing_profile [OF list_collection_documented this, of "\<lambda>s d. (Returns None, d)" "()", folded sample_mongo_def]
  show ?thesis by auto
qed

text \<open>C40: With the Mongo store, adding a profile that is not there yet panics before anything is stored: the handlers pass a
  pointer, and the store asserts a value.\<close>

theorem mongo_add_panics:
  assumes "document_store_documented ops docs"
    and "dsQueryOne ops (mongo_filter (ID p) (OrgID p)) zero_profile m = (Some e, q)"
  shows "AddProfile (psGet (CreateMongoBackend ops flush)) (psSet (CreateMongoBackend ops flush)) flush' p (m, d) =
    (Panics Type_assertion, (m, d))"
  using mongo_GetKey_missing [OF assms]
  by (simp add: AddProfile_def CreateMongoBackend_def mongo_SetKey_def on_store_def bind_act_def zero_profile_def)

theorem mongo_add_panics_witness:
  "AddProfile (psGet sample_mongo) (psSet sample_mongo) (psFlush sample_mongo) sample_profile ([], ()) =
     (Panics Type_assertion, ([], ()))"
proof -
  have "dsQueryOne list_collection (mongo_filter (ID sample_profile) (OrgID sample_profile)) zero_profile [] =
      (Some ''not found'', zero_profile)"
    by (simp add: list_collection_def)
  then show ?thesis unfolding sample_mongo_def by (rule mongo_add_panics [OF list_collection_documented])
qed

subsection \<open>Names\<close>

text \<open>What a client puts into a basic-authentication header is what the providers read out of it, when neither part has a
  colon; a password with a colon makes both parts empty.\<close>

theorem basic_auth_roundtrip:
  assumes "header_get r ''Authorization'' = scheme @ '' '' @ b64_encode (u @ '':'' @ pw)" and "CHR '' '' \<notin> set scheme"
    and "CHR '':'' \<notin> set u"
  shows "ExtractBAUsernameAndPasswordFromRequest r = (if CHR '':'' \<in> set pw then ('''', '''') else (u, pw))"
proof -
  have "CHR '':'' \<in> set pw \<Longrightarrow> count_list (u @ '':'' @ pw) CHR '':'' \<noteq> 1"
    using count_list_0_iff [of pw "CHR '':''"] by simp
  then show ?thesis
    using ExtractBA_header [OF assms(1,2)] split_credentials_pair [OF assms(3), of pw]
      split_credentials_other [of "u @ '':'' @ pw"] by simp
qed

theorem basic_auth_roundtrip_witness:
  "ExtractBAUsernameAndPasswordFromRequest
     (sample_request\<lparr>req_header := [(''Authorization'', ''Basic '' @ b64_encode ''ann:pw'')]\<rparr>) = (''ann'', ''pw'')"
  by (subst basic_auth_roundtrip [where scheme = "''Basic''" and u = "''ann''" and pw = "''pw''"])
    (simp_all add: header_get_def get_first_def)

text \<open>Slugs in ASCII: making one is idempotent, its result is empty or accepted by the checking function, and what that
  function accepts is left unchanged.\<close>

theorem SlugAscii_idempotent:
  assumes "unicode_documented U"
  shows "SlugAscii U (SlugAscii U s) = SlugAscii U s \<and> (SlugAscii U s = '''' \<or> IsSlugAscii (SlugAscii U s)) \<and>
    (IsSlugAscii s \<longrightarrow> SlugAscii U s = s)"
proof -
  have "SlugAscii U '''' = ''''"
    using unicode_documentedD(1) [OF assms, of "''''"] by (simp add: SlugAscii_def strip_dash_def)
  then show ?thesis using SlugAscii_shape [OF assms, of s] SlugAscii_fixed [OF assms] by auto
qed

theorem SlugAscii_idempotent_witness:
  "SlugAscii ascii_unicode ''a-b'' = ''a-b''"
proof -
  have "IsSlugAscii ''a-b''" by code_simp
  then show ?thesis
    by (rule SlugAscii_idempotent [OF ascii_unicode_documented, THEN conjunct2, THEN conjunct2, rule_format])
qed

text \<open>A slug has no separator at its start or end and no two in a row.\<close>

theorem Slug_separators:
  assumes "\<And>r. is_lat U r \<Longrightarrow> rune_lower U r \<noteq> 45"
  shows "dash_ok 45 True (slug_runes U s) \<and> (slug_runes U s = [] \<or> last (slug_runes U s) \<noteq> 45)"
  using slug_runes_shape [OF assms] by blast

theorem Slug_separators_witness:
  "dash_ok 45 True (slug_runes ascii_unicode ''-a  b-'')"
proof -
  have "rune_lower ascii_unicode r \<noteq> 45" if "is_lat ascii_unicode r" for r
  proof
    assume "rune_lower ascii_unicode r = 45"
    with that have "slug_char (char_of (45 :: nat))" by (simp add: ascii_unicode_def)
    moreover have "\<not> slug_char (char_of (45 :: nat))" by code_simp
    ultimately show False by simp
  qed
  from Slug_separators [OF this] show ?thesis by blast
qed

subsection \<open>The reverse proxy\<close>

text \<open>C29: What the target receives in a header of the request, other than the one the proxy sets itself: nothing when
  the header is hop-by-hop and its first value is not empty, and otherwise the values of the request in their order. Only the
  first value decides: a hop-by-hop header that begins with an empty value is forwarded with the values after it.\<close>

theorem hop_headers_removed:
  assumes "wf_map h" and "k \<noteq> ''X-Forwarded-For''"
  shows "values_of (fst (forwarded_for addr (remove_hop_headers h))) k =
    (if k \<in> set hopHeaders \<and> first_header h k \<noteq> '''' then [] else values_of h k)"
  using forwarded_for_other [OF remove_hop_headers_out(2) [OF assms(1)] assms(2)] remove_hop_headers_out(1) [OF assms(1)]
  by simp

theorem hop_headers_removed_witness:
  "(let out = fst (forwarded_for (Some ''10.0.0.1'') (remove_hop_headers
       [(''Accept'', [''a'', ''b'']), (''Connection'', ['''', ''close'']), (''Upgrade'', [''h2''])])) in
    values_of out ''Accept'' = [''a'', ''b''] \<and> values_of out ''Upgrade'' = [] \<and>
    values_of out ''Connection'' = ['''', ''close''])"
proof -
  let ?h = "[(''Accept'', [''a'', ''b'']), (''Connection'', ['''', ''close'']), (''Upgrade'', [''h2''])]"
  have wf: "wf_map ?h" by (simp add: wf_map_def less_char_def)
  have first: "first_header ?h ''Accept'' = ''a''" "first_header ?h ''Upgrade'' = ''h2''" "first_header ?h ''Connection'' = ''''"
    "values_of ?h ''Accept'' = [''a'', ''b'']" "values_of ?h ''Connection'' = ['''', ''close'']"
    by (simp_all add: first_header_def values_of_def map_get_def)
  show ?thesis
    using hop_headers_removed [OF wf, of "''Accept''" "Some ''10.0.0.1''"]
      hop_headers_removed [OF wf, of "''Upgrade''" "Some ''10.0.0.1''"]
      hop_headers_removed [OF wf, of "''Connection''" "Some ''10.0.0.1''"]
    by (simp add: first Let_def) (simp add: hopHeaders_def)
qed

text \<open>Whether or not a path ends and another begins with a slash, the proxy joins them with exactly one.\<close>

theorem paths_joined:
  assumes "\<not> HasSuffix a ''/''" and "\<not> HasPrefix b ''/''" and "b \<noteq> ''''" and "x \<in> {'''', ''/''}" and "y \<in> {'''', ''/''}"
  shows "singleJoiningSlash (a @ x) (y @ b) = a @ ''/'' @ b"
  using assms singleJoiningSlash_parts [OF assms(1-3)] by auto

theorem paths_joined_witness:
  "singleJoiningSlash ''/base/'' ''/dir'' = ''/base/dir''"
  using paths_joined [of "''/base''" "''dir''" "''/''" "''/''"] by (simp add: HasSuffix_def HasPrefix_def)

text \<open>C30: However the copying of a body and the flushing of it interleave, the client has received a beginning of the body,
  and flushes happen only when an interval is set and the response can be flushed. With an interval that is not negative
  the copying can be completed from every state that is reached, with all that is left of the body written: neither the mutex nor the
  handing over of the signal can block for ever. When it is over the flush loop has returned, and nothing more is sent.\<close>

theorem body_streamed:
  assumes "stream_step\<^sup>*\<^sup>* (start_copy interval can_flush body) s"
  shows "prefix (written (sent s)) (concat body) \<and>
    (Flushed \<in> set (sent s) \<longrightarrow> interval \<noteq> 0 \<and> can_flush) \<and>
    (0 \<le> interval \<longrightarrow> (\<exists>s'. stream_step\<^sup>*\<^sup>* s s' \<and> copier s' = Copied \<and>
       written (sent s') = written (sent s) @ concat (to_copy s))) \<and>
    (copier s = Copied \<longrightarrow> flusher s \<in> {No_loop, Returned} \<and> (\<forall>s'. \<not> stream_step s s'))"
proof (intro conjI impI)
  have ok: "stream_ok interval can_flush body s" by (rule stream_ok_reachable [OF assms])
  from ok have "prefix (written (sent s) @ concat (to_copy s)) (concat body)" by (simp add: stream_ok_def)
  then show "prefix (written (sent s)) (concat body)" by (rule append_prefixD)
  from ok [unfolded stream_ok_def] have "Flushed \<in> set (sent s) \<longrightarrow> wrapped s" "wrapped s = (interval \<noteq> 0 \<and> can_flush)"
    by blast+
  then show "interval \<noteq> 0" "can_flush" if "Flushed \<in> set (sent s)" using that by blast+
  show "\<exists>s'. stream_step\<^sup>*\<^sup>* s s' \<and> copier s' = Copied \<and> written (sent s') = written (sent s) @ concat (to_copy s)"
    if "0 \<le> interval" by (rule copy_runs [OF ok that])
  show "flusher s \<in> {No_loop, Returned}" "\<forall>s'. \<not> stream_step s s'" if "copier s = Copied"
    using stopped_quiet [OF ok that] by blast+
qed

theorem body_streamed_witness:
  "\<exists>s. stream_step\<^sup>*\<^sup>* (start_copy 1 True [''ab'', ''c'']) s \<and> flusher s = Ticked \<and> copier s = Writing \<and> lk s \<and>
     (\<exists>s'. stream_step\<^sup>*\<^sup>* s s' \<and> copier s' = Copied \<and> written (sent s') = ''abc'')"
proof -
  let ?s0 = "start_copy 1 True [''ab'', ''c'']"
  let ?s1 = "?s0\<lparr>flusher := Selecting\<rparr>"
  let ?s2 = "?s1\<lparr>copier := Writing, lk := wrapped ?s1\<rparr>"
  let ?s3 = "?s2\<lparr>flusher := Ticked\<rparr>"
  have "stream_step ?s0 ?s1" by (rule stream_step.Make_ticker) (simp_all add: start_copy_def Let_def)
  moreover have "stream_step ?s1 ?s2" by (rule stream_step.Begin_write) (simp_all add: start_copy_def Let_def)
  moreover have "stream_step ?s2 ?s3" by (rule stream_step.Tick) simp
  ultimately have "stream_step\<^sup>*\<^sup>* ?s0 ?s3" by (meson converse_rtranclp_into_rtranclp rtranclp.rtrancl_refl)
  moreover have "flusher ?s3 = Ticked" "copier ?s3 = Writing" "lk ?s3" "sent ?s3 = []" "to_copy ?s3 = [''ab'', ''c'']"
    by (simp_all add: start_copy_def Let_def)
  ultimately obtain s where s: "stream_step\<^sup>*\<^sup>* ?s0 s" "flusher s = Ticked" "copier s = Writing" "lk s" "sent s = []"
    "to_copy s = [''ab'', ''c'']" by blast
  from body_streamed [OF s(1)] s show ?thesis by auto
qed

text \<open>C32: The request to the target is cancelled at most once, and only when the client has gone away, its going can be
  noticed, and the body of the request was read at some time: a request whose body nobody reads is never cancelled. The
  goroutine that watches the client has a step of its own exactly when the client has gone or the handler has returned, and
  every such step ends it: it does not outlive a request that is over, whatever the client does.\<close>

theorem cancelled_at_most_once:
  assumes "watch_step\<^sup>*\<^sup>* (start_watch notifies can_cancel) w"
  shows "cancels w \<le> 1 \<and>
    (0 < cancels w \<longrightarrow> client_gone w \<and> notifies \<and> can_cancel \<and> \<not> watch_hook w) \<and>
    ((\<exists>w'. watch_own w w') \<longleftrightarrow> watcher w = Waiting \<and> (client_gone w \<or> req_done w)) \<and>
    (\<forall>w'. watch_own w w' \<longrightarrow> watcher w' = Stopped \<and> (cancels w' = 1 \<longrightarrow> client_gone w))"
proof -
  have ok: "watch_ok (notifies \<and> can_cancel) w" by (rule watch_ok_reachable [OF assms])
  moreover have "watcher w' = Stopped \<and> (cancels w' = 1 \<longrightarrow> client_gone w)" if "watch_own w w'" for w'
    using that ok by (cases rule: watch_own_cases) (auto simp: watch_ok_def)
  ultimately show ?thesis using watcher_moves [of w] by (auto simp: watch_ok_def)
qed

theorem cancelled_at_most_once_witness:
  "\<exists>w. watch_step\<^sup>*\<^sup>* (start_watch True True) w \<and> watcher w = Waiting \<and> \<not> client_gone w \<and>
     (\<exists>w'. watch_own w w' \<and> watcher w' = Stopped \<and> cancels w' \<noteq> 1)"
proof -
  let ?w0 = "start_watch True True"
  let ?w1 = "?w0\<lparr>watch_hook := False, watcher := Waiting\<rparr>"
  let ?w2 = "?w1\<lparr>req_done := True\<rparr>"
  have "watch_step ?w0 ?w1" using watch_env.Body_read [of ?w0] by (simp add: start_watch_def watch_step_def)
  moreover have "watch_step ?w1 ?w2" by (simp add: watch_step_def watch_env.Handler_returns)
  ultimately have run: "watch_step\<^sup>*\<^sup>* ?w0 ?w2" by (meson converse_rtranclp_into_rtranclp rtranclp.rtrancl_refl)
  have w2: "watcher ?w2 = Waiting" "req_done ?w2" "\<not> client_gone ?w2" by (simp_all add: start_watch_def)
  with cancelled_at_most_once [OF run] obtain w' where "watch_own ?w2 w'" "watcher w' = Stopped" "cancels w' \<noteq> 1" by blast
  with run w2 show ?thesis by blast
qed

end
