(* ===== verification/Developers.thy ===== *)
theory Developers
  imports Identity_Handler
begin

section \<open>Developers at the portal\<close>

text \<open>
  What becomes of a developer record on its way through a portal login: it is read from the dashboard,
  given an address and a nonce, and written back. \<open>developer_codec\<close> states what the identifiers and the
  times must satisfy for a record to survive its encoding, and \<open>struct_until_developer\<close> that it then does,
  apart from the password, which is never encoded.
\<close>

subsection \<open>The encoding read back\<close>

definition developer_codec :: "environ \<Rightarrow> bool" where
  "developer_codec E \<longleftrightarrow>
     (\<forall>x old. wf_json (oid_json E x) \<and> oid_unmarshal E (oid_json E x) old = (True, x)) \<and>
     (\<forall>t old. wf_json (time_json E t) \<and> time_unmarshal E (time_json E t) old = (True, t))"

lemma developer_codecD:
  assumes "developer_codec E"
  shows "wf_json (oid_json E x)" and "oid_unmarshal E (oid_json E x) o1 = (True, x)"
    and "wf_json (time_json E t)" and "time_unmarshal E (time_json E t) o2 = (True, t)"
  using assms unfolding developer_codec_def by blast+

definition wf_developer :: "portal_developer \<Rightarrow> bool" where
  "wf_developer dev \<longleftrightarrow>
     (\<forall>m. Dev_Keys dev = Some m \<longrightarrow> wf_map m) \<and>
     (\<forall>m. Dev_Subscriptions dev = Some m \<longrightarrow> wf_map m) \<and>
     (\<forall>m. Dev_Fields dev = Some m \<longrightarrow> wf_map m) \<and>
     wf_map (Dev_OauthClients dev) \<and>
     - (2 ^ 63) \<le> Dev_PasswordMaxDays dev \<and> Dev_PasswordMaxDays dev < 2 ^ 63"

lemma string_items_map: "string_items (map JStr ts) old = ts"
  by (induction ts arbitrary: old) simp_all

lemma string_slice_json [simp]: "string_slice (slice_json JStr xs) None = xs"
  by (simp add: string_slice_def slice_json_def string_items_map split: option.split)

lemma slice_entries_json:
  "slice_entries (map (\<lambda>(k, v). (k, slice_json JStr v)) es) m = fold (\<lambda>(k, v). map_put k v) es m"
  by (induction es arbitrary: m) auto

lemma slice_map_json:
  "(\<And>m'. m = Some m' \<Longrightarrow> wf_map m') \<Longrightarrow>
     slice_map (case m of None \<Rightarrow> JNull | Some m' \<Rightarrow> entries_json (slice_json JStr) m') None = m"
  by (simp add: slice_map_def entries_json_def slice_entries_json fold_map_put [of "[]", simplified]
      split: option.split)

lemma oauth_client_fields_json:
  assumes "developer_codec E"
  shows "struct_until (oauth_client_fields E) (oauth_client_json E c) (zero_oauth_client E) = (True, c)"
  by (simp add: developer_codecD [OF assms] struct_until_def oauth_client_json_def oauth_client_fields_def
      find_field_exact go_on_def set_by_def zero_oauth_client_def registration_json_def
      registration_fields_def unmarshal_struct_def)

lemma client_items_json:
  assumes "developer_codec E"
  shows "client_items E (map (oauth_client_json E) cs) = Some cs"
  by (induction cs) (simp_all add: oauth_client_fields_json [OF assms])

lemma client_entries_json:
  assumes "developer_codec E"
  shows "client_entries E (map (\<lambda>(k, v). (k, slice_json (oauth_client_json E) v)) es) m =
    (True, fold (\<lambda>(k, v). map_put k v) es m)"
proof (induction es arbitrary: m)
  case (Cons e es)
  then show ?case
    by (cases e; cases "snd e") (auto simp: slice_json_def client_items_json [OF assms])
qed simp

lemma client_map_json:
  assumes "developer_codec E" and "wf_map m"
  shows "client_map E (entries_json (slice_json (oauth_client_json E)) m) [] = (True, m)"
  using assms
  by (simp add: client_map_def entries_json_def client_entries_json fold_map_put [of "[]", simplified])

lemma string_map_refold:
  "(\<And>m'. m = Some m' \<Longrightarrow> wf_map m') \<Longrightarrow>
    (case m of None \<Rightarrow> None | Some m' \<Rightarrow> Some (fold (\<lambda>(k, v). map_put k v) m'
       (case None of None \<Rightarrow> [] | Some x \<Rightarrow> x))) = m"
  by (auto simp: fold_map_put [of "[]", simplified] split: option.split)

lemma unmarshal_until_append:
  "unmarshal_until fs (xs @ ys) s =
     (case unmarshal_until fs xs s of (True, s') \<Rightarrow> unmarshal_until fs ys s' | r \<Rightarrow> r)"
  by (induction fs xs s rule: unmarshal_until.induct) (auto split: option.split prod.split bool.split)

lemma struct_until_developer:
  assumes C: "developer_codec E" and W: "wf_developer dev"
  shows "struct_until (developer_fields E) (developer_json E dev) (zero_developer E) =
    (True, dev\<lparr>Dev_Password := ''''\<rparr>)"
proof -
  have maps: "slice_map (case Dev_Keys dev of None \<Rightarrow> JNull | Some m' \<Rightarrow> entries_json (slice_json JStr) m') None =
      Dev_Keys dev"
    "(case Dev_Subscriptions dev of None \<Rightarrow> None | Some m' \<Rightarrow> Some (fold (\<lambda>(k, v). map_put k v) m'
       (case None of None \<Rightarrow> [] | Some x \<Rightarrow> x))) = Dev_Subscriptions dev"
    "(case Dev_Fields dev of None \<Rightarrow> None | Some m' \<Rightarrow> Some (fold (\<lambda>(k, v). map_put k v) m'
       (case None of None \<Rightarrow> [] | Some x \<Rightarrow> x))) = Dev_Fields dev"
    using W by (auto simp: wf_developer_def intro!: slice_map_json string_map_refold)
  have cl: "client_map E (entries_json (slice_json (oauth_client_json E)) (Dev_OauthClients dev)) [] =
      (True, Dev_OauthClients dev)"
    using C W by (intro client_map_json) (simp_all add: wf_developer_def)
  have days: "set_int Dev_PasswordMaxDays_update (JInt (Dev_PasswordMaxDays dev)) s =
      (True, s\<lparr>Dev_PasswordMaxDays := Dev_PasswordMaxDays dev\<rparr>)" for s :: portal_developer
    using W by (simp add: wf_developer_def set_int_def)
  show ?thesis
    by (cases dev) (use maps cl days in \<open>simp add: struct_until_def developer_json_def unmarshal_until_append
      developer_fields_def find_field_exact go_on_def set_by_def set_string_map_json
      developer_codecD [OF C] zero_developer_def\<close>)
qed

lemma wf_slice_json: "(\<And>x. wf_json (f x)) \<Longrightarrow> wf_json (slice_json f xs)"
  by (auto simp: slice_json_def split: option.split)

lemma wf_entries_json: "(\<And>x. wf_json (f x)) \<Longrightarrow> wf_json (entries_json f m)"
  by (auto simp: entries_json_def)

lemma wf_oauth_client_json: "developer_codec E \<Longrightarrow> wf_json (oauth_client_json E c)"
  by (simp add: oauth_client_json_def registration_json_def developer_codecD)

lemma wf_developer_json:
  assumes "developer_codec E"
  shows "wf_json (developer_json E dev)"
proof -
  have "wf_json (entries_json (slice_json (oauth_client_json E)) m)" for m
    by (intro wf_entries_json wf_slice_json wf_oauth_client_json assms)
  moreover have "wf_json (entries_json (slice_json JStr) m)" for m
    by (intro wf_entries_json wf_slice_json) simp
  moreover have "wf_json (slice_json JStr xs)" for xs
    by (rule wf_slice_json) simp
  ultimately show ?thesis
    by (auto simp: developer_json_def developer_codecD [OF assms] string_map_json_def split: option.split)
qed

lemma decode_developer_json:
  assumes "developer_codec E" and "wf_developer dev"
  shows "decode_developer E (print_json (developer_json E dev)) (zero_developer E) = dev\<lparr>Dev_Password := ''''\<rparr>"
  by (simp add: decode_developer_def json_decode_print wf_developer_json struct_until_developer assms)

subsection \<open>The record that is written back\<close>

definition prepared_developer :: "goth_user \<Rightarrow> string \<Rightarrow> portal_developer \<Rightarrow> portal_developer" where
  "prepared_developer user nonce u =
     u\<lparr>Dev_Email := (if Dev_Email u = '''' then Email user else Dev_Email u), Dev_Nonce := nonce\<rparr>"

definition developer_written ::
    "environ \<Rightarrow> tyk_handler \<Rightarrow> call list \<Rightarrow> portal_developer \<Rightarrow> bool" where
  "developer_written E t h' dev \<longleftrightarrow>
     (\<exists>g code b. exchanged E g h' ''PUT'' (prepared (DashboardConfig (API t)) (PORTAL_DEV @ ''/'' @ Dev_Id dev))
        (Some (print_json (developer_json E dev))) code b)"

lemma UpdateDeveloper_written:
  assumes "plain_api (API t)"
    and "UpdateDeveloper E (API t) (dashboardUserAPICred t) dev h = (Returns None, h')"
  shows "developer_written E t h' dev"
  using assms(2) unfolding developer_written_def
  by (fastforce simp: UpdateDeveloper_def bind_act_Returns api_config_def dest!: DispatchAndDecode_ok [OF assms(1)])

lemma developer_written_password:
  "developer_written E t h (d\<lparr>Dev_Password := pw\<rparr>) = developer_written E t h d"
  by (simp add: developer_written_def developer_json_no_password)

lemma update_portal_user_written:
  assumes plain: "plain_api (API t)" and w: "unsent (resp w)"
    and run: "update_portal_user E t user u nonce p w = (Returns (), w')"
    and loc: "resp_location (resp w') = Some url"
  shows "developer_written E t (calls w') (prepared_developer user nonce u)"
proof -
  let ?u = "(if Dev_Email u = '''' then u\<lparr>Dev_Email := Email user\<rparr> else u)\<lparr>Dev_Nonce := nonce\<rparr>"
  from update_portal_user_steps [OF run] obtain pw err h where
    sent: "UpdateDeveloper E (API t) (dashboardUserAPICred t) (?u\<lparr>Dev_Password := pw\<rparr>) (calls w) = (Returns err, h)"
    and rest: "(if err \<noteq> None then respond [Write ''Login failed''] else portal_redirect p nonce) (w\<lparr>calls := h\<rparr>)
      = (Returns (), w')" .
  have "unsent (resp (w\<lparr>calls := h\<rparr>))" using w by simp
  note r = save_then_redirect [OF this loc rest]
  have "?u = prepared_developer user nonce u" by (simp add: prepared_developer_def)
  with UpdateDeveloper_written [OF plain sent [unfolded r(1)]] r(3) show ?thesis
    by (simp add: developer_written_password)
qed

text \<open>When the dashboard answers the lookup with the document \<open>b\<close>, what is written back is what could be
  decoded of it.\<close>

lemma GetDeveloperBySSOKey_reply:
  assumes "plain_api t" and "GetDeveloperBySSOKey E t cred key h = (Returns (u, err, auth), h')"
    and "\<And>h out. out_method out = ''GET'' \<Longrightarrow> net_reply E h out = Reply 200 (Inr b)"
    and "\<And>verb url. newRequest E verb url = None"
  shows "err = None \<and> auth \<and> u = decode_developer E b (zero_developer E)"
  using assms(1,2)
  by (auto simp: GetDeveloperBySSOKey_def DispatchAndDecode_def DispatchDashboard_def plain_api_def
      Let_def bind_act_Returns send_def assms(3,4) split: prod.splits option.splits if_splits)

lemma portal_writes_back:
  assumes plain: "plain_api (API t)" and w: "unsent (resp w)"
    and run: "CompleteIdentityActionForPortal E t user p w = (Returns (), w')"
    and loc: "resp_location (resp w') = Some url"
    and reply: "\<And>h out. out_method out = ''GET'' \<Longrightarrow> net_reply E h out = Reply 200 (Inr b)"
    and req: "\<And>verb url. newRequest E verb url = None"
  shows "\<exists>nonce. url = ReturnURL p @ ''?nonce='' @ nonce \<and>
    developer_written E t (calls w') (prepared_developer user nonce (decode_developer E b (zero_developer E)))"
proof -
  from run obtain n w1 where n: "CreateIdentity E t user w = (Returns n, w1)"
    by (auto simp: CompleteIdentityActionForPortal_def bind_act_Returns)
  have w1: "unsent (resp w1)" using CreateIdentity_resp [OF n] w by simp
  from run n loc w1 obtain nonce where Inr: "n = Inr nonce"
    by (cases n) (auto simp: CompleteIdentityActionForPortal_def bind_act_Returns)
  with run n obtain uid u err auth h where
    g: "GetDeveloperBySSOKey E (API t) (dashboardUserAPICred t) (GenerateSSOKey (user\<lparr>UserID := uid\<rparr>)) (calls w1)
      = (Returns (u, err, auth), h)"
    and rest: "(if \<not> auth then respond [Write ''Login failed'']
      else if err \<noteq> None
      then create_portal_user E t (user\<lparr>UserID := uid\<rparr>) (GenerateSSOKey (user\<lparr>UserID := uid\<rparr>)) nonce p
      else update_portal_user E t (user\<lparr>UserID := uid\<rparr>) u nonce p) (w1\<lparr>calls := h\<rparr>) = (Returns (), w')"
    by (auto simp: CompleteIdentityActionForPortal_def Let_def bind_act_Returns on_calls_Returns)
  note found = GetDeveloperBySSOKey_reply [OF plain g reply req]
  from rest found have
    upd: "update_portal_user E t (user\<lparr>UserID := uid\<rparr>) u nonce p (w1\<lparr>calls := h\<rparr>) = (Returns (), w')" by simp
  have w2: "unsent (resp (w1\<lparr>calls := h\<rparr>))" using w1 by simp
  from update_portal_user_redirect [OF plain w2 upd loc] update_portal_user_written [OF plain w2 upd loc] found
  show ?thesis by (auto simp: prepared_developer_def)
qed

text \<open>A portal login of a known developer that gets its nonce and its answers does redirect.\<close>

lemma portal_completes:
  assumes plain: "plain_api (API t)" and w: "unsent (resp w)"
    and n: "CreateIdentity E t user w = (Returns (Inr nonce), w1)"
    and uid: "GetUserID user (CustomUserIDField (Handler_profile t)) = Returns uid"
    and get: "\<And>h out. out_method out = ''GET'' \<Longrightarrow> net_reply E h out = Reply 200 (Inr b)"
    and put: "\<And>h out. out_method out = ''PUT'' \<Longrightarrow> net_reply E h out = Reply 200 (Inr b')"
    and req: "\<And>verb url. newRequest E verb url = None"
    and uuid: "\<And>h. new_uuid E h \<noteq> None" and ret: "ReturnURL p \<noteq> ''''"
  shows "\<exists>w'. CompleteIdentityActionForPortal E t user p w = (Returns (), w') \<and>
    resp_location (resp w') = Some (ReturnURL p @ ''?nonce='' @ nonce)"
proof -
  have w1: "unsent (resp w1)" using CreateIdentity_resp [OF n] w by simp
  obtain h where g: "GetDeveloperBySSOKey E (API t) (dashboardUserAPICred t) (GenerateSSOKey (user\<lparr>UserID := uid\<rparr>))
      (calls w1) = (Returns (decode_developer E b (zero_developer E), None, True), h)"
    using plain by (simp add: GetDeveloperBySSOKey_def DispatchAndDecode_def DispatchDashboard_def plain_api_def
        bind_act_def send_def get req return_act_def)
  let ?u = "decode_developer E b (zero_developer E)"
  have up: "\<exists>h'. UpdateDeveloper E (API t) (dashboardUserAPICred t) dev h = (Returns None, h')" for dev h
    using plain by (simp add: UpdateDeveloper_def DispatchAndDecode_def DispatchDashboard_def plain_api_def
        bind_act_def send_def put req return_act_def)
  have "\<exists>w'. update_portal_user E t (user\<lparr>UserID := uid\<rparr>) ?u nonce p (w1\<lparr>calls := h\<rparr>) = (Returns (), w') \<and>
      resp_location (resp w') = Some (ReturnURL p @ ''?nonce='' @ nonce)"
  proof -
    let ?v = "(if Dev_Email ?u = '''' then ?u\<lparr>Dev_Email := Email (user\<lparr>UserID := uid\<rparr>)\<rparr> else ?u)\<lparr>Dev_Nonce := nonce\<rparr>"
    obtain y where y: "newUUID E (w1\<lparr>calls := h\<rparr>) = (Returns y, w1\<lparr>calls := h\<rparr>)"
      using uuid [of h] by (auto simp: newUUID_def)
    define pw where "pw = (if Dev_Password ?v = '''' then y else Dev_Password ?v)"
    have pw: "(if Dev_Password ?v = '''' then newUUID E else return_act (Dev_Password ?v)) (w1\<lparr>calls := h\<rparr>)
        = (Returns pw, w1\<lparr>calls := h\<rparr>)"
      unfolding pw_def by (cases "Dev_Password ?v = ''''") (simp_all only: y return_act_def simp_thms if_True if_False)
    obtain h' where "UpdateDeveloper E (API t) (dashboardUserAPICred t) (?v\<lparr>Dev_Password := pw\<rparr>) h = (Returns None, h')"
      using up by blast
    then have u: "on_calls (UpdateDeveloper E (API t) (dashboardUserAPICred t) (?v\<lparr>Dev_Password := pw\<rparr>)) (w1\<lparr>calls := h\<rparr>)
        = (Returns None, w1\<lparr>calls := h'\<rparr>)" by (simp add: on_calls_def)
    show ?thesis
      unfolding update_portal_user_def Let_def bind_act_def pw
      using u ret w1 by (simp add: portal_redirect_def)
  qed
  then show ?thesis
    by (simp add: CompleteIdentityActionForPortal_def Let_def bind_act_def n uid g on_calls_def lift_outcome_def)
qed

end
