(* ===== verification/Props_Login.thy ===== *)
theory Props_Login
  imports Samples Developers
begin

section \<open>Properties of logins\<close>

text \<open>
  Who can log in, what a login does at the Tyk side, and what the browser is told, each property with its
  application to a concrete input where it has a hypothesis.
\<close>

subsection \<open>Profiles without a handler\<close>

text \<open>A profile with a valid provider and an action that is none of the four makes every request panic: the handler
  is \<^verbatim>\<open>nil\<close> and is initialised all the same.\<close>

theorem unknown_action_panics:
  assumes "ProviderName conf \<in> {SocialProvider, ADProvider, ProxyProvider, SAMLProvider}"
    and "ActionType conf \<notin> {GenerateOrLoginDeveloperProfile, GenerateOrLoginUserProfile,
      GenerateOAuthTokenForClient, GenerateTemporaryAuthToken}"
    and "getId r = Inr i" and "get_key i '''' = (None, conf)"
  shows "HandleAuth A get_key r a = (Panics Nil_dereference, a) \<and>
    HandleAuthCallback A get_key r a = (Panics Nil_dereference, a)"
proof -
  have "GetTAProvider A conf = Panics Nil_dereference"
    using assms(1,2) by (auto simp: GetTAProvider_def getIdentityHandler_def init_handler_def)
  then have "GetTapProfile A get_key i = Panics Nil_dereference"
    using assms(4) by (simp add: GetTapProfile_def zero_profile_def)
  then show ?thesis
    using assms(3) by (simp add: HandleAuth_def HandleAuthCallback_def handle_login_def bind_act_def)
qed

theorem unknown_action_panics_witness:
  "HandleAuth sample_auth (\<lambda>k org. (None, sample_profile\<lparr>ActionType := ''login''\<rparr>)) sample_request sample_state =
     (Panics Nil_dereference, sample_state)"
proof -
  have "ProviderName (sample_profile\<lparr>ActionType := ''login''\<rparr>) \<in> {SocialProvider, ADProvider, ProxyProvider, SAMLProvider}"
    by (simp add: sample_profile_def provider_name_defs)
  moreover have "ActionType (sample_profile\<lparr>ActionType := ''login''\<rparr>) \<notin> {GenerateOrLoginDeveloperProfile,
      GenerateOrLoginUserProfile, GenerateOAuthTokenForClient, GenerateTemporaryAuthToken}"
    by (simp add: action_defs)
  moreover have "getId sample_request = Inr ''p1''"
    by (simp add: getId_def mux_var_def get_first_def sample_request_def)
  ultimately show ?thesis
    using unknown_action_panics [of "sample_profile\<lparr>ActionType := ''login''\<rparr>" sample_request "''p1''"
      "\<lambda>k org. (None, sample_profile\<lparr>ActionType := ''login''\<rparr>)" sample_auth sample_state] by blast
qed

subsection \<open>Dashboard and portal\<close>

text \<open>C10: When a dashboard login redirects the browser, it is to the return address of the profile with a nonce that the
  dashboard issued, in a 200 answer, to the access request for this very user during this very login.\<close>

theorem dashboard_login_sound:
  assumes "plain_api (API t)" and "unsent (resp w)"
    and "CompleteIdentityActionForDashboard E t user p w = (Returns (), w')"
    and "resp_location (resp w') = Some url"
  shows "\<exists>nonce. url = ReturnURL p @ ''?nonce='' @ nonce \<and> nonce_issued E t user (calls w) (calls w') nonce"
  by (rule dashboard_redirect [OF assms])

lemma sample_dashboard:
  "case CompleteIdentityActionForDashboard sample_env sample_handler sample_user sample_profile sample_world of
     (r, w) \<Rightarrow> r = Returns () \<and> resp_location (resp w) = Some ''http://db/tap?nonce=n1''"
  by code_simp

theorem dashboard_login_sound_witness:
  "\<exists>w' nonce. CompleteIdentityActionForDashboard sample_env sample_handler sample_user sample_profile sample_world =
     (Returns (), w') \<and> nonce_issued sample_env sample_handler sample_user [] (calls w') nonce"
proof -
  obtain w' where run: "CompleteIdentityActionForDashboard sample_env sample_handler sample_user sample_profile sample_world =
      (Returns (), w')" and loc: "resp_location (resp w') = Some ''http://db/tap?nonce=n1''"
    using sample_dashboard by (auto split: prod.splits)
  have w: "unsent (resp sample_world)" and "calls sample_world = []" by (simp_all add: sample_world_def)
  have "plain_api (API sample_handler)" by simp
  from dashboard_login_sound [OF this w run loc] run \<open>calls sample_world = []\<close> show ?thesis by auto
qed

text \<open>C11: When a portal login redirects the browser, the nonce in the address was issued for this user, and before the
  redirect it was saved with the developer, who was created or updated at the portal.\<close>

theorem portal_login_sound:
  assumes "plain_api (API t)" and "unsent (resp w)"
    and "CompleteIdentityActionForPortal E t user p w = (Returns (), w')"
    and "resp_location (resp w') = Some url"
  shows "\<exists>nonce h. url = ReturnURL p @ ''?nonce='' @ nonce \<and> prefix h (calls w') \<and>
    nonce_issued E t user (calls w) h nonce \<and> developer_saved E t (calls w') nonce"
  by (rule portal_redirect_sound [OF assms])

definition portal_handler :: tyk_handler where
  "portal_handler = sample_handler\<lparr>Handler_profile := sample_profile\<lparr>ActionType := GenerateOrLoginDeveloperProfile\<rparr>\<rparr>"

lemma sample_portal:
  "case CompleteIdentityActionForPortal sample_env portal_handler sample_user sample_profile sample_world of
     (r, w) \<Rightarrow> r = Returns () \<and> resp_location (resp w) = Some ''http://db/tap?nonce=n1''"
  by code_simp

theorem portal_login_sound_witness:
  "\<exists>w' nonce. CompleteIdentityActionForPortal sample_env portal_handler sample_user sample_profile sample_world =
     (Returns (), w') \<and> developer_saved sample_env portal_handler (calls w') nonce"
proof -
  obtain w' where run: "CompleteIdentityActionForPortal sample_env portal_handler sample_user sample_profile sample_world =
      (Returns (), w')" and loc: "resp_location (resp w') = Some ''http://db/tap?nonce=n1''"
    using sample_portal by (auto split: prod.splits)
  have w: "unsent (resp sample_world)" by (simp add: sample_world_def)
  have "plain_api (API portal_handler)" by (simp add: portal_handler_def)
  from portal_login_sound [OF this w run loc] run show ?thesis by auto
qed

text \<open>C12: A portal login changes nothing in the record of a developer who is known but the nonce, and the address
  if there was none: whatever else the dashboard answered the lookup with (keys, subscriptions, OAuth clients, dates)
  is written back as it was read, under the same identifier.\<close>

theorem portal_keeps_developer:
  assumes "plain_api (API t)" and "unsent (resp w)"
    and "CompleteIdentityActionForPortal E t user p w = (Returns (), w')"
    and "resp_location (resp w') = Some url"
    and "developer_codec E" and "wf_developer dev"
    and "\<And>h out. out_method out = ''GET'' \<Longrightarrow>
      net_reply E h out = Reply 200 (Inr (print_json (developer_json E dev)))"
    and "\<And>verb url. newRequest E verb url = None"
  shows "\<exists>nonce. url = ReturnURL p @ ''?nonce='' @ nonce \<and>
    developer_written E t (calls w') (dev\<lparr>Dev_Email := (if Dev_Email dev = '''' then Email user else Dev_Email dev),
      Dev_Nonce := nonce\<rparr>)"
proof -
  from portal_writes_back [OF assms(1-4,7,8)] obtain nonce where
    url: "url = ReturnURL p @ ''?nonce='' @ nonce"
    and wr: "developer_written E t (calls w') (prepared_developer user nonce (dev\<lparr>Dev_Password := ''''\<rparr>))"
    unfolding decode_developer_json [OF assms(5,6)] by blast
  have "prepared_developer user nonce (dev\<lparr>Dev_Password := ''''\<rparr>) =
      (prepared_developer user nonce dev)\<lparr>Dev_Password := ''''\<rparr>"
    by (simp add: prepared_developer_def)
  with wr have "developer_written E t (calls w') (prepared_developer user nonce dev)"
    by (simp only: developer_written_password)
  with url show ?thesis unfolding prepared_developer_def by blast
qed

definition known_developer :: portal_developer where
  "known_developer = (zero_developer sample_env)
     \<lparr>Dev_Id := ''d1'', Dev_Email := ''ann@x'', Dev_Keys := Some [(''k'', Some [''a'', ''b''])],
      Dev_OauthClients := [(''c'', Some [zero_oauth_client sample_env])], Dev_DateCreated := (5, 3600)\<rparr>"

definition lookup_env :: "string \<Rightarrow> environ" where
  "lookup_env b = sample_env\<lparr>net_reply := \<lambda>h out.
     Reply 200 (Inr (if out_method out = ''GET'' then b else nonce_reply))\<rparr>"

definition known_env :: environ where
  "known_env = lookup_env (print_json (developer_json sample_env known_developer))"

lemma known_env_codec: "developer_codec known_env"
  by (simp add: developer_codec_def known_env_def lookup_env_def sample_env_def)

lemma known_developer_json: "developer_json sample_env dev = developer_json known_env dev"
  by (simp add: developer_json_def known_env_def lookup_env_def oauth_client_json_def [abs_def])

lemma wf_known_developer: "wf_developer known_developer"
  by (simp add: wf_developer_def known_developer_def zero_developer_def wf_map_def)

lemma lookup_env_CreateIdentity:
  "case CreateIdentity (lookup_env b) portal_handler sample_user sample_world of (r, w) \<Rightarrow> r = Returns (Inr ''n1'')"
  by code_simp

lemma sample_GetUserID:
  "GetUserID sample_user (CustomUserIDField (Handler_profile portal_handler)) = Returns (UserID sample_user)"
  by code_simp

lemma lookup_env_portal:
  "\<exists>w'. CompleteIdentityActionForPortal (lookup_env b) portal_handler sample_user sample_profile sample_world =
     (Returns (), w') \<and> resp_location (resp w') = Some ''http://db/tap?nonce=n1''"
proof -
  obtain w1 where n: "CreateIdentity (lookup_env b) portal_handler sample_user sample_world = (Returns (Inr ''n1''), w1)"
    using lookup_env_CreateIdentity [of b] by (auto split: prod.splits)
  have "plain_api (API portal_handler)" "unsent (resp sample_world)"
    by (simp_all add: portal_handler_def sample_world_def)
  note go = portal_completes [OF this n sample_GetUserID, where b = b and b' = nonce_reply and p = sample_profile]
  show ?thesis
    using go by (simp add: lookup_env_def sample_env_def sample_profile_def)
qed

theorem portal_keeps_developer_witness:
  "\<exists>w' nonce. CompleteIdentityActionForPortal known_env portal_handler sample_user sample_profile sample_world =
     (Returns (), w') \<and> developer_written known_env portal_handler (calls w') (known_developer\<lparr>Dev_Nonce := nonce\<rparr>)"
proof -
  obtain w' where run: "CompleteIdentityActionForPortal known_env portal_handler sample_user sample_profile sample_world =
      (Returns (), w')" and loc: "resp_location (resp w') = Some ''http://db/tap?nonce=n1''"
    unfolding known_env_def using lookup_env_portal by blast
  have w: "unsent (resp sample_world)" by (simp add: sample_world_def)
  have p: "plain_api (API portal_handler)" by (simp add: portal_handler_def)
  have get: "net_reply known_env h out = Reply 200 (Inr (print_json (developer_json known_env known_developer)))"
    if "out_method out = ''GET''" for h out
    unfolding known_developer_json [symmetric] using that by (simp add: known_env_def lookup_env_def)
  have req: "newRequest known_env verb url = None" for verb url
    by (simp add: known_env_def lookup_env_def sample_env_def)
  have "known_developer\<lparr>Dev_Email := (if Dev_Email known_developer = '''' then a else Dev_Email known_developer),
      Dev_Nonce := nonce\<rparr> = known_developer\<lparr>Dev_Nonce := nonce\<rparr>" for a nonce
    by (simp add: known_developer_def zero_developer_def)
  note same = this
  from portal_keeps_developer [OF p w run loc known_env_codec wf_known_developer get req] obtain nonce where
    "developer_written known_env portal_handler (calls w') (known_developer\<lparr>Dev_Nonce := nonce\<rparr>)"
    unfolding same by blast
  with run show ?thesis by blast
qed



text \<open>The password a developer record is given never leaves the broker: creating or updating a developer does the same
  calls with the same results whatever the password is.\<close>

theorem password_not_sent:
  "CreateDeveloper E t cred (dev\<lparr>Dev_Password := pw\<rparr>) h = CreateDeveloper E t cred dev h \<and>
    UpdateDeveloper E t cred (dev\<lparr>Dev_Password := pw\<rparr>) h = UpdateDeveloper E t cred dev h"
  by (simp add: CreateDeveloper_def UpdateDeveloper_def developer_json_no_password)

text \<open>The look-up of a developer is one request, whose path ends in the escaped key: no key can add a path element
  or a query, and two different keys never make the same request.\<close>

theorem developer_lookup_target:
  assumes "plain_api t"
    and "\<And>url. newRequest E ''GET'' url = None"
  shows "\<exists>target. snd (GetDeveloperBySSOKey E t cred key h) =
      h @ [Http \<lparr>out_method = ''GET'', out_url = prepared (DashboardConfig t) (PORTAL_DEVS_SSO @ ''/'' @ target),
             out_headers = [(''authorization'', cred)], out_body = None\<rparr>] \<and>
    set target \<inter> set ''/?&=#'' = {} \<and> QueryUnescape target = Some key"
proof (intro exI conjI)
  show "snd (GetDeveloperBySSOKey E t cred key h) =
      h @ [Http \<lparr>out_method = ''GET'', out_url = prepared (DashboardConfig t) (PORTAL_DEVS_SSO @ ''/'' @ QueryEscape key),
             out_headers = [(''authorization'', cred)], out_body = None\<rparr>]"
    using assms
    by (auto simp: GetDeveloperBySSOKey_def DispatchAndDecode_def DispatchDashboard_def plain_api_def Let_def bind_act_def
        send_def split: prod.splits option.splits)
  show "set (QueryEscape key) \<inter> set ''/?&=#'' = {}" using QueryEscape_no_delimiter by blast
  show "QueryUnescape (QueryEscape key) = Some key" by (rule QueryUnescape_QueryEscape)
qed

theorem developer_lookup_target_witness:
  "length (snd (GetDeveloperBySSOKey sample_env sample_api ''cred'' ''a/b?c'' [])) = 1"
  using developer_lookup_target [OF plain_sample_api, of sample_env "''cred''" "''a/b?c''" "[]"]
  by (auto simp: sample_env_def)

text \<open>When the admin endpoint answers the request for a nonce with 201, which its dispatcher accepts, the broker panics: it
  prints the text of an error that is not there.\<close>

theorem admin_nonce_panics:
  assumes "plain_api t" and "\<And>url. newRequest E ''POST'' url = None" and "\<And>out. net_reply E h out = Reply 201 (Inr b)"
  shows "fst (CreateAdminSSONonce E t data h) = Panics Nil_dereference"
  using assms
  by (simp add: CreateAdminSSONonce_def DispatchAndDecode_def DispatchDashboardSuper_def plain_api_def Let_def bind_act_def
      send_def)

theorem admin_nonce_panics_witness:
  "fst (CreateAdminSSONonce (sample_env\<lparr>net_reply := \<lambda>h out. Reply 201 (Inr nonce_reply)\<rparr>) sample_api JNull []) =
     Panics Nil_dereference"
  by (rule admin_nonce_panics) (simp_all add: sample_env_def)

subsection \<open>Tokens\<close>

text \<open>C23: With the broker's own identity store, which is Redis, the rule of one token per API has no effect: the token that was stored
  for a user is never the one a later login asks the dashboard to delete, since the store writes strings as they are and reads
  them as JSON.\<close>

theorem redis_token_survives:
  assumes "plain_api (API t)" and "key_value_documented ops db"
    and "redis_SetKey ops key '''' (StringVal tok) r = (None, r')" and "ids w = r'"
  shows "\<exists>cs. calls (snd (invalidate_known E (redis_id_store ops) t base key w)) = calls w @ cs \<and>
    deletion t base tok \<notin> set cs"
proof (cases "idGet (redis_id_store ops) key '''' r'")
  case (Pair e x)
  have "e = None \<Longrightarrow> x \<noteq> tok"
    using redis_id_not_read_back [OF assms(2,3), of "''''"] Pair by auto
  then show ?thesis
    using invalidate_known_calls [OF assms(1), of E "redis_id_store ops" base key w] Pair assms(4) by auto
qed

theorem redis_token_survives_witness:
  "\<exists>r' cs. redis_SetKey map_server ''k'' '''' (StringVal ''tok1'') (snd (InitBackend Map.empty)) = (None, r') \<and>
     calls (snd (invalidate_known sample_env (redis_id_store map_server) sample_handler ''api1'' ''k''
       \<lparr>calls = [], resp = [], ids = r'\<rparr>)) = cs \<and> deletion sample_handler ''api1'' ''tok1'' \<notin> set cs"
proof -
  obtain r' where r': "redis_SetKey map_server ''k'' '''' (StringVal ''tok1'') (snd (InitBackend Map.empty)) = (None, r')"
    by (simp add: redis_SetKey_def map_server_def)
  have "plain_api (API sample_handler)" by simp
  from redis_token_survives [OF this map_server_documented r', of "\<lparr>calls = [], resp = [], ids = r'\<rparr>" sample_env "''api1''"] r'
  show ?thesis by auto
qed

text \<open>With an in-memory identity store it has the effect it is meant to have: the next login of the user makes exactly
  one call before anything else, the deletion of the stored token.\<close>

theorem memory_token_deleted:
  assumes "plain_api (API t)" and "\<not> disableOneTokenPerAPI t" and "\<And>url. newRequest E ''DELETE'' url = None"
    and "kv m = Some s" and "wf_map s" and "in_memory_SetKey key '''' (StringVal tok) m = (Returns None, m')" and "ids w = m'"
  shows "calls (snd (invalidate_known E mem_id_store t base key w)) = calls w @ [deletion t base tok]"
proof -
  have "idGet mem_id_store key '''' m' = (None, tok)"
    by (rule mem_id_read_back [OF assms(6)]) (use assms(4,5) in simp)
  then show ?thesis
    using invalidate_known_calls [OF assms(1), of E mem_id_store base key w] assms(2,3,7) by simp
qed

theorem memory_token_deleted_witness:
  "calls (snd (invalidate_known sample_env mem_id_store sample_handler ''api1'' ''k''
     \<lparr>calls = [], resp = [], ids = snd (in_memory_SetKey ''k'' '''' (StringVal ''tok1'') empty_store)\<rparr>)) =
     [deletion sample_handler ''api1'' ''tok1'']"
proof -
  have "in_memory_SetKey ''k'' '''' (StringVal ''tok1'') empty_store =
      (Returns None, snd (in_memory_SetKey ''k'' '''' (StringVal ''tok1'') empty_store))"
    by (simp add: in_memory_SetKey_def empty_store_def)
  with memory_token_deleted [of sample_handler sample_env empty_store "[]" "''k''" "''tok1''"
      "snd (in_memory_SetKey ''k'' '''' (StringVal ''tok1'') empty_store)"
      "\<lparr>calls = [], resp = [], ids = snd (in_memory_SetKey ''k'' '''' (StringVal ''tok1'') empty_store)\<rparr>" "''api1''"]
  show ?thesis
    by (simp add: sample_env_def sample_handler_def new_tyk_handler_def empty_store_def)
qed

text \<open>C34: A token expires when the profile says as long as the number of seconds fits a 64-bit duration of nanoseconds. The
  expiry never is more than 9223372037 seconds from now, and the first number of seconds that does not fit
  gives a token that has expired already.\<close>

theorem token_expiry:
  "(\<bar>n\<bar> \<le> 9223372036 \<longrightarrow> expires_at t0 n = t0 div 1000000000 + n) \<and>
    \<bar>expires_at t0 n - t0 div 1000000000\<bar> \<le> 9223372037 \<and>
    expires_at t0 9223372037 < t0 div 1000000000"
proof (intro conjI impI)
  show "expires_at t0 n = t0 div 1000000000 + n" if "\<bar>n\<bar> \<le> 9223372036"
    by (rule expires_at_in_range) (use that in linarith)+
  show "\<bar>expires_at t0 n - t0 div 1000000000\<bar> \<le> 9223372037"
    using expires_at_bounds [of t0 n] by linarith
  have "sint (duration_seconds 9223372037) = - 9223372036709551616"
    by (simp add: sint_duration_seconds signed_take_bit_int_eq_self_iff signed_take_bit_eq_take_bit_shift take_bit_eq_mod)
  then show "expires_at t0 9223372037 < t0 div 1000000000"
    by (simp add: expires_at_def)
qed

theorem token_expiry_witness:
  "expires_at 1700000000000000000 3600 = 1700003600"
  using token_expiry [of 3600 "1700000000000000000"] by simp

subsection \<open>Groups and addresses\<close>

text \<open>C24: A user whose groups are stated gets exactly the groups the profile maps them to, and if it maps none of them, the default
  group of the profile if there is one.\<close>

theorem groups_mapped:
  assumes "f \<noteq> ''''" and "raw_get u f \<noteq> Raw JNull" and "groupsStringer (raw_get u f) sep = Returns groups"
  shows "\<exists>ids. GetGroupId u f d (Some m) sep = Returns ids \<and>
    set ids = (let known = {g. \<exists>x\<in>set groups. map_get m x = Some g} in if known = {} then default_groups d else known)"
proof -
  let ?ids = "List.map_filter (map_get m) groups"
  have known: "{g. \<exists>x\<in>set groups. map_get m x = Some g} = set ?ids"
    by (simp only: set_map_filter)
  have "set (if ?ids = [] then defaultOrEmptyGroupIDs d else ?ids) = (if set ?ids = {} then default_groups d else set ?ids)"
    by simp
  then show ?thesis
    unfolding known Let_def GetGroupId_claims [OF assms, of d "Some m"] by simp
qed

definition grouped_user :: goth_user where
  "grouped_user = sample_user\<lparr>RawData := [''groups'' \<mapsto> RawStrings [''devs'', ''ops'']]\<rparr>"

theorem groups_mapped_witness:
  "\<exists>ids. GetGroupId grouped_user ''groups'' ''d'' (Some [(''devs'', ''g1'')]) '''' = Returns ids \<and> set ids = {''g1''}"
proof -
  have raw: "raw_get grouped_user ''groups'' = RawStrings [''devs'', ''ops'']"
    by (simp add: raw_get_def grouped_user_def)
  then have "groupsStringer (raw_get grouped_user ''groups'') '''' = Returns [''devs'', ''ops'']"
    by (simp add: groupsStringer_def)
  from groups_mapped [OF _ _ this, of "''d''" "[(''devs'', ''g1'')]"] raw show ?thesis by (simp add: map_get_def)
qed

text \<open>C33: It makes no difference in which of the three forms a provider states the groups, as a list of strings, as a JSON array or as a text
  with separators. The text is one in which the names are joined by the separator of the profile when this is one character,
  or by a space when the profile has none, and no name contains it. For a user without any group, whose text is empty, it makes no
  difference unless the profile maps the empty name.\<close>

theorem group_encodings_agree:
  assumes "sep = [c] \<or> sep = '''' \<and> c = CHR '' ''" and "\<forall>g\<in>set gs. c \<notin> set g"
    and "gs = [] \<longrightarrow> (\<forall>x. m = Some x \<longrightarrow> map_get x '''' = None)"
  shows "GetGroupId (u\<lparr>RawData := [f \<mapsto> Raw (JStr (Join gs [c]))]\<rparr>) f d m sep =
      GetGroupId (u\<lparr>RawData := [f \<mapsto> RawStrings gs]\<rparr>) f d m sep \<and>
    GetGroupId (u\<lparr>RawData := [f \<mapsto> Raw (JArr (map JStr gs))]\<rparr>) f d m sep =
      GetGroupId (u\<lparr>RawData := [f \<mapsto> RawStrings gs]\<rparr>) f d m sep"
proof (cases "gs = []")
  case False
  have "groupsStringer (Raw (JStr (Join gs [c]))) sep = Returns gs"
    using groupsStringer_encodings(3) [OF False assms(2)] assms(1) by (auto simp: groupsStringer_def)
  with groupsStringer_encodings(1,2) [of gs sep] show ?thesis by (simp add: GetGroupId_def raw_get_def)
next
  case True
  have "groupsStringer (Raw (JStr '''')) sep = Returns ['''']"
    using assms(1) by (auto simp: groupsStringer_def as_string_def)
  moreover have "List.map_filter (map_get (case m of None \<Rightarrow> [] | Some x \<Rightarrow> x)) [''''] = []"
    using True assms(3) by (auto simp: map_get_def split: option.split)
  ultimately show ?thesis using True groupsStringer_encodings(1,2) [of "[]" sep]
    by (simp add: GetGroupId_def raw_get_def)
qed

theorem group_encodings_agree_witness:
  "GetGroupId (sample_user\<lparr>RawData := [''g'' \<mapsto> Raw (JStr (Join [''a-b'', ''c''] '' ''))]\<rparr>) ''g'' '''' None '''' =
     GetGroupId (sample_user\<lparr>RawData := [''g'' \<mapsto> RawStrings [''a-b'', ''c'']]\<rparr>) ''g'' '''' None ''''"
  using group_encodings_agree [of "''''" "CHR '' ''" "[''a-b'', ''c'']", where u = sample_user and f = "''g''" and d = "''''"
      and m = None] by simp

text \<open>The address a session is made for is never empty: it is the text of the custom field, the address of the user or the
  default address, in this order of preference.\<close>

theorem email_chosen:
  assumes "GetEmail u f = Returns e"
  shows "e \<noteq> '''' \<and>
    (f \<noteq> '''' \<and> raw_get u f = Raw (JStr e) \<or>
     (f = '''' \<or> raw_get u f = Raw JNull \<or> raw_get u f = Raw (JStr '''')) \<and>
       e = (if Email u \<noteq> '''' then Email u else DefaultSSOEmail))"
  using assms
  by (auto simp: GetEmail_def Let_def raw_string_def DefaultSSOEmail_def split: if_splits raw_value.splits json.splits)

theorem email_chosen_witness:
  "GetEmail sample_user '''' = Returns ''ann@x''"
proof -
  have "\<exists>e. GetEmail sample_user '''' = Returns e" by (simp add: GetEmail_def)
  then obtain e where e: "GetEmail sample_user '''' = Returns e" ..
  from email_chosen [OF e] e show ?thesis by (simp add: sample_user_def)
qed

subsection \<open>SAML, encrypted tokens and path parameters\<close>

lemma Split_char_Join2: "Split (a @ c # b) [c] = Split a [c] @ Split b [c]"
proof (induction a "[c]" rule: Split.induct)
  case (1 a)
  show ?case
  proof (cases "c \<in> set a")
    case True
    then obtain x y where a: "a = x @ c # y" and x: "c \<notin> set x" by (auto dest: split_list_first)
    have "Split (y @ c # b) [c] = Split y [c] @ Split b [c]"
      by (rule 1) (simp_all add: a x)
    with a x show ?thesis by simp
  qed simp
qed

lemma Split_char_Join: "vs \<noteq> [] \<Longrightarrow> Split (Join vs [c]) [c] = concat (map (\<lambda>v. Split v [c]) vs)"
proof (induction vs)
  case (Cons v vs)
  then show ?case by (cases "vs = []") (simp_all add: Join_Cons Split_char_Join2)
qed simp

text \<open>A SAML attribute with several values is one claim, and as a group claim it reads as the words of all its values: exactly
  the values if none has a space in it, while a group whose name has a space is split up.\<close>

theorem saml_groups:
  assumes "Att_Values att \<noteq> []" and "saml_user conf (a @ [as @ [att]]) = Returns u"
  shows "groupsStringer (raw_get u (Att_Name att)) '''' = Returns (concat (map (\<lambda>v. Split v '' '') (Att_Values att)))"
proof -
  have "RawData u = claims_of (a @ [as @ [att]])"
    using assms(2) by (auto simp: saml_user_def Let_def case_prod_unfold)
  then have "raw_get u (Att_Name att) = Raw (JStr (Join (Att_Values att) '' ''))"
    by (simp add: raw_get_def claims_of_last)
  then show ?thesis
    by (simp add: groupsStringer_def as_string_def Split_char_Join [OF assms(1)])
qed

theorem saml_groups_witness:
  "\<exists>u. saml_user zero_saml_config ([] @ [[] @ [\<lparr>Att_Name = ''groups'', Att_Values = [''devs'', ''site ops'']\<rparr>]]) = Returns u \<and>
     groupsStringer (raw_get u ''groups'') '''' = Returns [''devs'', ''site'', ''ops'']"
proof -
  let ?att = "\<lparr>Att_Name = ''groups'', Att_Values = [''devs'', ''site ops'']\<rparr>"
  obtain u where u: "saml_user zero_saml_config ([] @ [[] @ [?att]]) = Returns u"
    using saml_user_total by blast
  have "concat (map (\<lambda>v. Split v '' '') [''devs'', ''site ops'']) = [''devs'', ''site'', ''ops'']" by code_simp
  with saml_groups [OF _ u] u show ?thesis by simp
qed

text \<open>Making a user from a validated SAML assertion never panics, whatever attributes it has: all its claims are texts.\<close>

theorem saml_user_returns: "\<exists>u. saml_user conf a = Returns u \<and> Provider u = ''SAMLProvider'' \<and> RawData u = claims_of a"
proof -
  obtain u where u: "saml_user conf a = Returns u" using saml_user_total by blast
  then have "Provider u = ''SAMLProvider'' \<and> RawData u = claims_of a"
    by (auto simp: saml_user_def Let_def case_prod_unfold)
  with u show ?thesis by blast
qed

text \<open>C16: With encrypted tokens switched on, a user only comes out of the redirect flow if the token in the session was
  decrypted with the loaded RSA key, and it is the decrypted token the user is fetched with.\<close>

theorem encrypted_token_required:
  assumes "CompleteUserAuth G J S req t p handler s = Returns (Inr user)" and "Enabled handler"
  shows "\<exists>k session tok provider. Key handler = Some k \<and> rsa_key J k \<and>
    jose_decrypt J k (g_IDToken G session) = Inr tok \<and> g_FetchUser G provider (g_SetIDToken G tok session) = Inr user"
proof -
  from CompleteUserAuth_ok [OF assms(1)] obtain provider sess1 jwt where
    jwt: "prepareJWTSession G J handler sess1 = Returns (Inr jwt)" and "g_FetchUser G provider jwt = Inr user" by blast
  with prepareJWTSession_ok [OF jwt assms(2)] show ?thesis by blast
qed

definition sample_flow :: "goth_user result outcome" where
  "sample_flow = CompleteUserAuth sample_goth sample_jwe
     \<lparr>ppSet = (\<lambda>k org v s. (Returns None, s)), ppGet = (\<lambda>k org s. (None, \<lparr>Id = ''p1'', Provider_name = ''openid-connect''\<rparr>))\<rparr>
     (sample_request\<lparr>req_cookies := [(SessionName, ''nekot'')]\<rparr>) [(''openid-connect'', ''openid-connect'')] sample_profile
     \<lparr>Enabled = True, PrivateKeyLocation = '''', Key = Some ()\<rparr> ()"

theorem encrypted_token_required_witness:
  "\<exists>user session tok provider. sample_flow = Returns (Inr user) \<and>
     jose_decrypt sample_jwe () (g_IDToken sample_goth session) = Inr tok \<and>
     g_FetchUser sample_goth provider (g_SetIDToken sample_goth tok session) = Inr user"
proof -
  have "case sample_flow of Returns (Inr u) \<Rightarrow> UserID u = ''token'' | _ \<Rightarrow> False" by code_simp
  then obtain user where user: "sample_flow = Returns (Inr user)"
    by (auto split: outcome.splits sum.splits)
  from encrypted_token_required [OF user [unfolded sample_flow_def]] user show ?thesis by auto
qed

text \<open>C28: The login that was begun last decides the provider for every login under way whose profile has the same prefix: when its
  parameters were stored, they are what a return reads. Profiles of different organisations can have the same prefix.\<close>

theorem last_login_decides:
  assumes "key_value_documented ops db"
    and "redis_SetKey ops (GetPrefix p) (OrgID p) (PathParamVal \<lparr>Id = i, Provider_name = v\<rparr>) s = (None, s')"
    and "kvGet ops (fixKey s (GetPrefix p)) (client s') = (None, x)" and "GetPrefix q = GetPrefix p" and "v \<noteq> ''''"
  shows "SetPathParams (redis_param_store ops) (map_put ''id'' i (map_put ''provider'' v [])) p s = (Returns (), s') \<and>
    getProviderName (redis_param_store ops) q s' = Inr v"
proof
  show "SetPathParams (redis_param_store ops) (map_put ''id'' i (map_put ''provider'' v [])) p s = (Returns (), s')"
    unfolding SetPathParams_def path_params_routed using assms(2) by (simp add: redis_param_store_def bind_act_def)
  show "getProviderName (redis_param_store ops) q s' = Inr v"
    using GetParams_stored [OF assms(1-4)] assms(5) by (simp add: getProviderName_def)
qed

theorem last_login_decides_witness:
  "\<exists>s'. getProviderName (redis_param_store map_server) (sample_profile\<lparr>OrgID := ''a'', ID := ''b-c''\<rparr>) s' = Inr ''gplus'' \<and>
     snd (SetPathParams (redis_param_store map_server) (map_put ''id'' ''c'' (map_put ''provider'' ''gplus'' []))
       (sample_profile\<lparr>OrgID := ''a-b'', ID := ''c''\<rparr>) (config_store Map.empty)) = s'"
proof -
  let ?p = "sample_profile\<lparr>OrgID := ''a-b'', ID := ''c''\<rparr>" and ?q = "sample_profile\<lparr>OrgID := ''a'', ID := ''b-c''\<rparr>"
  let ?v = "PathParamVal \<lparr>Id = ''c'', Provider_name = ''gplus''\<rparr>"
  let ?s = "config_store (Map.empty :: string \<rightharpoonup> string)"
  obtain s' where s': "redis_SetKey map_server (GetPrefix ?p) (OrgID ?p) ?v ?s = (None, s')"
    by (simp add: redis_SetKey_def map_server_def)
  then have "kvGet map_server (fixKey ?s (GetPrefix ?p)) (client s') = (None, redis_text ?v)"
    by (auto simp: redis_SetKey_def map_server_def)
  moreover have "GetPrefix ?q = GetPrefix ?p" by (simp add: GetPrefix_def)
  ultimately show ?thesis
    using last_login_decides [OF map_server_documented s'] by auto
qed

end
