(* ===== verification/Props_Redirect.thy ===== *)
theory Props_Redirect
  imports Props_Login
begin

section \<open>Properties of the redirect flows\<close>

text \<open>
  Logins that leave the broker and come back: at an OAuth or OpenID provider, from the first request to the
  return, and at a SAML identity provider, where the broker must be found under the addresses it announces.
\<close>

subsection \<open>Social logins\<close>

lemma HandleAuth_provider:
  assumes "getId r = Inr i" and "get_key i '''' = (None, conf)" and "GetTAProvider A conf = Returns (Inr (p, t))"
  shows "HandleAuth A get_key r a = provider_Handle A t p r conf a"
    and "HandleAuthCallback A get_key r a = provider_HandleCallback A t p r conf a"
proof -
  have "GetTapProfile A get_key i = Returns (Inr ((p, t), conf))"
    using assms(2,3) by (simp add: GetTapProfile_def zero_profile_def)
  with assms(1) show "HandleAuth A get_key r a = provider_Handle A t p r conf a"
    "HandleAuthCallback A get_key r a = provider_HandleCallback A t p r conf a"
    by (simp_all add: HandleAuth_def HandleAuthCallback_def handle_login_def bind_act_def)
qed

text \<open>Beginning a login on a Redis store that stored the parameters and answers.\<close>

lemma social_begins:
  assumes "key_value_documented ops db"
    and "redis_SetKey ops (GetPrefix p) (OrgID p) (PathParamVal \<lparr>Id = i, Provider_name = v\<rparr>) s = (None, s')"
    and "kvGet ops (fixKey s (GetPrefix p)) (client s') = (None, x)" and "v \<noteq> ''''"
    and "GetProvider t v = Inr g" and "g_BeginAuth G g (GetState r) = Inr sess" and "g_GetAuthURL G sess = Inr url"
    and "Store G = Some store" and "cookie_save store r (g_Marshal G sess) = Inr cookie"
  shows "getProviderName (redis_param_store ops) p s' = Inr v"
    and "BeginAuthHandler G (redis_param_store ops) r t (map_put ''id'' i (map_put ''provider'' v [])) p (w, s) =
      (Returns (), (w\<lparr>resp := resp w @ [SetCookie SessionName cookie, Redirect url 307]\<rparr>, s'))"
proof -
  let ?S = "redis_param_store ops"
  show name: "getProviderName ?S p s' = Inr v"
    using GetParams_stored [OF assms(1-3), of p] assms(4) by (simp add: getProviderName_def)
  have "SetPathParams ?S (map_put ''id'' i (map_put ''provider'' v [])) p s = (Returns (), s')"
    unfolding SetPathParams_def path_params_routed using assms(2) by (simp add: redis_param_store_def bind_act_def)
  moreover have "GetAuthURL G ?S r t p s' = Returns (Inr (url, [SetCookie SessionName cookie]))"
    using assms(5-9) by (simp add: GetAuthURL_def name)
  ultimately show "BeginAuthHandler G ?S r t (map_put ''id'' i (map_put ''provider'' v [])) p (w, s) =
      (Returns (), (w\<lparr>resp := resp w @ [SetCookie SessionName cookie, Redirect url 307]\<rparr>, s'))"
    by (simp add: BeginAuthHandler_def bind_act_def on_aux_def on_world_def respond_def)
qed

text \<open>C4: A social login that should succeed does. The first request is answered with the session's cookie and a redirect to the
  provider, and nothing else is done. A later request that brings the cookie back, while no other login was begun
  for the prefix, and whose session the provider authorises, is the identity handler's work for the user fetched.
  What the broker sent as the state is not asked for again.\<close>

theorem social_login_completes:
  assumes "get_key i '''' = (None, conf)" and "GetTAProvider A conf = Returns (Inr (Social_provider s, t))"
    and "ae_params A = redis_param_store ops" and "key_value_documented ops db"
    and "getId r = Inr i" and "mux_Vars r = map_put ''id'' i (map_put ''provider'' v [])" and "v \<noteq> ''''"
    and "redis_SetKey ops (GetPrefix conf) (OrgID conf) (PathParamVal \<lparr>Id = i, Provider_name = v\<rparr>) (as_params a) = (None, s')"
    and "kvGet ops (fixKey (as_params a) (GetPrefix conf)) (client s') = (None, x)"
    and "GetProvider (Social_toth s) v = Inr g" and "g_BeginAuth (ae_goth A) g (GetState r) = Inr sess"
    and "g_GetAuthURL (ae_goth A) sess = Inr url"
    and "Store (ae_goth A) = Some store" and "cookie_save store r (g_Marshal (ae_goth A) sess) = Inr cookie"
    and "getId r' = Inr i" and "cookie_get store r' = Inr (Some (g_Marshal (ae_goth A) sess))"
    and "g_UnmarshalSession (ae_goth A) g (g_Marshal (ae_goth A) sess) = Inr sess"
    and "g_Authorize (ae_goth A) sess g (req_query r') = Inr sess'" and "\<not> Enabled (JWE (Social_config s))"
    and "g_FetchUser (ae_goth A) g sess' = Inr user" and "Email user = local @ Domain (ProviderConstraints conf)"
  shows "HandleAuth A get_key r a =
      (Returns (), a\<lparr>as_world := (as_world a)\<lparr>resp := resp (as_world a) @ [SetCookie SessionName cookie, Redirect url 307]\<rparr>,
         as_params := s'\<rparr>) \<and>
    (\<forall>b. as_params b = s' \<longrightarrow>
       as_world (snd (HandleAuthCallback A get_key r' b)) =
         snd (CompleteIdentityAction (ae_env A) (ae_ids A) t user conf (as_world b)))"
proof -
  have conf: "Social_profile s = conf" using GetTAProvider_ok(2) [OF assms(2)] by simp
  note begins = social_begins [OF assms(4,8,9,7,10-14)]
  have "HandleAuth A get_key r a = provider_Handle A t (Social_provider s) r conf a"
    by (rule HandleAuth_provider(1) [where get_key = get_key and i = i and conf = conf, OF assms(5,1,2)])
  then have "HandleAuth A get_key r a =
      (Returns (), a\<lparr>as_world := (as_world a)\<lparr>resp := resp (as_world a) @ [SetCookie SessionName cookie, Redirect url 307]\<rparr>,
         as_params := s'\<rparr>)"
    by (simp add: social_Handle_def with_params_def assms(3,6) begins(2) del: map_put.simps)
  moreover have "CompleteUserAuth (ae_goth A) (ae_jwe A) (ae_params A) r' (Social_toth s) conf (JWE (Social_config s)) s' = Returns (Inr user)"
    using assms(10,13,16-20) begins(1) by (simp add: CompleteUserAuth_def prepareJWTSession_def assms(3))
  then have verdict: "social_verdict (ae_goth A) (ae_jwe A) (ae_params A) s r' conf s' = Some user"
    using assms(21) by (auto simp: social_verdict_ok conf social_checkConstraints_None)
  have "as_world (snd (HandleAuthCallback A get_key r' b)) =
      snd (CompleteIdentityAction (ae_env A) (ae_ids A) t user conf (as_world b))" if "as_params b = s'" for b
    using verdict
    by (simp add: that HandleAuth_provider(2) [where get_key = get_key and i = i and conf = conf, OF assms(15,1,2)] social.run_world complete_with_def conf)
  ultimately show ?thesis by blast
qed

definition social_profile :: profile where
  "social_profile = sample_profile
     \<lparr>ProviderName := ''SocialProvider'',
      ProviderConfig := JObj [(''UseProviders'', JArr [JObj [(''Name'', JStr ''gplus'')]]), (''CallbackBaseURL'', JStr ''http://tib'')],
      ProviderConstraints := zero_constraint\<lparr>Domain := ''@tyk.io''\<rparr>\<rparr>"

definition social_request :: http_request where
  "social_request = sample_request\<lparr>req_vars := [(''id'', ''p1''), (''provider'', ''gplus'')]\<rparr>"

definition social_return :: http_request where
  "social_return = social_request\<lparr>req_cookies := [(SessionName, ''gplusstate'')], req_query := ''code=1''\<rparr>"

lemma sample_social_provider:
  "case GetTAProvider sample_auth social_profile of
     Returns (Inr (Social_provider s, t)) \<Rightarrow> GetProvider (Social_toth s) ''gplus'' = Inr ''gplus'' \<and> \<not> Enabled (JWE (Social_config s))
   | _ \<Rightarrow> False"
  by code_simp

theorem social_login_completes_witness:
  "\<exists>a t. HandleAuth sample_auth (\<lambda>_ _. (None, social_profile)) social_request sample_state = (Returns (), a) \<and>
     resp (as_world a) = [SetCookie SessionName ''gplusstate'', Redirect ''http://idp/gplusstate'' 307] \<and>
     as_world (snd (HandleAuthCallback sample_auth (\<lambda>_ _. (None, social_profile)) social_return a)) =
       snd (CompleteIdentityAction sample_env mem_id_store t
         (zero_user\<lparr>UserID := ''gplusstate'', Provider := ''gplus'', Email := ''gplusstate@tyk.io''\<rparr>) social_profile (as_world a))"
proof -
  let ?get = "\<lambda>(_ :: string) (_ :: string). (None :: go_error option, social_profile)"
  let ?p = "PathParamVal \<lparr>Id = ''p1'', Provider_name = ''gplus''\<rparr>"
  from sample_social_provider obtain s t where
    g: "GetTAProvider sample_auth social_profile = Returns (Inr (Social_provider s, t))"
    and s: "GetProvider (Social_toth s) ''gplus'' = Inr ''gplus''" "\<not> Enabled (JWE (Social_config s))"
    by (auto split: outcome.splits sum.splits ta_provider.splits)
  obtain s' where set: "redis_SetKey map_server (GetPrefix social_profile) (OrgID social_profile) ?p (as_params sample_state) = (None, s')"
    by (simp add: redis_SetKey_def map_server_def)
  then have get: "kvGet map_server (fixKey (as_params sample_state) (GetPrefix social_profile)) (client s') = (None, redis_text ?p)"
    by (auto simp: redis_SetKey_def map_server_def)
  have id: "getId social_request = Inr ''p1''" "getId social_return = Inr ''p1''"
    "mux_Vars social_request = map_put ''id'' ''p1'' (map_put ''provider'' ''gplus'' [])"
    by (simp_all add: getId_def mux_var_def get_first_def mux_Vars_def social_return_def social_request_def less_char_def)
  have state: "GetState social_request = ''state''" by code_simp
  have dom: "Domain (ProviderConstraints social_profile) = ''@tyk.io''" by (simp add: social_profile_def)
  let ?a = "sample_state\<lparr>as_world := (as_world sample_state)\<lparr>resp := resp (as_world sample_state) @
      [SetCookie SessionName ''gplusstate'', Redirect ''http://idp/gplusstate'' 307]\<rparr>, as_params := s'\<rparr>"
  let ?u = "zero_user\<lparr>UserID := ''gplusstate'', Provider := ''gplus'', Email := ''gplusstate@tyk.io''\<rparr>"
  have "HandleAuth sample_auth ?get social_request sample_state = (Returns (), ?a) \<and>
    (\<forall>b. as_params b = s' \<longrightarrow> as_world (snd (HandleAuthCallback sample_auth ?get social_return b)) =
       snd (CompleteIdentityAction (ae_env sample_auth) (ae_ids sample_auth) t ?u social_profile (as_world b)))"
    by (rule social_login_completes [OF _ g _ map_server_documented id(1,3) _ set get s(1) _ _ _ _ id(2) _ _ _ s(2),
          where store = sample_cookies and sess = "''gplusstate''" and sess' = "''gplusstate''" and local = "''gplusstate''"])
      (simp_all add: sample_auth_def sample_goth_def state dom social_return_def)
  then show ?thesis
    by (intro exI [of _ ?a] exI [of _ t]) (simp add: sample_auth_def sample_state_def)
qed

subsection \<open>SAML logins\<close>

text \<open>C22: The middleware of a SAML profile announces the broker's own addresses: those of the configured base address, up to the
  last slash of its path, followed by the route of the profile. A login request to the address the identity provider
  returns to is refused, so that no loop of redirects arises. Responses nobody asked for are always allowed.\<close>

theorem saml_addresses:
  assumes "initialiseSAMLMiddleware V c i = Returns (Some m)" and "url_Parse (SAMLBaseURL c) = Inr root"
    and "base_dir (Path root) dir" and "RawPath root = ''''" and "CHR ''/'' \<notin> set i" and "i \<notin> {''.'', ''..''}"
  shows "(\<forall>e u. (e, u) \<in> {(''metadata'', MetadataURL), (''callback'', AcsURL), (''slo'', SloURL)} \<longrightarrow>
      u (ServiceProvider m) =
        zero_url\<lparr>Scheme := Scheme root, User := User root, Host := Host root, Path := dir @ ''/auth/'' @ i @ ''/saml/'' @ e\<rparr>) \<and>
    (\<forall>s r. middleware s = Some m \<and> req_path r = dir @ ''/auth/'' @ i @ ''/saml/callback'' \<longrightarrow>
      saml_Handle V s r = [Redirect (SAML_FailureRedirect (SAML_config s)) 301]) \<and>
    (\<forall>r. '''' \<in> set (possibleRequestIDs V m r))"
proof -
  obtain metadata k key where m: "m = new_middleware c i root metadata k key"
    using assms(1,2) by (auto simp: initialiseSAMLMiddleware_def Let_def split: list.splits sum.splits option.splits private_key.splits)
  note url = saml_url_in_dir [OF assms(3-6)]
  have acs: "AcsURL (ServiceProvider m) =
      zero_url\<lparr>Scheme := Scheme root, User := User root, Host := Host root, Path := dir @ ''/auth/'' @ i @ ''/saml/callback''\<rparr>"
    using url [of "''callback''"] by (simp add: m new_middleware_def)
  have "saml_Handle V s r = [Redirect (SAML_FailureRedirect (SAML_config s)) 301]"
    if "middleware s = Some m" "req_path r = dir @ ''/auth/'' @ i @ ''/saml/callback''" for s r
    using that by (simp add: saml_Handle_def acs saml_error_redirect_def)
  moreover have "'''' \<in> set (possibleRequestIDs V m r)" for r
    by (simp add: possibleRequestIDs_def m new_middleware_def)
  ultimately show ?thesis
    using url acs by (auto simp: m new_middleware_def)
qed

definition saml_sample_config :: saml_config where
  "saml_sample_config = zero_saml_config\<lparr>SAMLBaseURL := ''https://sso.example.com/tib/x'', IDPMetadataURL := ''https://idp/md''\<rparr>"

theorem saml_addresses_witness:
  "\<exists>m. initialiseSAMLMiddleware sample_saml saml_sample_config ''p1'' = Returns (Some m) \<and>
     AcsURL (ServiceProvider m) =
       zero_url\<lparr>Scheme := ''https'', Host := ''sso.example.com'', Path := ''/tib/auth/p1/saml/callback''\<rparr>"
proof -
  let ?root = "zero_url\<lparr>Scheme := ''https'', Host := ''sso.example.com'', Path := ''/tib/x''\<rparr>"
  have root: "url_Parse (SAMLBaseURL saml_sample_config) = Inr ?root" by code_simp
  obtain m where m: "initialiseSAMLMiddleware sample_saml saml_sample_config ''p1'' = Returns (Some m)"
  proof -
    have "url_Parse (IDPMetadataURL saml_sample_config) = Inr (zero_url\<lparr>Scheme := ''https'', Host := ''idp'', Path := ''/md''\<rparr>)"
      by code_simp
    with root that show thesis by (auto simp: initialiseSAMLMiddleware_def sample_saml_def Let_def)
  qed
  have "dotless ''/tib''" by code_simp
  then have "base_dir (Path ?root) ''/tib''" by (auto simp: base_dir_def HasPrefix_def)
  from saml_addresses [OF m root this] m show ?thesis by (auto simp: zero_url_def)
qed

end
