(* ===== verification/Concurrent_Registry.thy ===== *)
theory Concurrent_Registry
  imports Profile_Api
begin

section \<open>Profile requests that run at the same time (profileActions.go, file_loader.go)\<close>

text \<open>
  The server gives every request a goroutine of its own. The locks of the store make one operation of it
  atomic and no more, so the requests of the profile API interleave between their calls. A request is here a
  program counter: the call it makes next, with the values it holds. A thread makes one call at a time on the
  store and the files it shares with the others. The file of the profiles is read in one step, and written in
  the two that writing a file consists of, the opening, which empties it, and the writing at its beginning; a backup
  is written in one step. The error reports, which depend on the outcome of one call only, are those of the
  sequential definitions, and \<open>request_alone\<close> says that a request that is left alone does what these say.
\<close>

datatype pc =
    Checking registry_op
  | Storing registry_op
  | Reading registry_op
  | Backing_up registry_op string
  | Listing registry_op
  | Saving registry_op string
  | Writing registry_op string
  | Answered registry_op "http_error option"
  | Crashed registry_op panic

text \<open>After the change of the store: its error, or the flush.\<close>

definition after_store :: "registry_op \<Rightarrow> string \<Rightarrow> go_error option outcome \<Rightarrow> pc" where
  "after_store c msg r =
     (case r of
        Panics x \<Rightarrow> Crashed c x
      | Returns (Some e) \<Rightarrow> Answered c (Some \<lparr>Message = msg, Code = 500, Error = Some e\<rparr>)
      | Returns None \<Rightarrow> Reading c)"

definition flush_failed :: "registry_op \<Rightarrow> go_error \<Rightarrow> pc" where
  "flush_failed c e = Answered c (Some \<lparr>Message = ''flush failed'', Code = 400, Error = Some e\<rparr>)"

text \<open>Bytes written at the beginning of a file replace what is there, and what is longer than they are stays.\<close>

definition overwrite :: "'d os_files \<Rightarrow> string \<Rightarrow> string \<Rightarrow> 'd \<Rightarrow> go_error option \<times> 'd" where
  "overwrite os f b d =
     osWriteFile os f (b @ drop (length b) (case osReadFile os f d of Inl e \<Rightarrow> '''' | Inr old \<Rightarrow> old)) d"

text \<open>One step of a thread. \<open>unix\<close> is the time the name of a backup is made from, \<open>order\<close> the order in which
  a listing visits the map.\<close>

fun check_step :: "registry_op \<Rightarrow> in_memory \<Rightarrow> pc" where
  "check_step (Add p) m =
     (let (keyErr, dumpProfile) = in_memory_GetProfile (ID p) (OrgID p) m in
      if keyErr = None \<and> ID dumpProfile \<noteq> ''''
      then Answered (Add p) (Some \<lparr>Message = ''Object ID already exists'', Code = 400, Error = keyErr\<rparr>)
      else Storing (Add p))"
| "check_step (Update k p) m =
     (if ID p \<noteq> k
      then Answered (Update k p) (Some \<lparr>Message = ''Object ID and URI resource ID do not match'', Code = 400,
             Error = Some ''ID Mismatch''\<rparr>)
      else
        (let (keyErr, dumpProfile) = in_memory_GetProfile k (OrgID p) m in
         if keyErr \<noteq> None
         then Answered (Update k p) (Some \<lparr>Message = ''Object ID does not exist, operation not permitted'',
                Code = 404, Error = keyErr\<rparr>)
         else Storing (Update k p)))"
| "check_step (Delete k) m =
     (let (keyErr, dumpProfile) = in_memory_GetProfile k '''' m in
      if keyErr \<noteq> None
      then Answered (Delete k) (Some \<lparr>Message = ''Object ID does not exist'', Code = 404, Error = keyErr\<rparr>)
      else Storing (Delete k))"

fun store_step :: "registry_op \<Rightarrow> in_memory \<Rightarrow> pc \<times> in_memory" where
  "store_step (Add p) m =
     (case in_memory_SetKey (ID p) (OrgID p) (ProfilePtr p) m of
        (r, m') \<Rightarrow> (after_store (Add p) ''insert failed'' r, m'))"
| "store_step (Update k p) m =
     (case in_memory_SetKey k (OrgID p) (ProfilePtr p) m of
        (r, m') \<Rightarrow> (after_store (Update k p) ''Update failed'' r, m'))"
| "store_step (Delete k) m =
     (case in_memory_DeleteKey k '''' m of
        (e, m') \<Rightarrow> (after_store (Delete k) ''Delete failed'' (Returns e), m'))"

fun thread_step ::
    "'d os_files \<Rightarrow> file_loader_conf \<Rightarrow> int \<Rightarrow> string list \<Rightarrow> pc \<Rightarrow> in_memory \<times> 'd \<Rightarrow> pc \<times> (in_memory \<times> 'd)" where
  "thread_step os conf unix order (Checking c) (m, d) = (check_step c m, (m, d))"
| "thread_step os conf unix order (Storing c) (m, d) = (case store_step c m of (t, m') \<Rightarrow> (t, (m', d)))"
| "thread_step os conf unix order (Reading c) (m, d) =
     (case osReadFile os (FileName conf) d of
        Inl err \<Rightarrow> (flush_failed c err, (m, d))
      | Inr oldSet \<Rightarrow> (Backing_up c oldSet, (m, d)))"
| "thread_step os conf unix order (Backing_up c oldSet) (m, d) =
     (case osWriteFile os (backup_location conf unix) oldSet d of
        (Some wErr, d') \<Rightarrow> (flush_failed c wErr, (m, d'))
      | (None, d') \<Rightarrow> (Listing c, (m, d')))"
| "thread_step os conf unix order (Listing c) (m, d) =
     (Saving c (print_json (values_json (Some (in_memory_GetAll order '''' m)))), (m, d))"
| "thread_step os conf unix order (Saving c asJson) (m, d) =
     (case osWriteFile os (save_path conf) '''' d of
        (Some w2Err, d') \<Rightarrow> (Answered c None, (m, d'))
      | (None, d') \<Rightarrow> (Writing c asJson, (m, d')))"
| "thread_step os conf unix order (Writing c asJson) (m, d) =
     (case overwrite os (save_path conf) asJson d of (w2Err, d') \<Rightarrow> (Answered c None, (m, d')))"
| "thread_step os conf unix order (Answered c e) w = (Answered c e, w)"
| "thread_step os conf unix order (Crashed c x) w = (Crashed c x, w)"

text \<open>Any number of threads over one store and one set of files. A request that was decoded joins them; then
  any thread may make its next call, at any time, with the map visited in any order.\<close>

type_synonym 'd conc = "pc list \<times> in_memory \<times> 'd"

inductive conc_step :: "'d os_files \<Rightarrow> file_loader_conf \<Rightarrow> 'd conc \<Rightarrow> 'd conc \<Rightarrow> bool" for os conf where
  Arrives: "wf_op c \<Longrightarrow> conc_step os conf (ts, w) (ts @ [Checking c], w)"
| Steps: "i < length ts \<Longrightarrow> (\<And>s. kv (fst w) = Some s \<Longrightarrow> iteration_order order s) \<Longrightarrow>
    thread_step os conf unix order (ts ! i) w = (t, w') \<Longrightarrow> conc_step os conf (ts, w) (ts[i := t], w')"

inductive_cases conc_step_cases: "conc_step os conf x y"

subsection \<open>A request alone\<close>

text \<open>Seven calls answer a request, and left alone they are the operation with the file loader's flush, when
  writing a file is to open it and to write at its beginning.\<close>

definition writes_in_two :: "'d os_files \<Rightarrow> bool" where
  "writes_in_two os \<longleftrightarrow>
     (\<forall>f b d e d1. osWriteFile os f '''' d = (e, d1) \<longrightarrow>
        snd (osWriteFile os f b d) = (if e = None then snd (overwrite os f b d1) else d1))"

definition steps_alone ::
    "'d os_files \<Rightarrow> file_loader_conf \<Rightarrow> int \<Rightarrow> (in_memory \<Rightarrow> string list) \<Rightarrow> pc \<times> (in_memory \<times> 'd) \<Rightarrow>
      pc \<times> (in_memory \<times> 'd)" where
  "steps_alone os conf unix order = (\<lambda>(t, w). thread_step os conf unix (order (fst w)) t w)"

definition file_flush ::
    "'d os_files \<Rightarrow> file_loader_conf \<Rightarrow> int \<Rightarrow> (in_memory \<Rightarrow> string list) \<Rightarrow> in_memory \<Rightarrow> ('d, go_error option) act" where
  "file_flush os conf unix order =
     FileLoader_Flush os conf unix (\<lambda>m. Some (in_memory_GetAll (order m) '''' m))"

abbreviation file_op ::
    "'d os_files \<Rightarrow> file_loader_conf \<Rightarrow> int \<Rightarrow> (in_memory \<Rightarrow> string list) \<Rightarrow> registry_op \<Rightarrow>
      (in_memory \<times> 'd, http_error option) act" where
  "file_op os conf unix order \<equiv>
     run_op in_memory_GetProfile in_memory_SetKey in_memory_DeleteKey (file_flush os conf unix order)"

definition finished :: "registry_op \<Rightarrow> http_error option outcome \<Rightarrow> pc" where
  "finished c r = (case r of Returns e \<Rightarrow> Answered c e | Panics x \<Rightarrow> Crashed c x)"

lemma steps_alone_done [simp]:
  "(steps_alone os conf unix order ^^ n) (Answered c e, w) = (Answered c e, w)"
  "(steps_alone os conf unix order ^^ n) (Crashed c x, w) = (Crashed c x, w)"
  by (induction n) (simp_all add: steps_alone_def)

lemma steps_alone_Suc:
  "(steps_alone os conf unix order ^^ Suc n) (t, w) =
    (steps_alone os conf unix order ^^ n) (thread_step os conf unix (order (fst w)) t w)"
  by (simp add: funpow_Suc_right steps_alone_def del: funpow.simps)

lemma saving_steps:
  assumes "writes_in_two os"
  shows "(steps_alone os conf unix order ^^ 2) (Saving c b, (m, d)) =
    (Answered c None, (m, snd (osWriteFile os (save_path conf) b d)))"
proof -
  obtain e d1 where w: "osWriteFile os (save_path conf) '''' d = (e, d1)"
    by (cases "osWriteFile os (save_path conf) '''' d")
  then have "snd (osWriteFile os (save_path conf) b d) =
      (if e = None then snd (overwrite os (save_path conf) b d1) else d1)"
    using assms unfolding writes_in_two_def by blast
  then show ?thesis
    by (cases e) (simp_all add: numeral_eq_Suc steps_alone_Suc w case_prod_unfold del: funpow.simps(2))
qed

lemma flush_alone:
  assumes "writes_in_two os"
  shows "(steps_alone os conf unix order ^^ 5) (Reading c, (m, d)) =
    (finished c (flush_outcome (fst (file_flush os conf unix order m d))), (m, snd (file_flush os conf unix order m d)))"
proof -
  have five: "(steps_alone os conf unix order ^^ 5) x =
      (steps_alone os conf unix order ^^ 2) ((steps_alone os conf unix order ^^ 3) x)" for x
    by (simp add: funpow_add [symmetric, THEN fun_cong, unfolded comp_def] del: funpow.simps(2))
  have three: "(steps_alone os conf unix order ^^ 3) (Reading c, (m, d)) =
      (case osReadFile os (FileName conf) d of
         Inl e \<Rightarrow> (flush_failed c e, (m, d))
       | Inr old \<Rightarrow>
           (case osWriteFile os (backup_location conf unix) old d of
              (Some e, d') \<Rightarrow> (flush_failed c e, (m, d'))
            | (None, d') \<Rightarrow> (Saving c (print_json (values_json (Some (in_memory_GetAll (order m) '''' m)))), (m, d'))))"
    by (simp add: numeral_eq_Suc steps_alone_Suc flush_failed_def del: funpow.simps(2)
        split: sum.split option.split prod.split)
  show ?thesis
    unfolding five three
    by (auto simp: saving_steps [OF assms] file_flush_def FileLoader_Flush_def finished_def flush_outcome_def
        flush_failed_def case_prod_unfold simp del: funpow.simps(2) split: sum.split option.split)
qed

lemma store_alone:
  assumes "writes_in_two os" and "store_step c m = (t, m')"
  shows "(steps_alone os conf unix order ^^ 5) (t, (m', d)) =
    (case t of Reading c' \<Rightarrow> (finished c (flush_outcome (fst (file_flush os conf unix order m' d))),
        (m', snd (file_flush os conf unix order m' d)))
     | _ \<Rightarrow> (t, (m', d)))"
  using assms(2)
  by (cases c)
    (auto simp: after_store_def flush_alone [OF assms(1)] split: prod.splits outcome.splits option.splits)

lemma thread_alone:
  assumes "writes_in_two os"
  shows "(steps_alone os conf unix order ^^ 7) (Checking c, (m, d)) =
    (finished c (fst (file_op os conf unix order c (m, d))), snd (file_op os conf unix order c (m, d)))"
proof -
  have seven: "(steps_alone os conf unix order ^^ 7) (Checking c, (m, d)) =
      (steps_alone os conf unix order ^^ 6) (check_step c m, (m, d))" for c
    using steps_alone_Suc [where n = 6 and t = "Checking c" and w = "(m, d)"] by (simp del: funpow.simps(2))
  have six: "(steps_alone os conf unix order ^^ 6) (Storing c, (m, d)) =
      (case store_step c m of (t, m') \<Rightarrow> (steps_alone os conf unix order ^^ 5) (t, (m', d)))" for c
    using steps_alone_Suc [where n = 5 and t = "Storing c" and w = "(m, d)"]
    by (simp add: case_prod_unfold del: funpow.simps(2))
  show ?thesis
    by (cases c)
      (auto simp: seven six AddProfile_def UpdateProfile_def DeleteProfile_def flush_tail store_alone [OF assms]
        after_store_def bind_act_def on_store_def finished_def Let_def return_act_def flush_alone [OF assms]
        simp del: funpow.simps(2)
        split: prod.splits outcome.splits option.splits)
qed

subsection \<open>Every interleaving\<close>

fun pc_op :: "pc \<Rightarrow> registry_op" where
  "pc_op (Checking c) = c"
| "pc_op (Storing c) = c"
| "pc_op (Reading c) = c"
| "pc_op (Backing_up c t) = c"
| "pc_op (Listing c) = c"
| "pc_op (Saving c t) = c"
| "pc_op (Writing c t) = c"
| "pc_op (Answered c e) = c"
| "pc_op (Crashed c x) = c"

text \<open>Whether a thread has changed the store: not before its call, and not if it was refused.\<close>

fun stored :: "pc \<Rightarrow> bool" where
  "stored (Checking c) = False"
| "stored (Storing c) = False"
| "stored (Answered c e) = (case e of None \<Rightarrow> True | Some x \<Rightarrow> Message x = ''flush failed'')"
| "stored (Crashed c x) = False"
| "stored _ = True"

text \<open>The effect of an operation on the registry once it has passed its check, and what a thread that waits to
  have it must satisfy.\<close>

fun effect :: "registry_op \<Rightarrow> registry \<Rightarrow> registry" where
  "effect (Add p) r = r(ID p \<mapsto> p)"
| "effect (Update k p) r = r(k \<mapsto> p)"
| "effect (Delete k) r = r(k := None)"

fun storable :: "registry_op \<Rightarrow> bool" where
  "storable (Update k p) = (wf_profile p \<and> ID p = k)"
| "storable c = wf_op c"

fun pc_ok :: "pc \<Rightarrow> bool" where
  "pc_ok (Checking c) = wf_op c"
| "pc_ok (Storing c) = storable c"
| "pc_ok _ = True"

lemma check_step_ok: "wf_op c \<Longrightarrow> pc_ok (check_step c m)"
  by (cases c) (auto simp: Let_def case_prod_unfold)

lemma check_step_op [simp]: "pc_op (check_step c m) = c" "\<not> stored (check_step c m)"
  by (cases c; auto simp: Let_def case_prod_unfold)+

text \<open>The call on the store: it succeeds and has the effect.\<close>

lemma store_step_effect:
  assumes "registry_ok m" and "storable c"
  shows "\<exists>m'. store_step c m = (Reading c, m') \<and> registry_ok m' \<and> in_memory_view m' = effect c (in_memory_view m)"
proof (cases c)
  case (Add p)
  with assms show ?thesis
    using mem.set_returns [of m p "ProfilePtr p" "ID p" "OrgID p"] mem.set_inv [of m p "ProfilePtr p" "ID p" "OrgID p"]
      mem.set_view [of m p "ProfilePtr p" "ID p" "OrgID p"]
    by (cases "in_memory_SetKey (ID p) (OrgID p) (ProfilePtr p) m")
      (simp add: registry_ok_def after_store_def keyed_upd del: fun_upd_apply)
next
  case (Update k p)
  with assms show ?thesis
    using mem.set_returns [of m p "ProfilePtr p" k "OrgID p"] mem.set_inv [of m p "ProfilePtr p" k "OrgID p"]
      mem.set_view [of m p "ProfilePtr p" k "OrgID p"] keyed_upd [of "in_memory_view m" p]
    by (cases "in_memory_SetKey k (OrgID p) (ProfilePtr p) m")
      (auto simp: registry_ok_def after_store_def simp del: fun_upd_apply)
next
  case (Delete k)
  with assms show ?thesis
    using mem.delete_returns [of m k "''''"] mem.delete_inv [of m k "''''"] mem.delete_view [of m k "''''"]
    by (cases "in_memory_DeleteKey k '''' m") (auto simp: registry_ok_def after_store_def keyed_def)
qed

text \<open>A step of a thread keeps its request, and changes the store only when it is the call on the store.\<close>

lemma thread_step_cases:
  assumes "thread_step os conf unix order t (m, d) = (t', (m', d'))" and "pc_ok t" and "registry_ok m"
  shows "pc_op t' = pc_op t \<and> pc_ok t' \<and> registry_ok m' \<and>
    (if t = Storing (pc_op t) then stored t' \<and> in_memory_view m' = effect (pc_op t) (in_memory_view m)
     else m' = m \<and> stored t' = stored t)"
proof (cases t)
  case (Checking c)
  with assms check_step_ok [of c m] show ?thesis by auto
next
  case (Storing c)
  with assms store_step_effect [of m c] show ?thesis by auto
qed (use assms in \<open>auto simp: flush_failed_def split: sum.splits option.splits prod.splits\<close>)

text \<open>So the registry is, at every moment, what the requests that have changed it leave, one after the other in
  some order.\<close>

definition applied :: "pc list \<Rightarrow> nat list \<Rightarrow> registry \<Rightarrow> registry" where
  "applied ts is r = foldl (\<lambda>r i. effect (pc_op (ts ! i)) r) r is"

definition serialised :: "registry \<Rightarrow> 'd conc \<Rightarrow> bool" where
  "serialised r0 = (\<lambda>(ts, m, d).
     registry_ok m \<and> (\<forall>t\<in>set ts. pc_ok t) \<and>
     (\<exists>is. distinct is \<and> set is = {i. i < length ts \<and> stored (ts ! i)} \<and> in_memory_view m = applied ts is r0))"

lemma applied_cong:
  "(\<And>i. i \<in> set is \<Longrightarrow> pc_op (ts ! i) = pc_op (ts' ! i)) \<Longrightarrow> applied ts is r = applied ts' is r"
  unfolding applied_def by (rule foldl_cong) auto

lemma applied_snoc [simp]: "applied ts (is @ [i]) r = effect (pc_op (ts ! i)) (applied ts is r)"
  by (simp add: applied_def)

lemma serialised_step:
  assumes "conc_step os conf x y" and "serialised r0 x"
  shows "serialised r0 y"
  using assms(1)
proof cases
  case (Arrives c ts w)
  obtain m d where w: "w = (m, d)" by (cases w)
  from assms(2) obtain "is" where ok: "registry_ok m" "\<forall>t\<in>set ts. pc_ok t" and "is": "distinct is"
    "set is = {i. i < length ts \<and> stored (ts ! i)}" "in_memory_view m = applied ts is r0"
    unfolding Arrives w serialised_def by auto
  have "set is = {i. i < length (ts @ [Checking c]) \<and> stored ((ts @ [Checking c]) ! i)}"
    unfolding "is" by (auto simp: nth_append less_Suc_eq)
  moreover have "applied ts is r0 = applied (ts @ [Checking c]) is r0"
    by (rule applied_cong) (use "is"(2) in \<open>simp add: nth_append\<close>)
  ultimately show ?thesis
    using ok "is" Arrives(3) unfolding Arrives w serialised_def by auto
next
  case (Steps i ts w order unix t w')
  obtain m d m' d' where w: "w = (m, d)" "w' = (m', d')" by (cases w; cases w')
  from assms(2) obtain "is" where ok: "registry_ok m" "\<forall>t\<in>set ts. pc_ok t" and "is": "distinct is"
    "set is = {i. i < length ts \<and> stored (ts ! i)}" "in_memory_view m = applied ts is r0"
    unfolding Steps w serialised_def by auto
  note st = thread_step_cases [OF Steps(5) [unfolded w] _ ok(1)]
  have ti: "pc_ok (ts ! i)" using ok(2) Steps(3) by simp
  note st = st [OF ti]
  have op: "pc_op (ts[i := t] ! j) = pc_op (ts ! j)" for j
    using st Steps(3) by (cases "j = i") simp_all
  have app: "applied (ts[i := t]) js r0 = applied ts js r0" for js
    by (rule applied_cong) (simp add: op)
  have oks: "\<forall>t\<in>set (ts[i := t]). pc_ok t"
    using ok(2) st set_update_subset_insert [of ts i t] by auto
  show ?thesis
  proof (cases "ts ! i = Storing (pc_op (ts ! i))")
    case True
    then have "\<not> stored (ts ! i)" by (metis stored.simps(2))
    then have "distinct (is @ [i])" "set (is @ [i]) = {j. j < length (ts[i := t]) \<and> stored (ts[i := t] ! j)}"
      using "is" st True Steps(3) by (auto simp: nth_list_update)
    moreover have "in_memory_view m' = applied (ts[i := t]) (is @ [i]) r0"
      using st True "is"(3) by (simp add: app op)
    ultimately show ?thesis
      using st oks unfolding Steps w serialised_def by blast
  next
    case False
    then have "set is = {j. j < length (ts[i := t]) \<and> stored (ts[i := t] ! j)}"
      using "is"(2) st Steps(3) by (auto simp: nth_list_update split: if_splits)
    moreover have "in_memory_view m' = applied (ts[i := t]) is r0"
      using st False "is"(3) by (simp add: app)
    ultimately show ?thesis
      using st oks "is"(1) unfolding Steps w serialised_def by blast
  qed
qed

lemma serialised_reachable:
  assumes "registry_ok m" and "(conc_step os conf)\<^sup>*\<^sup>* ([], m, d) x"
  shows "serialised (in_memory_view m) x"
  using assms(2)
proof (induction rule: rtranclp_induct)
  case base
  show ?case using assms(1) by (simp add: serialised_def applied_def)
qed (rule serialised_step)

subsection \<open>Runs of a thread among others\<close>

definition visits :: "(in_memory \<Rightarrow> string list) \<Rightarrow> bool" where
  "visits order \<longleftrightarrow> (\<forall>m s. kv m = Some s \<longrightarrow> iteration_order (order m) s)"

text \<open>What a thread does while the others wait is a part of a run.\<close>

lemma alone_in_conc:
  assumes "visits order" and "i < length ts"
    and "(steps_alone os conf unix order ^^ n) (ts ! i, w) = (t, w')"
  shows "(conc_step os conf)\<^sup>*\<^sup>* (ts, w) (ts[i := t], w')"
  using assms(2,3)
proof (induction n arbitrary: ts w)
  case 0
  then show ?case by auto
next
  case (Suc n)
  obtain t1 w1 where one: "thread_step os conf unix (order (fst w)) (ts ! i) w = (t1, w1)"
    by (cases "thread_step os conf unix (order (fst w)) (ts ! i) w")
  with Suc.prems have rest: "(steps_alone os conf unix order ^^ n) (t1, w1) = (t, w')"
    by (simp add: steps_alone_Suc del: funpow.simps)
  have "conc_step os conf (ts, w) (ts[i := t1], w1)"
    using assms(1) Suc.prems(1) one by (intro conc_step.Steps) (auto simp: visits_def)
  moreover have "(conc_step os conf)\<^sup>*\<^sup>* (ts[i := t1], w1) ((ts[i := t1])[i := t], w')"
    using Suc.prems(1) rest by (intro Suc.IH) simp_all
  ultimately show ?case by simp
qed

text \<open>Files that can be read and written.\<close>

definition files_work :: "'d os_files \<Rightarrow> file_loader_conf \<Rightarrow> 'd \<Rightarrow> bool" where
  "files_work os conf d \<longleftrightarrow>
     os_files_documented os \<and> (\<forall>f b d. fst (osWriteFile os f b d) = None) \<and>
     (\<exists>b. osReadFile os (FileName conf) d = Inr b)"

lemma osWriteFile_works:
  assumes "files_work os conf d"
  shows "\<exists>d'. osWriteFile os f b d = (None, d') \<and> files_work os conf d' \<and> osReadFile os f d' = Inr b"
proof -
  obtain d' where w: "osWriteFile os f b d = (None, d')"
    using assms by (metis files_work_def prod.collapse)
  then have r: "osReadFile os f d' = Inr b" and
    other: "path_Clean (FileName conf) \<noteq> path_Clean f \<Longrightarrow> osReadFile os (FileName conf) d' = osReadFile os (FileName conf) d"
    and same: "path_Clean (FileName conf) = path_Clean f \<Longrightarrow> osReadFile os (FileName conf) d' = osReadFile os f d'"
    using assms unfolding files_work_def os_files_documented_def by blast+
  have "\<exists>b. osReadFile os (FileName conf) d' = Inr b"
    using other same r assms by (cases "path_Clean (FileName conf) = path_Clean f") (auto simp: files_work_def)
  with w r assms show ?thesis by (auto simp: files_work_def)
qed

definition listing :: "(in_memory \<Rightarrow> string list) \<Rightarrow> in_memory \<Rightarrow> string" where
  "listing order m = print_json (values_json (Some (in_memory_GetAll (order m) '''' m)))"

text \<open>From its call on the store a request needs three more calls before it saves, and two to do so.\<close>

lemma storing_alone:
  assumes "registry_ok m" and "storable c" and "files_work os conf d"
  shows "\<exists>m' d'. (steps_alone os conf unix order ^^ 4) (Storing c, (m, d)) = (Saving c (listing order m'), (m', d')) \<and>
    registry_ok m' \<and> in_memory_view m' = effect c (in_memory_view m) \<and> files_work os conf d'"
proof -
  obtain m' where st: "store_step c m = (Reading c, m')" "registry_ok m'"
    "in_memory_view m' = effect c (in_memory_view m)"
    using store_step_effect [OF assms(1,2)] by blast
  obtain old where old: "osReadFile os (FileName conf) d = Inr old"
    using assms(3) by (auto simp: files_work_def)
  obtain d' where d': "osWriteFile os (backup_location conf unix) old d = (None, d')" "files_work os conf d'"
    using osWriteFile_works [OF assms(3)] by blast
  have "(steps_alone os conf unix order ^^ 4) (Storing c, (m, d)) = (Saving c (listing order m'), (m', d'))"
    by (simp add: numeral_eq_Suc steps_alone_Suc st old d' listing_def del: funpow.simps(2))
  with st d' show ?thesis by blast
qed

lemma truncating_alone:
  assumes "files_work os conf d"
  shows "\<exists>d'. (steps_alone os conf unix order ^^ 1) (Saving c t, (m, d)) = (Writing c t, (m, d')) \<and>
    files_work os conf d' \<and> osReadFile os (save_path conf) d' = Inr ''''"
  using osWriteFile_works [OF assms, of "save_path conf" "''''"] by (auto simp: steps_alone_def)

lemma writing_alone:
  assumes "files_work os conf d" and "osReadFile os (save_path conf) d = Inr old"
  shows "\<exists>d'. (steps_alone os conf unix order ^^ 1) (Writing c t, (m, d)) = (Answered c None, (m, d')) \<and>
    files_work os conf d' \<and> osReadFile os (save_path conf) d' = Inr (t @ drop (length t) old)"
  using osWriteFile_works [OF assms(1), of "save_path conf" "t @ drop (length t) old"] assms(2)
  by (auto simp: steps_alone_def overwrite_def)

lemma saving_alone:
  assumes "files_work os conf d"
  shows "\<exists>d'. (steps_alone os conf unix order ^^ 2) (Saving c t, (m, d)) = (Answered c None, (m, d')) \<and>
    files_work os conf d' \<and> osReadFile os (save_path conf) d' = Inr t"
proof -
  obtain d1 where one: "(steps_alone os conf unix order ^^ 1) (Saving c t, (m, d)) = (Writing c t, (m, d1))"
    "files_work os conf d1" "osReadFile os (save_path conf) d1 = Inr ''''"
    using truncating_alone [OF assms] by blast
  obtain d2 where two: "(steps_alone os conf unix order ^^ 1) (Writing c t, (m, d1)) = (Answered c None, (m, d2))"
    "files_work os conf d2" "osReadFile os (save_path conf) d2 = Inr t"
    using writing_alone [OF one(2,3), where unix = unix and order = order and c = c and t = t and m = m] by auto
  from one two show ?thesis by (simp add: numeral_eq_Suc)
qed

lemma checking_alone:
  "check_step c m = Storing c \<Longrightarrow>
    (steps_alone os conf unix order ^^ 1) (Checking c, (m, d)) = (Storing c, (m, d))"
  by (simp add: steps_alone_def)

lemma check_step_Add:
  assumes "registry_ok m" and "in_memory_view m (ID p) = None"
  shows "check_step (Add p) m = Storing (Add p)"
proof -
  have "\<exists>e. fst (in_memory_GetProfile (ID p) (OrgID p) m) = Some e"
    using assms by (intro mem.get_absent) (simp_all add: registry_ok_def)
  then show ?thesis by (auto simp: case_prod_unfold)
qed

text \<open>A request that may store does so and is answered, while the others wait.\<close>

lemma storing_then_answered:
  assumes "registry_ok m" and "storable c" and "files_work os conf d" and "visits order"
    and "i < length ts" and "ts ! i = Storing c"
  shows "\<exists>m' d'. (conc_step os conf)\<^sup>*\<^sup>* (ts, m, d) (ts[i := Answered c None], m', d') \<and>
    registry_ok m' \<and> in_memory_view m' = effect c (in_memory_view m) \<and> files_work os conf d' \<and>
    osReadFile os (save_path conf) d' = Inr (listing order m')"
proof -
  obtain m' d1 where one: "(steps_alone os conf 0 order ^^ 4) (Storing c, (m, d)) = (Saving c (listing order m'), (m', d1))"
    "registry_ok m'" "in_memory_view m' = effect c (in_memory_view m)" "files_work os conf d1"
    using storing_alone [OF assms(1-3)] by blast
  obtain d' where two: "(steps_alone os conf 0 order ^^ 2) (Saving c (listing order m'), (m', d1)) =
      (Answered c None, (m', d'))" "files_work os conf d'" "osReadFile os (save_path conf) d' = Inr (listing order m')"
    using saving_alone [OF one(4)] by blast
  have "(conc_step os conf)\<^sup>*\<^sup>* (ts, m, d) (ts[i := Saving c (listing order m')], m', d1)"
    using one(1) assms(6) by (intro alone_in_conc [OF assms(4,5)]) simp
  moreover have "(conc_step os conf)\<^sup>*\<^sup>* (ts[i := Saving c (listing order m')], m', d1)
      (ts[i := Saving c (listing order m'), i := Answered c None], m', d')"
    using two(1) assms(5) by (intro alone_in_conc [OF assms(4), where unix = 0 and n = 2]) (simp_all del: funpow.simps(2))
  ultimately have "(conc_step os conf)\<^sup>*\<^sup>* (ts, m, d) (ts[i := Answered c None], m', d')"
    by (simp add: rtranclp_trans)
  with one two show ?thesis by blast
qed

lemma checked_in_conc:
  assumes "check_step c m = Storing c" and "visits order" and "i < length ts" and "ts ! i = Checking c"
  shows "(conc_step os conf)\<^sup>*\<^sup>* (ts, m, d) (ts[i := Storing c], m, d)"
  by (rule alone_in_conc [OF assms(2,3), where unix = 0 and n = 1]) (use checking_alone [OF assms(1)] assms(4) in simp)

subsection \<open>Races\<close>

text \<open>Two requests to add a profile under the same new identifier both check before either stores.\<close>

lemma adds_both_succeed:
  assumes ok: "registry_ok m" and w: "files_work os conf d" and o: "visits order"
    and new: "in_memory_view m k = None" and ids: "ID p = k" "ID q = k" and wf: "wf_profile p" "wf_profile q"
  shows "\<exists>m' d'. (conc_step os conf)\<^sup>*\<^sup>* ([Checking (Add p), Checking (Add q)], m, d)
      ([Answered (Add p) None, Answered (Add q) None], m', d') \<and>
    in_memory_view m' = (in_memory_view m)(k \<mapsto> q)"
proof -
  have c: "check_step (Add p) m = Storing (Add p)" "check_step (Add q) m = Storing (Add q)"
    using check_step_Add [OF ok, of p, unfolded ids, OF new] check_step_Add [OF ok, of q, unfolded ids, OF new] .
  have "(conc_step os conf)\<^sup>*\<^sup>* ([Checking (Add p), Checking (Add q)], m, d) ([Storing (Add p), Checking (Add q)], m, d)"
    using checked_in_conc [OF c(1) o, of 0 "[Checking (Add p), Checking (Add q)]"] by simp
  moreover have "(conc_step os conf)\<^sup>*\<^sup>* ([Storing (Add p), Checking (Add q)], m, d) ([Storing (Add p), Storing (Add q)], m, d)"
    using checked_in_conc [OF c(2) o, of 1 "[Storing (Add p), Checking (Add q)]"] by simp
  moreover obtain m1 d1 where
    "(conc_step os conf)\<^sup>*\<^sup>* ([Storing (Add p), Storing (Add q)], m, d) ([Answered (Add p) None, Storing (Add q)], m1, d1)"
    and 1: "registry_ok m1" "in_memory_view m1 = (in_memory_view m)(ID p \<mapsto> p)" "files_work os conf d1"
    using storing_then_answered [OF ok _ w o, of "Add p" 0 "[Storing (Add p), Storing (Add q)]"] wf by auto
  moreover obtain m2 d2 where
    "(conc_step os conf)\<^sup>*\<^sup>* ([Answered (Add p) None, Storing (Add q)], m1, d1)
       ([Answered (Add p) None, Answered (Add q) None], m2, d2)"
    and "in_memory_view m2 = (in_memory_view m1)(ID q \<mapsto> q)"
    using storing_then_answered [OF 1(1) _ 1(3) o, of "Add q" 1 "[Answered (Add p) None, Storing (Add q)]"] wf by auto
  ultimately show ?thesis
    using ids by (intro exI [of _ m2] exI [of _ d2] conjI) (meson rtranclp_trans, simp)
qed

subsection \<open>Two adds that wait to save\<close>

text \<open>Both requests have stored, each holds the listing it made, and the second listing is the longer one.\<close>

lemma adds_waiting_to_save:
  assumes ok: "registry_ok m" and w: "files_work os conf d" and o: "visits order"
    and new: "in_memory_view m (ID p) = None" "in_memory_view m (ID q) = None" "ID p \<noteq> ID q"
    and wf: "wf_profile p" "wf_profile q"
  obtains m1 m2 d2 where
    "(conc_step os conf)\<^sup>*\<^sup>* ([Checking (Add p), Checking (Add q)], m, d)
       ([Saving (Add p) (listing order m1), Saving (Add q) (listing order m2)], m2, d2)"
    "registry_ok m1" "in_memory_view m1 = (in_memory_view m)(ID p \<mapsto> p)"
    "registry_ok m2" "in_memory_view m2 = (in_memory_view m)(ID p \<mapsto> p, ID q \<mapsto> q)" "files_work os conf d2"
proof -
  let ?t0 = "[Checking (Add p), Checking (Add q)]"
  let ?t1 = "[Storing (Add p), Checking (Add q)]"
  have c: "check_step (Add p) m = Storing (Add p)" using check_step_Add [OF ok new(1)] .
  have r1: "(conc_step os conf)\<^sup>*\<^sup>* (?t0, m, d) (?t1, m, d)"
    using checked_in_conc [OF c o, of 0 ?t0] by simp
  obtain m1 d1 where
    s1: "(steps_alone os conf 0 order ^^ 4) (Storing (Add p), (m, d)) = (Saving (Add p) (listing order m1), (m1, d1))"
    and m1: "registry_ok m1" "in_memory_view m1 = (in_memory_view m)(ID p \<mapsto> p)" "files_work os conf d1"
    using storing_alone [OF ok _ w, of "Add p" 0 order] wf by auto
  let ?t2 = "[Saving (Add p) (listing order m1), Checking (Add q)]"
  let ?t3 = "[Saving (Add p) (listing order m1), Storing (Add q)]"
  have r2: "(conc_step os conf)\<^sup>*\<^sup>* (?t1, m, d) (?t2, m1, d1)"
    using alone_in_conc [OF o, of 0 ?t1] s1 by simp
  have c2: "check_step (Add q) m1 = Storing (Add q)"
    using check_step_Add [OF m1(1)] new m1(2) by simp
  have r3: "(conc_step os conf)\<^sup>*\<^sup>* (?t2, m1, d1) (?t3, m1, d1)"
    using checked_in_conc [OF c2 o, of 1 ?t2] by simp
  obtain m2 d2 where
    s2: "(steps_alone os conf 0 order ^^ 4) (Storing (Add q), (m1, d1)) = (Saving (Add q) (listing order m2), (m2, d2))"
    and m2: "registry_ok m2" "in_memory_view m2 = (in_memory_view m1)(ID q \<mapsto> q)" "files_work os conf d2"
    using storing_alone [OF m1(1) _ m1(3), of "Add q" 0 order] wf by auto
  have "(conc_step os conf)\<^sup>*\<^sup>* (?t3, m1, d1)
      ([Saving (Add p) (listing order m1), Saving (Add q) (listing order m2)], m2, d2)"
    using alone_in_conc [OF o, of 1 ?t3] s2 by simp
  with r1 r2 r3 have "(conc_step os conf)\<^sup>*\<^sup>* (?t0, m, d)
      ([Saving (Add p) (listing order m1), Saving (Add q) (listing order m2)], m2, d2)"
    by (meson rtranclp_trans)
  then show thesis
    by (rule that) (use m1 m2 in simp_all)
qed

text \<open>The listing a request made before another one stored is written after that one's.\<close>

lemma stale_listing_saved:
  assumes ok: "registry_ok m" and w: "files_work os conf d" and o: "visits order"
    and new: "in_memory_view m (ID p) = None" "in_memory_view m (ID q) = None" "ID p \<noteq> ID q"
    and wf: "wf_profile p" "wf_profile q"
  shows "\<exists>m1 m' d'. (conc_step os conf)\<^sup>*\<^sup>* ([Checking (Add p), Checking (Add q)], m, d)
      ([Answered (Add p) None, Answered (Add q) None], m', d') \<and>
    in_memory_view m' = (in_memory_view m)(ID p \<mapsto> p, ID q \<mapsto> q) \<and>
    registry_ok m1 \<and> in_memory_view m1 = (in_memory_view m)(ID p \<mapsto> p) \<and>
    osReadFile os (save_path conf) d' = Inr (listing order m1)"
proof -
  obtain m1 m2 d2 where run: "(conc_step os conf)\<^sup>*\<^sup>* ([Checking (Add p), Checking (Add q)], m, d)
       ([Saving (Add p) (listing order m1), Saving (Add q) (listing order m2)], m2, d2)"
    and m: "registry_ok m1" "in_memory_view m1 = (in_memory_view m)(ID p \<mapsto> p)"
      "in_memory_view m2 = (in_memory_view m)(ID p \<mapsto> p, ID q \<mapsto> q)" and d2: "files_work os conf d2"
    by (rule adds_waiting_to_save [OF assms])
  let ?t = "[Saving (Add p) (listing order m1), Saving (Add q) (listing order m2)]"
  let ?u = "[Saving (Add p) (listing order m1), Answered (Add q) None]"
  obtain d3 where d3: "(steps_alone os conf 0 order ^^ 2) (Saving (Add q) (listing order m2), (m2, d2)) =
      (Answered (Add q) None, (m2, d3))" "files_work os conf d3"
    using saving_alone [OF d2] by blast
  obtain d4 where d4: "(steps_alone os conf 0 order ^^ 2) (Saving (Add p) (listing order m1), (m2, d3)) =
      (Answered (Add p) None, (m2, d4))" "osReadFile os (save_path conf) d4 = Inr (listing order m1)"
    using saving_alone [OF d3(2)] by blast
  have "(conc_step os conf)\<^sup>*\<^sup>* (?t, m2, d2) (?u, m2, d3)"
    using alone_in_conc [OF o, of 1 ?t, where unix = 0 and n = 2] d3 by (simp del: funpow.simps(2))
  moreover have "(conc_step os conf)\<^sup>*\<^sup>* (?u, m2, d3) ([Answered (Add p) None, Answered (Add q) None], m2, d4)"
    using alone_in_conc [OF o, of 0 ?u, where unix = 0 and n = 2] d4 by (simp del: funpow.simps(2))
  ultimately show ?thesis
    using run m d4(2) by (meson rtranclp_trans)
qed

text \<open>Two requests open the file before either writes: the end of the longer text stays behind the shorter one.\<close>

lemma saves_garbled:
  assumes w: "files_work os conf d" and o: "visits order" and shorter: "length a \<le> length b"
  shows "\<exists>d'. (conc_step os conf)\<^sup>*\<^sup>* ([Saving c a, Saving c' b], m, d) ([Answered c None, Answered c' None], m, d') \<and>
    osReadFile os (save_path conf) d' = Inr (a @ drop (length a) b)"
proof -
  let ?t = "[Saving c a, Saving c' b]" and ?u = "[Writing c a, Saving c' b]"
  let ?v = "[Writing c a, Writing c' b]" and ?x = "[Writing c a, Answered c' None]"
  obtain d1 where d1: "(steps_alone os conf 0 order ^^ 1) (Saving c a, (m, d)) = (Writing c a, (m, d1))" "files_work os conf d1"
    using truncating_alone [OF w] by blast
  obtain d2 where d2: "(steps_alone os conf 0 order ^^ 1) (Saving c' b, (m, d1)) = (Writing c' b, (m, d2))" "files_work os conf d2"
    "osReadFile os (save_path conf) d2 = Inr ''''"
    using truncating_alone [OF d1(2)] by blast
  obtain d3 where d3: "(steps_alone os conf 0 order ^^ 1) (Writing c' b, (m, d2)) = (Answered c' None, (m, d3))"
    "files_work os conf d3" "osReadFile os (save_path conf) d3 = Inr b"
    using writing_alone [OF d2(2,3), where unix = 0 and order = order and c = c' and t = b and m = m] by auto
  obtain d4 where d4: "(steps_alone os conf 0 order ^^ 1) (Writing c a, (m, d3)) = (Answered c None, (m, d4))"
    "osReadFile os (save_path conf) d4 = Inr (a @ drop (length a) b)"
    using writing_alone [OF d3(2,3), where unix = 0 and order = order and c = c and t = a and m = m] by auto
  have "(conc_step os conf)\<^sup>*\<^sup>* (?t, m, d) (?u, m, d1)"
    using alone_in_conc [OF o, of 0 ?t, where unix = 0 and n = 1] d1 by simp
  moreover have "(conc_step os conf)\<^sup>*\<^sup>* (?u, m, d1) (?v, m, d2)"
    using alone_in_conc [OF o, of 1 ?u, where unix = 0 and n = 1] d2 by simp
  moreover have "(conc_step os conf)\<^sup>*\<^sup>* (?v, m, d2) (?x, m, d3)"
    using alone_in_conc [OF o, of 1 ?v, where unix = 0 and n = 1] d3 by simp
  moreover have "(conc_step os conf)\<^sup>*\<^sup>* (?x, m, d3) ([Answered c None, Answered c' None], m, d4)"
    using alone_in_conc [OF o, of 0 ?x, where unix = 0 and n = 1] d4 by simp
  ultimately show ?thesis using d4(2) by (meson rtranclp_trans)
qed

text \<open>A listing of more profiles is longer, and such a mixture of two listings is not JSON.\<close>

lemma length_print_elems: "xs \<noteq> [] \<Longrightarrow> length (print_elems xs) = (\<Sum>x\<leftarrow>xs. length (print_json x) + 1)"
  by (induction xs) auto

lemma registry_ok_kv: "registry_ok m \<Longrightarrow> \<exists>s. kv m = Some s"
  by (auto simp: registry_ok_def in_memory_inv_def split: option.splits)

lemma listing_array:
  assumes "registry_ok m" and "visits order"
  shows "listing order m = print_json (JArr (map (\<lambda>k. profile_json (the (in_memory_view m k))) (order m)))"
    and "distinct (order m)" and "set (order m) = dom (in_memory_view m)"
    and "\<forall>k\<in>set (order m). wf_json (profile_json (the (in_memory_view m k)))"
proof -
  have inv: "in_memory_inv m" using assms(1) by (simp add: registry_ok_def)
  obtain s where s: "kv m = Some s" using registry_ok_kv [OF assms(1)] ..
  then have it: "iteration_order (order m) s" using assms(2) by (simp add: visits_def)
  show "listing order m = print_json (JArr (map (\<lambda>k. profile_json (the (in_memory_view m k))) (order m)))"
    by (simp add: listing_def in_memory_listing_json [OF inv s it] comp_def)
  show "distinct (order m)" "set (order m) = dom (in_memory_view m)"
    using it dom_in_memory_view [OF inv s] by (simp_all add: iteration_order_def)
  then show "\<forall>k\<in>set (order m). wf_json (profile_json (the (in_memory_view m k)))"
    by (auto intro!: wf_profile_json in_memory_view_wf [OF inv])
qed

lemma listing_longer:
  assumes ok: "registry_ok m1" "registry_ok m2" and o: "visits order" and fin: "in_memory_view m1 \<noteq> Map.empty"
    and more: "in_memory_view m2 = (in_memory_view m1)(k \<mapsto> q)" "in_memory_view m1 k = None"
  shows "length (listing order m1) < length (listing order m2)"
proof -
  let ?len = "\<lambda>m k. length (print_json (profile_json (the (in_memory_view m k)))) + 1"
  have len: "length (listing order m) = 1 + (\<Sum>k\<in>dom (in_memory_view m). ?len m k)"
    if "registry_ok m" "in_memory_view m \<noteq> Map.empty" for m
  proof -
    note l = listing_array [OF that(1) o]
    have ne: "order m \<noteq> []" using l(3) that(2) by (metis dom_eq_empty_conv list.set(1))
    have "length (listing order m) = 1 + (\<Sum>k\<leftarrow>order m. ?len m k)"
      using ne by (simp add: l(1) length_print_elems comp_def)
    also have "(\<Sum>k\<leftarrow>order m. ?len m k) = (\<Sum>k\<in>dom (in_memory_view m). ?len m k)"
      using l(2) by (simp only: sum_list_distinct_conv_sum_set [symmetric] l(3) [symmetric])
    finally show ?thesis .
  qed
  have dom: "finite (dom (in_memory_view m1))" "k \<notin> dom (in_memory_view m1)"
    using listing_array(3) [OF ok(1) o] more(2) by (metis List.finite_set, auto)
  have "(\<Sum>k\<in>dom (in_memory_view m1). ?len m1 k) = (\<Sum>k\<in>dom (in_memory_view m1). ?len m2 k)"
    using dom(2) more(1) by (intro sum.cong) auto
  also have "\<dots> < (\<Sum>k\<in>insert k (dom (in_memory_view m1)). ?len m2 k)"
    using dom by simp
  also have "insert k (dom (in_memory_view m1)) = dom (in_memory_view m2)" by (simp add: more(1))
  finally show ?thesis
    using len [OF ok(1) fin] len [OF ok(2)] more(1) by simp
qed

lemma garbled_listing:
  assumes ok: "registry_ok m1" "registry_ok m2" and o: "visits order" and longer: "length (listing order m1) < length (listing order m2)"
  shows "json_decode (listing order m1 @ drop (length (listing order m1)) (listing order m2)) = None"
proof -
  let ?r = "drop (length (listing order m1)) (listing order m2)"
  have ends: "last (print_json (JArr xs)) = CHR '']''" for xs
  proof -
    have "ys \<noteq> [] \<Longrightarrow> last (print_elems ys) = CHR '']'' \<and> print_elems ys \<noteq> []" for ys
      by (induction ys) (auto simp: neq_Nil_conv)
    then show ?thesis by (cases "xs = []") auto
  qed
  have "?r \<noteq> []" "last ?r = CHR '']''"
    using longer ends by (simp_all add: last_drop listing_array(1) [OF ok(2) o] del: print_json.simps)
  then have "CHR '']'' \<in> set ?r" by (metis last_in_set)
  then have "skip_ws ?r \<noteq> []" unfolding skip_ws_def dropWhile_eq_Nil_conv by (auto simp: is_ws_def)
  then show ?thesis
    unfolding listing_array(1) [OF ok(1) o]
    by (intro json_decode_trailing) (use listing_array(4) [OF ok(1) o] in simp_all)
qed

text \<open>Two concurrent adds can leave such a file.\<close>

lemma garbled_file_saved:
  assumes ok: "registry_ok m" and w: "files_work os conf d" and o: "visits order"
    and new: "in_memory_view m (ID p) = None" "in_memory_view m (ID q) = None" "ID p \<noteq> ID q"
    and wf: "wf_profile p" "wf_profile q"
  shows "\<exists>m' d' t. (conc_step os conf)\<^sup>*\<^sup>* ([Checking (Add p), Checking (Add q)], m, d)
      ([Answered (Add p) None, Answered (Add q) None], m', d') \<and>
    in_memory_view m' = (in_memory_view m)(ID p \<mapsto> p, ID q \<mapsto> q) \<and>
    osReadFile os (save_path conf) d' = Inr t \<and> json_decode t = None"
proof -
  obtain m1 m2 d2 where run: "(conc_step os conf)\<^sup>*\<^sup>* ([Checking (Add p), Checking (Add q)], m, d)
       ([Saving (Add p) (listing order m1), Saving (Add q) (listing order m2)], m2, d2)"
    and m: "registry_ok m1" "in_memory_view m1 = (in_memory_view m)(ID p \<mapsto> p)" "registry_ok m2"
      "in_memory_view m2 = (in_memory_view m)(ID p \<mapsto> p, ID q \<mapsto> q)" and d2: "files_work os conf d2"
    by (rule adds_waiting_to_save [OF assms])
  have longer: "length (listing order m1) < length (listing order m2)"
    by (rule listing_longer [OF m(1,3) o, of "ID q" q]) (use m new in \<open>auto simp: fun_eq_iff\<close>)
  obtain d' where "(conc_step os conf)\<^sup>*\<^sup>*
      ([Saving (Add p) (listing order m1), Saving (Add q) (listing order m2)], m2, d2)
      ([Answered (Add p) None, Answered (Add q) None], m2, d')"
    "osReadFile os (save_path conf) d' = Inr (listing order m1 @ drop (length (listing order m1)) (listing order m2))"
    using saves_garbled [OF d2 o less_imp_le [OF longer]] by blast
  with run m(4) garbled_listing [OF m(1,3) o longer] show ?thesis by (meson rtranclp_trans)
qed

text \<open>Loading a file that does not decode loads nothing and reports success.\<close>

lemma load_undecodable:
  assumes "osReadFile os (FileName conf) d = Inr t" and "json_decode t = None"
  shows "FileLoader_LoadIntoStore os conf set_key d s = (Returns None, s)"
  using assms by (simp add: FileLoader_LoadIntoStore_def unmarshal_profiles_def Unmarshal_def return_act_def)

end
