(* ===== verification/Props_Concurrent.thy ===== *)
theory Props_Concurrent
  imports Props_Storage Concurrent_Registry
begin

section \<open>Properties of concurrent profile requests\<close>

text \<open>
  What holds of requests to the profile API that run at the same time, and three ways in which the API answers
  success without having done what it was asked to: the check and the change are two calls, the listing and its saving
  are two more, and a file is not written at once.
\<close>

subsection \<open>A request alone, and any number of requests\<close>

text \<open>C9: A request that is left alone does, in seven calls, what the sequential operation with the file
  loader's flush does: the same outcome, store and files. The hypothesis is that writing a file is to open it, which
  empties it, and to write at its beginning.\<close>

theorem request_alone:
  assumes "writes_in_two os"
  shows "((\<lambda>(t, w). thread_step os conf unix (order (fst w)) t w) ^^ 7) (Checking c, (m, d)) =
    (case run_op in_memory_GetProfile in_memory_SetKey in_memory_DeleteKey
        (FileLoader_Flush os conf unix (\<lambda>m. Some (in_memory_GetAll (order m) '''' m))) c (m, d) of
       (Returns e, w) \<Rightarrow> (Answered c e, w)
     | (Panics x, w) \<Rightarrow> (Crashed c x, w))"
  using thread_alone [OF assms, of conf unix order c m d]
  by (simp add: steps_alone_def file_flush_def finished_def case_prod_unfold split: outcome.split del: funpow.simps(2))

lemma path_files_in_two: "writes_in_two path_files"
  by (simp add: writes_in_two_def path_files_def overwrite_def)

theorem request_alone_witness:
  "((\<lambda>(t, w). thread_step path_files sample_loader 7 ((\<lambda>m. [''p1'']) (fst w)) t w) ^^ 7)
     (Checking (Delete ''p2''), (sample_store, sample_files)) =
    (Answered (Delete ''p2'') (Some \<lparr>Message = ''Object ID does not exist'', Code = 404,
       Error = fst (in_memory_GetProfile ''p2'' '''' sample_store)\<rparr>), (sample_store, sample_files))"
  unfolding request_alone [OF path_files_in_two, of sample_loader 7 "\<lambda>m. [''p1'']"]
  by (simp add: DeleteProfile_def return_act_def in_memory_GetKey_def sample_store_def map_get_def)

text \<open>C8: However the requests interleave, the registry is at every moment what the operations that have passed
  their call on the store leave when they are carried out one after the other, each of them once, in some order.\<close>

theorem concurrent_registry:
  assumes "registry_ok m" and "(conc_step os conf)\<^sup>*\<^sup>* ([], m, d) (ts, m', d')"
  shows "registry_ok m' \<and>
    (\<exists>is. distinct is \<and> set is = {i. i < length ts \<and> stored (ts ! i)} \<and>
       in_memory_view m' = foldl (\<lambda>r i. effect (pc_op (ts ! i)) r) (in_memory_view m) is)"
  using serialised_reachable [OF assms] by (simp add: serialised_def applied_def)

definition store_order :: "in_memory \<Rightarrow> string list" where
  "store_order m = (case kv m of None \<Rightarrow> [] | Some s \<Rightarrow> remdups (map fst s))"

lemma visits_store_order [simp]: "visits store_order"
  by (simp add: visits_def store_order_def iteration_order_def)

lemma files_work_sample: "files_work path_files sample_loader sample_files"
  using path_files_documented
  by (simp add: files_work_def) (simp add: path_files_def sample_paths sample_files_def)

lemma same_sample_path: "path_Clean (save_path sample_loader) = path_Clean (FileName sample_loader)"
  by (simp add: sample_paths)

theorem concurrent_registry_witness:
  "\<exists>m' d'. (conc_step path_files sample_loader)\<^sup>*\<^sup>* ([], empty_store, sample_files)
      ([Answered (Add sample_profile) None], m', d') \<and> registry_ok m' \<and> in_memory_view m' = [''p1'' \<mapsto> sample_profile]"
proof -
  have "conc_step path_files sample_loader ([], empty_store, sample_files)
      ([] @ [Checking (Add sample_profile)], empty_store, sample_files)"
    by (rule conc_step.Arrives) simp
  moreover have "(conc_step path_files sample_loader)\<^sup>*\<^sup>* ([Checking (Add sample_profile)], empty_store, sample_files)
      ([Storing (Add sample_profile)], empty_store, sample_files)"
    using checked_in_conc [OF check_step_Add visits_store_order,
        of empty_store sample_profile 0 "[Checking (Add sample_profile)]" path_files sample_loader sample_files] by simp
  moreover obtain m' d' where
    "(conc_step path_files sample_loader)\<^sup>*\<^sup>* ([Storing (Add sample_profile)], empty_store, sample_files)
       ([Answered (Add sample_profile) None], m', d')"
    using storing_then_answered [OF registry_ok_empty _ files_work_sample visits_store_order,
        of "Add sample_profile" 0 "[Storing (Add sample_profile)]"] by auto
  ultimately have run: "(conc_step path_files sample_loader)\<^sup>*\<^sup>* ([], empty_store, sample_files)
      ([Answered (Add sample_profile) None], m', d')"
    by (metis (no_types, lifting) append_Nil converse_rtranclp_into_rtranclp rtranclp_trans)
  have answered: "{i. i < length [Answered (Add sample_profile) None] \<and> stored ([Answered (Add sample_profile) None] ! i)} = {0}"
    by auto
  obtain "is" where "is": "distinct is" "set is = {0}" "registry_ok m'"
    "in_memory_view m' = foldl (\<lambda>r i. effect (pc_op ([Answered (Add sample_profile) None] ! i)) r) (in_memory_view empty_store) is"
    using concurrent_registry [OF registry_ok_empty run] unfolding answered by blast
  have one: "is = [0]"
    using distinct_card [OF "is"(1)] unfolding "is"(2) by (cases "is") (use "is"(2) in auto)
  have none: "in_memory_view empty_store = Map.empty" by (rule ext) simp
  from run "is"(3,4) show ?thesis unfolding one none by auto
qed

subsection \<open>Races\<close>

text \<open>C19: Two requests to add a profile under the same new identifier can both be answered with success. The profile
  that was stored first is then gone.\<close>

theorem concurrent_adds_both_succeed:
  assumes "registry_ok m" and "files_work os conf d" and "visits order"
    and "in_memory_view m k = None" and "ID p = k" "ID q = k" and "wf_profile p" "wf_profile q"
  shows "\<exists>m' d'. (conc_step os conf)\<^sup>*\<^sup>* ([Checking (Add p), Checking (Add q)], m, d)
      ([Answered (Add p) None, Answered (Add q) None], m', d') \<and>
    in_memory_view m' = (in_memory_view m)(k \<mapsto> q)"
  by (rule adds_both_succeed [OF assms])

definition renamed_profile :: "string \<Rightarrow> profile" where
  "renamed_profile k = sample_profile\<lparr>ID := k, OrgID := ''o2''\<rparr>"

lemma renamed_profile [simp]: "ID (renamed_profile k) = k" "wf_profile (renamed_profile k)"
  by (simp_all add: renamed_profile_def sample_profile_def wf_profile_def zero_profile_def)

theorem concurrent_adds_both_succeed_witness:
  "\<exists>m' d'. (conc_step path_files sample_loader)\<^sup>*\<^sup>*
      ([Checking (Add sample_profile), Checking (Add (renamed_profile ''p1''))], empty_store, sample_files)
      ([Answered (Add sample_profile) None, Answered (Add (renamed_profile ''p1'')) None], m', d') \<and>
    in_memory_view m' = (in_memory_view empty_store)(''p1'' \<mapsto> renamed_profile ''p1'')"
  by (rule concurrent_adds_both_succeed [OF registry_ok_empty files_work_sample visits_store_order]) simp_all

text \<open>C20: Two requests that add different profiles can both be answered with success and leave a file that does not
  load: the longer listing is written first and the shorter one over its beginning. The registry then has both
  profiles, and a broker started from the file has none and reports no error.\<close>

theorem concurrent_adds_garble_file:
  assumes "registry_ok m" and "files_work os conf d" and "visits order"
    and "in_memory_view m (ID p) = None" "in_memory_view m (ID q) = None" "ID p \<noteq> ID q"
    and "wf_profile p" "wf_profile q" and "path_Clean (save_path conf) = path_Clean (FileName conf)"
  shows "\<exists>m' d'. (conc_step os conf)\<^sup>*\<^sup>* ([Checking (Add p), Checking (Add q)], m, d)
      ([Answered (Add p) None, Answered (Add q) None], m', d') \<and>
    in_memory_view m' = (in_memory_view m)(ID p \<mapsto> p, ID q \<mapsto> q) \<and>
    FileLoader_LoadIntoStore os conf in_memory_SetKey d' CreateInMemoryBackend = (Returns None, CreateInMemoryBackend)"
proof -
  obtain m' d' t where run: "(conc_step os conf)\<^sup>*\<^sup>* ([Checking (Add p), Checking (Add q)], m, d)
      ([Answered (Add p) None, Answered (Add q) None], m', d')"
    "in_memory_view m' = (in_memory_view m)(ID p \<mapsto> p, ID q \<mapsto> q)"
    and t: "osReadFile os (save_path conf) d' = Inr t" "json_decode t = None"
    using garbled_file_saved [OF assms(1-8)] by blast
  have "osReadFile os (FileName conf) d' = Inr t"
    using t(1) assms(2,9) unfolding files_work_def os_files_documented_def by metis
  from load_undecodable [OF this t(2)] run show ?thesis by (intro exI conjI)
qed

theorem concurrent_adds_garble_file_witness:
  "\<exists>m' d'. (conc_step path_files sample_loader)\<^sup>*\<^sup>*
      ([Checking (Add sample_profile), Checking (Add (renamed_profile ''p2''))], empty_store, sample_files)
      ([Answered (Add sample_profile) None, Answered (Add (renamed_profile ''p2'')) None], m', d') \<and>
    in_memory_view m' = (in_memory_view empty_store)(ID sample_profile \<mapsto> sample_profile,
      ID (renamed_profile ''p2'') \<mapsto> renamed_profile ''p2'') \<and>
    FileLoader_LoadIntoStore path_files sample_loader in_memory_SetKey d' CreateInMemoryBackend =
      (Returns None, CreateInMemoryBackend)"
  by (rule concurrent_adds_garble_file [OF registry_ok_empty files_work_sample visits_store_order _ _ _ _ _ same_sample_path])
    simp_all

text \<open>C21: Two requests that add different profiles can both be answered with success and leave a file that lacks one of
  them: a listing made before the other request stored is written after it. A broker started from the file has the
  one profile only.\<close>

theorem concurrent_flush_loses:
  assumes "registry_ok m" and "files_work os conf d" and "visits order"
    and "in_memory_view m (ID p) = None" "in_memory_view m (ID q) = None" "ID p \<noteq> ID q"
    and "wf_profile p" "wf_profile q" and "path_Clean (save_path conf) = path_Clean (FileName conf)"
  shows "\<exists>m' d' m2. (conc_step os conf)\<^sup>*\<^sup>* ([Checking (Add p), Checking (Add q)], m, d)
      ([Answered (Add p) None, Answered (Add q) None], m', d') \<and>
    in_memory_view m' = (in_memory_view m)(ID p \<mapsto> p, ID q \<mapsto> q) \<and>
    FileLoader_LoadIntoStore os conf in_memory_SetKey d' CreateInMemoryBackend = (Returns None, m2) \<and>
    in_memory_view m2 = (in_memory_view m)(ID p \<mapsto> p)"
proof -
  obtain m1 m' d' where run: "(conc_step os conf)\<^sup>*\<^sup>* ([Checking (Add p), Checking (Add q)], m, d)
      ([Answered (Add p) None, Answered (Add q) None], m', d')"
    "in_memory_view m' = (in_memory_view m)(ID p \<mapsto> p, ID q \<mapsto> q)"
    and m1: "registry_ok m1" "in_memory_view m1 = (in_memory_view m)(ID p \<mapsto> p)"
    and saved: "osReadFile os (save_path conf) d' = Inr (listing order m1)"
    using stale_listing_saved [OF assms(1-8)] by blast
  obtain s where s: "kv m1 = Some s" "iteration_order (order m1) s"
    using registry_ok_kv [OF m1(1)] assms(3) by (auto simp: visits_def)
  have inv: "in_memory_inv m1" and keyed: "keyed (in_memory_view m1)" using m1(1) by (simp_all add: registry_ok_def)
  have "osReadFile os (FileName conf) d' = Inr (listing order m1)"
    using saved assms(2,9) unfolding files_work_def os_files_documented_def by metis
  then obtain m2 where "FileLoader_LoadIntoStore os conf in_memory_SetKey d' CreateInMemoryBackend = (Returns None, m2)"
    "in_memory_view m2 = in_memory_view m1"
    using load_listing [OF inv s keyed, of os conf d' "''''"] unfolding CreateInMemoryBackend_def listing_def by blast
  with run m1(2) show ?thesis by metis
qed

theorem concurrent_flush_loses_witness:
  "\<exists>m' d' m2. (conc_step path_files sample_loader)\<^sup>*\<^sup>*
      ([Checking (Add sample_profile), Checking (Add (renamed_profile ''p2''))], empty_store, sample_files)
      ([Answered (Add sample_profile) None, Answered (Add (renamed_profile ''p2'')) None], m', d') \<and>
    in_memory_view m' = (in_memory_view empty_store)(ID sample_profile \<mapsto> sample_profile,
      ID (renamed_profile ''p2'') \<mapsto> renamed_profile ''p2'') \<and>
    FileLoader_LoadIntoStore path_files sample_loader in_memory_SetKey d' CreateInMemoryBackend = (Returns None, m2) \<and>
    in_memory_view m2 = (in_memory_view empty_store)(ID sample_profile \<mapsto> sample_profile)"
  by (rule concurrent_flush_loses [OF registry_ok_empty files_work_sample visits_store_order _ _ _ _ _ same_sample_path])
    simp_all

end
