(* ===== verification/Spec2Isabelle.thy ===== *)
theory Spec2Isabelle
  imports Startup Logging Props_Registry Props_Storage Props_Login Props_Redirect Props_Concurrent
begin

text \<open>
  This development models the Tyk Identity Broker (TIB), the service that lets people log in to a Tyk
  dashboard, developer portal or API with an identity kept somewhere else. The theories follow the packages
  under \<^verbatim>\<open>src/\<close>; functions and types keep their names, with a suffix or prefix where two packages use one.

  \<^bold>\<open>What the program does.\<close> TIB keeps a registry of profiles, which an administrator manages through
  an API. A profile names a provider, which authenticates the user, and an action, which says what the user gets. A
  request to \<^verbatim>\<open>/auth/{id}/{provider}\<close> finds the profile, makes its provider and its identity handler, and
  gives the provider the request. The LDAP and proxy providers decide at once; the social and SAML providers send the
  browser away and decide at the callback. In the end the identity handler makes the calls to the Tyk APIs that
  create a nonce, a developer or a token, and answers the browser. The parts share two stores, one of profiles and
  one of identities, which also holds the provider chosen for a login under way.

  \<^bold>\<open>How it is modelled.\<close> Code that may panic has the type \<open>outcome\<close>; code with a state is a function from the
  state to its outcome and the new state (\<open>act\<close>, composed by \<open>bind_act\<close>), so that a panic keeps what was done
  before it. The state of an identity handler is a \<open>world\<close>: the calls made to the Tyk APIs so far, in order, the calls on the
  \<^verbatim>\<open>ResponseWriter\<close>, and the identity store. What a service answers is a function of the history of calls
  and the request, an argument of the model, so a property holds for every behaviour of the service. Strings are
  lists of bytes, a Go \<^verbatim>\<open>error\<close> is its text or \<^const>\<open>None\<close>, and Go maps that are encoded are lists with
  increasing keys. Numbers are unbounded integers where the code cannot leave the range of their type, and
  \<^verbatim>\<open>time.Duration\<close>, where it can, is a 64-bit word.

  \<^bold>\<open>Theories and sources.\<close>
  \<^item> \<open>Go_Prelude\<close>, \<open>Go_Json\<close>, \<open>Go_Encoding\<close>, \<open>Go_Url\<close>, \<open>Go_Http\<close>: what the sources use of the standard library
    (\<^verbatim>\<open>strings\<close>, \<^verbatim>\<open>encoding/json\<close>, \<^verbatim>\<open>base64\<close>, \<^verbatim>\<open>net/url\<close>, \<^verbatim>\<open>net/http\<close>), and
    \<^verbatim>\<open>error/error.go\<close>.
  \<^item> \<open>Tap_Profile\<close>, \<open>Decoding\<close>, \<open>Profile_Actions\<close>: \<^verbatim>\<open>tap/profile.go\<close>, \<^verbatim>\<open>action.go\<close>,
    \<^verbatim>\<open>profileActions.go\<close>: profiles, their JSON text, and adding, changing and deleting them.
  \<^item> \<open>Backends\<close>: \<^verbatim>\<open>backends/in_memory.go\<close>, \<^verbatim>\<open>redis.go\<close>, \<^verbatim>\<open>mongo.go\<close>.
  \<^item> \<open>Configuration\<close>, \<open>Data_Loader\<close>: \<^verbatim>\<open>configuration/config.go\<close>, \<^verbatim>\<open>log/log.go\<close>,
    \<^verbatim>\<open>data_loader/*.go\<close>.
  \<^item> \<open>Profile_Api\<close>: \<^verbatim>\<open>api.go\<close>, from the route to the answer. \<open>Concurrent_Registry\<close>: its requests when several
    run at once, each a program counter over \<^verbatim>\<open>profileActions.go\<close> and the flush of \<^verbatim>\<open>file_loader.go\<close>, as the
    step relation \<open>conc_step\<close>.
  \<^item> \<open>Tyk_Api\<close>, \<open>Identity_Handler\<close>, \<open>Developers\<close>: \<^verbatim>\<open>tyk-api/tyk_api.go\<close> and
    \<^verbatim>\<open>tap/identity-handlers/*.go\<close>: the requests to the Tyk APIs, the four actions, and the developer record on
    its way through a portal login.
  \<^item> \<open>Provider_Utils\<close>, \<open>Provider_AD\<close>, \<open>Provider_Proxy\<close>, \<open>Provider_Social\<close>, \<open>Provider_SAML\<close>:
    \<^verbatim>\<open>providers/*.go\<close>. \<open>Tothic\<close>: \<^verbatim>\<open>tothic/tothic.go\<close>, \<^verbatim>\<open>toth/toth.go\<close>,
    \<^verbatim>\<open>internal/jwe/JWE.go\<close>: the redirect flow under the social provider.
  \<^item> \<open>Auth_Handlers\<close>: \<^verbatim>\<open>http_handlers.go\<close> and \<^verbatim>\<open>providers/tapProvider.go\<close>, which put the providers
    together. \<open>Broker\<close>, \<open>Startup\<close>: \<^verbatim>\<open>main.go\<close> and \<^verbatim>\<open>initializer/initializer.go\<close>: the state of
    the whole program, its start, the function \<open>serve\<close> for one request,
    and the states \<open>broker_reachable\<close> in its runs.
  \<^item> \<open>Reverse_Proxy\<close>, \<open>Proxy_Streaming\<close>: \<^verbatim>\<open>providers/reverse_proxy.go\<close>: what is sent in each
    direction, and the goroutines that copy, flush and cancel as step relations on their program points, with the mutex
    and the unbuffered channel between them.
  \<^item> \<open>Logging\<close>: \<^verbatim>\<open>log/log.go\<close>, \<^verbatim>\<open>initializer.SetLogger\<close> and the places where a package takes the current logger
    again: which logger each variable holds.
  \<^item> \<open>Samples\<close>: concrete inputs for the witnesses. \<open>Props_Registry\<close>, \<open>Props_Storage\<close>, \<open>Props_Concurrent\<close>,
    \<open>Props_Login\<close>, \<open>Props_Redirect\<close> and this theory: the properties. Those here span components.

  \<^bold>\<open>Interfaces.\<close> \<open>register_backend\<close> is the contract of a store (what is read after a write); the in-memory store
  meets it, and the registry operations are proved to refine a plain map from it. The lemmas on the Redis and Mongo stores
  say where these two break it. \<open>codec\<close> is an encoding with its decoding: base64, JSON text, query escaping and profiles. \<open>identity_handler\<close>
  is what a provider relies on: the handler only appends to the calls and the response, and each call goes to the configured
  services with the credential of the profile or with one of the two secrets of the configuration; both handlers meet it. \<open>login_flow\<close> says that a provider acts only
  through a completed login; all four providers meet it, and the properties on whole requests rest on it.

  \<^bold>\<open>What is shown.\<close> Nobody gets a session or a token unless the directory, the proxied service, the social
  provider or the SAML response has accepted them; who they are taken for is stated in terms of the request, the entry, the answer or the assertion
  alone (\<open>directory_user\<close>, \<open>answered_user\<close>, \<open>asserted_user\<close>). A login that should succeed does. The calls it makes carry the credential of its profile,
  or a secret of the configuration where the code uses one (\<open>credential_call\<close>, \<open>admin_nonce_call\<close>, \<open>gateway_oauth_call\<close>). The redirect
  at the end carries a nonce that was issued for this user in this login. A registered developer keeps the
  record they have. The API does nothing without the secret, and with it is a map from identifiers to profiles. Profiles survive their
  encoding, a flush and a restart. The broker keeps its invariant in every run, and its start leads into such a run; after a start that could not read the profiles every social login
  panics on the unset variables of \<open>tothic\<close>. The goroutines of the reverse proxy cannot block each other for ever. The
  loops of start-up end exactly when an attempt succeeds. A social login that was begun is completed by its return. When
  profile requests run at the same time, the registry is still what they leave one after the other; the answers and
  the file are not: two adds of one identifier can both succeed, and the file can lose a profile or stop being JSON. Several properties state what the code does where it
  does not do what it means to (the Redis identity store, the Mongo store, an expiry that overflows, an
  unreadable developer, a prefix two profiles share): they are true of the code as it is.

  \<^bold>\<open>Bounds.\<close> The JSON parser recurses on fuel: twice the length of the text plus two, and \<open>parse_fuel\<close> shows that more changes
  nothing, since every second call consumes a byte. \<open>LoadConfig\<close> has the measure \<open>3 - failCount\<close>.
  \<open>MongoLoader_Init\<close> may retry for ever; it is a partial function into \<^typ>\<open>'a option\<close> that is shown to return exactly when
  an attempt succeeds. All other recursion is structural.

  \<^bold>\<open>Not modelled.\<close> Log output and its formatters; \<^verbatim>\<open>PrintErrorStruct\<close> of the SAML provider, which logs by reflection; the test helpers in
  \<^verbatim>\<open>internal/jwe/testing.go\<close>; packaging and CI. Third-party code (goth, go-ldap, crewjam/saml, go-jose, gorilla,
  the storage library, envconfig, gabs, regexp) is a parameter wherever it is used. The
  locks of the stores make single operations atomic. Requests to the profile API interleave between these in
  \<open>Concurrent_Registry\<close>, where a backup is written, and a file read, in one step; everywhere else a request is
  served as a whole, and the interleavings of two logins are covered as sequences of the two requests each consists of.
\<close>

section \<open>Properties of the whole broker\<close>

subsection \<open>Authentication\<close>

text \<open>C1: If a login request makes a call or touches the identity store, somebody has been authenticated first: with the
  directory, by a successful bind with the password of the request, which is not empty, under the name made from the
  user name of the request or under the one entry found for it; or with the proxied service, by an answer that meets the
  configured checks. What the request does is then the work of the identity handler, under the profile the request names,
  for exactly the user whom the name of the request and the entry make up, or whom the answer, the header of the request or
  else a random name makes up.\<close>

theorem login_authenticated:
  assumes "acted (as_world a) (as_world (snd (HandleAuth A get_key r a)))"
  shows "\<exists>i conf p t user. getId r = Inr i \<and> get_key i '''' = (None, conf) \<and>
    GetTAProvider A conf = Returns (Inr (p, t)) \<and>
    as_world (snd (HandleAuth A get_key r a)) =
      snd (CompleteIdentityAction (ae_env A) (ae_ids A) t user conf (as_world a)) \<and>
    ((\<exists>s username password entry l. p = AD_provider s \<and> ad_credentials (AD_config s) r = (username, password) \<and>
        username \<noteq> '''' \<and> password \<noteq> '''' \<and>
        entry_found (ae_ldap A) (ad_defaults (AD_config s)) username (as_directory a) l entry \<and>
        user_bound (ae_ldap A) (as_directory a) l
          (if LDAPAdminUser (AD_config s) = '''' then prepDN (AD_config s) username else DN entry) password \<and>
        directory_user (ae_unicode A) s username entry user) \<or>
     (\<exists>s target code body. p = Proxy_provider s \<and> url_Parse (TargetHost (Proxy_config s)) = Inr target \<and>
        upstream (ae_proxy A) target (proxied_request (Host target) r) = (code, body) \<and>
        code < 400 \<and> answer_accepted (ae_proxy A) (Proxy_config s) code body \<and>
        answered_user (ae_proxy A) (Proxy_config s) r body user))"
proof -
  from HandleAuth_acted [OF assms] obtain i p t conf user where
    found: "getId r = Inr i" "get_key i '''' = (None, conf)" "GetTAProvider A conf = Returns (Inr (p, t))"
    and verdict: "login_verdict A p r a = Some user"
    and w: "as_world (snd (HandleAuth A get_key r a)) = snd (complete_with A t user conf (as_world a))" by blast
  have "(\<exists>s username password entry l. p = AD_provider s \<and> ad_credentials (AD_config s) r = (username, password) \<and>
        username \<noteq> '''' \<and> password \<noteq> '''' \<and>
        entry_found (ae_ldap A) (ad_defaults (AD_config s)) username (as_directory a) l entry \<and>
        user_bound (ae_ldap A) (as_directory a) l
          (if LDAPAdminUser (AD_config s) = '''' then prepDN (AD_config s) username else DN entry) password \<and>
        directory_user (ae_unicode A) s username entry user) \<or>
     (\<exists>s target code body. p = Proxy_provider s \<and> url_Parse (TargetHost (Proxy_config s)) = Inr target \<and>
        upstream (ae_proxy A) target (proxied_request (Host target) r) = (code, body) \<and>
        code < 400 \<and> answer_accepted (ae_proxy A) (Proxy_config s) code body \<and>
        answered_user (ae_proxy A) (Proxy_config s) r body user)"
  proof (cases p)
    case (AD_provider s)
    with verdict obtain l where "ad_authenticate (ae_unicode A) (ae_ldap A) s r (as_directory a) = (Returns (Some user), l)"
      using ad_verdict_ok [of "ae_unicode A" "ae_ldap A" s r "as_directory a"] by auto
    from ad_authenticate_ok [OF this] ad_user_of_entry_ok AD_provider show ?thesis by blast
  next
    case (Proxy_provider s)
    with verdict have "proxy_authenticate (ae_proxy A) (Proxy_config s) r = Some user" by simp
    from proxy_authenticate_Some [OF this] obtain target code body where
      x: "url_Parse (TargetHost (Proxy_config s)) = Inr target"
      "upstream (ae_proxy A) target (proxied_request (Host target) r) = (code, body)"
      "answer_accepted (ae_proxy A) (Proxy_config s) code body" "answered_user (ae_proxy A) (Proxy_config s) r body user"
      using proxy_user_answered by blast
    from x(3) have "code < 400" by (simp add: answer_accepted_iff)
    with x Proxy_provider show ?thesis by blast
  qed (use verdict in simp_all)
  with found w show ?thesis unfolding complete_with_def by blast
qed

lemma sample_get_p1: "sample_get ''p1'' '''' = (None, sample_profile)"
  by (simp add: sample_get_def)

lemma sample_ad:
  "case GetTAProvider sample_auth sample_profile of
     Returns (Inr (AD_provider s, t)) \<Rightarrow> ad_credentials (AD_config s) sample_request = (''ann'', ''pw'') \<and>
       \<not> SlugifyUserName (AD_config s)
   | _ \<Rightarrow> False"
  by code_simp

theorem login_authenticated_witness:
  "\<exists>t user. UserID user = ''ann'' \<and> Provider user = ''ADProvider'' \<and>
     as_world (snd (HandleAuth sample_auth sample_get sample_request sample_state)) =
       snd (CompleteIdentityAction (ae_env sample_auth) (ae_ids sample_auth) t user sample_profile (as_world sample_state))"
proof -
  have "calls (as_world sample_state) = []" by (simp add: sample_state_def)
  then have acted: "acted (as_world sample_state) (as_world (snd (HandleAuth sample_auth sample_get sample_request sample_state)))"
    using sample_login by (auto simp: acted_def split: prod.splits)
  have "getId sample_request = Inr ''p1''"
    by (simp add: getId_def mux_var_def get_first_def sample_request_def)
  with login_authenticated [OF acted] sample_get_p1 obtain p t user where p: "GetTAProvider sample_auth sample_profile = Returns (Inr (p, t))"
    and w: "as_world (snd (HandleAuth sample_auth sample_get sample_request sample_state)) =
       snd (CompleteIdentityAction (ae_env sample_auth) (ae_ids sample_auth) t user sample_profile (as_world sample_state))"
    and u: "(\<exists>s username password entry. p = AD_provider s \<and> ad_credentials (AD_config s) sample_request = (username, password) \<and>
        directory_user (ae_unicode sample_auth) s username entry user) \<or> (\<exists>s. p = Proxy_provider s)"
    by fastforce
  from u sample_ad have "UserID user = ''ann'' \<and> Provider user = ''ADProvider''"
    by (auto simp: p directory_user_def Let_def)
  with w show ?thesis by blast
qed


text \<open>C2: If a callback makes a call or touches the identity store, a redirect provider has vouched for the user first. With a
  social profile that is the provider whose name is kept for the profile: the session in the cookie of the request was authorised by it with
  the parameters of the request, the user was fetched from it with that session, and the user's address ends in the
  domain of the profile. With a SAML profile it is the identity provider whose response was validated, and the user is
  the one its assertion names.\<close>

theorem callback_authenticated:
  assumes "acted (as_world a) (as_world (snd (HandleAuthCallback A get_key r a)))"
  shows "\<exists>i conf p t user. getId r = Inr i \<and> get_key i '''' = (None, conf) \<and>
    GetTAProvider A conf = Returns (Inr (p, t)) \<and>
    as_world (snd (HandleAuthCallback A get_key r a)) =
      snd (CompleteIdentityAction (ae_env A) (ae_ids A) t user conf (as_world a)) \<and>
    ((\<exists>s name provider store value sess sess1 jwt local. p = Social_provider s \<and>
        getProviderName (ae_params A) conf (as_params a) = Inr name \<and> GetProvider (Social_toth s) name = Inr provider \<and>
        Store (ae_goth A) = Some store \<and> cookie_get store r = Inr (Some value) \<and>
        g_UnmarshalSession (ae_goth A) provider value = Inr sess \<and>
        g_Authorize (ae_goth A) sess provider (req_query r) = Inr sess1 \<and>
        prepareJWTSession (ae_goth A) (ae_jwe A) (JWE (Social_config s)) sess1 = Returns (Inr jwt) \<and>
        g_FetchUser (ae_goth A) provider jwt = Inr user \<and>
        Email user = local @ Domain (ProviderConstraints conf)) \<or>
     (\<exists>s m assertion. p = SAML_provider s \<and> middleware s = Some m \<and>
        ParseResponse (ae_saml A) (ServiceProvider m) r (possibleRequestIDs (ae_saml A) m r) = Inr assertion \<and>
        asserted_user (SAML_config s) assertion user))"
proof -
  from HandleAuthCallback_acted [OF assms] obtain i p t conf user where
    found: "getId r = Inr i" "get_key i '''' = (None, conf)" "GetTAProvider A conf = Returns (Inr (p, t))"
    and verdict: "callback_verdict A p r a = Some user"
    and w: "as_world (snd (HandleAuthCallback A get_key r a)) = snd (complete_with A t user conf (as_world a))" by blast
  have conf: "provider_profile p = conf" by (rule GetTAProvider_ok(2) [OF found(3)])
  have "(\<exists>s name provider store value sess sess1 jwt local. p = Social_provider s \<and>
        getProviderName (ae_params A) conf (as_params a) = Inr name \<and> GetProvider (Social_toth s) name = Inr provider \<and>
        Store (ae_goth A) = Some store \<and> cookie_get store r = Inr (Some value) \<and>
        g_UnmarshalSession (ae_goth A) provider value = Inr sess \<and>
        g_Authorize (ae_goth A) sess provider (req_query r) = Inr sess1 \<and>
        prepareJWTSession (ae_goth A) (ae_jwe A) (JWE (Social_config s)) sess1 = Returns (Inr jwt) \<and>
        g_FetchUser (ae_goth A) provider jwt = Inr user \<and>
        Email user = local @ Domain (ProviderConstraints conf)) \<or>
     (\<exists>s m assertion. p = SAML_provider s \<and> middleware s = Some m \<and>
        ParseResponse (ae_saml A) (ServiceProvider m) r (possibleRequestIDs (ae_saml A) m r) = Inr assertion \<and>
        asserted_user (SAML_config s) assertion user)"
  proof (cases p)
    case (Social_provider s)
    with verdict conf have "CompleteUserAuth (ae_goth A) (ae_jwe A) (ae_params A) r (Social_toth s) conf
        (JWE (Social_config s)) (as_params a) = Returns (Inr user)"
      "\<exists>local. Email user = local @ Domain (ProviderConstraints conf)"
      by (auto simp: social_verdict_ok social_checkConstraints_None)
    from CompleteUserAuth_ok [OF this(1)] this(2) Social_provider show ?thesis by blast
  next
    case (SAML_provider s)
    with verdict show ?thesis using saml_user_asserted by (fastforce simp: saml_verdict_ok)
  qed (use verdict in simp_all)
  with found w show ?thesis unfolding complete_with_def by blast
qed

theorem callback_authenticated_witness:
  "\<exists>p t user. GetTAProvider sample_auth (sample_profile\<lparr>ProviderName := ''SAMLProvider''\<rparr>) = Returns (Inr (p, t)) \<and>
     as_world (snd (HandleAuthCallback sample_auth saml_get sample_request sample_state)) =
       snd (CompleteIdentityAction (ae_env sample_auth) (ae_ids sample_auth) t user
         (sample_profile\<lparr>ProviderName := ''SAMLProvider''\<rparr>) (as_world sample_state))"
proof -
  have "calls (as_world sample_state) = []" by (simp add: sample_state_def)
  then have acted: "acted (as_world sample_state) (as_world (snd (HandleAuthCallback sample_auth saml_get sample_request sample_state)))"
    using sample_saml_login by (auto simp: acted_def split: prod.splits)
  show ?thesis using callback_authenticated [OF acted] unfolding saml_get_def by blast
qed


text \<open>C3: A login that should succeed does. When the directory accepts the user's bind and knows one readable entry of
  the user, and the dashboard answers the access request with a nonce, then a dashboard login is exactly this: one
  call, the access request, and a redirect to the return address with the nonce.\<close>

theorem directory_login_completes:
  assumes "getId r = Inr i" and "get_key i '''' = (None, conf)"
    and "GetTAProvider A conf = Returns (Inr (AD_provider s, t))"
    and "ad_credentials (AD_config s) r = (u, pw)" and "u \<noteq> ''''" and "pw \<noteq> ''''"
    and "LDAPAdminUser (AD_config s) = ''''"
    and "\<And>h. ldBind (ae_ldap A) h (prepDN (AD_config s) u) pw = Returns None"
    and "\<And>h base. ldSearch (ae_ldap A) h base (LDAPSearchScope (AD_config s)) (prepFilter (ad_defaults (AD_config s)) u)
          (LDAPAttributes (AD_config s)) = Returns (Inr [entry])"
    and "ad_user_of_entry s (ad_defaults (AD_config s)) u entry (new_ad_user (ae_unicode A) (ad_defaults (AD_config s)) u) =
          Returns user"
    and "ActionType conf = GenerateOrLoginUserProfile" and "ReturnURL conf \<noteq> ''''"
    and "access_request conf SSOForDashboard user = Returns req"
    and "plain_api (ae_tyk A)" and "\<And>url. newRequest (ae_env A) ''POST'' url = None"
    and "net_reply (ae_env A) (calls (as_world a)) (sso_request t req) = Reply 200 (Inr b)"
    and "decode_any b = JObj m" and "any_get m ''Meta'' = JStr nonce"
  shows "as_world (snd (HandleAuth A get_key r a)) = (as_world a)
    \<lparr>calls := calls (as_world a) @ [Http (sso_request t req)],
     resp := resp (as_world a) @ [Redirect (ReturnURL conf @ ''?nonce='' @ nonce) 301]\<rparr>"
proof -
  have t: "Handler_profile t = conf" "API t = ae_tyk A" using GetTAProvider_ok(3,4) [OF assms(3)] .
  have "login_verdict A (AD_provider s) r a = Some user"
    using ad_authenticate_accepts [OF assms(4-10)] by (simp add: ad_verdict_def)
  note world = HandleAuth_verdict [where conf = conf and i = i and get_key = get_key, OF assms(1-3) this]
  have "CompleteIdentityAction (ae_env A) (ae_ids A) t user conf (as_world a) =
      CompleteIdentityActionForDashboard (ae_env A) t user conf (as_world a)"
    by (simp add: CompleteIdentityAction_def assms(11))
  moreover have "CompleteIdentityActionForDashboard (ae_env A) t user conf (as_world a) =
      (Returns (), (as_world a)\<lparr>calls := calls (as_world a) @ [Http (sso_request t req)],
         resp := resp (as_world a) @ [Redirect (ReturnURL conf @ ''?nonce='' @ nonce) 301]\<rparr>)"
    using assms(11-18) by (intro dashboard_completes) (simp_all add: t)
  ultimately show ?thesis by (simp add: world complete_with_def)
qed

lemma sample_directory:
  "case GetTAProvider sample_auth sample_profile of
     Returns (Inr (AD_provider s, t)) \<Rightarrow>
       LDAPAdminUser (AD_config s) = '''' \<and> ad_credentials (AD_config s) sample_request = (''ann'', ''pw'') \<and>
       (case ad_user_of_entry s (ad_defaults (AD_config s)) ''ann'' sample_entry
               (new_ad_user ascii_unicode (ad_defaults (AD_config s)) ''ann'') of
          Returns user \<Rightarrow> (case access_request sample_profile SSOForDashboard user of Returns req \<Rightarrow> True | _ \<Rightarrow> False)
        | _ \<Rightarrow> False)
   | _ \<Rightarrow> False"
  by code_simp

theorem directory_login_completes_witness:
  "\<exists>t req. as_world (snd (HandleAuth sample_auth sample_get sample_request sample_state)) = (as_world sample_state)
     \<lparr>calls := [Http (sso_request t req)], resp := [Redirect ''http://db/tap?nonce=n1'' 301]\<rparr>"
proof -
  from sample_directory obtain s t where
    g: "GetTAProvider sample_auth sample_profile = Returns (Inr (AD_provider s, t))"
    by (auto split: outcome.splits sum.splits ta_provider.splits)
  note found = sample_directory [unfolded g outcome.case sum.case prod.case ta_provider.case]
  then have c: "LDAPAdminUser (AD_config s) = ''''" "ad_credentials (AD_config s) sample_request = (''ann'', ''pw'')"
    by blast+
  from found obtain user where u: "ad_user_of_entry s (ad_defaults (AD_config s)) ''ann'' sample_entry
      (new_ad_user ascii_unicode (ad_defaults (AD_config s)) ''ann'') = Returns user"
    by (auto split: outcome.splits)
  with found obtain req where q: "access_request sample_profile SSOForDashboard user = Returns req"
    by (auto split: outcome.splits)
  have r: "getId sample_request = Inr ''p1''"
    by (simp add: getId_def mux_var_def get_first_def sample_request_def)
  have "decode_any nonce_reply = JObj [(''Meta'', JStr ''n1'')]" by code_simp
  moreover have "any_get [(''Meta'', JStr ''n1'')] ''Meta'' = JStr ''n1''" by (simp add: any_get_def map_get_def)
  ultimately show ?thesis
    using directory_login_completes [OF r _ g c(2), of sample_get sample_entry user req sample_state nonce_reply
        "[(''Meta'', JStr ''n1'')]" "''n1''"] c(1) u q
    by (simp add: sample_get_def sample_auth_def sample_ldap_def sample_env_def sample_profile_def sample_state_def
        action_defs) blast
qed

subsection \<open>Runs of the broker\<close>

lemma started_variables:
  assumes "main_init H conf f = Some (Returns G)" and "gl_loader G = Use_file fc"
  shows "(gl_session_store G, gl_error_handler G) =
      (case osReadFile (h_files H) f (h_disk H) of
         Inl e \<Rightarrow> (None, None)
       | Inr text \<Rightarrow> (Some (h_cookie_store H (KeyFromEnv (h_env H))), Some HandleError))"
    and "\<exists>err. FileName fc = f \<and>
      FileLoader_LoadIntoStore (h_files H) fc in_memory_SetKey (h_disk H) CreateInMemoryBackend = (Returns err, gl_profiles G)"
proof -
  let ?load = "FileLoader_LoadIntoStore (h_files H) fc in_memory_SetKey (h_disk H) CreateInMemoryBackend"
  from assms obtain err where loader: "CreateDataLoader (h_mgo H) (h_official H) conf f = Returns (Use_file fc)"
    and load: "?load = (Returns err, gl_profiles G)"
    and key: "gl_session_store G = (if err = None then SetupSessionStore (h_cookie_store H) (h_env H) else None)"
      "gl_error_handler G = (if err = None then Some HandleError else None)"
    by (auto simp: main_init_def load_at_start_def Let_def split: outcome.splits option.splits prod.splits
        loader_choice.splits)
  have f: "FileName fc = f" by (rule CreateDataLoader_file [OF loader])
  with load show "\<exists>err. FileName fc = f \<and> ?load = (Returns err, gl_profiles G)" by blast
  from load show "(gl_session_store G, gl_error_handler G) =
      (case osReadFile (h_files H) f (h_disk H) of
         Inl e \<Rightarrow> (None, None)
       | Inr text \<Rightarrow> (Some (h_cookie_store H (KeyFromEnv (h_env H))), Some HandleError))"
    by (cases rule: FileLoader_LoadIntoStore_cases) (use f key in \<open>auto simp: SetupSessionStore_def\<close>)
qed

text \<open>C6: However the broker starts with profiles from a file, what it starts with is a state of the runs below. When the
  file cannot be read it starts all the same, but with neither a session store nor an error handler for the redirect
  flow, and only then; otherwise they are the cookie store of the environment's key and the broker's own handler.\<close>

theorem startup_reaches:
  assumes "main_init H conf f = Some (Returns G)" and "gl_loader G = Use_file fc" and "calls (as_world a) = []"
  shows "broker_reachable A secret ps ((gl_profiles G, d), a) \<and>
    (gl_session_store G, gl_error_handler G) =
      (case osReadFile (h_files H) f (h_disk H) of
         Inl e \<Rightarrow> (None, None)
       | Inr text \<Rightarrow> (Some (h_cookie_store H (KeyFromEnv (h_env H))), Some HandleError))"
proof
  from started_variables(2) [OF assms(1,2)] obtain err where
    load: "FileLoader_LoadIntoStore (h_files H) fc in_memory_SetKey (h_disk H) CreateInMemoryBackend = (Returns err, gl_profiles G)"
    by blast
  have start: "broker_reachable A secret ps ((CreateInMemoryBackend, d), a)"
    using assms(3) by (rule broker_reachable.starting)
  from load show "broker_reachable A secret ps ((gl_profiles G, d), a)"
    by (cases rule: FileLoader_LoadIntoStore_cases) (use start in \<open>auto intro: broker_reachable.loading\<close>)
qed (rule started_variables(1) [OF assms(1,2)])

definition sample_host :: "(unit, unit, string \<rightharpoonup> string, profile list, nat) host" where
  "sample_host =
     \<lparr>h_env = Map.empty, h_connector = \<lambda>x. Inr (), h_new_kv = \<lambda>x. Inr (), h_files = path_files,
      h_disk = [path_Clean ''p.json'' \<mapsto> ''[]''], h_connect = \<lambda>x n. ((None, []), n), h_net = 0,
      h_docs = list_collection, h_mgo = ''mgo'', h_official = ''mongo-go'', h_cookie_store = \<lambda>key. sample_cookies\<rparr>"

theorem startup_reaches_witness:
  "\<exists>G. main_init sample_host zero_configuration ''p.json'' = Some (Returns G) \<and>
     broker_reachable sample_auth '''' sample_registry ((gl_profiles G, ()), sample_state) \<and>
     gl_session_store G = Some sample_cookies"
proof -
  have "unmarshal_profiles ''[]'' = (None, [])" by code_simp
  moreover have disk: "osReadFile (h_files sample_host) ''p.json'' (h_disk sample_host) = Inr ''[]''"
    by (simp add: sample_host_def path_files_def)
  ultimately obtain G where G: "main_init sample_host zero_configuration ''p.json'' = Some (Returns G)"
    "gl_loader G = Use_file \<lparr>FileName = ''p.json'', ProfileDir = ''''\<rparr>"
    by (simp add: main_init_def CreateDataLoader_def load_at_start_def FileLoader_LoadIntoStore_def Let_def FILE_def
        MONGO_def zero_configuration_def)
  have "calls (as_world sample_state) = []" by (simp add: sample_state_def)
  from startup_reaches [OF G this, of sample_auth "''''" sample_registry "()"] G(1) disk show ?thesis
    by (auto simp: sample_host_def)
qed

text \<open>C31: After a start that could not read the profile file no social login works, whatever profiles are registered later:
  the first request of one panics, in good and in bad cases, and answers nothing; the return panics too, or tells an error; neither makes a call
  or touches the identity store.\<close>

theorem failed_start_breaks_redirects:
  assumes "main_init H conf f = Some (Returns G)" and "gl_loader G = Use_file fc"
    and "osReadFile (h_files H) f (h_disk H) = Inl e" and "ae_goth A = started_goth G goth"
    and "getId r = Inr i" and "get_key i '''' = (None, p)" and "GetTAProvider A p = Returns (Inr (Social_provider s, t))"
  shows "(\<exists>x. fst (HandleAuth A get_key r a) = Panics x) \<and> as_world (snd (HandleAuth A get_key r a)) = as_world a \<and>
    \<not> acted (as_world a) (as_world (snd (HandleAuthCallback A get_key r a)))"
proof -
  from started_variables [OF assms(1,2)] assms(3) have "gl_session_store G = None" "gl_error_handler G = None" by auto
  then have unset: "Store (ae_goth A) = None" "TothErrorHandler (ae_goth A) = None"
    by (simp_all add: assms(4) started_goth_def)
  have p: "Social_profile s = p" using GetTAProvider_ok(2) [OF assms(7)] by simp
  have run: "HandleAuth A get_key r a = provider_Handle A t (Social_provider s) r p a"
    "HandleAuthCallback A get_key r a = provider_HandleCallback A t (Social_provider s) r p a"
    by (rule HandleAuth_provider [where get_key = get_key and i = i and conf = p, OF assms(5-7)])+
  have "social_verdict (ae_goth A) (ae_jwe A) (ae_params A) s r p (as_params a) \<noteq> Some user" for user
    using CompleteUserAuth_unset [OF unset(1), of "ae_jwe A" "ae_params A" r "Social_toth s" p "JWE (Social_config s)"
        "as_params a" user] by (simp add: social_verdict_ok del: not_None_eq)
  then have "\<not> acted (as_world a) (as_world (snd (HandleAuthCallback A get_key r a)))"
    using provider_HandleCallback_acted [of a A t "Social_provider s" r] p run(2) by auto
  moreover note begun = BeginAuthHandler_unset [OF unset, of "ae_params A" r "Social_toth s" "mux_Vars r" p
      "as_world a" "as_params a"]
  have "\<exists>x. fst (HandleAuth A get_key r a) = Panics x" "as_world (snd (HandleAuth A get_key r a)) = as_world a"
    using begun unfolding run(1) by (auto simp: social_Handle_def with_params_def split: prod.splits)
  ultimately show ?thesis by blast
qed

theorem failed_start_breaks_redirects_witness:
  "\<exists>G x. main_init (sample_host\<lparr>h_disk := Map.empty\<rparr>) zero_configuration ''p.json'' = Some (Returns G) \<and>
     fst (HandleAuth (sample_auth\<lparr>ae_goth := started_goth G sample_goth\<rparr>) (\<lambda>_ _. (None, social_profile)) social_request
       sample_state) = Panics x"
proof -
  let ?H = "sample_host\<lparr>h_disk := Map.empty\<rparr>"
  have disk: "\<exists>e. osReadFile (h_files ?H) ''p.json'' (h_disk ?H) = Inl e"
    by (simp add: sample_host_def path_files_def)
  then obtain G e where e: "osReadFile (h_files ?H) ''p.json'' (h_disk ?H) = Inl e"
    and G: "main_init ?H zero_configuration ''p.json'' = Some (Returns G)"
      "gl_loader G = Use_file \<lparr>FileName = ''p.json'', ProfileDir = ''''\<rparr>"
    by (auto simp: main_init_def CreateDataLoader_def load_at_start_def FileLoader_LoadIntoStore_def Let_def FILE_def
        MONGO_def zero_configuration_def return_act_def)
  let ?A = "sample_auth\<lparr>ae_goth := started_goth G sample_goth\<rparr>"
  have "GetTAProvider ?A social_profile = GetTAProvider sample_auth social_profile"
    by (rule GetTAProvider_goth_variables) (simp_all add: started_goth_def sample_auth_def)
  moreover from sample_social_provider obtain s t where
    "GetTAProvider sample_auth social_profile = Returns (Inr (Social_provider s, t))"
    by (auto split: outcome.splits sum.splits ta_provider.splits)
  ultimately have g: "GetTAProvider ?A social_profile = Returns (Inr (Social_provider s, t))" by simp
  have id: "getId social_request = Inr ''p1''"
    by (simp add: getId_def mux_var_def get_first_def social_request_def)
  from failed_start_breaks_redirects [OF G e _ id _ g, where goth = sample_goth and a = sample_state and
      get_key = "\<lambda>_ _. (None, social_profile)"] G(1) show ?thesis by auto
qed

text \<open>C27: A configuration file that is not JSON is logged and otherwise taken for an empty one. Unless the environment sets a
  secret the broker then has none, and serves every request to the profile API that has no authorization header.\<close>

theorem unreadable_configuration_opens_api:
  assumes "read 0 = Inr t" and "json_decode t = None" and "Conf_Secret (process_env zero_configuration) = ''''"
    and "header_get r ''Authorization'' = ''''"
  shows "\<exists>s. LoadConfig read env process_env \<lparr>failCount = 0, loaded_conf = zero_configuration, reads = 0\<rparr> = Some s \<and>
    serve_api (Conf_Secret (loaded_conf s)) ps e r = api_handler ps e r"
  using assms
  by (simp add: LoadConfig_step apply_environment_def decode_configuration_bad serve_api_authenticated)

theorem unreadable_configuration_opens_api_witness:
  "\<exists>s. LoadConfig (\<lambda>k. Inr ''secret: x'') Map.empty (\<lambda>c. c)
     \<lparr>failCount = 0, loaded_conf = zero_configuration, reads = 0\<rparr> = Some s \<and>
     serve_api (Conf_Secret (loaded_conf s)) sample_registry Delete_profile (sample_request\<lparr>req_header := []\<rparr>) =
       api_handler sample_registry Delete_profile (sample_request\<lparr>req_header := []\<rparr>)"
proof (rule unreadable_configuration_opens_api)
  show "json_decode ''secret: x'' = None" by code_simp
qed (simp_all add: zero_configuration_def header_get_def get_first_def)

text \<open>C5: In every run of the broker, whatever requests it serves, the profile store holds well-formed profiles only,
  each under its own identifier, and every call that has been made went to one of the configured Tyk
  APIs with that API's kind of credential.\<close>

theorem broker_invariant:
  assumes "broker_reachable A secret (mem_store order flush) ((m, d), a)"
  shows "(\<forall>k p. in_memory_view m k = Some p \<longrightarrow> ID p = k \<and> wf_profile p) \<and>
    (\<forall>c\<in>set (calls (as_world a)). \<exists>cred. tyk_call (ae_tyk A) cred c)"
proof (intro conjI)
  have ok: "registry_ok m"
    using api_reachable_ok [OF broker_api [OF assms]] by simp
  then show "\<forall>k p. in_memory_view m k = Some p \<longrightarrow> ID p = k \<and> wf_profile p"
    using in_memory_view_wf by (auto simp: registry_ok_def keyed_def)
  show "\<forall>c\<in>set (calls (as_world a)). \<exists>cred. tyk_call (ae_tyk A) cred c"
    using broker_calls [OF assms] by (simp add: list_all_iff api_call_def)
qed

theorem broker_invariant_witness:
  "\<exists>a. broker_reachable sample_auth ''secret'' sample_registry ((sample_store, ()), a) \<and> calls (as_world a) \<noteq> [] \<and>
     (\<forall>c\<in>set (calls (as_world a)). \<exists>cred. tyk_call (ae_tyk sample_auth) cred c)"
proof -
  let ?t = "print_json (JArr (map profile_json [sample_profile]))"
  let ?a = "snd (HandleAuth sample_auth sample_get sample_request sample_state)"
  have "calls (as_world sample_state) = []" by (simp add: sample_state_def)
  then have "broker_reachable sample_auth ''secret'' sample_registry ((CreateInMemoryBackend, ()), sample_state)"
    by (rule broker_reachable.starting)
  moreover have "unmarshal_profiles ?t = (None, [sample_profile])"
    by (rule unmarshal_profiles_json) simp
  ultimately have "broker_reachable sample_auth ''secret'' sample_registry
      ((snd (load_profiles in_memory_SetKey [sample_profile] CreateInMemoryBackend), ()), sample_state)"
    by (rule broker_reachable.loading)
  moreover have "snd (load_profiles in_memory_SetKey [sample_profile] CreateInMemoryBackend) = sample_store"
    by (simp add: bind_act_def in_memory_SetKey_def CreateInMemoryBackend_def in_memory_Init_def sample_store_def)
  ultimately have "broker_reachable sample_auth ''secret'' sample_registry
      (serve sample_auth ''secret'' sample_registry (Login Auth_login sample_request) ((sample_store, ()), sample_state))"
    using broker_reachable.serving by metis
  moreover have "fresh_response sample_state = sample_state" by (simp add: fresh_response_def sample_state_def)
  moreover have "(\<lambda>k org. psGet sample_registry k org sample_store) = sample_get"
    using sample_store_get by (simp add: sample_registry_def mem_store_def)
  ultimately have run: "broker_reachable sample_auth ''secret'' sample_registry ((sample_store, ()), ?a)" by simp
  moreover have "calls (as_world ?a) \<noteq> []" using sample_login by (auto split: prod.splits)
  moreover have "\<forall>c\<in>set (calls (as_world ?a)). \<exists>cred. tyk_call (ae_tyk sample_auth) cred c"
    using broker_invariant [OF run [unfolded sample_registry_def]] by blast
  ultimately show ?thesis by blast
qed


text \<open>C14: A login or callback that makes calls was for a profile that is registered at that moment. Each of its calls carries the
  credential of that profile to the dashboard, except for two kinds, which carry a secret of the broker's
  configuration: the request for a nonce at the dashboard's admin endpoint, and the request for an OAuth token at the gateway. No
  call carries the credential of another profile.\<close>

theorem login_for_registered_profile:
  assumes "registry_ok m"
    and "calls (as_world (snd (auth_handler A (\<lambda>k org. in_memory_GetProfile k org m) route r a))) \<noteq> calls (as_world a)"
  shows "\<exists>i conf cs. getId r = Inr i \<and> in_memory_view m i = Some conf \<and>
    calls (as_world (snd (auth_handler A (\<lambda>k org. in_memory_GetProfile k org m) route r a))) =
      calls (as_world a) @ cs \<and>
    (\<forall>c\<in>set cs. credential_call (ae_tyk A) (profile_credential conf) c \<or> admin_nonce_call (ae_tyk A) c \<or>
       gateway_oauth_call (ae_tyk A) c)"
proof -
  from auth_handler_calls [OF assms(2)] obtain i conf where
    i: "getId r = Inr i" "in_memory_GetProfile i '''' m = (None, conf)"
    and ext: "extends_with (tyk_call (ae_tyk A) (profile_credential conf)) (calls (as_world a))
      (calls (as_world (snd (auth_handler A (\<lambda>k org. in_memory_GetProfile k org m) route r a))))" by blast
  from registry_lookup [OF assms(1) i(2)] i(1) ext show ?thesis
    unfolding extends_with_def list_all_iff tyk_call_def by blast
qed

theorem login_for_registered_profile_witness:
  "\<exists>conf cs. in_memory_view sample_store ''p1'' = Some conf \<and> cs \<noteq> [] \<and>
     (\<forall>c\<in>set cs. credential_call sample_api (profile_credential conf) c \<or> admin_nonce_call sample_api c \<or>
       gateway_oauth_call sample_api c)"
proof -
  let ?a = "snd (auth_handler sample_auth (\<lambda>k org. in_memory_GetProfile k org sample_store) Auth_login
    sample_request sample_state)"
  have none: "calls (as_world sample_state) = []" by (simp add: sample_state_def)
  have some: "calls (as_world ?a) \<noteq> calls (as_world sample_state)"
    using sample_login none by (auto simp: sample_store_get split: prod.splits)
  have "getId sample_request = Inr ''p1''"
    by (simp add: getId_def mux_var_def get_first_def sample_request_def)
  moreover have "ae_tyk sample_auth = sample_api" by (simp add: sample_auth_def)
  ultimately show ?thesis
    using login_for_registered_profile [OF registry_ok_sample some] some none by auto
qed


text \<open>C38: A login or callback request whose profile is not registered does nothing at the Tyk side and leaves all state
  as it was: a callback is answered with 404, and a login is answered with nothing at all, which the client sees as
  200.\<close>

theorem unregistered_profile:
  assumes "registry_ok m" and "getId r = Inr i" and "in_memory_view m i = None"
  shows "snd (HandleAuth A (\<lambda>k org. in_memory_GetProfile k org m) r a) = a \<and>
    (\<exists>reply. snd (HandleAuthCallback A (\<lambda>k org. in_memory_GetProfile k org m) r a) =
      a\<lparr>as_world := (as_world a)\<lparr>resp := resp (as_world a) @ reply\<rparr>\<rparr> \<and> resp_status reply = 404)"
  using GetTapProfile_missing [OF assms(1,3), of A] assms(2)
  by (auto simp: HandleAuth_def HandleAuthCallback_def handle_login_state respond_to_def with_world_def respond_def
      error_reply_def)

theorem unregistered_profile_witness:
  "snd (HandleAuth sample_auth (\<lambda>k org. in_memory_GetProfile k org empty_store) sample_request sample_state) =
     sample_state"
proof -
  have "getId sample_request = Inr ''p1''"
    by (simp add: getId_def mux_var_def get_first_def sample_request_def)
  from unregistered_profile [OF registry_ok_empty this view_empty_store, of sample_auth sample_state]
  show ?thesis by blast
qed

end
